(* ===== verification/Prelude.thy ===== *)
theory Prelude
  imports Complex_Main "HOL-Library.State_Monad" "HOL-Library.Sublist"
begin

text \<open>
  The vocabulary that the component theories share: the functions of Go's standard library
  that the panel calls on strings and integers (\<open>strings.Split\<close>, \<open>strings.Contains\<close>,
  \<open>strconv\<close>, \<open>fmt.Sprintf\<close> with the verb \<open>%d\<close>, the wrap-around of \<open>int64\<close>), the state
  monad in which the handlers are written, and the collections of rewrite rules that the
  component proofs use. A Go string is the list of its bytes.
\<close>

named_theorems go_string \<open>facts about the Go string functions\<close>
named_theorems run \<open>evaluation of the monadic programs on a state\<close>
named_theorems keeps_intro \<open>a program keeps an invariant of the state\<close>

section \<open>Strings\<close>

text \<open>\<open>strings.HasPrefix\<close>, \<open>strings.HasSuffix\<close>, \<open>strings.TrimPrefix\<close>, \<open>strings.TrimSuffix\<close>.\<close>

fun hasPrefix :: "string \<Rightarrow> string \<Rightarrow> bool" where
  "hasPrefix s [] = True"
| "hasPrefix [] (p # ps) = False"
| "hasPrefix (c # cs) (p # ps) = (c = p \<and> hasPrefix cs ps)"

definition hasSuffix :: "string \<Rightarrow> string \<Rightarrow> bool" where
  "hasSuffix s suf = hasPrefix (rev s) (rev suf)"

definition trimPrefix :: "string \<Rightarrow> string \<Rightarrow> string" where
  "trimPrefix s p = (if hasPrefix s p then drop (length p) s else s)"

definition trimSuffix :: "string \<Rightarrow> string \<Rightarrow> string" where
  "trimSuffix s suf = (if hasSuffix s suf then take (length s - length suf) s else s)"

text \<open>\<open>strings.Contains\<close>.\<close>

fun strContains :: "string \<Rightarrow> string \<Rightarrow> bool" where
  "strContains [] sub = (sub = [])"
| "strContains (c # cs) sub = (hasPrefix (c # cs) sub \<or> strContains cs sub)"

text \<open>\<open>strings.Split\<close> and \<open>strings.Join\<close> with a separator of one byte.\<close>

fun splitOn :: "char \<Rightarrow> string \<Rightarrow> string list" where
  "splitOn sep [] = [[]]"
| "splitOn sep (c # cs) =
     (if c = sep then [] # splitOn sep cs
      else (case splitOn sep cs of [] \<Rightarrow> [[c]] | p # ps \<Rightarrow> (c # p) # ps))"

fun joinWith :: "char \<Rightarrow> string list \<Rightarrow> string" where
  "joinWith sep [] = []"
| "joinWith sep [p] = p"
| "joinWith sep (p # q # ps) = p @ sep # joinWith sep (q # ps)"

text \<open>\<open>strings.TrimSpace\<close>: the white space of ASCII (tab, newline, vertical tab, form feed,
  carriage return, space).\<close>

definition isSpace :: "char \<Rightarrow> bool" where
  "isSpace c = (c \<in> {CHR 0x09, CHR 0x0A, CHR 0x0B, CHR 0x0C, CHR 0x0D, CHR 0x20})"

definition trimSpace :: "string \<Rightarrow> string" where
  "trimSpace s = rev (dropWhile isSpace (rev (dropWhile isSpace s)))"

text \<open>\<open>strings.Index\<close> and \<open>strings.LastIndex\<close> of one byte; Go's \<open>-1\<close> is \<open>None\<close>.\<close>

fun indexOf :: "string \<Rightarrow> char \<Rightarrow> nat option" where
  "indexOf [] c = None"
| "indexOf (x # xs) c = (if x = c then Some 0 else map_option Suc (indexOf xs c))"

fun lastIndexOf :: "string \<Rightarrow> char \<Rightarrow> nat option" where
  "lastIndexOf [] c = None"
| "lastIndexOf (x # xs) c =
     (case lastIndexOf xs c of Some i \<Rightarrow> Some (Suc i)
      | None \<Rightarrow> (if x = c then Some 0 else None))"

lemma splitOn_nonempty [simp]: "splitOn sep s \<noteq> []"
  by (induction s) (auto split: list.splits)

lemma splitOn_no_sep [go_string]: "sep \<notin> set s \<Longrightarrow> splitOn sep s = [s]"
  by (induction s) auto

lemma splitOn_append [go_string]:
  "sep \<notin> set s \<Longrightarrow> splitOn sep (s @ sep # t) = s # splitOn sep t"
  by (induction s) auto

lemma join_split: "joinWith sep (splitOn sep s) = s"
proof (induction s)
  case Nil
  then show ?case by simp
next
  case (Cons c cs)
  obtain p ps where "splitOn sep cs = p # ps"
    using splitOn_nonempty list.exhaust by metis
  with Cons.IH show ?case by (cases ps) auto
qed

lemma splitOn_pieces: "p \<in> set (splitOn sep s) \<Longrightarrow> sep \<notin> set p"
proof (induction s arbitrary: p)
  case Nil
  then show ?case by simp
next
  case (Cons c cs)
  obtain q qs where "splitOn sep cs = q # qs"
    using splitOn_nonempty list.exhaust by metis
  with Cons show ?case by (auto split: if_splits)
qed

lemma hasPrefix_append [simp]: "hasPrefix (p @ s) p"
  by (induction p) auto

lemma hasPrefix_iff: "hasPrefix s p \<longleftrightarrow> (\<exists>t. s = p @ t)"
  by (induction s p rule: hasPrefix.induct) auto

lemma hasSuffix_iff: "hasSuffix s p \<longleftrightarrow> (\<exists>t. s = t @ p)"
  unfolding hasSuffix_def hasPrefix_iff
  by (metis rev_append rev_rev_ident)

lemma trimSuffix_append [simp]: "trimSuffix (s @ p) p = s"
  by (auto simp: trimSuffix_def hasSuffix_iff)

lemma strContains_iff: "strContains s sub \<longleftrightarrow> (\<exists>a b. s = a @ sub @ b)"
proof (induction s sub rule: strContains.induct)
  case (1 sub)
  then show ?case by auto
next
  case (2 c cs sub)
  show ?case
    unfolding strContains.simps(2) 2 hasPrefix_iff
    by (metis append_Cons append_Nil append_eq_Cons_conv)
qed

lemma strContains_char: "strContains s [c] \<longleftrightarrow> c \<in> set s"
  by (metis append_Cons append_Nil in_set_conv_decomp strContains_iff)

lemma indexOf_None: "indexOf s c = None \<longleftrightarrow> c \<notin> set s"
  by (induction s) auto

lemma lastIndexOf_None: "lastIndexOf s c = None \<longleftrightarrow> c \<notin> set s"
  by (induction s) (auto split: option.splits)

lemma lastIndexOf_append [go_string]:
  "c \<notin> set t \<Longrightarrow> lastIndexOf (s @ c # t) c = Some (length s)"
  by (induction s) (auto simp: lastIndexOf_None split: option.splits)

lemma indexOf_append [go_string]:
  "c \<notin> set s \<Longrightarrow> indexOf (s @ c # t) c = Some (length s)"
  by (induction s) auto

lemma dropWhile_none: "\<forall>c \<in> set s. \<not> P c \<Longrightarrow> dropWhile P s = s"
  by (cases s) auto

lemma trimSpace_id [go_string]: "\<forall>c \<in> set s. \<not> isSpace c \<Longrightarrow> trimSpace s = s"
  by (simp add: trimSpace_def dropWhile_none)

section \<open>Decimal numbers\<close>

text \<open>\<open>strconv.FormatInt(n, 10)\<close> and the verb \<open>%d\<close>.\<close>

definition digit :: "nat \<Rightarrow> char" where
  "digit d = ''0123456789'' ! d"

definition isDigit :: "char \<Rightarrow> bool" where
  "isDigit c = (48 \<le> (of_char c :: nat) \<and> (of_char c :: nat) \<le> 57)"

definition digitVal :: "char \<Rightarrow> nat" where
  "digitVal c = of_char c - 48"

fun natToStr :: "nat \<Rightarrow> string" where
  "natToStr n = (if n < 10 then [digit n] else natToStr (n div 10) @ [digit (n mod 10)])"

declare natToStr.simps [simp del]

definition itoa :: "int \<Rightarrow> string" where
  "itoa i = (if i < 0 then CHR ''-'' # natToStr (nat (- i)) else natToStr (nat i))"

definition strToNat :: "string \<Rightarrow> nat" where
  "strToNat s = foldl (\<lambda>acc c. 10 * acc + digitVal c) 0 s"

text \<open>\<open>strconv.ParseInt(s, 10, 64)\<close>: an optional sign, at least one digit, and nothing else;
  the value must fit \<open>int64\<close>. \<open>None\<close> is the error return.\<close>

definition maxInt64 :: int where "maxInt64 = 2 ^ 63 - 1"
definition minInt64 :: int where "minInt64 = - (2 ^ 63)"

definition parseSigned :: "string \<Rightarrow> int option" where
  "parseSigned s =
     (let neg = (s \<noteq> [] \<and> hd s = CHR ''-'');
          body = (if s \<noteq> [] \<and> (hd s = CHR ''-'' \<or> hd s = CHR ''+'') then tl s else s)
      in if body = [] \<or> \<not> list_all isDigit body then None
         else Some (if neg then - int (strToNat body) else int (strToNat body)))"

definition parseInt :: "string \<Rightarrow> int option" where
  "parseInt s =
     (case parseSigned s of None \<Rightarrow> None
      | Some v \<Rightarrow> if minInt64 \<le> v \<and> v \<le> maxInt64 then Some v else None)"

text \<open>The value \<open>strconv.ParseInt\<close> returns beside an error: zero on a syntax error, the nearest
  bound on a range error.\<close>

definition parseIntVal :: "string \<Rightarrow> int" where
  "parseIntVal s =
     (case parseSigned s of None \<Rightarrow> 0 | Some v \<Rightarrow> max minInt64 (min maxInt64 v))"

lemma digit_cases: "d < 10 \<Longrightarrow> P 0 \<Longrightarrow> P 1 \<Longrightarrow> P 2 \<Longrightarrow> P 3 \<Longrightarrow> P 4 \<Longrightarrow> P 5 \<Longrightarrow> P 6
  \<Longrightarrow> P 7 \<Longrightarrow> P 8 \<Longrightarrow> P 9 \<Longrightarrow> P (d::nat)"
  by (auto simp: less_Suc_eq numeral_eq_Suc)

lemma isDigit_digit [simp]: "d < 10 \<Longrightarrow> isDigit (digit d)"
  by (erule digit_cases) (simp_all add: isDigit_def digit_def)

lemma digitVal_digit [simp]: "d < 10 \<Longrightarrow> digitVal (digit d) = d"
  by (erule digit_cases) (simp_all add: digitVal_def digit_def)

lemma natToStr_digits: "list_all isDigit (natToStr n)"
  by (induction n rule: natToStr.induct) (subst natToStr.simps, simp)

lemma natToStr_nonempty [simp]: "natToStr n \<noteq> []"
  by (subst natToStr.simps) simp

lemma strToNat_snoc: "strToNat (s @ [c]) = 10 * strToNat s + digitVal c"
  by (simp add: strToNat_def)

lemma strToNat_natToStr [simp]: "strToNat (natToStr n) = n"
proof (induction n rule: natToStr.induct)
  case (1 n)
  show ?case
  proof (cases "n < 10")
    case True
    then show ?thesis by (subst natToStr.simps) (simp add: strToNat_def)
  next
    case False
    with 1 show ?thesis by (subst natToStr.simps) (simp add: strToNat_snoc)
  qed
qed

lemma isDigit_no_minus: "isDigit c \<Longrightarrow> c \<noteq> CHR ''-'' \<and> c \<noteq> CHR ''+'' \<and> c \<noteq> CHR ''_''
  \<and> c \<noteq> CHR '':'' \<and> c \<noteq> CHR '','' \<and> c \<noteq> CHR ''.'' \<and> \<not> isSpace c \<and> c \<noteq> CHR '']''"
  by (auto simp: isDigit_def isSpace_def)

lemma itoa_chars: "c \<in> set (itoa i) \<Longrightarrow> isDigit c \<or> c = CHR ''-''"
  using natToStr_digits by (auto simp: itoa_def list_all_iff split: if_splits)

lemma itoa_no_underscore [simp]: "CHR ''_'' \<notin> set (itoa i)"
  using itoa_chars [of "CHR ''_''" i] isDigit_no_minus by auto

lemma itoa_no_colon [simp]: "CHR '':'' \<notin> set (itoa i)"
  using itoa_chars [of "CHR '':''" i] isDigit_no_minus by auto

lemma natToStr_no_underscore [simp]: "CHR ''_'' \<notin> set (natToStr n)"
  using itoa_no_underscore [of "int n"] by (simp add: itoa_def)

lemma itoa_nonempty [simp]: "itoa i \<noteq> []"
  by (simp add: itoa_def)

lemma hd_natToStr: "isDigit (hd (natToStr n))"
  using natToStr_digits [of n] natToStr_nonempty [of n] by (cases "natToStr n") auto

lemma parseSigned_itoa [simp]: "parseSigned (itoa i) = Some i"
  using hd_natToStr [of "nat i"] isDigit_no_minus natToStr_digits
  by (auto simp: parseSigned_def itoa_def Let_def)

lemma parseInt_itoa [simp]: "minInt64 \<le> i \<Longrightarrow> i \<le> maxInt64 \<Longrightarrow> parseInt (itoa i) = Some i"
  by (simp add: parseInt_def)

lemma parseIntVal_itoa [simp]:
  "minInt64 \<le> i \<Longrightarrow> i \<le> maxInt64 \<Longrightarrow> parseIntVal (itoa i) = i"
  by (simp add: parseIntVal_def)

lemma itoa_inj: "itoa i = itoa j \<longleftrightarrow> i = j"
  by (metis option.inject parseSigned_itoa)

end
