(* ===== verification/Models.thy ===== *)
theory Models
  imports Prelude
begin

text \<open>
  The rows of the panel's database (\<open>go-backend/model/\<close>) and the request bodies of its API
  (\<open>go-backend/dto/\<close>). A column is a record field whose name is the struct's field behind a
  prefix for its table; a Go pointer (a nullable column, an optional JSON field) is an
  \<open>option\<close>. \<open>int64\<close> and \<open>int\<close> columns are integers: the code's arithmetic on them is
  written with its wrap-around where it multiplies (\<open>mulI64\<close>, \<open>addI64\<close>). A \<open>float64\<close>
  column holds the rational value of the float.
\<close>

section \<open>64-bit arithmetic\<close>

definition wrapI64 :: "int \<Rightarrow> int" where
  "wrapI64 x = (x + 2 ^ 63) mod 2 ^ 64 - 2 ^ 63"

definition addI64 :: "int \<Rightarrow> int \<Rightarrow> int" where
  "addI64 a b = wrapI64 (a + b)"

definition subI64 :: "int \<Rightarrow> int \<Rightarrow> int" where
  "subI64 a b = wrapI64 (a - b)"

definition mulI64 :: "int \<Rightarrow> int \<Rightarrow> int" where
  "mulI64 a b = wrapI64 (a * b)"

lemma wrapI64_id: "minInt64 \<le> x \<Longrightarrow> x \<le> maxInt64 \<Longrightarrow> wrapI64 x = x"
  by (simp add: wrapI64_def minInt64_def maxInt64_def)

lemma wrapI64_range: "minInt64 \<le> wrapI64 x \<and> wrapI64 x \<le> maxInt64"
  using pos_mod_sign [of "2 ^ 64" "x + 2 ^ 63"] pos_mod_bound [of "2 ^ 64" "x + 2 ^ 63"]
  by (simp add: wrapI64_def minInt64_def maxInt64_def)

section \<open>Tables\<close>

record user =
  userID :: int
  userUser :: string
  userPwd :: string
  userRoleId :: int
  userExpTime :: int
  userFlow :: int
  userInFlow :: int
  userOutFlow :: int
  userXrayFlow :: int
  userXrayInFlow :: int
  userXrayOutFlow :: int
  userFlowResetTime :: int
  userFlowResetType :: int
  userFlowResetDay :: int
  userNum :: int
  userGostEnabled :: int
  userXrayEnabled :: int
  userSubToken :: string
  userCreatedTime :: int
  userUpdatedTime :: int
  userStatus :: int

record node =
  nodeID :: int
  nodeName :: string
  nodeSecret :: string
  nodeIp :: string
  nodeEntryIps :: string
  nodeServerIp :: string
  nodePortSta :: int
  nodePortEnd :: int
  nodeVersion :: string
  nodeHttp :: int
  nodeTls :: int
  nodeSocks :: int
  nodeXrayEnabled :: int
  nodeXrayVersion :: string
  nodeXrayStatus :: int
  nodeCreatedTime :: int
  nodeUpdatedTime :: int
  nodeStatus :: int
  nodeInx :: int
  nodeGroupName :: string
  nodeDisguiseName :: string
  nodeXrayDisguiseName :: string

record tunnel =
  tunID :: int
  tunName :: string
  tunTrafficRatio :: rat
  tunInNodeId :: int
  tunInIp :: string
  tunOutNodeId :: int
  tunOutIp :: string
  tunType :: int
  tunProtocol :: string
  tunFlow :: int
  tunTcpListenAddr :: string
  tunUdpListenAddr :: string
  tunInterfaceName :: string
  tunCreatedTime :: int
  tunUpdatedTime :: int
  tunStatus :: int
  tunInx :: int

record forward =
  fwdID :: int
  fwdUserId :: int
  fwdUserName :: string
  fwdName :: string
  fwdTunnelId :: int
  fwdInPort :: int
  fwdOutPort :: int
  fwdRemoteAddr :: string
  fwdStrategy :: string
  fwdListenIp :: string
  fwdInterfaceName :: string
  fwdInFlow :: int
  fwdOutFlow :: int
  fwdCreatedTime :: int
  fwdUpdatedTime :: int
  fwdStatus :: int
  fwdInx :: int

record userTunnel =
  utID :: int
  utUserId :: int
  utTunnelId :: int
  utSpeedId :: "int option"
  utNum :: int
  utFlow :: int
  utInFlow :: int
  utOutFlow :: int
  utFlowResetTime :: int
  utFlowResetType :: int
  utFlowResetDay :: int
  utExpTime :: int
  utStatus :: int

record userNode =
  unID :: int
  unUserId :: int
  unNodeId :: int
  unXrayEnabled :: int
  unGostEnabled :: int

record speedLimit =
  slID :: int
  slName :: string
  slSpeed :: int
  slTunnelId :: int
  slTunnelName :: string
  slCreatedTime :: int
  slUpdatedTime :: int
  slStatus :: int

record xrayInbound =
  ibID :: int
  ibNodeId :: int
  ibUserId :: int
  ibTag :: string
  ibProtocol :: string
  ibListen :: string
  ibPort :: int
  ibSettingsJson :: string
  ibStreamSettingsJson :: string
  ibSniffingJson :: string
  ibRemark :: string
  ibCustomEntry :: string
  ibEnable :: int
  ibCreatedTime :: int
  ibUpdatedTime :: int

record xrayClient =
  xcID :: int
  xcInboundId :: int
  xcUserId :: int
  xcEmail :: string
  xcUuidOrPassword :: string
  xcFlow :: string
  xcAlterId :: int
  xcTotalTraffic :: int
  xcUpTraffic :: int
  xcDownTraffic :: int
  xcExpTime :: "int option"
  xcLimitIp :: int
  xcReset :: int
  xcEnable :: int
  xcRemark :: string
  xcCreatedTime :: int
  xcUpdatedTime :: int

record xrayTlsCert =
  certID :: int
  certNodeId :: int
  certDomain :: string
  certPublicKey :: string
  certPrivateKey :: string
  certAutoRenew :: int
  certAcmeEnabled :: int
  certAcmeEmail :: string
  certChallengeType :: string
  certDnsProvider :: string
  certDnsConfig :: string
  certLastRenewTime :: "int option"
  certRenewError :: string
  certExpireTime :: "int option"
  certCreatedTime :: int
  certUpdatedTime :: int

record viteConfig =
  vcID :: int
  vcName :: string
  vcValue :: string
  vcTime :: int

record statisticsFlow =
  sfID :: int
  sfUserId :: int
  sfFlow :: int
  sfTotalFlow :: int
  sfTime :: string
  sfCreatedTime :: int

record statisticsUserFlow =
  suID :: int
  suUserId :: int
  suGostFlow :: int
  suXrayFlow :: int
  suRecordTime :: int

record statisticsForwardFlow =
  sffID :: int
  sffForwardId :: int
  sffInFlow :: int
  sffOutFlow :: int
  sffRecordTime :: int

record statisticsXrayFlow =
  sxID :: int
  sxInboundId :: int
  sxUpFlow :: int
  sxDownFlow :: int
  sxRecordTime :: int

record monitorLatency =
  mlID :: int
  mlForwardId :: int
  mlNodeId :: int
  mlTargetAddr :: string
  mlLatency :: rat
  mlSuccess :: bool
  mlRecordTime :: int

text \<open>Go's zero value of a struct: what a variable holds before a query fills it.\<close>

definition zeroTunnel :: tunnel where
  "zeroTunnel = \<lparr>tunID = 0, tunName = [], tunTrafficRatio = 0, tunInNodeId = 0, tunInIp = [],
     tunOutNodeId = 0, tunOutIp = [], tunType = 0, tunProtocol = [], tunFlow = 0,
     tunTcpListenAddr = [], tunUdpListenAddr = [], tunInterfaceName = [], tunCreatedTime = 0,
     tunUpdatedTime = 0, tunStatus = 0, tunInx = 0\<rparr>"

definition zeroForward :: forward where
  "zeroForward = \<lparr>fwdID = 0, fwdUserId = 0, fwdUserName = [], fwdName = [], fwdTunnelId = 0,
     fwdInPort = 0, fwdOutPort = 0, fwdRemoteAddr = [], fwdStrategy = [], fwdListenIp = [],
     fwdInterfaceName = [], fwdInFlow = 0, fwdOutFlow = 0, fwdCreatedTime = 0,
     fwdUpdatedTime = 0, fwdStatus = 0, fwdInx = 0\<rparr>"

definition zeroUserTunnel :: userTunnel where
  "zeroUserTunnel = \<lparr>utID = 0, utUserId = 0, utTunnelId = 0, utSpeedId = None, utNum = 0,
     utFlow = 0, utInFlow = 0, utOutFlow = 0, utFlowResetTime = 0, utFlowResetType = 0,
     utFlowResetDay = 0, utExpTime = 0, utStatus = 0\<rparr>"

definition zeroNode :: node where
  "zeroNode = \<lparr>nodeID = 0, nodeName = [], nodeSecret = [], nodeIp = [], nodeEntryIps = [],
     nodeServerIp = [], nodePortSta = 0, nodePortEnd = 0, nodeVersion = [], nodeHttp = 0,
     nodeTls = 0, nodeSocks = 0, nodeXrayEnabled = 0, nodeXrayVersion = [], nodeXrayStatus = 0,
     nodeCreatedTime = 0, nodeUpdatedTime = 0, nodeStatus = 0, nodeInx = 0, nodeGroupName = [],
     nodeDisguiseName = [], nodeXrayDisguiseName = []\<rparr>"

definition zeroUser :: user where
  "zeroUser = \<lparr>userID = 0, userUser = [], userPwd = [], userRoleId = 0, userExpTime = 0,
     userFlow = 0, userInFlow = 0, userOutFlow = 0, userXrayFlow = 0, userXrayInFlow = 0,
     userXrayOutFlow = 0, userFlowResetTime = 0, userFlowResetType = 0, userFlowResetDay = 0,
     userNum = 0, userGostEnabled = 0, userXrayEnabled = 0, userSubToken = [],
     userCreatedTime = 0, userUpdatedTime = 0, userStatus = 0\<rparr>"

definition zeroInbound :: xrayInbound where
  "zeroInbound = \<lparr>ibID = 0, ibNodeId = 0, ibUserId = 0, ibTag = [], ibProtocol = [],
     ibListen = [], ibPort = 0, ibSettingsJson = [], ibStreamSettingsJson = [],
     ibSniffingJson = [], ibRemark = [], ibCustomEntry = [], ibEnable = 0,
     ibCreatedTime = 0, ibUpdatedTime = 0\<rparr>"

definition zeroClient :: xrayClient where
  "zeroClient = \<lparr>xcID = 0, xcInboundId = 0, xcUserId = 0, xcEmail = [], xcUuidOrPassword = [],
     xcFlow = [], xcAlterId = 0, xcTotalTraffic = 0, xcUpTraffic = 0, xcDownTraffic = 0,
     xcExpTime = None, xcLimitIp = 0, xcReset = 0, xcEnable = 0, xcRemark = [],
     xcCreatedTime = 0, xcUpdatedTime = 0\<rparr>"

section \<open>JSON\<close>

text \<open>The values \<open>encoding/json\<close> decodes into \<open>interface{}\<close>; an object is the list of its keys and
  values.\<close>

datatype json = JNull | JBool bool | JNum rat | JStr string | JArr "json list" | JObj "(string \<times> json) list"

text \<open>The transport settings of an inbound, as far as the subscription links read them.\<close>

record streamSettings =
  ssNetwork :: string
  ssSecurity :: string
  ssWsPath :: string
  ssWsHeaders :: "(string \<times> string) list"
  ssGrpcServiceName :: string
  ssTcpHeaderType :: string
  ssTcpRequestPath :: "string list"
  ssTcpRequestHeaders :: "(string \<times> string list) list"
  ssHttpupgradePath :: string
  ssHttpupgradeHost :: string
  ssXhttpPath :: string
  ssXhttpHost :: string
  ssKcpHeaderType :: string
  ssKcpSeed :: string
  ssTlsServerName :: string
  ssTlsFingerprint :: string
  ssTlsAlpn :: "string list"
  ssRealityServerNames :: "string list"
  ssRealityPublicKey :: string
  ssRealityShortIds :: "string list"
  ssRealitySpiderX :: string
  ssRealityFingerprint :: string

definition zeroStream :: streamSettings where
  "zeroStream = \<lparr>ssNetwork = [], ssSecurity = [], ssWsPath = [], ssWsHeaders = [], ssGrpcServiceName = [],
     ssTcpHeaderType = [], ssTcpRequestPath = [], ssTcpRequestHeaders = [], ssHttpupgradePath = [],
     ssHttpupgradeHost = [], ssXhttpPath = [], ssXhttpHost = [], ssKcpHeaderType = [], ssKcpSeed = [],
     ssTlsServerName = [], ssTlsFingerprint = [], ssTlsAlpn = [], ssRealityServerNames = [],
     ssRealityPublicKey = [], ssRealityShortIds = [], ssRealitySpiderX = [], ssRealityFingerprint = []\<rparr>"

section \<open>Request bodies\<close>

record flowDto =
  flowN :: string
  flowU :: int
  flowD :: int

record configDto =
  confLimiters :: "string list"
  confChains :: "string list"
  confServices :: "string list"

record forwardDto =
  fdName :: string
  fdTunnelId :: int
  fdRemoteAddr :: string
  fdStrategy :: string
  fdInPort :: "int option"
  fdListenIp :: string
  fdInterfaceName :: string

record forwardUpdateDto =
  fuID :: int
  fuUserId :: int
  fuName :: string
  fuTunnelId :: int
  fuRemoteAddr :: string
  fuStrategy :: string
  fuInPort :: "int option"
  fuListenIp :: string
  fuInterfaceName :: string

record orderItem =
  oiID :: int
  oiInx :: int

record nodeDto =
  ndName :: string
  ndIp :: string
  ndEntryIps :: string
  ndServerIp :: string
  ndPortSta :: int
  ndPortEnd :: int
  ndGroupName :: string

record nodeUpdateDto =
  nuID :: int
  nuName :: string
  nuIp :: string
  nuEntryIps :: string
  nuServerIp :: string
  nuPortSta :: "int option"
  nuPortEnd :: "int option"
  nuGroupName :: "string option"

record nodeProtocolDto =
  npID :: int
  npHttp :: int
  npTls :: int
  npSocks :: int

record tunnelDto =
  tdName :: string
  tdInNodeId :: int
  tdOutNodeId :: "int option"
  tdType :: int
  tdFlow :: int
  tdTrafficRatio :: "rat option"
  tdInterfaceName :: string
  tdProtocol :: string
  tdTcpListenAddr :: string
  tdUdpListenAddr :: string

record tunnelUpdateDto =
  tuID :: int
  tuName :: string
  tuFlow :: int
  tuTrafficRatio :: "rat option"
  tuProtocol :: string
  tuTcpListenAddr :: string
  tuUdpListenAddr :: string
  tuInterfaceName :: string

record userTunnelDto =
  utdUserId :: int
  utdTunnelId :: int
  utdNum :: int
  utdFlow :: int
  utdFlowResetType :: int
  utdFlowResetDay :: int
  utdExpTime :: int
  utdSpeedId :: "int option"

record userTunnelUpdateDto =
  utuID :: int
  utuNum :: "int option"
  utuFlow :: "int option"
  utuFlowResetType :: "int option"
  utuFlowResetDay :: "int option"
  utuExpTime :: "int option"
  utuSpeedId :: "int option"
  utuStatus :: "int option"

record speedLimitDto =
  sdName :: string
  sdSpeed :: int
  sdTunnelId :: int

record speedLimitUpdateDto =
  suuID :: int
  suuName :: string
  suuSpeed :: "int option"

record nodePermission =
  permNodeId :: int
  permXrayEnabled :: "int option"
  permGostEnabled :: "int option"

record userDto =
  udUser :: string
  udPwd :: string
  udFlow :: int
  udXrayFlow :: int
  udNum :: int
  udExpTime :: int
  udFlowResetType :: int
  udFlowResetDay :: int
  udStatus :: "int option"
  udGostEnabled :: "int option"
  udXrayEnabled :: "int option"
  udNodeIds :: "int list option"
  udNodePermissions :: "nodePermission list option"

record userUpdateDto =
  uuID :: int
  uuUser :: string
  uuPwd :: string
  uuFlow :: int
  uuXrayFlow :: int
  uuNum :: int
  uuExpTime :: int
  uuFlowResetType :: int
  uuFlowResetDay :: int
  uuStatus :: "int option"
  uuGostEnabled :: "int option"
  uuXrayEnabled :: "int option"
  uuNodeIds :: "int list option"
  uuNodePermissions :: "nodePermission list option"

record loginDto =
  ldUsername :: string
  ldPassword :: string
  ldCaptchaId :: string
  ldCaptchaAnswer :: string

record updatePasswordDto =
  upOldPassword :: string
  upNewPassword :: string
  upNewUsername :: string

record resetFlowDto =
  rfID :: int

record xrayInboundDto =
  xidNodeId :: int
  xidTag :: string
  xidProtocol :: string
  xidListen :: string
  xidPort :: int
  xidSettingsJson :: string
  xidStreamSettingsJson :: string
  xidSniffingJson :: string
  xidRemark :: string
  xidCustomEntry :: string

record xrayInboundUpdateDto =
  xiuID :: int
  xiuTag :: string
  xiuProtocol :: string
  xiuListen :: string
  xiuPort :: "int option"
  xiuSettingsJson :: string
  xiuStreamSettingsJson :: string
  xiuSniffingJson :: string
  xiuRemark :: string
  xiuCustomEntry :: "string option"

record xrayClientDto =
  xcdInboundId :: int
  xcdUserId :: int
  xcdUuidOrPassword :: string
  xcdFlow :: string
  xcdAlterId :: "int option"
  xcdTotalTraffic :: "int option"
  xcdExpTime :: "int option"
  xcdLimitIp :: "int option"
  xcdReset :: "int option"
  xcdRemark :: string

record xrayClientUpdateDto =
  xcuID :: int
  xcuEmail :: string
  xcuUuidOrPassword :: string
  xcuFlow :: string
  xcuAlterId :: "int option"
  xcuTotalTraffic :: "int option"
  xcuExpTime :: "int option"
  xcuLimitIp :: "int option"
  xcuReset :: "int option"
  xcuEnable :: "int option"
  xcuRemark :: string

end
