(* ===== verification/GostConfig.thy ===== *)
theory GostConfig
  imports Models
begin

text \<open>
  The configuration the panel sends to a node's gost engine: the builders of
  \<open>go-backend/pkg/gost.go\<close>. The JSON objects they build are records (a key that may be
  absent is an \<open>option\<close>); \<open>payload\<close> is the body of a WebSocket command and \<open>cmd\<close> the command
  as \<open>SendMsg\<close> addresses it to a node. The lemmas say which service and chain names a
  configuration has, which is what deleting, pausing and resuming rely on.
\<close>

section \<open>The JSON objects\<close>

record fwdNode =
  fnName :: string
  fnAddr :: string

record forwarder =
  forNodes :: "fwdNode list"
  forStrategy :: string
  forMaxFails :: int
  forFailTimeout :: string

record svcConfig =
  svcName :: string
  svcAddr :: string
  svcInterface :: "string option"
  svcLimiter :: "string option"
  svcHandlerType :: string
  svcHandlerChain :: "string option"
  svcListenerType :: string
  svcListenerKeepAlive :: bool
  svcForwarder :: "forwarder option"

record chainConfig =
  chName :: string
  chHopName :: string
  chNodeName :: string
  chNodeAddr :: string
  chConnectorType :: string
  chDialerType :: string
  chDialerQuic :: "string option"
  chNodeInterface :: "string option"

record limiterConfig =
  limName :: string
  limLimits :: "string list"

record inboundConfig =
  icTag :: string
  icProtocol :: string
  icListen :: string
  icPort :: int
  icSettingsJson :: string
  icStreamSettingsJson :: string
  icSniffingJson :: string

datatype payload =
    DNil
  | DEmpty
  | DServices "svcConfig list"
  | DNames "string list"
  | DForwarders "(string \<times> forwarder) list"
  | DChain chainConfig
  | DChainUpdate string chainConfig
  | DChainName string
  | DLimiter limiterConfig
  | DLimiterUpdate string limiterConfig
  | DLimiterName string
  | DProtocol int int int
  | DTcpPing string int
  | DInbound inboundConfig
  | DInbounds "inboundConfig list"
  | DTag string
  | DClient string string string string int string
  | DClientRef string string
  | DCert string string string

datatype cmd = Cmd (cmdNode: int) (cmdType: string) (cmdData: payload)

datatype respData =
    RServices "string list"
  | RTags "string list"
  | RTcpPing (pingSuccess: bool) (pingAverage: "rat option") (pingLoss: "rat option") (pingError: "string option")
  | ROther

record gostResponse =
  respMsg :: string
  respData :: "respData option"

section \<open>Builders\<close>

definition createLimiterData :: "int \<Rightarrow> string \<Rightarrow> limiterConfig" where
  "createLimiterData name speed =
     \<lparr>limName = itoa name, limLimits = [''$ '' @ speed @ ''MB '' @ speed @ ''MB'']\<rparr>"

definition splitListenIPs :: "string \<Rightarrow> string list" where
  "splitListenIPs listenAddr =
     (if \<not> strContains listenAddr '','' then [listenAddr]
      else (let result = filter (\<lambda>p. p \<noteq> []) (map trimSpace (splitOn CHR '','' listenAddr))
            in if result = [] then [listenAddr] else result))"

definition formatListenAddr :: "string \<Rightarrow> int \<Rightarrow> string" where
  "formatListenAddr ip port =
     (if strContains ip '':'' then ''['' @ ip @ '']:'' @ itoa port
      else ip @ '':'' @ itoa port)"

definition buildForwarder :: "string \<Rightarrow> string \<Rightarrow> forwarder" where
  "buildForwarder remoteAddr strategy =
     \<lparr>forNodes = map (\<lambda>(i, addr). \<lparr>fnName = ''node_'' @ itoa (int i + 1), fnAddr = trimSpace addr\<rparr>)
                   (enumerate 0 (splitOn CHR '','' remoteAddr)),
      forStrategy = (if strategy = [] then ''fifo'' else strategy),
      forMaxFails = 1, forFailTimeout = ''600s''\<rparr>"

definition buildServiceConfig ::
  "string \<Rightarrow> int \<Rightarrow> int option \<Rightarrow> string \<Rightarrow> string \<Rightarrow> int \<Rightarrow> tunnel \<Rightarrow> string \<Rightarrow> string \<Rightarrow> svcConfig" where
  "buildServiceConfig name inPort limiter remoteAddr protocol fwdType tunnel strategy interfaceName =
     \<lparr>svcName = name @ ''_'' @ protocol,
      svcAddr = (if protocol = ''tcp'' then formatListenAddr (tunTcpListenAddr tunnel) inPort
                 else formatListenAddr (tunUdpListenAddr tunnel) inPort),
      svcInterface = (if interfaceName \<noteq> [] then Some interfaceName else None),
      svcLimiter = map_option itoa limiter,
      svcHandlerType = protocol,
      svcHandlerChain = (if fwdType \<noteq> 1 then Some (name @ ''_chains'') else None),
      svcListenerType = protocol,
      svcListenerKeepAlive = (protocol = ''udp''),
      svcForwarder = (if fwdType = 1 then Some (buildForwarder remoteAddr strategy) else None)\<rparr>"

definition multiIPChainName :: "string \<Rightarrow> string" where
  "multiIPChainName name =
     (case lastIndexOf name CHR ''_'' of
        None \<Rightarrow> name
      | Some idx \<Rightarrow>
          (if 0 < idx \<and> list_all isDigit (drop (idx + 1) name) then take idx name else name))"

definition buildServiceConfigWithIP ::
  "string \<Rightarrow> int \<Rightarrow> int option \<Rightarrow> string \<Rightarrow> string \<Rightarrow> int \<Rightarrow> tunnel \<Rightarrow> string \<Rightarrow> string \<Rightarrow> string \<Rightarrow> svcConfig" where
  "buildServiceConfigWithIP name inPort limiter remoteAddr protocol fwdType tunnel strategy
     interfaceName listenIp =
     \<lparr>svcName = name @ ''_'' @ protocol,
      svcAddr = formatListenAddr listenIp inPort,
      svcInterface = (if interfaceName \<noteq> [] then Some interfaceName else None),
      svcLimiter = map_option itoa limiter,
      svcHandlerType = protocol,
      svcHandlerChain = (if fwdType \<noteq> 1 then Some (multiIPChainName name @ ''_chains'') else None),
      svcListenerType = protocol,
      svcListenerKeepAlive = (protocol = ''udp''),
      svcForwarder = (if fwdType = 1 then Some (buildForwarder remoteAddr strategy) else None)\<rparr>"

definition suffixedName :: "string \<Rightarrow> nat \<Rightarrow> string" where
  "suffixedName name i = name @ ''_'' @ itoa (int i)"

definition buildServices ::
  "string \<Rightarrow> int \<Rightarrow> int option \<Rightarrow> string \<Rightarrow> int \<Rightarrow> tunnel \<Rightarrow> string \<Rightarrow> string \<Rightarrow> svcConfig list" where
  "buildServices name inPort limiter remoteAddr fwdType tunnel strategy interfaceName =
     (let listenIps = splitListenIPs (tunTcpListenAddr tunnel)
      in if length listenIps \<le> 1
         then map (\<lambda>proto. buildServiceConfig name inPort limiter remoteAddr proto fwdType tunnel
                             strategy interfaceName) [''tcp'', ''udp'']
         else concat (map (\<lambda>(i, ip). map (\<lambda>proto.
                buildServiceConfigWithIP (suffixedName name i) inPort limiter remoteAddr proto
                  fwdType tunnel strategy interfaceName (trimSpace ip)) [''tcp'', ''udp''])
                (enumerate 0 listenIps)))"

definition buildMultiIPServiceNames :: "string \<Rightarrow> string \<Rightarrow> string list" where
  "buildMultiIPServiceNames name listenIp =
     (let ips = splitListenIPs listenIp
      in if length ips \<le> 1 then [name @ ''_tcp'', name @ ''_udp'']
         else concat (map (\<lambda>i. [suffixedName name i @ ''_tcp'', suffixedName name i @ ''_udp''])
                [0..<length ips]))"

definition buildRemoteService ::
  "string \<Rightarrow> int \<Rightarrow> string \<Rightarrow> string \<Rightarrow> string \<Rightarrow> string \<Rightarrow> svcConfig" where
  "buildRemoteService name outPort remoteAddr protocol strategy interfaceName =
     \<lparr>svcName = name @ ''_tls'',
      svcAddr = '':'' @ itoa outPort,
      svcInterface = (if interfaceName \<noteq> [] then Some interfaceName else None),
      svcLimiter = None,
      svcHandlerType = ''relay'',
      svcHandlerChain = None,
      svcListenerType = protocol,
      svcListenerKeepAlive = False,
      svcForwarder = Some (buildForwarder remoteAddr strategy)\<rparr>"

definition buildChainData :: "string \<Rightarrow> string \<Rightarrow> string \<Rightarrow> string \<Rightarrow> chainConfig" where
  "buildChainData name remoteAddr protocol interfaceName =
     \<lparr>chName = name @ ''_chains'',
      chHopName = ''hop-'' @ name,
      chNodeName = ''node-'' @ name,
      chNodeAddr = remoteAddr,
      chConnectorType = ''relay'',
      chDialerType = protocol,
      chDialerQuic = (if protocol = ''quic'' then Some ''10s'' else None),
      chNodeInterface = (if interfaceName \<noteq> [] then Some interfaceName else None)\<rparr>"

section \<open>Facts about names\<close>

lemma splitListenIPs_nonempty [simp]: "splitListenIPs s \<noteq> []"
  by (simp add: splitListenIPs_def Let_def)

lemma splitListenIPs_single [go_string]: "CHR '','' \<notin> set s \<Longrightarrow> splitListenIPs s = [s]"
  by (simp add: splitListenIPs_def strContains_char)

lemma map_enumerate_fst: "map (\<lambda>(i, x). f i) (enumerate n xs) = map f [n..<n + length xs]"
  by (induction xs arbitrary: n) (simp_all add: upt_rec)

lemma svcName_buildServiceConfig [simp]:
  "svcName (buildServiceConfig n p l r proto t tun s i) = n @ ''_'' @ proto"
  by (simp add: buildServiceConfig_def)

lemma svcName_buildServiceConfigWithIP [simp]:
  "svcName (buildServiceConfigWithIP n p l r proto t tun s i ip) = n @ ''_'' @ proto"
  by (simp add: buildServiceConfigWithIP_def)

text \<open>The names a batch of services is created under are those that the multi-address
  deletion, pause and resume commands compute for the same listen address.\<close>

lemma names_buildServices [simp]:
  "map svcName (buildServices n p l r t tun s i) = buildMultiIPServiceNames n (tunTcpListenAddr tun)"
proof -
  have *: "map svcName (concat (map (\<lambda>(k, ip). [buildServiceConfigWithIP (suffixedName n k)
              p l r ''tcp'' t tun s i (trimSpace ip), buildServiceConfigWithIP (suffixedName n k)
              p l r ''udp'' t tun s i (trimSpace ip)]) (enumerate 0 ips)))
         = concat (map (\<lambda>k. [suffixedName n k @ ''_tcp'', suffixedName n k @ ''_udp''])
             [0..<length ips])" for ips
    using map_enumerate_fst
      [of "\<lambda>k. [suffixedName n k @ ''_tcp'', suffixedName n k @ ''_udp'']" 0 ips]
    by (simp add: map_concat o_def case_prod_unfold)
  show ?thesis
    by (simp add: buildServices_def buildMultiIPServiceNames_def Let_def *)
qed

lemma buildMultiIPServiceNames_single [go_string]:
  "CHR '','' \<notin> set ip \<Longrightarrow> buildMultiIPServiceNames n ip = [n @ ''_tcp'', n @ ''_udp'']"
  by (simp add: buildMultiIPServiceNames_def splitListenIPs_single)

lemma multiIPChainName_suffixed [simp]:
  "n \<noteq> [] \<Longrightarrow> multiIPChainName (suffixedName n i) = n"
  using natToStr_digits [of i] lastIndexOf_append [of "CHR ''_''" "natToStr i" n]
  by (simp add: multiIPChainName_def suffixedName_def itoa_def)

lemma suffixedName_inj: "suffixedName n i = suffixedName n j \<longleftrightarrow> i = j"
  by (simp add: suffixedName_def itoa_inj)

lemma enumerate_in: "(i, x) \<in> set (enumerate n xs) \<Longrightarrow> x \<in> set xs"
  by (induction xs arbitrary: n) auto

text \<open>Every listener of a relayed batch hands over to the one chain that
  \<open>buildChainData\<close> creates under the base name.\<close>

lemma chain_of_buildServices:
  assumes "n \<noteq> []" "t \<noteq> 1" "svc \<in> set (buildServices n p l r t tun s i)"
  shows "svcHandlerChain svc = Some (chName (buildChainData n ra pr ifc))"
  using assms
  by (auto simp: buildServices_def Let_def buildServiceConfig_def buildServiceConfigWithIP_def
      buildChainData_def split: if_splits)

lemma chain_none_buildServices:
  assumes "svc \<in> set (buildServices n p l r 1 tun s i)"
  shows "svcHandlerChain svc = None \<and> svcForwarder svc = Some (buildForwarder r s)"
  using assms
  by (auto simp: buildServices_def Let_def buildServiceConfig_def buildServiceConfigWithIP_def
      split: if_splits)

lemma distinct_concat_pairs:
  assumes "distinct xs" "\<And>x y. x \<in> set xs \<Longrightarrow> y \<in> set xs \<Longrightarrow> f x = f y \<Longrightarrow> x = y"
    "\<And>x y. f x \<noteq> g y" "\<And>x y. x \<in> set xs \<Longrightarrow> y \<in> set xs \<Longrightarrow> g x = g y \<Longrightarrow> x = y"
  shows "distinct (concat (map (\<lambda>x. [f x, g x]) xs))"
  using assms
proof (induction xs)
  case Nil
  then show ?case by simp
next
  case (Cons x xs)
  have "distinct (concat (map (\<lambda>x. [f x, g x]) xs))"
    using Cons by (meson distinct.simps(2) list.set_intros(2))
  moreover have "f x \<notin> set (concat (map (\<lambda>x. [f x, g x]) xs))"
    using Cons.prems(1,3) Cons.prems(2) [of x] by auto
  moreover have "g x \<notin> set (concat (map (\<lambda>x. [f x, g x]) xs))"
    using Cons.prems(1) Cons.prems(4) [of x] not_sym [OF Cons.prems(3)] by auto
  ultimately show ?case using Cons.prems(3) [of x x] by simp
qed

lemma tcp_udp_differ: "a @ ''_tcp'' \<noteq> b @ ''_udp''"
proof
  assume "a @ ''_tcp'' = b @ ''_udp''"
  then have "last (a @ ''_tcp'') = last (b @ ''_udp'')" by simp
  moreover have "last (a @ ''_tcp'') = CHR ''p''" "last (b @ ''_udp'') = CHR ''p''"
    by (simp_all add: last_append)
  moreover from \<open>a @ ''_tcp'' = b @ ''_udp''\<close>
  have "last (butlast (a @ ''_tcp'')) = last (butlast (b @ ''_udp''))" by simp
  ultimately show False by (simp add: butlast_append last_append)
qed

lemma distinct_buildMultiIPServiceNames [simp]: "distinct (buildMultiIPServiceNames n ip)"
  unfolding buildMultiIPServiceNames_def Let_def
  using tcp_udp_differ [of n n]
  by (auto intro!: distinct_concat_pairs simp: suffixedName_inj tcp_udp_differ)

end
