(* ===== verification/Panel.thy ===== *)
theory Panel
  imports GostConfig
begin

text \<open>
  The state of the panel and its surroundings. The database behind \<open>service.DB\<close> is a record of
  tables; a table is the list of its rows in primary-key order, which is the order GORM's
  \<open>First\<close> uses; \<open>dbAutoInc\<close> is the next auto-increment key of a table. \<open>dbSent\<close> is the list of
  commands that went out over the nodes' WebSocket sessions, in order. What is not under the
  panel's control is a field of \<open>env\<close>: the clock, which nodes are connected, what a node
  answers (a function of the commands sent so far), whether the database accepts a write whose
  error the code looks at, the DNS resolver, the hash functions, the random numbers, the
  floating-point unit. A handler is a program of the state monad over \<open>panel\<close>.
\<close>

section \<open>State\<close>

record panel =
  dbUsers :: "user list"
  dbNodes :: "node list"
  dbTunnels :: "tunnel list"
  dbForwards :: "forward list"
  dbUserTunnels :: "userTunnel list"
  dbUserNodes :: "userNode list"
  dbSpeedLimits :: "speedLimit list"
  dbInbounds :: "xrayInbound list"
  dbClients :: "xrayClient list"
  dbCerts :: "xrayTlsCert list"
  dbViteConfigs :: "viteConfig list"
  dbStatFlows :: "statisticsFlow list"
  dbStatUserFlows :: "statisticsUserFlow list"
  dbStatForwardFlows :: "statisticsForwardFlow list"
  dbStatXrayFlows :: "statisticsXrayFlow list"
  dbLatencies :: "monitorLatency list"
  dbAutoInc :: "string \<Rightarrow> int"
  dbSent :: "cmd list"

type_synonym 'a prog = "(panel, 'a) state"

definition emptyPanel :: panel where
  "emptyPanel = \<lparr>dbUsers = [], dbNodes = [], dbTunnels = [], dbForwards = [],
     dbUserTunnels = [], dbUserNodes = [], dbSpeedLimits = [], dbInbounds = [], dbClients = [],
     dbCerts = [], dbViteConfigs = [], dbStatFlows = [], dbStatUserFlows = [],
     dbStatForwardFlows = [], dbStatXrayFlows = [], dbLatencies = [],
     dbAutoInc = (\<lambda>_. 1), dbSent = []\<rparr>"

record env =
  now :: int
  todayYear :: int
  todayMonth :: nat
  todayDay :: int
  todayWeekday :: int
  todayHour :: int
  nodeOnline :: "cmd list \<Rightarrow> int \<Rightarrow> bool"
  nodeReply :: "cmd list \<Rightarrow> cmd \<Rightarrow> gostResponse"
  createOk :: "string \<Rightarrow> bool"
  updateOk :: "string \<Rightarrow> bool"
  deleteOk :: "string \<Rightarrow> bool"
  rawFirstForward :: "string \<Rightarrow> panel \<Rightarrow> forward option"
  rawFirstUser :: "string \<Rightarrow> panel \<Rightarrow> user option"
  sqlIdMatch :: "string \<Rightarrow> int \<Rightarrow> bool"
  i64ToF64 :: "int \<Rightarrow> rat"
  f64Mul :: "rat \<Rightarrow> rat \<Rightarrow> rat"
  lookupIP :: "string \<Rightarrow> string list option"
  hashPassword :: "string \<Rightarrow> string"
  bcryptOk :: "string \<Rightarrow> string \<Rightarrow> bool"
  md5Hex :: "string \<Rightarrow> string"
  captchaOk :: "string \<Rightarrow> string \<Rightarrow> bool"
  jsonParse :: "string \<Rightarrow> json option"
  jsonPrint :: "json \<Rightarrow> string"
  jsonStream :: "string \<Rightarrow> streamSettings option"
  jsonMethod :: "string \<Rightarrow> string option"
  freshUuid :: string
  freshRandom :: "nat \<Rightarrow> string"
  freshSecret :: string
  randPerm :: "nat \<Rightarrow> nat list"

section \<open>Results\<close>

text \<open>\<open>dto.R\<close>: success with its data, a warning (success code with a message), or an error.
  An error carries its message: one name per fixed message of the services, \<open>EGost\<close> for a node's own
  message passed on to the caller, and constructors for the messages with a number or an address.\<close>

datatype err =
    EMsg string | EGost string | EPrefixGost string string | EForbiddenAddr string
  | EUserQuota int | ETunnelQuota int | EPortUnavailable int

abbreviation ETunnelNotFound :: err where "ETunnelNotFound \<equiv> EMsg ''tunnel not found''"

abbreviation ETunnelDisabled :: err where "ETunnelDisabled \<equiv> EMsg ''tunnel disabled''"

abbreviation ENoInNodeAccess :: err where "ENoInNodeAccess \<equiv> EMsg ''no in node access''"

abbreviation ENoOutNodeAccess :: err where "ENoOutNodeAccess \<equiv> EMsg ''no out node access''"

abbreviation ECreateForward :: err where "ECreateForward \<equiv> EMsg ''create forward''"

abbreviation EUserNotFound :: err where "EUserNotFound \<equiv> EMsg ''user not found''"

abbreviation EUserDisabled :: err where "EUserDisabled \<equiv> EMsg ''user disabled''"

abbreviation EForwardNotFound :: err where "EForwardNotFound \<equiv> EMsg ''forward not found''"

abbreviation ENoTunnelPermission :: err where "ENoTunnelPermission \<equiv> EMsg ''no tunnel permission''"

abbreviation EUserTunnelDisabled :: err where "EUserTunnelDisabled \<equiv> EMsg ''user tunnel disabled''"

abbreviation EUserTunnelExpired :: err where "EUserTunnelExpired \<equiv> EMsg ''user tunnel expired''"

abbreviation EUserExpired :: err where "EUserExpired \<equiv> EMsg ''user expired''"

abbreviation EUserFlowUsed :: err where "EUserFlowUsed \<equiv> EMsg ''user flow used''"

abbreviation ETunnelFlowUsed :: err where "ETunnelFlowUsed \<equiv> EMsg ''tunnel flow used''"

abbreviation EInPortsFull :: err where "EInPortsFull \<equiv> EMsg ''in ports full''"

abbreviation EOutPortsFull :: err where "EOutPortsFull \<equiv> EMsg ''out ports full''"

abbreviation EInNodeNotFound :: err where "EInNodeNotFound \<equiv> EMsg ''in node not found''"

abbreviation EOutNodeNotFound :: err where "EOutNodeNotFound \<equiv> EMsg ''out node not found''"

abbreviation EOldTunnelNotFound :: err where "EOldTunnelNotFound \<equiv> EMsg ''old tunnel not found''"

abbreviation EUpdateForward :: err where "EUpdateForward \<equiv> EMsg ''update forward''"

abbreviation EDeleteForward :: err where "EDeleteForward \<equiv> EMsg ''delete forward''"

abbreviation EOrderEmpty :: err where "EOrderEmpty \<equiv> EMsg ''order empty''"

abbreviation EOrderForeign :: err where "EOrderForeign \<equiv> EMsg ''order foreign''"

abbreviation EAlreadyAssigned :: err where "EAlreadyAssigned \<equiv> EMsg ''already assigned''"

abbreviation EAssign :: err where "EAssign \<equiv> EMsg ''assign''"

abbreviation EUserTunnelNotFound :: err where "EUserTunnelNotFound \<equiv> EMsg ''user tunnel not found''"

abbreviation ESpeedLimitNotFound :: err where "ESpeedLimitNotFound \<equiv> EMsg ''speed limit not found''"

abbreviation ECreateSpeedLimit :: err where "ECreateSpeedLimit \<equiv> EMsg ''create speed limit''"

abbreviation ESpeedLimitInUse :: err where "ESpeedLimitInUse \<equiv> EMsg ''speed limit in use''"

abbreviation ETunnelNameTaken :: err where "ETunnelNameTaken \<equiv> EMsg ''tunnel name taken''"

abbreviation EOutNodeRequired :: err where "EOutNodeRequired \<equiv> EMsg ''out node required''"

abbreviation ESameNode :: err where "ESameNode \<equiv> EMsg ''same node''"

abbreviation ECreateTunnel :: err where "ECreateTunnel \<equiv> EMsg ''create tunnel''"

abbreviation EUpdateTunnel :: err where "EUpdateTunnel \<equiv> EMsg ''update tunnel''"

abbreviation ETunnelHasForwards :: err where "ETunnelHasForwards \<equiv> EMsg ''tunnel has forwards''"

abbreviation ENodeNotFound :: err where "ENodeNotFound \<equiv> EMsg ''node not found''"

abbreviation EPortRange :: err where "EPortRange \<equiv> EMsg ''port range''"

abbreviation ECreateNode :: err where "ECreateNode \<equiv> EMsg ''create node''"

abbreviation EUpdateNode :: err where "EUpdateNode \<equiv> EMsg ''update node''"

abbreviation ESetProtocol :: err where "ESetProtocol \<equiv> EMsg ''set protocol''"

abbreviation ENodeInUse :: err where "ENodeInUse \<equiv> EMsg ''node in use''"

abbreviation EPasswordShort :: err where "EPasswordShort \<equiv> EMsg ''password short''"

abbreviation EUserNameTaken :: err where "EUserNameTaken \<equiv> EMsg ''user name taken''"

abbreviation ECreateUser :: err where "ECreateUser \<equiv> EMsg ''create user''"

abbreviation EIsAdmin :: err where "EIsAdmin \<equiv> EMsg ''is admin''"

abbreviation EUpdateUser :: err where "EUpdateUser \<equiv> EMsg ''update user''"

abbreviation EDeleteUser :: err where "EDeleteUser \<equiv> EMsg ''delete user''"

abbreviation EWrongPassword :: err where "EWrongPassword \<equiv> EMsg ''wrong password''"

abbreviation EReconcileBusy :: err where "EReconcileBusy \<equiv> EMsg ''reconcile busy''"

abbreviation ENoXray :: err where "ENoXray \<equiv> EMsg ''no xray''"

abbreviation ENoNodeAccess :: err where "ENoNodeAccess \<equiv> EMsg ''no node access''"

abbreviation ENodeXrayOff :: err where "ENodeXrayOff \<equiv> EMsg ''node xray off''"

abbreviation EInboundPortTaken :: err where "EInboundPortTaken \<equiv> EMsg ''inbound port taken''"

abbreviation ECreateInbound :: err where "ECreateInbound \<equiv> EMsg ''create inbound''"

abbreviation EInboundNotFound :: err where "EInboundNotFound \<equiv> EMsg ''inbound not found''"

abbreviation ENotOwner :: err where "ENotOwner \<equiv> EMsg ''not owner''"

abbreviation EClientNotFound :: err where "EClientNotFound \<equiv> EMsg ''client not found''"

abbreviation ECreateClient :: err where "ECreateClient \<equiv> EMsg ''create client''"

abbreviation ECaptchaRequired :: err where "ECaptchaRequired \<equiv> EMsg ''captcha required''"

abbreviation ECaptchaWrong :: err where "ECaptchaWrong \<equiv> EMsg ''captcha wrong''"

abbreviation ELoginFailed :: err where "ELoginFailed \<equiv> EMsg ''login failed''"

abbreviation EAccountDisabled :: err where "EAccountDisabled \<equiv> EMsg ''account disabled''"

abbreviation ENewPasswordShort :: err where "ENewPasswordShort \<equiv> EMsg ''new password short''"

abbreviation EUnsupportedProtocol :: err where "EUnsupportedProtocol \<equiv> EMsg ''unsupported protocol''"

abbreviation EPanic :: err where "EPanic \<equiv> EMsg ''panic''"

datatype 'a R = Ok 'a | Warn err 'a | Err err

fun isErr :: "'a R \<Rightarrow> bool" where
  "isErr (Err _) = True"
| "isErr _ = False"

section \<open>The state monad\<close>

abbreviation return :: "'a \<Rightarrow> 'a prog" where
  "return \<equiv> State_Monad.return"

definition gets :: "(panel \<Rightarrow> 'a) \<Rightarrow> 'a prog" where
  "gets f = State (\<lambda>s. (f s, s))"

definition modify :: "(panel \<Rightarrow> panel) \<Rightarrow> unit prog" where
  "modify f = State (\<lambda>s. ((), f s))"

text \<open>A \<open>for \<dots> range\<close> loop, without and with an accumulator.\<close>

primrec forEach :: "('a \<Rightarrow> unit prog) \<Rightarrow> 'a list \<Rightarrow> unit prog" where
  "forEach f [] = return ()"
| "forEach f (x # xs) = do { f x; forEach f xs }"

primrec foldM :: "('a \<Rightarrow> 'b \<Rightarrow> 'b prog) \<Rightarrow> 'a list \<Rightarrow> 'b \<Rightarrow> 'b prog" where
  "foldM f [] acc = return acc"
| "foldM f (x # xs) acc = do { acc' \<leftarrow> f x acc; foldM f xs acc' }"

definition exec :: "'a prog \<Rightarrow> panel \<Rightarrow> panel" where
  "exec m s = snd (run_state m s)"

definition result :: "'a prog \<Rightarrow> panel \<Rightarrow> 'a" where
  "result m s = fst (run_state m s)"

lemma run_gets [simp, run]: "run_state (gets f) s = (f s, s)"
  by (simp add: gets_def)

lemma run_modify [simp, run]: "run_state (modify f) s = ((), f s)"
  by (simp add: modify_def)

lemma run_if [run]: "run_state (if c then m else n) s = (if c then run_state m s else run_state n s)"
  by simp

lemma exec_simps [simp]:
  "exec (return x) s = s"
  "exec (gets f) s = s"
  "exec (modify g) s = g s"
  by (simp_all add: exec_def)

lemma result_simps [simp]:
  "result (return x) s = x"
  "result (gets f) s = f s"
  by (simp_all add: result_def)

lemma exec_bind [simp]: "exec (State_Monad.bind m f) s = exec (f (result m s)) (exec m s)"
  by (simp add: exec_def result_def case_prod_unfold)

lemma result_bind [simp]: "result (State_Monad.bind m f) s = result (f (result m s)) (exec m s)"
  by (simp add: exec_def result_def case_prod_unfold)

lemma result_if [run]: "result (if c then m else n) s = (if c then result m s else result n s)"
  by simp

lemma exec_if [run]: "exec (if c then m else n) s = (if c then exec m s else exec n s)"
  by simp

lemma run_state_eq: "run_state m s = (result m s, exec m s)"
  by (simp add: exec_def result_def)

lemma exec_forEach_Nil [simp]: "exec (forEach f []) s = s"
  by simp

lemma exec_forEach_Cons [simp]: "exec (forEach f (x # xs)) s = exec (forEach f xs) (exec (f x) s)"
  by simp

lemma forEach_append: "exec (forEach f (xs @ ys)) s = exec (forEach f ys) (exec (forEach f xs) s)"
  by (induction xs arbitrary: s) simp_all

section \<open>Programs that keep a property of the state\<close>

text \<open>\<open>keeps I m\<close>: if \<open>I\<close> holds before the program, it holds after it, whatever it returns.
  The rules follow the structure of a program, so a proof is a walk down the code.\<close>

definition keeps :: "(panel \<Rightarrow> bool) \<Rightarrow> 'a prog \<Rightarrow> bool" where
  "keeps I m = (\<forall>s. I s \<longrightarrow> I (exec m s))"

lemma keepsI: "(\<And>s. I s \<Longrightarrow> I (exec m s)) \<Longrightarrow> keeps I m"
  by (simp add: keeps_def)

lemma keepsD: "keeps I m \<Longrightarrow> I s \<Longrightarrow> I (exec m s)"
  by (simp add: keeps_def)

lemma keeps_return [keeps_intro]: "keeps I (return x)"
  by (simp add: keeps_def)

lemma keeps_gets [keeps_intro]: "keeps I (gets f)"
  by (simp add: keeps_def)

lemma keeps_modify: "(\<And>s. I s \<Longrightarrow> I (f s)) \<Longrightarrow> keeps I (modify f)"
  by (simp add: keeps_def)

lemma keeps_bind [keeps_intro]:
  "keeps I m \<Longrightarrow> (\<And>x. keeps I (f x)) \<Longrightarrow> keeps I (State_Monad.bind m f)"
  by (simp add: keeps_def)

lemma keeps_if [keeps_intro]:
  "(c \<Longrightarrow> keeps I m) \<Longrightarrow> (\<not> c \<Longrightarrow> keeps I n) \<Longrightarrow> keeps I (if c then m else n)"
  by simp

lemma keeps_option [keeps_intro]:
  "keeps I m \<Longrightarrow> (\<And>x. y = Some x \<Longrightarrow> keeps I (f x)) \<Longrightarrow> keeps I (case y of None \<Rightarrow> m | Some x \<Rightarrow> f x)"
  by (cases y) auto

lemma keeps_prod [keeps_intro]:
  "(\<And>a b. p = (a, b) \<Longrightarrow> keeps I (f a b)) \<Longrightarrow> keeps I (case p of (a, b) \<Rightarrow> f a b)"
  by (cases p) auto

lemma keeps_sum [keeps_intro]:
  "(\<And>a. p = Inl a \<Longrightarrow> keeps I (f a)) \<Longrightarrow> (\<And>b. p = Inr b \<Longrightarrow> keeps I (g b)) \<Longrightarrow>
   keeps I (case p of Inl a \<Rightarrow> f a | Inr b \<Rightarrow> g b)"
  by (cases p) auto

lemma keeps_list [keeps_intro]:
  "keeps I m \<Longrightarrow> (\<And>x xs. l = x # xs \<Longrightarrow> keeps I (f x xs)) \<Longrightarrow>
   keeps I (case l of [] \<Rightarrow> m | x # xs \<Rightarrow> f x xs)"
  by (cases l) auto

lemma keeps_let [keeps_intro]: "(\<And>x. x = e \<Longrightarrow> keeps I (f x)) \<Longrightarrow> keeps I (let x = e in f x)"
  by simp

lemma keeps_forEach [keeps_intro]: "(\<And>x. x \<in> set xs \<Longrightarrow> keeps I (f x)) \<Longrightarrow> keeps I (forEach f xs)"
  by (induction xs) (auto intro: keeps_intro)

lemma keeps_foldM [keeps_intro]:
  "(\<And>x a. x \<in> set xs \<Longrightarrow> keeps I (f x a)) \<Longrightarrow> keeps I (foldM f xs acc)"
  by (induction xs arbitrary: acc) (auto intro: keeps_intro)

lemma keeps_conj: "keeps I m \<Longrightarrow> keeps J m \<Longrightarrow> keeps (\<lambda>s. I s \<and> J s) m"
  by (simp add: keeps_def)

section \<open>Tables\<close>

definition rowById :: "('r \<Rightarrow> int) \<Rightarrow> int \<Rightarrow> 'r list \<Rightarrow> 'r option" where
  "rowById rid i rows = find (\<lambda>r. rid r = i) rows"

definition updateRows :: "('r \<Rightarrow> bool) \<Rightarrow> ('r \<Rightarrow> 'r) \<Rightarrow> 'r list \<Rightarrow> 'r list" where
  "updateRows P f rows = map (\<lambda>r. if P r then f r else r) rows"

definition deleteRows :: "('r \<Rightarrow> bool) \<Rightarrow> 'r list \<Rightarrow> 'r list" where
  "deleteRows P rows = filter (\<lambda>r. \<not> P r) rows"

text \<open>What the handlers rely on when they read a row back: the interface of a keyed table.\<close>

locale keyed_table =
  fixes rid :: "'r \<Rightarrow> int"
    and first :: "int \<Rightarrow> 't \<Rightarrow> 'r option"
    and create :: "'r \<Rightarrow> 't \<Rightarrow> 't"
    and update :: "('r \<Rightarrow> bool) \<Rightarrow> ('r \<Rightarrow> 'r) \<Rightarrow> 't \<Rightarrow> 't"
    and delete :: "('r \<Rightarrow> bool) \<Rightarrow> 't \<Rightarrow> 't"
  assumes first_id: "first i t = Some r \<Longrightarrow> rid r = i"
    and first_create: "first (rid r) t = None \<Longrightarrow>
          first i (create r t) = (if i = rid r then Some r else first i t)"
    and first_update: "(\<And>r. rid (f r) = rid r) \<Longrightarrow>
          first i (update P f t) = map_option (\<lambda>r. if P r then f r else r) (first i t)"
    and first_delete_id: "first i (delete (\<lambda>r. rid r = j) t) = (if i = j then None else first i t)"
begin

lemma first_create_same: "first (rid r) t = None \<Longrightarrow> first (rid r) (create r t) = Some r"
  by (simp add: first_create)

lemma first_update_id:
  assumes "\<And>r. rid (f r) = rid r"
  shows "first i (update (\<lambda>r. rid r = j) f t)
       = (if i = j then map_option f (first i t) else first i t)"
proof (cases "first i t")
  case None
  with assms show ?thesis by (auto simp: first_update)
next
  case (Some r)
  with assms first_id [OF Some] show ?thesis by (auto simp: first_update)
qed

lemma first_update_dom:
  "(\<And>r. rid (f r) = rid r) \<Longrightarrow> first i (update P f t) = None \<longleftrightarrow> first i t = None"
  by (simp add: first_update)

lemma first_create_delete:
  "first (rid r) t = None \<Longrightarrow> first i (delete (\<lambda>x. rid x = rid r) (create r t)) = first i t"
  by (simp add: first_delete_id first_create)

end

lemma rowById_id: "rowById rid i rows = Some r \<Longrightarrow> rid r = i"
  by (auto simp: rowById_def find_Some_iff)

lemma rowById_in: "rowById rid i rows = Some r \<Longrightarrow> r \<in> set rows"
  by (auto simp: rowById_def find_Some_iff)

lemma rowById_None: "rowById rid i rows = None \<longleftrightarrow> i \<notin> rid ` set rows"
  by (auto simp: rowById_def find_None_iff)

lemma rowById_Nil [simp]: "rowById rid i [] = None"
  by (simp add: rowById_def)

lemma rowById_Cons: "rowById rid i (r # rows) = (if rid r = i then Some r else rowById rid i rows)"
  by (simp add: rowById_def)

lemma rowById_append:
  "rowById rid i (xs @ ys) = (case rowById rid i xs of None \<Rightarrow> rowById rid i ys | Some r \<Rightarrow> Some r)"
  by (induction xs) (simp_all add: rowById_Cons)

lemma rowById_updateRows:
  "(\<And>r. rid (f r) = rid r) \<Longrightarrow>
   rowById rid i (updateRows P f rows) = map_option (\<lambda>r. if P r then f r else r) (rowById rid i rows)"
  by (induction rows) (auto simp: updateRows_def rowById_Cons)

lemma rowById_deleteRows_id:
  "rowById rid i (deleteRows (\<lambda>r. rid r = j) rows) = (if i = j then None else rowById rid i rows)"
  by (induction rows) (auto simp: deleteRows_def rowById_Cons)

lemma rowById_mem:
  "distinct (map rid rows) \<Longrightarrow> r \<in> set rows \<Longrightarrow> rowById rid (rid r) rows = Some r"
  by (induction rows) (auto simp: rowById_Cons)

interpretation list_table: keyed_table rid "rowById rid" "\<lambda>r t. t @ [r]" updateRows deleteRows
  for rid :: "'r \<Rightarrow> int"
proof
  show "rowById rid i t = Some r \<Longrightarrow> rid r = i" for i t r
    by (rule rowById_id)
  show "rowById rid (rid r) t = None \<Longrightarrow>
      rowById rid i (t @ [r]) = (if i = rid r then Some r else rowById rid i t)" for r t i
    by (auto simp: rowById_append rowById_Cons split: option.splits)
  show "(\<And>r. rid (f r) = rid r) \<Longrightarrow>
      rowById rid i (updateRows P f t) = map_option (\<lambda>r. if P r then f r else r) (rowById rid i t)"
    for f i P t
    by (rule rowById_updateRows)
  show "rowById rid i (deleteRows (\<lambda>r. rid r = j) t) = (if i = j then None else rowById rid i t)"
    for i j t
    by (rule rowById_deleteRows_id)
qed

lemma set_updateRows: "set (updateRows P f rows) = (\<lambda>r. if P r then f r else r) ` set rows"
  by (simp add: updateRows_def)

lemma set_deleteRows [simp]: "set (deleteRows P rows) = {r \<in> set rows. \<not> P r}"
  by (simp add: deleteRows_def)

lemma map_updateRows: "(\<And>r. P r \<Longrightarrow> g (f r) = g r) \<Longrightarrow> map g (updateRows P f rows) = map g rows"
  by (simp add: updateRows_def)

lemma updateRows_none: "(\<And>r. r \<in> set rows \<Longrightarrow> \<not> P r) \<Longrightarrow> updateRows P f rows = rows"
  by (simp add: updateRows_def map_idI)

lemma distinct_deleteRows: "distinct (map g rows) \<Longrightarrow> distinct (map g (deleteRows P rows))"
  by (simp add: deleteRows_def distinct_map_filter)

section \<open>Sending commands to nodes\<close>

text \<open>The message \<open>SendMsgWithTimeout\<close> makes up when the node has no session; it is not a
  prefix of any answer the callers test for.\<close>

definition msgNodeOffline :: string where
  "msgNodeOffline = map char_of [0xE8, 0x8A, 0x82, 0xE7, 0x82, 0xB9, 0xE4, 0xB8, 0x8D, 0xE5,
     0x9C, 0xA8, 0xE7, 0xBA, 0xBF :: nat]"

definition SendMsg :: "env \<Rightarrow> int \<Rightarrow> payload \<Rightarrow> string \<Rightarrow> gostResponse prog" where
  "SendMsg E nodeId data ctype = State (\<lambda>s.
     if \<not> nodeOnline E (dbSent s) nodeId then (\<lparr>respMsg = msgNodeOffline, respData = None\<rparr>, s)
     else (nodeReply E (dbSent s) (Cmd nodeId ctype data),
           s\<lparr>dbSent := dbSent s @ [Cmd nodeId ctype data]\<rparr>))"

definition IsNodeOnline :: "env \<Rightarrow> int \<Rightarrow> bool prog" where
  "IsNodeOnline E nodeId = gets (\<lambda>s. nodeOnline E (dbSent s) nodeId)"

text \<open>The interface the services have to the nodes: a call changes nothing but the list of
  commands sent, which it extends by at most the one command.\<close>

locale node_link =
  fixes send :: "int \<Rightarrow> payload \<Rightarrow> string \<Rightarrow> gostResponse prog"
  assumes send_only_logs: "\<exists>out. exec (send n d t) s = s\<lparr>dbSent := dbSent s @ out\<rparr>
    \<and> (out = [] \<or> out = [Cmd n t d])"
begin

lemma send_frame: "(\<And>l. I (s\<lparr>dbSent := l\<rparr>) = I s) \<Longrightarrow> I (exec (send n d t) s) = I s"
  using send_only_logs [of n d t s] by auto

lemma send_keeps: "(\<And>s l. I (s\<lparr>dbSent := l\<rparr>) = I s) \<Longrightarrow> keeps I (send n d t)"
  by (rule keepsI) (simp add: send_frame)

lemma send_extends: "\<exists>out. dbSent (exec (send n d t) s) = dbSent s @ out \<and> set out \<subseteq> {Cmd n t d}"
  using send_only_logs [of n d t s] by auto

end

lemma exec_SendMsg:
  "exec (SendMsg E n d t) s =
     s\<lparr>dbSent := dbSent s @ (if nodeOnline E (dbSent s) n then [Cmd n t d] else [])\<rparr>"
  by (simp add: exec_def SendMsg_def)

lemma result_SendMsg:
  "result (SendMsg E n d t) s =
     (if nodeOnline E (dbSent s) n then nodeReply E (dbSent s) (Cmd n t d)
      else \<lparr>respMsg = msgNodeOffline, respData = None\<rparr>)"
  by (simp add: result_def SendMsg_def)

interpretation ws: node_link "SendMsg E"
  for E
proof
  fix n d t s
  show "\<exists>out. exec (SendMsg E n d t) s = s\<lparr>dbSent := dbSent s @ out\<rparr> \<and> (out = [] \<or> out = [Cmd n t d])"
    by (rule exI [of _ "if nodeOnline E (dbSent s) n then [Cmd n t d] else []"])
       (simp add: exec_SendMsg)
qed

lemma result_IsNodeOnline [simp]: "result (IsNodeOnline E n) s = nodeOnline E (dbSent s) n"
  by (simp add: IsNodeOnline_def)

lemma exec_IsNodeOnline [simp]: "exec (IsNodeOnline E n) s = s"
  by (simp add: IsNodeOnline_def)

lemma keeps_IsNodeOnline [keeps_intro]: "keeps I (IsNodeOnline E n)"
  by (simp add: IsNodeOnline_def keeps_gets)

end
