(* ===== verification/GostApi.thy ===== *)
theory GostApi
  imports Panel
begin

text \<open>
  The calls of \<open>go-backend/pkg/gost.go\<close> and \<open>go-backend/pkg/xray.go\<close>: each builds the body of
  one WebSocket command and sends it with \<open>SendMsg\<close>. The bundle \<open>gost_api_defs\<close> unfolds them all
  to their \<open>SendMsg\<close>.
\<close>

section \<open>pkg/gost.go\<close>

definition AddLimiters :: "env \<Rightarrow> int \<Rightarrow> int \<Rightarrow> string \<Rightarrow> gostResponse prog" where
  "AddLimiters E nodeId name speed =
     SendMsg E nodeId (DLimiter (createLimiterData name speed)) ''AddLimiters''"

definition UpdateLimiters :: "env \<Rightarrow> int \<Rightarrow> int \<Rightarrow> string \<Rightarrow> gostResponse prog" where
  "UpdateLimiters E nodeId name speed =
     SendMsg E nodeId (DLimiterUpdate (itoa name) (createLimiterData name speed)) ''UpdateLimiters''"

definition DeleteLimiters :: "env \<Rightarrow> int \<Rightarrow> int \<Rightarrow> gostResponse prog" where
  "DeleteLimiters E nodeId name = SendMsg E nodeId (DLimiterName (itoa name)) ''DeleteLimiters''"

definition AddService :: "env \<Rightarrow> int \<Rightarrow> string \<Rightarrow> int \<Rightarrow> int option \<Rightarrow> string \<Rightarrow> int \<Rightarrow> tunnel \<Rightarrow> string
    \<Rightarrow> string \<Rightarrow> gostResponse prog" where
  "AddService E nodeId name inPort limiter remoteAddr fwdType tunnel strategy interfaceName =
     SendMsg E nodeId (DServices (buildServices name inPort limiter remoteAddr fwdType tunnel
       strategy interfaceName)) ''AddService''"

definition UpdateService :: "env \<Rightarrow> int \<Rightarrow> string \<Rightarrow> int \<Rightarrow> int option \<Rightarrow> string \<Rightarrow> int \<Rightarrow> tunnel \<Rightarrow> string
    \<Rightarrow> string \<Rightarrow> gostResponse prog" where
  "UpdateService E nodeId name inPort limiter remoteAddr fwdType tunnel strategy interfaceName =
     SendMsg E nodeId (DServices (buildServices name inPort limiter remoteAddr fwdType tunnel
       strategy interfaceName)) ''UpdateService''"

definition UpdateForwarder :: "env \<Rightarrow> int \<Rightarrow> string \<Rightarrow> string \<Rightarrow> string \<Rightarrow> gostResponse prog" where
  "UpdateForwarder E nodeId name remoteAddr strategy =
     SendMsg E nodeId (DForwarders (map (\<lambda>proto. (name @ ''_'' @ proto, buildForwarder remoteAddr strategy))
       [''tcp'', ''udp''])) ''UpdateForwarder''"

definition UpdateRemoteForwarder :: "env \<Rightarrow> int \<Rightarrow> string \<Rightarrow> string \<Rightarrow> string \<Rightarrow> gostResponse prog" where
  "UpdateRemoteForwarder E nodeId name remoteAddr strategy =
     SendMsg E nodeId (DForwarders [(name @ ''_tls'', buildForwarder remoteAddr strategy)])
       ''UpdateForwarder''"

definition DeleteService :: "env \<Rightarrow> int \<Rightarrow> string \<Rightarrow> gostResponse prog" where
  "DeleteService E nodeId name = SendMsg E nodeId (DNames [name @ ''_tcp'', name @ ''_udp'']) ''DeleteService''"

definition DeleteServiceMultiIP :: "env \<Rightarrow> int \<Rightarrow> string \<Rightarrow> string \<Rightarrow> gostResponse prog" where
  "DeleteServiceMultiIP E nodeId name listenIp =
     SendMsg E nodeId (DNames (buildMultiIPServiceNames name listenIp)) ''DeleteService''"

definition AddRemoteService :: "env \<Rightarrow> int \<Rightarrow> string \<Rightarrow> int \<Rightarrow> string \<Rightarrow> string \<Rightarrow> string \<Rightarrow> string
    \<Rightarrow> gostResponse prog" where
  "AddRemoteService E nodeId name outPort remoteAddr protocol strategy interfaceName =
     SendMsg E nodeId (DServices [buildRemoteService name outPort remoteAddr protocol strategy
       interfaceName]) ''AddService''"

definition UpdateRemoteService :: "env \<Rightarrow> int \<Rightarrow> string \<Rightarrow> int \<Rightarrow> string \<Rightarrow> string \<Rightarrow> string \<Rightarrow> string
    \<Rightarrow> gostResponse prog" where
  "UpdateRemoteService E nodeId name outPort remoteAddr protocol strategy interfaceName =
     SendMsg E nodeId (DServices [buildRemoteService name outPort remoteAddr protocol strategy
       interfaceName]) ''UpdateService''"

definition DeleteRemoteService :: "env \<Rightarrow> int \<Rightarrow> string \<Rightarrow> gostResponse prog" where
  "DeleteRemoteService E nodeId name = SendMsg E nodeId (DNames [name @ ''_tls'']) ''DeleteService''"

definition PauseService :: "env \<Rightarrow> int \<Rightarrow> string \<Rightarrow> gostResponse prog" where
  "PauseService E nodeId name = SendMsg E nodeId (DNames [name @ ''_tcp'', name @ ''_udp'']) ''PauseService''"

definition ResumeService :: "env \<Rightarrow> int \<Rightarrow> string \<Rightarrow> gostResponse prog" where
  "ResumeService E nodeId name = SendMsg E nodeId (DNames [name @ ''_tcp'', name @ ''_udp'']) ''ResumeService''"

definition PauseServiceMultiIP :: "env \<Rightarrow> int \<Rightarrow> string \<Rightarrow> string \<Rightarrow> gostResponse prog" where
  "PauseServiceMultiIP E nodeId name listenIp =
     SendMsg E nodeId (DNames (buildMultiIPServiceNames name listenIp)) ''PauseService''"

definition ResumeServiceMultiIP :: "env \<Rightarrow> int \<Rightarrow> string \<Rightarrow> string \<Rightarrow> gostResponse prog" where
  "ResumeServiceMultiIP E nodeId name listenIp =
     SendMsg E nodeId (DNames (buildMultiIPServiceNames name listenIp)) ''ResumeService''"

definition PauseRemoteService :: "env \<Rightarrow> int \<Rightarrow> string \<Rightarrow> gostResponse prog" where
  "PauseRemoteService E nodeId name = SendMsg E nodeId (DNames [name @ ''_tls'']) ''PauseService''"

definition ResumeRemoteService :: "env \<Rightarrow> int \<Rightarrow> string \<Rightarrow> gostResponse prog" where
  "ResumeRemoteService E nodeId name = SendMsg E nodeId (DNames [name @ ''_tls'']) ''ResumeService''"

definition AddChains :: "env \<Rightarrow> int \<Rightarrow> string \<Rightarrow> string \<Rightarrow> string \<Rightarrow> string \<Rightarrow> gostResponse prog" where
  "AddChains E nodeId name remoteAddr protocol interfaceName =
     SendMsg E nodeId (DChain (buildChainData name remoteAddr protocol interfaceName)) ''AddChains''"

definition UpdateChains :: "env \<Rightarrow> int \<Rightarrow> string \<Rightarrow> string \<Rightarrow> string \<Rightarrow> string \<Rightarrow> gostResponse prog" where
  "UpdateChains E nodeId name remoteAddr protocol interfaceName =
     SendMsg E nodeId (DChainUpdate (name @ ''_chains'')
       (buildChainData name remoteAddr protocol interfaceName)) ''UpdateChains''"

definition DeleteChains :: "env \<Rightarrow> int \<Rightarrow> string \<Rightarrow> gostResponse prog" where
  "DeleteChains E nodeId name = SendMsg E nodeId (DChainName (name @ ''_chains'')) ''DeleteChains''"

definition GetServiceNames :: "env \<Rightarrow> int \<Rightarrow> gostResponse prog" where
  "GetServiceNames E nodeId = SendMsg E nodeId DNil ''GetServiceNames''"

section \<open>pkg/xray.go\<close>

definition inboundData :: "xrayInbound \<Rightarrow> inboundConfig" where
  "inboundData ib = \<lparr>icTag = ibTag ib, icProtocol = ibProtocol ib, icListen = ibListen ib,
     icPort = ibPort ib, icSettingsJson = ibSettingsJson ib,
     icStreamSettingsJson = ibStreamSettingsJson ib, icSniffingJson = ibSniffingJson ib\<rparr>"

definition XrayStop :: "env \<Rightarrow> int \<Rightarrow> gostResponse prog" where
  "XrayStop E nodeId = SendMsg E nodeId DEmpty ''VStop''"

definition XrayAddInbound :: "env \<Rightarrow> int \<Rightarrow> xrayInbound \<Rightarrow> gostResponse prog" where
  "XrayAddInbound E nodeId ib = SendMsg E nodeId (DInbound (inboundData ib)) ''VAddInbound''"

definition XrayRemoveInbound :: "env \<Rightarrow> int \<Rightarrow> string \<Rightarrow> gostResponse prog" where
  "XrayRemoveInbound E nodeId tag = SendMsg E nodeId (DTag tag) ''VRemoveInbound''"

definition XrayAddClient :: "env \<Rightarrow> int \<Rightarrow> string \<Rightarrow> string \<Rightarrow> string \<Rightarrow> string \<Rightarrow> int \<Rightarrow> string
    \<Rightarrow> gostResponse prog" where
  "XrayAddClient E nodeId inboundTag email uuidOrPassword flow alterId protocol =
     SendMsg E nodeId (DClient inboundTag email uuidOrPassword flow alterId protocol) ''VAddClient''"

definition XrayRemoveClient :: "env \<Rightarrow> int \<Rightarrow> string \<Rightarrow> string \<Rightarrow> gostResponse prog" where
  "XrayRemoveClient E nodeId inboundTag email =
     SendMsg E nodeId (DClientRef inboundTag email) ''VRemoveClient''"

definition XrayApplyConfig :: "env \<Rightarrow> int \<Rightarrow> xrayInbound list \<Rightarrow> gostResponse prog" where
  "XrayApplyConfig E nodeId inbounds =
     SendMsg E nodeId (DInbounds (map inboundData inbounds)) ''VApplyConfig''"

definition XrayGetInboundTags :: "env \<Rightarrow> int \<Rightarrow> gostResponse prog" where
  "XrayGetInboundTags E nodeId = SendMsg E nodeId DNil ''VGetInboundTags''"

definition XrayDeployCert :: "env \<Rightarrow> int \<Rightarrow> string \<Rightarrow> string \<Rightarrow> string \<Rightarrow> gostResponse prog" where
  "XrayDeployCert E nodeId domain publicKey privateKey =
     SendMsg E nodeId (DCert domain publicKey privateKey) ''VDeployCert''"

lemmas gost_api_defs =
  AddLimiters_def UpdateLimiters_def DeleteLimiters_def AddService_def
  UpdateService_def UpdateForwarder_def UpdateRemoteForwarder_def DeleteService_def
  DeleteServiceMultiIP_def AddRemoteService_def UpdateRemoteService_def DeleteRemoteService_def
  PauseService_def ResumeService_def PauseServiceMultiIP_def ResumeServiceMultiIP_def
  PauseRemoteService_def ResumeRemoteService_def AddChains_def UpdateChains_def
  DeleteChains_def GetServiceNames_def XrayStop_def XrayAddInbound_def
  XrayRemoveInbound_def XrayAddClient_def XrayRemoveClient_def XrayApplyConfig_def
  XrayGetInboundTags_def XrayDeployCert_def

text \<open>A call to a node leaves every table alone, so it keeps whatever is said of the tables.\<close>

definition ignoresSent :: "(panel \<Rightarrow> bool) \<Rightarrow> bool" where
  "ignoresSent I = (\<forall>s l. I (s\<lparr>dbSent := l\<rparr>) = I s)"

lemma keeps_SendMsg: "ignoresSent I \<Longrightarrow> keeps I (SendMsg E n d t)"
  by (rule ws.send_keeps) (simp add: ignoresSent_def)

lemma keeps_api [keeps_intro]:
  assumes "ignoresSent I"
  shows "keeps I (AddLimiters E a1 b1 c1)"
    and "keeps I (UpdateLimiters E a2 b2 c2)"
    and "keeps I (DeleteLimiters E a3 b3)"
    and "keeps I (AddService E a4 b4 c4 d4 e4 f4 g4 h4 k4)"
    and "keeps I (UpdateService E a5 b5 c5 d5 e5 f5 g5 h5 k5)"
    and "keeps I (UpdateForwarder E a6 b6 c6 d6)"
    and "keeps I (UpdateRemoteForwarder E a7 b7 c7 d7)"
    and "keeps I (DeleteService E a8 b8)"
    and "keeps I (DeleteServiceMultiIP E a9 b9 c9)"
    and "keeps I (AddRemoteService E a10 b10 c10 d10 e10 f10 g10)"
    and "keeps I (UpdateRemoteService E a11 b11 c11 d11 e11 f11 g11)"
    and "keeps I (DeleteRemoteService E a12 b12)"
    and "keeps I (PauseService E a13 b13)"
    and "keeps I (ResumeService E a14 b14)"
    and "keeps I (PauseServiceMultiIP E a15 b15 c15)"
    and "keeps I (ResumeServiceMultiIP E a16 b16 c16)"
    and "keeps I (PauseRemoteService E a17 b17)"
    and "keeps I (ResumeRemoteService E a18 b18)"
    and "keeps I (AddChains E a19 b19 c19 d19 e19)"
    and "keeps I (UpdateChains E a20 b20 c20 d20 e20)"
    and "keeps I (DeleteChains E a21 b21)"
    and "keeps I (GetServiceNames E a22)"
    and "keeps I (XrayStop E a23)"
    and "keeps I (XrayAddInbound E a24 b24)"
    and "keeps I (XrayRemoveInbound E a25 b25)"
    and "keeps I (XrayAddClient E a26 b26 c26 d26 e26 f26 g26)"
    and "keeps I (XrayRemoveClient E a27 b27 c27)"
    and "keeps I (XrayApplyConfig E a28 b28)"
    and "keeps I (XrayGetInboundTags E a29)"
    and "keeps I (XrayDeployCert E a30 b30 c30 d30)"
  unfolding gost_api_defs by (rule keeps_SendMsg [OF assms])+

end
