(* ===== verification/Access.thy ===== *)
theory Access
  imports GostApi
begin

text \<open>
  What a user may do: reading rows of the database and the permission, expiry, flow and quota
  checks of \<open>service/forward.go\<close>, \<open>service/user.go\<close> and \<open>service/xray_inbound.go\<close>. All of these
  only read, so they are functions of the panel's state; a refused check is the error that the
  caller returns. Flow limits are multiplied in \<open>int64\<close>, with the wrap-around written out.
\<close>

definition adminRoleId :: int where "adminRoleId = 0"
definition tunnelTypePortForward :: int where "tunnelTypePortForward = 1"
definition tunnelTypeTunnelForward :: int where "tunnelTypeTunnelForward = 2"
definition forwardStatusActive :: int where "forwardStatusActive = 1"
definition forwardStatusPaused :: int where "forwardStatusPaused = 0"
definition forwardStatusError :: int where "forwardStatusError = -1"
definition tunnelStatusActive :: int where "tunnelStatusActive = 1"
definition bytesToGB :: int where "bytesToGB = 1024 * 1024 * 1024"

lemmas status_defs = adminRoleId_def tunnelTypePortForward_def tunnelTypeTunnelForward_def
  forwardStatusActive_def forwardStatusPaused_def forwardStatusError_def tunnelStatusActive_def

section \<open>Reading rows\<close>

definition GetNodeById :: "panel \<Rightarrow> int \<Rightarrow> node option" where
  "GetNodeById s i = rowById nodeID i (dbNodes s)"

definition firstTunnel :: "panel \<Rightarrow> int \<Rightarrow> tunnel option" where
  "firstTunnel s i = rowById tunID i (dbTunnels s)"

definition firstUser :: "panel \<Rightarrow> int \<Rightarrow> user option" where
  "firstUser s i = rowById userID i (dbUsers s)"

definition firstForward :: "panel \<Rightarrow> int \<Rightarrow> forward option" where
  "firstForward s i = rowById fwdID i (dbForwards s)"

definition getUserTunnel :: "panel \<Rightarrow> int \<Rightarrow> int \<Rightarrow> userTunnel option" where
  "getUserTunnel s userId tunnelId =
     find (\<lambda>ut. utUserId ut = userId \<and> utTunnelId ut = tunnelId) (dbUserTunnels s)"

definition validateForwardExists :: "panel \<Rightarrow> int \<Rightarrow> int \<Rightarrow> int \<Rightarrow> forward option" where
  "validateForwardExists s forwardId userId roleId =
     (case firstForward s forwardId of
        None \<Rightarrow> None
      | Some forward \<Rightarrow>
          if roleId \<noteq> adminRoleId \<and> userId \<noteq> fwdUserId forward then None else Some forward)"

definition getRequiredNodes :: "panel \<Rightarrow> tunnel \<Rightarrow> err + (node \<times> node option)" where
  "getRequiredNodes s tunnel =
     (case GetNodeById s (tunInNodeId tunnel) of
        None \<Rightarrow> Inl EInNodeNotFound
      | Some inNode \<Rightarrow>
          if tunType tunnel = tunnelTypeTunnelForward then
            (case GetNodeById s (tunOutNodeId tunnel) of
               None \<Rightarrow> Inl EOutNodeNotFound
             | Some outNode \<Rightarrow> Inr (inNode, Some outNode))
          else Inr (inNode, None))"

section \<open>Node access\<close>

definition UserHasNodeAccess :: "panel \<Rightarrow> int \<Rightarrow> int \<Rightarrow> bool" where
  "UserHasNodeAccess s userId nodeId =
     (filter (\<lambda>un. unUserId un = userId) (dbUserNodes s) = [] \<or>
      filter (\<lambda>un. unUserId un = userId \<and> unNodeId un = nodeId) (dbUserNodes s) \<noteq> [])"

definition UserHasGostNodeAccess :: "panel \<Rightarrow> int \<Rightarrow> int \<Rightarrow> bool" where
  "UserHasGostNodeAccess s userId nodeId =
     (filter (\<lambda>un. unUserId un = userId) (dbUserNodes s) = [] \<or>
      filter (\<lambda>un. unUserId un = userId \<and> unNodeId un = nodeId \<and> unGostEnabled un = 1)
        (dbUserNodes s) \<noteq> [])"

definition checkXrayPermission :: "panel \<Rightarrow> int \<Rightarrow> int \<Rightarrow> err option" where
  "checkXrayPermission s userId roleId =
     (if roleId = 0 then None
      else case firstUser s userId of
          None \<Rightarrow> Some EUserNotFound
        | Some user \<Rightarrow> if userXrayEnabled user \<noteq> 1 then Some ENoXray else None)"

definition checkXrayNodeAccess :: "panel \<Rightarrow> int \<Rightarrow> int \<Rightarrow> int \<Rightarrow> err option" where
  "checkXrayNodeAccess s userId roleId nodeId =
     (if roleId = 0 then None
      else case find (\<lambda>un. unUserId un = userId \<and> unNodeId un = nodeId) (dbUserNodes s) of
          None \<Rightarrow>
            (if filter (\<lambda>un. unUserId un = userId) (dbUserNodes s) = [] then None
             else Some ENoNodeAccess)
        | Some un \<Rightarrow> if unXrayEnabled un \<noteq> 1 then Some ENodeXrayOff else None)"

section \<open>Expiry, flow and quota\<close>

definition expired :: "env \<Rightarrow> int \<Rightarrow> bool" where
  "expired E expTime = (expTime \<noteq> 0 \<and> expTime \<le> now E)"

definition flowUsedUp :: "int \<Rightarrow> int \<Rightarrow> int \<Rightarrow> bool" where
  "flowUsedUp flow inFlow outFlow = (flow \<noteq> 0 \<and> mulI64 flow bytesToGB \<le> addI64 inFlow outFlow)"

definition checkForwardQuota ::
  "panel \<Rightarrow> int \<Rightarrow> int \<Rightarrow> userTunnel \<Rightarrow> user \<Rightarrow> int option \<Rightarrow> err option" where
  "checkForwardQuota s userId tunnelId ut user exclude =
     (let counted = filter (\<lambda>f. fwdUserId f = userId \<and> (case exclude of None \<Rightarrow> True | Some x \<Rightarrow> fwdID f \<noteq> x))
                      (dbForwards s);
          userForwardCount = int (length counted);
          tunnelForwardCount = int (length (filter (\<lambda>f. fwdTunnelId f = tunnelId) counted))
      in if userNum user \<noteq> 0 \<and> userNum user \<le> userForwardCount then Some (EUserQuota (userNum user))
         else if utNum ut \<noteq> 0 \<and> utNum ut \<le> tunnelForwardCount then Some (ETunnelQuota (utNum ut))
         else None)"

text \<open>\<open>checkUserPermissions\<close> returns the limiter (the speed limit's id) and the user-tunnel row
  that the forward will run under.\<close>

definition checkUserPermissions ::
  "env \<Rightarrow> panel \<Rightarrow> int \<Rightarrow> int \<Rightarrow> tunnel \<Rightarrow> int option \<Rightarrow> err + (int option \<times> userTunnel option)" where
  "checkUserPermissions E s userId roleId tunnel exclude =
     (if roleId = adminRoleId then Inr (None, None)
      else case firstUser s userId of
        None \<Rightarrow> Inl EUserNotFound
      | Some user \<Rightarrow>
          if expired E (userExpTime user) then Inl EUserExpired
          else case getUserTunnel s userId (tunID tunnel) of
            None \<Rightarrow> Inl ENoTunnelPermission
          | Some ut \<Rightarrow>
              if utStatus ut \<noteq> 1 then Inl EUserTunnelDisabled
              else if expired E (utExpTime ut) then Inl EUserTunnelExpired
              else if flowUsedUp (userFlow user) (userInFlow user) (userOutFlow user)
              then Inl EUserFlowUsed
              else if flowUsedUp (utFlow ut) (utInFlow ut) (utOutFlow ut) then Inl ETunnelFlowUsed
              else case checkForwardQuota s userId (tunID tunnel) ut user exclude of
                Some e \<Rightarrow> Inl e
              | None \<Rightarrow> Inr (utSpeedId ut, Some ut))"

definition checkUserFlowLimits :: "env \<Rightarrow> panel \<Rightarrow> int \<Rightarrow> tunnel \<Rightarrow> err option" where
  "checkUserFlowLimits E s userId tunnel =
     (case firstUser s userId of
        None \<Rightarrow> Some EUserNotFound
      | Some user \<Rightarrow>
          if expired E (userExpTime user) then Some EUserExpired
          else case getUserTunnel s userId (tunID tunnel) of
            None \<Rightarrow> Some ENoTunnelPermission
          | Some ut \<Rightarrow>
              if expired E (utExpTime ut) then Some EUserTunnelExpired
              else if flowUsedUp (userFlow user) (userInFlow user) (userOutFlow user)
              then Some EUserFlowUsed
              else if flowUsedUp (utFlow ut) (utInFlow ut) (utOutFlow ut) then Some ETunnelFlowUsed
              else None)"

text \<open>The status check that \<open>UpdateForward\<close>, \<open>PauseForward\<close> and \<open>ResumeForward\<close> open with.\<close>

definition checkUserStatus :: "panel \<Rightarrow> int \<Rightarrow> int \<Rightarrow> err option" where
  "checkUserStatus s userId roleId =
     (if roleId \<noteq> adminRoleId then
        (case firstUser s userId of
           None \<Rightarrow> Some EUserNotFound
         | Some user \<Rightarrow> if userStatus user = 0 then Some EUserDisabled else None)
      else None)"

section \<open>Facts\<close>

lemma validateForwardExists_Some:
  "validateForwardExists s i u r = Some f \<longleftrightarrow>
     firstForward s i = Some f \<and> (r \<noteq> adminRoleId \<longrightarrow> fwdUserId f = u)"
  by (auto simp: validateForwardExists_def split: option.splits if_splits)

lemma firstForward_id: "firstForward s i = Some f \<Longrightarrow> fwdID f = i"
  by (simp add: firstForward_def rowById_id)

lemma firstForward_in: "firstForward s i = Some f \<Longrightarrow> f \<in> set (dbForwards s)"
  by (simp add: firstForward_def rowById_in)

lemma firstTunnel_id: "firstTunnel s i = Some t \<Longrightarrow> tunID t = i"
  by (simp add: firstTunnel_def rowById_id)

lemma firstTunnel_in: "firstTunnel s i = Some t \<Longrightarrow> t \<in> set (dbTunnels s)"
  by (simp add: firstTunnel_def rowById_in)

lemma GetNodeById_id: "GetNodeById s i = Some n \<Longrightarrow> nodeID n = i"
  by (simp add: GetNodeById_def rowById_id)

lemma getUserTunnel_Some:
  "getUserTunnel s u t = Some ut \<Longrightarrow> ut \<in> set (dbUserTunnels s) \<and> utUserId ut = u \<and> utTunnelId ut = t"
  by (auto simp: getUserTunnel_def find_Some_iff)

lemma getRequiredNodes_Inr:
  "getRequiredNodes s t = Inr (i, out) \<Longrightarrow>
     nodeID i = tunInNodeId t \<and> (out = None \<longleftrightarrow> tunType t \<noteq> tunnelTypeTunnelForward)
     \<and> (\<forall>n. out = Some n \<longrightarrow> nodeID n = tunOutNodeId t)"
  by (auto simp: getRequiredNodes_def split: option.splits if_splits dest!: sym [of "Some _"]
      dest: GetNodeById_id)

text \<open>A product that fits \<open>int64\<close> is not changed by the wrap-around: for a limit below
  \<open>2 ^ 33\<close> gigabytes the check compares the true numbers.\<close>

lemma mulI64_bytesToGB:
  "0 \<le> f \<Longrightarrow> f < 2 ^ 33 \<Longrightarrow> mulI64 f bytesToGB = f * bytesToGB"
  by (simp add: mulI64_def wrapI64_id bytesToGB_def minInt64_def maxInt64_def)

lemma addI64_id: "minInt64 \<le> a + b \<Longrightarrow> a + b \<le> maxInt64 \<Longrightarrow> addI64 a b = a + b"
  by (simp add: addI64_def wrapI64_id)

lemma flowUsedUp_exact:
  assumes "0 \<le> flow" "flow < 2 ^ 33" "0 \<le> a" "0 \<le> b" "a + b \<le> maxInt64"
  shows "flowUsedUp flow a b \<longleftrightarrow> flow \<noteq> 0 \<and> flow * bytesToGB \<le> a + b"
  using assms by (simp add: flowUsedUp_def mulI64_bytesToGB addI64_id minInt64_def)

lemma checkUserPermissions_Inr:
  assumes "checkUserPermissions E s u r t excl = Inr (limiter, uto)" "r \<noteq> adminRoleId"
  obtains user ut where "firstUser s u = Some user" "getUserTunnel s u (tunID t) = Some ut"
    "\<not> expired E (userExpTime user)" "\<not> expired E (utExpTime ut)" "utStatus ut = 1"
    "\<not> flowUsedUp (userFlow user) (userInFlow user) (userOutFlow user)"
    "\<not> flowUsedUp (utFlow ut) (utInFlow ut) (utOutFlow ut)"
    "checkForwardQuota s u (tunID t) ut user excl = None" "limiter = utSpeedId ut" "uto = Some ut"
  using assms by (auto simp: checkUserPermissions_def split: option.splits if_splits)

lemma checkForwardQuota_None:
  "checkForwardQuota s u t ut user None = None \<longleftrightarrow>
     (userNum user = 0 \<or> int (length (filter (\<lambda>f. fwdUserId f = u) (dbForwards s))) < userNum user) \<and>
     (utNum ut = 0 \<or> int (length (filter (\<lambda>f. fwdUserId f = u \<and> fwdTunnelId f = t) (dbForwards s)))
        < utNum ut)"
  by (auto simp: checkForwardQuota_def Let_def conj_commute)

text \<open>The gate of \<open>ResumeForward\<close> is the permission check without the status of the
  user-tunnel row and without the quota.\<close>

lemma checkUserFlowLimits_of_permissions:
  "checkUserPermissions E s u r t excl = Inr x \<Longrightarrow> r \<noteq> adminRoleId \<Longrightarrow> checkUserFlowLimits E s u t = None"
  by (cases x) (auto elim!: checkUserPermissions_Inr simp: checkUserFlowLimits_def)

end
