(* ===== verification/Addresses.thy ===== *)
theory Addresses
  imports Panel "HOL-Library.Word"
begin

unbundle bit_operations_syntax

text \<open>
  Target addresses: the parsing helpers of \<open>service/forward.go\<close> and its protection against
  forwarding into private networks. \<open>net.ParseIP\<close> is modelled in full (dotted IPv4, IPv6 with
  an ellipsis and an embedded IPv4 tail, no zones); an IPv4-mapped IPv6 address is the IPv4
  address, as \<open>IPNet.Contains\<close> treats it. Name resolution is the field \<open>lookupIP\<close> of \<open>env\<close>: the
  textual form of the addresses a name resolves to, or \<open>None\<close> if the lookup fails.
\<close>

section \<open>net.ParseIP\<close>

datatype ipAddr = IPv4 "32 word" | IPv6 "128 word"

definition octet :: "string \<Rightarrow> nat option" where
  "octet p =
     (if p = [] \<or> \<not> list_all isDigit p \<or> (1 < length p \<and> hd p = CHR ''0'') \<or> 255 < strToNat p
      then None else Some (strToNat p))"

definition parseIPv4 :: "string \<Rightarrow> int option" where
  "parseIPv4 s =
     (case map octet (splitOn CHR ''.'' s) of
        [Some a, Some b, Some c, Some d] \<Rightarrow> Some (((int a * 256 + int b) * 256 + int c) * 256 + int d)
      | _ \<Rightarrow> None)"

definition hexVal :: "char \<Rightarrow> int option" where
  "hexVal c =
     (let n = of_char c :: int
      in if 48 \<le> n \<and> n \<le> 57 then Some (n - 48)
         else if 97 \<le> n \<and> n \<le> 102 then Some (n - 87)
         else if 65 \<le> n \<and> n \<le> 70 then Some (n - 55)
         else None)"

definition hexGroup :: "string \<Rightarrow> int" where
  "hexGroup p = foldl (\<lambda>acc c. 16 * acc + the (hexVal c)) 0 p"

text \<open>The loop over the 16-bit groups: \<open>k\<close> groups are still free, \<open>gs\<close> are those read (last one
  first), \<open>ell\<close> is the number of groups in front of the ellipsis.\<close>

fun parseGroups :: "nat \<Rightarrow> int list \<Rightarrow> nat option \<Rightarrow> string \<Rightarrow> (int list \<times> nat option) option" where
  "parseGroups 0 gs ell s = (if s = [] then Some (gs, ell) else None)"
| "parseGroups (Suc k) gs ell s =
     (let p = takeWhile (\<lambda>c. hexVal c \<noteq> None) s; rest = dropWhile (\<lambda>c. hexVal c \<noteq> None) s
      in if p = [] \<or> 4 < length p then None
         else (case rest of
           [] \<Rightarrow> Some (hexGroup p # gs, ell)
         | c # rest' \<Rightarrow>
             if c = CHR ''.'' then
               (if (ell = None \<and> length gs \<noteq> 6) \<or> k = 0 then None
                else map_option (\<lambda>v. (v mod 65536 # v div 65536 # gs, ell)) (parseIPv4 s))
             else if c \<noteq> CHR '':'' then None
             else (case rest' of
               [] \<Rightarrow> None
             | d # rest'' \<Rightarrow>
                 if d = CHR '':'' then
                   (if ell \<noteq> None then None
                    else if rest'' = [] then Some (hexGroup p # gs, Some (Suc (length gs)))
                    else parseGroups k (hexGroup p # gs) (Some (Suc (length gs))) rest'')
                 else parseGroups k (hexGroup p # gs) ell rest')))"

definition joinGroups :: "int list \<Rightarrow> int" where
  "joinGroups gs = foldl (\<lambda>acc g. 65536 * acc + g) 0 gs"

definition parseIPv6 :: "string \<Rightarrow> int option" where
  "parseIPv6 s =
     (if s = ''::'' then Some 0
      else case (if hasPrefix s ''::'' then parseGroups 8 [] (Some 0) (drop 2 s)
                 else parseGroups 8 [] None s) of
        None \<Rightarrow> None
      | Some (gs, ell) \<Rightarrow>
          let groups = rev gs
          in (case ell of
                None \<Rightarrow> if length groups = 8 then Some (joinGroups groups) else None
              | Some e \<Rightarrow>
                  if length groups < 8
                  then Some (joinGroups (take e groups @ replicate (8 - length groups) 0 @ drop e groups))
                  else None))"

definition parseIP :: "string \<Rightarrow> ipAddr option" where
  "parseIP s =
     (case find (\<lambda>c. c = CHR ''.'' \<or> c = CHR '':'' \<or> c = CHR ''%'') s of
        Some c \<Rightarrow>
          if c = CHR ''.'' then map_option (\<lambda>n. IPv4 (of_int n)) (parseIPv4 s)
          else if c = CHR '':'' then
            map_option (\<lambda>n. if n div 2 ^ 32 = 65535 then IPv4 (of_int (n mod 2 ^ 32)) else IPv6 (of_int n))
              (parseIPv6 s)
          else None
      | None \<Rightarrow> None)"

section \<open>Private ranges\<close>

definition v4 :: "int \<Rightarrow> int \<Rightarrow> int \<Rightarrow> int \<Rightarrow> 32 word" where
  "v4 a b c d = of_int (((a * 256 + b) * 256 + c) * 256 + d)"

definition privateV4 :: "(32 word \<times> nat) list" where
  "privateV4 = [(v4 127 0 0 0, 8), (v4 10 0 0 0, 8), (v4 172 16 0 0, 12), (v4 192 168 0 0, 16),
                (v4 169 254 0 0, 16)]"

definition privateV6 :: "(128 word \<times> nat) list" where
  "privateV6 = [(1, 128), (push_bit 112 0xfc00, 7), (push_bit 112 0xfe80, 10)]"

fun isPrivateAddr :: "ipAddr \<Rightarrow> bool" where
  "isPrivateAddr (IPv4 w) = list_ex (\<lambda>(net, n). w AND push_bit (32 - n) (mask n) = net) privateV4"
| "isPrivateAddr (IPv6 w) = list_ex (\<lambda>(net, n). w AND push_bit (128 - n) (mask n) = net) privateV6"

definition isPrivateIP :: "string \<Rightarrow> bool" where
  "isPrivateIP ipStr = (case parseIP ipStr of None \<Rightarrow> False | Some ip \<Rightarrow> isPrivateAddr ip)"

section \<open>Addresses\<close>

definition formatRemoteAddr :: "string \<Rightarrow> int \<Rightarrow> string" where
  "formatRemoteAddr ip port =
     (if strContains ip '':'' then ''['' @ ip @ '']:'' @ itoa port
      else ip @ '':'' @ itoa port)"

definition extractIpFromAddress :: "string \<Rightarrow> string" where
  "extractIpFromAddress addr =
     (let address = trimSpace addr;
          hostPort = (case lastIndexOf address CHR '':'' of
                        Some lastColon \<Rightarrow> if 0 < lastColon then take lastColon address else address
                      | None \<Rightarrow> address)
      in if address = [] then []
         else if hasPrefix address ''['' then
           (case indexOf address CHR '']'' of
              Some closeBracket \<Rightarrow>
                if 1 < closeBracket then drop 1 (take closeBracket address) else hostPort
            | None \<Rightarrow> hostPort)
         else hostPort)"

fun portDigits :: "int \<Rightarrow> string \<Rightarrow> int" where
  "portDigits port [] = port"
| "portDigits port (c # cs) =
     (if \<not> isDigit c then -1
      else portDigits (addI64 (mulI64 port 10) (int (digitVal c))) cs)"

definition extractPortFromAddress :: "string \<Rightarrow> int" where
  "extractPortFromAddress addr =
     (let address = trimSpace addr;
          hostPort = (case lastIndexOf address CHR '':'' of
                        Some lastColon \<Rightarrow>
                          if 0 < lastColon \<and> lastColon + 1 < length address
                          then portDigits 0 (drop (lastColon + 1) address) else -1
                      | None \<Rightarrow> -1)
      in if address = [] then -1
         else if hasPrefix address ''['' then
           (case indexOf address CHR '']'' of
              Some closeBracket \<Rightarrow>
                if 1 < closeBracket \<and> closeBracket + 1 < length address
                   \<and> address ! (closeBracket + 1) = CHR '':''
                then portDigits 0 (drop (closeBracket + 2) address) else hostPort
            | None \<Rightarrow> hostPort)
         else hostPort)"

section \<open>The check of the targets\<close>

fun firstForbidden :: "env \<Rightarrow> string list \<Rightarrow> err option" where
  "firstForbidden E [] = None"
| "firstForbidden E (addr # addrs) =
     (let host = extractIpFromAddress (trimSpace addr)
      in if host = [] then firstForbidden E addrs
         else if isPrivateIP host then Some (EForbiddenAddr host)
         else if parseIP host = None then
           (case lookupIP E host of
              None \<Rightarrow> firstForbidden E addrs
            | Some ips \<Rightarrow>
                if list_ex isPrivateIP ips then Some (EForbiddenAddr host)
                else firstForbidden E addrs)
         else firstForbidden E addrs)"

definition validateRemoteAddr :: "env \<Rightarrow> string \<Rightarrow> int \<Rightarrow> err option" where
  "validateRemoteAddr E remoteAddr roleId =
     (if roleId = 0 then None else firstForbidden E (splitOn CHR '','' remoteAddr))"

section \<open>Facts\<close>

text \<open>Where an accepted list of targets may lead.\<close>

definition publicHost :: "env \<Rightarrow> string \<Rightarrow> bool" where
  "publicHost E host =
     (\<not> isPrivateIP host \<and>
      (parseIP host = None \<longrightarrow> (\<forall>ips. lookupIP E host = Some ips \<longrightarrow> \<not> list_ex isPrivateIP ips)))"

lemma trimSpace_nil [simp]: "trimSpace [] = []"
  by (simp add: trimSpace_def)

lemma firstForbidden_None:
  "firstForbidden E addrs = None \<longleftrightarrow>
     (\<forall>a \<in> set addrs. extractIpFromAddress (trimSpace a) = [] \<or>
        publicHost E (extractIpFromAddress (trimSpace a)))"
  by (induction addrs) (auto simp: Let_def publicHost_def split: option.splits)

lemma isPrivateIP_nil [simp]: "\<not> isPrivateIP []"
  by (simp add: isPrivateIP_def parseIP_def)

lemma hd_dropWhile_not: "dropWhile P xs \<noteq> [] \<Longrightarrow> \<not> P (hd (dropWhile P xs))"
  by (rule hd_dropWhile)

lemma trimSpace_last: "trimSpace s \<noteq> [] \<Longrightarrow> \<not> isSpace (last (trimSpace s))"
  by (simp add: trimSpace_def last_rev hd_dropWhile)

lemma trimSpace_hd: "trimSpace s \<noteq> [] \<Longrightarrow> \<not> isSpace (hd (trimSpace s))"
proof -
  assume ne: "trimSpace s \<noteq> []"
  let ?t = "dropWhile isSpace s"
  obtain w where w: "rev ?t = w @ dropWhile isSpace (rev ?t)"
    by (metis takeWhile_dropWhile_id)
  then have "?t = trimSpace s @ rev w"
    by (metis rev_append rev_rev_ident trimSpace_def)
  with ne have "hd (trimSpace s) = hd ?t" "?t \<noteq> []" by (metis hd_append, force)
  then show ?thesis by (metis hd_dropWhile)
qed

lemma trimSpace_idem [simp]: "trimSpace (trimSpace s) = trimSpace s"
proof (cases "trimSpace s = []")
  case False
  have "dropWhile isSpace (trimSpace s) = trimSpace s"
    using False trimSpace_hd [OF False] by (cases "trimSpace s") auto
  moreover have "dropWhile isSpace (rev (trimSpace s)) = rev (trimSpace s)"
    using False trimSpace_last [OF False] by (cases "trimSpace s" rule: rev_cases) auto
  ultimately show ?thesis by (metis rev_rev_ident trimSpace_def)
qed simp

lemma portDigits_natToStr:
  "list_all isDigit s \<Longrightarrow> 0 \<le> acc \<Longrightarrow> acc * 10 ^ length s + int (strToNat s) \<le> maxInt64 \<Longrightarrow>
   portDigits acc s = acc * 10 ^ length s + int (strToNat s)"
proof (induction s arbitrary: acc)
  case Nil
  then show ?case by (simp add: strToNat_def)
next
  case (Cons c cs)
  have fold: "foldl (\<lambda>acc c. 10 * acc + digitVal c) n xs = n * 10 ^ length xs + strToNat xs"
    for n xs
  proof (induction xs arbitrary: n)
    case Nil
    then show ?case by (simp add: strToNat_def)
  next
    case (Cons x xs)
    show ?case
      using Cons [of "10 * n + digitVal x"] Cons [of "digitVal x"]
      by (simp add: strToNat_def algebra_simps)
  qed
  have val: "strToNat (c # cs) = digitVal c * 10 ^ length cs + strToNat cs"
    using fold [of "digitVal c" cs] by (simp add: strToNat_def)
  let ?acc = "acc * 10 + int (digitVal c)"
  have total: "acc * 10 ^ length (c # cs) + int (strToNat (c # cs))
             = ?acc * 10 ^ length cs + int (strToNat cs)"
    by (simp add: val algebra_simps)
  have "?acc \<le> ?acc * 10 ^ length cs"
    using Cons.prems(2) by (simp add: mult_le_cancel_left1)
  then have le: "?acc \<le> maxInt64"
    using Cons.prems(3) unfolding total by linarith
  then have "addI64 (mulI64 acc 10) (int (digitVal c)) = ?acc"
    using Cons.prems(2) by (simp add: addI64_def mulI64_def wrapI64_id minInt64_def)
  then show ?case
    using Cons total by simp
qed

lemma portDigits_itoa: "0 \<le> p \<Longrightarrow> p \<le> maxInt64 \<Longrightarrow> portDigits 0 (itoa p) = p"
  using portDigits_natToStr [of "natToStr (nat p)" 0] natToStr_digits by (simp add: itoa_def)

lemma itoa_no_space: "c \<in> set (itoa i) \<Longrightarrow> \<not> isSpace c"
proof -
  have "\<not> isSpace CHR ''-''" by (simp add: isSpace_def)
  then show "c \<in> set (itoa i) \<Longrightarrow> \<not> isSpace c" using itoa_chars [of c i] isDigit_no_minus [of c] by metis
qed

lemma itoa_no_bracket [simp]: "CHR '']'' \<notin> set (itoa i)"
  using itoa_chars [of "CHR '']''" i] isDigit_no_minus by auto

lemma formatRemoteAddr_no_space:
  "\<forall>c \<in> set ip. \<not> isSpace c \<Longrightarrow> trimSpace (formatRemoteAddr ip port) = formatRemoteAddr ip port"
  using itoa_no_space by (intro trimSpace_id) (auto simp: formatRemoteAddr_def isSpace_def)

lemma formatRemoteAddr_nonempty [simp]: "formatRemoteAddr ip port \<noteq> []"
  by (simp add: formatRemoteAddr_def)

lemma formatRemoteAddr_v6:
  "CHR '':'' \<in> set ip \<Longrightarrow> formatRemoteAddr ip port = CHR ''['' # ip @ CHR '']'' # CHR '':'' # itoa port"
  by (simp add: formatRemoteAddr_def strContains_char)

lemma formatRemoteAddr_v4:
  "CHR '':'' \<notin> set ip \<Longrightarrow> formatRemoteAddr ip port = ip @ CHR '':'' # itoa port"
  by (simp add: formatRemoteAddr_def strContains_char)

text \<open>A host without blanks and brackets.\<close>

definition plainHost :: "string \<Rightarrow> bool" where
  "plainHost ip = (ip \<noteq> [] \<and> (\<forall>c \<in> set ip. \<not> isSpace c \<and> c \<noteq> CHR ''['' \<and> c \<noteq> CHR '']''))"

lemma plainHost_prefix: "plainHost ip \<Longrightarrow> \<not> hasPrefix (ip @ t) ''[''"
  by (cases ip) (auto simp: plainHost_def)

lemma extractIp_format:
  assumes "plainHost ip"
  shows "extractIpFromAddress (formatRemoteAddr ip port) = ip"
proof (cases "CHR '':'' \<in> set ip")
  case True
  have "indexOf (formatRemoteAddr ip port) CHR '']'' = Some (length ip + 1)"
    using assms indexOf_append [of "CHR '']''" "CHR ''['' # ip"]
    by (auto simp: formatRemoteAddr_v6 [OF True] plainHost_def)
  moreover have "ip \<noteq> []" using True by auto
  ultimately show ?thesis
    using assms formatRemoteAddr_no_space [of ip port]
    by (simp add: extractIpFromAddress_def Let_def formatRemoteAddr_v6 [OF True] plainHost_def)
next
  case False
  show ?thesis
    using assms formatRemoteAddr_no_space [of ip port] plainHost_prefix [OF assms, of "CHR '':'' # itoa port"]
      lastIndexOf_append [of "CHR '':''" "itoa port" ip]
    by (simp add: extractIpFromAddress_def Let_def formatRemoteAddr_v4 [OF False] plainHost_def)
qed

lemma extractPort_format:
  assumes "plainHost ip" "0 \<le> port" "port \<le> maxInt64"
  shows "extractPortFromAddress (formatRemoteAddr ip port) = port"
proof (cases "CHR '':'' \<in> set ip")
  case True
  have "indexOf (formatRemoteAddr ip port) CHR '']'' = Some (length ip + 1)"
    using assms indexOf_append [of "CHR '']''" "CHR ''['' # ip"]
    by (auto simp: formatRemoteAddr_v6 [OF True] plainHost_def)
  moreover have "ip \<noteq> []" using True by auto
  ultimately show ?thesis
    using assms formatRemoteAddr_no_space [of ip port]
    by (simp add: extractPortFromAddress_def Let_def formatRemoteAddr_v6 [OF True] plainHost_def
        portDigits_itoa nth_append)
next
  case False
  show ?thesis
    using assms formatRemoteAddr_no_space [of ip port] plainHost_prefix [OF assms(1), of "CHR '':'' # itoa port"]
      lastIndexOf_append [of "CHR '':''" "itoa port" ip]
    by (simp add: extractPortFromAddress_def Let_def formatRemoteAddr_v4 [OF False] plainHost_def
        portDigits_itoa)
qed

text \<open>What \<open>buildForwarder\<close> tells a node to dial comes from the list that was checked.\<close>

lemma forwarder_addr:
  assumes "n \<in> set (forNodes (buildForwarder remoteAddr strategy))"
  obtains addr where "addr \<in> set (splitOn CHR '','' remoteAddr)" "fnAddr n = trimSpace addr"
  using assms by (auto simp: buildForwarder_def dest: enumerate_in)

end
