(* ===== verification/GostServices.thy ===== *)
theory GostServices
  imports GostApi Access Addresses
begin

text \<open>
  The service management of \<open>service/forward.go\<close>: how a forward becomes chains, relay services
  and listeners on its tunnel's nodes, and how they are taken down again. As in the code an error
  is the message of the node that refused, and the empty string is success. A tunnel forward
  without an exit node would dereference \<open>nil\<close> (\<open>nilDeref\<close>); \<open>getRequiredNodes\<close> rules that out.
\<close>

definition gostSuccessMsg :: string where "gostSuccessMsg = ''OK''"
definition gostNotFoundMsg :: string where "gostNotFoundMsg = ''not found''"
definition nilDeref :: string where "nilDeref = ''nil pointer dereference''"

definition buildServiceName :: "int \<Rightarrow> int \<Rightarrow> userTunnel option \<Rightarrow> string" where
  "buildServiceName forwardId userId ut =
     itoa forwardId @ ''_'' @ itoa userId @ ''_'' @ itoa (case ut of None \<Rightarrow> 0 | Some t \<Rightarrow> utID t)"

definition isGostSuccess :: "gostResponse \<Rightarrow> bool" where
  "isGostSuccess r = (respMsg r = gostSuccessMsg)"

definition gostNotFound :: "gostResponse \<Rightarrow> bool" where
  "gostNotFound r = strContains (respMsg r) gostNotFoundMsg"

text \<open>The override of the tunnel's listen addresses by a forward's own.\<close>

definition overrideListen :: "tunnel \<Rightarrow> string \<Rightarrow> tunnel" where
  "overrideListen t listenIp =
     (if listenIp \<noteq> [] then t\<lparr>tunTcpListenAddr := listenIp, tunUdpListenAddr := listenIp\<rparr> else t)"

definition createGostServices ::
  "env \<Rightarrow> forward \<Rightarrow> tunnel \<Rightarrow> int option \<Rightarrow> node \<Rightarrow> node option \<Rightarrow> string \<Rightarrow> string prog" where
  "createGostServices E f tunnel limiter inNode outNode serviceName =
     (let inID = nodeID inNode;
          interfaceName = (if tunType tunnel \<noteq> tunnelTypeTunnelForward then fwdInterfaceName f else []);
          mainService = do {
            serviceResult \<leftarrow> AddService E inID serviceName (fwdInPort f) limiter (fwdRemoteAddr f)
              (tunType tunnel) tunnel (fwdStrategy f) interfaceName;
            if \<not> isGostSuccess serviceResult then do {
              DeleteChains E inID serviceName;
              (case outNode of
                 None \<Rightarrow> return (respMsg serviceResult)
               | Some o' \<Rightarrow> do {
                   DeleteRemoteService E (nodeID o') serviceName;
                   return (respMsg serviceResult) })
            } else return [] }
      in if tunType tunnel = tunnelTypeTunnelForward then do {
           chainResult \<leftarrow> AddChains E inID serviceName
             (formatRemoteAddr (tunOutIp tunnel) (fwdOutPort f)) (tunProtocol tunnel)
             (tunInterfaceName tunnel);
           if \<not> isGostSuccess chainResult then do {
             DeleteChains E inID serviceName;
             return (respMsg chainResult)
           } else (case outNode of
             None \<Rightarrow> return nilDeref
           | Some o' \<Rightarrow> do {
               remoteResult \<leftarrow> AddRemoteService E (nodeID o') serviceName (fwdOutPort f)
                 (fwdRemoteAddr f) (tunProtocol tunnel) (fwdStrategy f) (fwdInterfaceName f);
               if \<not> isGostSuccess remoteResult then do {
                 DeleteChains E inID serviceName;
                 DeleteRemoteService E (nodeID o') serviceName;
                 return (respMsg remoteResult)
               } else mainService }) }
         else mainService)"

definition updateForwardStatusToError :: "int \<Rightarrow> unit prog" where
  "updateForwardStatusToError forwardId =
     modify (\<lambda>s. s\<lparr>dbForwards := updateRows (\<lambda>f. fwdID f = forwardId)
       (\<lambda>f. f\<lparr>fwdStatus := forwardStatusError\<rparr>) (dbForwards s)\<rparr>)"

text \<open>An update of what may not be there: \<open>not found\<close> falls back to the creation.\<close>

definition orCreate :: "gostResponse prog \<Rightarrow> gostResponse prog \<Rightarrow> gostResponse prog" where
  "orCreate update create = do { r \<leftarrow> update; if gostNotFound r then create else return r }"

definition syncGostServices ::
  "env \<Rightarrow> forward \<Rightarrow> tunnel \<Rightarrow> int option \<Rightarrow> node \<Rightarrow> node option \<Rightarrow> string \<Rightarrow> string prog" where
  "syncGostServices E f tunnel limiter inNode outNode serviceName =
     (let inID = nodeID inNode;
          interfaceName = (if tunType tunnel \<noteq> tunnelTypeTunnelForward then fwdInterfaceName f else []);
          chainRemoteAddr = formatRemoteAddr (tunOutIp tunnel) (fwdOutPort f);
          mainService = do {
            serviceResult \<leftarrow> orCreate
              (UpdateService E inID serviceName (fwdInPort f) limiter (fwdRemoteAddr f)
                 (tunType tunnel) tunnel (fwdStrategy f) interfaceName)
              (AddService E inID serviceName (fwdInPort f) limiter (fwdRemoteAddr f)
                 (tunType tunnel) tunnel (fwdStrategy f) interfaceName);
            return (if \<not> isGostSuccess serviceResult then respMsg serviceResult else []) }
      in if tunType tunnel = tunnelTypeTunnelForward then do {
           chainResult \<leftarrow> orCreate
             (UpdateChains E inID serviceName chainRemoteAddr (tunProtocol tunnel) (tunInterfaceName tunnel))
             (AddChains E inID serviceName chainRemoteAddr (tunProtocol tunnel) (tunInterfaceName tunnel));
           if \<not> isGostSuccess chainResult then return (respMsg chainResult)
           else (case outNode of
             None \<Rightarrow> return nilDeref
           | Some o' \<Rightarrow> do {
               remoteResult \<leftarrow> orCreate
                 (UpdateRemoteService E (nodeID o') serviceName (fwdOutPort f) (fwdRemoteAddr f)
                    (tunProtocol tunnel) (fwdStrategy f) (fwdInterfaceName f))
                 (AddRemoteService E (nodeID o') serviceName (fwdOutPort f) (fwdRemoteAddr f)
                    (tunProtocol tunnel) (fwdStrategy f) (fwdInterfaceName f));
               if \<not> isGostSuccess remoteResult then return (respMsg remoteResult)
               else mainService }) }
         else mainService)"

definition updateGostServices ::
  "env \<Rightarrow> forward \<Rightarrow> tunnel \<Rightarrow> int option \<Rightarrow> node \<Rightarrow> node option \<Rightarrow> string \<Rightarrow> string prog" where
  "updateGostServices E f tunnel limiter inNode outNode serviceName = do {
     errStr \<leftarrow> syncGostServices E f tunnel limiter inNode outNode serviceName;
     if errStr \<noteq> [] then do { updateForwardStatusToError (fwdID f); return errStr } else return errStr }"

definition deleteGostServicesWithIP ::
  "env \<Rightarrow> tunnel \<Rightarrow> node \<Rightarrow> node option \<Rightarrow> string \<Rightarrow> string \<Rightarrow> string prog" where
  "deleteGostServicesWithIP E tunnel inNode outNode serviceName listenIp = do {
     serviceResult \<leftarrow>
       (if listenIp \<noteq> [] \<and> strContains listenIp '',''
        then DeleteServiceMultiIP E (nodeID inNode) serviceName listenIp
        else DeleteService E (nodeID inNode) serviceName);
     if \<not> isGostSuccess serviceResult \<and> \<not> gostNotFound serviceResult
     then return (respMsg serviceResult)
     else if tunType tunnel = tunnelTypeTunnelForward then do {
       chainResult \<leftarrow> DeleteChains E (nodeID inNode) serviceName;
       if \<not> isGostSuccess chainResult \<and> \<not> gostNotFound chainResult
       then return (respMsg chainResult)
       else (case outNode of
         None \<Rightarrow> return []
       | Some o' \<Rightarrow> do {
           remoteResult \<leftarrow> DeleteRemoteService E (nodeID o') serviceName;
           if \<not> isGostSuccess remoteResult \<and> \<not> gostNotFound remoteResult
           then return (respMsg remoteResult) else return [] }) }
     else return [] }"

definition deleteGostServices ::
  "env \<Rightarrow> tunnel \<Rightarrow> node \<Rightarrow> node option \<Rightarrow> string \<Rightarrow> string prog" where
  "deleteGostServices E tunnel inNode outNode serviceName =
     deleteGostServicesWithIP E tunnel inNode outNode serviceName []"

definition deleteOldGostServices :: "env \<Rightarrow> forward \<Rightarrow> tunnel \<Rightarrow> unit prog" where
  "deleteOldGostServices E f oldTunnel = do {
     s \<leftarrow> gets (\<lambda>s. s);
     let serviceName = buildServiceName (fwdID f) (fwdUserId f)
                         (getUserTunnel s (fwdUserId f) (tunID oldTunnel));
     let nodes = getRequiredNodes s oldTunnel;
     (case nodes of
        Inl _ \<Rightarrow> return ()
      | Inr (oldInNode, _) \<Rightarrow> do {
          (if fwdListenIp f \<noteq> [] \<and> strContains (fwdListenIp f) '',''
           then DeleteServiceMultiIP E (nodeID oldInNode) serviceName (fwdListenIp f)
           else DeleteService E (nodeID oldInNode) serviceName);
          return () });
     if tunType oldTunnel = tunnelTypeTunnelForward then do {
       (case nodes of
          Inl _ \<Rightarrow> return ()
        | Inr (oldInNode, _) \<Rightarrow> do { DeleteChains E (nodeID oldInNode) serviceName; return () });
       (case (case nodes of Inl _ \<Rightarrow> GetNodeById s (tunOutNodeId oldTunnel) | Inr (_, oldOut) \<Rightarrow> oldOut) of
          None \<Rightarrow> return ()
        | Some outNode \<Rightarrow> do { DeleteRemoteService E (nodeID outNode) serviceName; return () }) }
     else return () }"

section \<open>Frames\<close>

lemma keeps_createGostServices [keeps_intro]:
  "ignoresSent I \<Longrightarrow> keeps I (createGostServices E f t l i outn n)"
  unfolding createGostServices_def Let_def by (intro keeps_intro) assumption+

lemma keeps_orCreate [keeps_intro]: "keeps I m \<Longrightarrow> keeps I n \<Longrightarrow> keeps I (orCreate m n)"
  unfolding orCreate_def by (intro keeps_intro)

lemma keeps_syncGostServices [keeps_intro]:
  "ignoresSent I \<Longrightarrow> keeps I (syncGostServices E f t l i outn n)"
  unfolding syncGostServices_def Let_def by (intro keeps_intro) assumption+

lemma keeps_deleteGostServicesWithIP [keeps_intro]:
  "ignoresSent I \<Longrightarrow> keeps I (deleteGostServicesWithIP E t i outn n ip)"
  unfolding deleteGostServicesWithIP_def by (intro keeps_intro) assumption+

lemma keeps_deleteOldGostServices [keeps_intro]:
  "ignoresSent I \<Longrightarrow> keeps I (deleteOldGostServices E f t)"
  unfolding deleteOldGostServices_def Let_def by (intro keeps_intro) assumption+

lemma keeps_updateForwardStatusToError:
  "(\<And>s. I s \<Longrightarrow> I (s\<lparr>dbForwards := updateRows (\<lambda>f. fwdID f = i)
      (\<lambda>f. f\<lparr>fwdStatus := forwardStatusError\<rparr>) (dbForwards s)\<rparr>)) \<Longrightarrow>
   keeps I (updateForwardStatusToError i)"
  unfolding updateForwardStatusToError_def by (rule keeps_modify)

lemma keeps_updateGostServices [keeps_intro]:
  "ignoresSent I \<Longrightarrow> keeps I (updateForwardStatusToError (fwdID f)) \<Longrightarrow>
   keeps I (updateGostServices E f t l i outn n)"
  unfolding updateGostServices_def by (intro keeps_intro) assumption+

text \<open>A program that only talks to nodes leaves every table as it is.\<close>

lemma talks_frame:
  assumes "\<And>I. ignoresSent I \<Longrightarrow> keeps I m"
  shows "exec m s = s\<lparr>dbSent := dbSent (exec m s)\<rparr>"
proof -
  have "ignoresSent (\<lambda>s'. s'\<lparr>dbSent := []\<rparr> = s\<lparr>dbSent := []\<rparr>)"
    by (simp add: ignoresSent_def)
  from keepsD [OF assms [OF this], of s] have "(exec m s)\<lparr>dbSent := []\<rparr> = s\<lparr>dbSent := []\<rparr>"
    by simp
  then have "((exec m s)\<lparr>dbSent := []\<rparr>)\<lparr>dbSent := dbSent (exec m s)\<rparr>
           = (s\<lparr>dbSent := []\<rparr>)\<lparr>dbSent := dbSent (exec m s)\<rparr>"
    by (rule arg_cong)
  then show ?thesis by simp
qed

lemma forwards_createGostServices [simp]:
  "dbForwards (exec (createGostServices E f t l i outn n) s) = dbForwards s"
  by (subst talks_frame [OF keeps_createGostServices]) simp_all

lemma forwards_syncGostServices [simp]:
  "dbForwards (exec (syncGostServices E f t l i outn n) s) = dbForwards s"
  by (subst talks_frame [OF keeps_syncGostServices]) simp_all

lemma forwards_deleteGostServicesWithIP [simp]:
  "dbForwards (exec (deleteGostServicesWithIP E t i outn n ip) s) = dbForwards s"
  by (subst talks_frame [OF keeps_deleteGostServicesWithIP]) simp_all

lemma forwards_deleteOldGostServices [simp]:
  "dbForwards (exec (deleteOldGostServices E f t) s) = dbForwards s"
  by (subst talks_frame [OF keeps_deleteOldGostServices]) simp_all

end
