(* ===== verification/NodeView.thy ===== *)
theory NodeView
  imports GostServices
begin

text \<open>
  What a node holds after the commands the panel sent it: the abstract view that the service
  management is measured against. A creation or an update is taken to be carried out whatever the
  answer (a node that timed out may have executed it), a deletion as soon as it reached the node.
\<close>

definition svcStep :: "int \<Rightarrow> string \<Rightarrow> bool \<Rightarrow> cmd \<Rightarrow> bool" where
  "svcStep n name held c =
     (if cmdNode c \<noteq> n then held
      else case cmdData c of
        DServices svcs \<Rightarrow>
          if name \<in> set (map svcName svcs) \<and> (cmdType c = ''AddService'' \<or> cmdType c = ''UpdateService'')
          then True else held
      | DNames names \<Rightarrow> if name \<in> set names \<and> cmdType c = ''DeleteService'' then False else held
      | _ \<Rightarrow> held)"

definition chainStep :: "int \<Rightarrow> string \<Rightarrow> bool \<Rightarrow> cmd \<Rightarrow> bool" where
  "chainStep n name held c =
     (if cmdNode c \<noteq> n then held
      else case cmdData c of
        DChain ch \<Rightarrow> if chName ch = name \<and> cmdType c = ''AddChains'' then True else held
      | DChainUpdate _ ch \<Rightarrow> if chName ch = name \<and> cmdType c = ''UpdateChains'' then True else held
      | DChainName nm \<Rightarrow> if nm = name \<and> cmdType c = ''DeleteChains'' then False else held
      | _ \<Rightarrow> held)"

definition holdsService :: "cmd list \<Rightarrow> int \<Rightarrow> string \<Rightarrow> bool" where
  "holdsService sent n name = foldl (svcStep n name) False sent"

definition holdsChain :: "cmd list \<Rightarrow> int \<Rightarrow> string \<Rightarrow> bool" where
  "holdsChain sent n name = foldl (chainStep n name) False sent"

lemma holdsService_snoc [simp]:
  "holdsService (sent @ [c]) n name = svcStep n name (holdsService sent n name) c"
  by (simp add: holdsService_def)

lemma holdsChain_snoc [simp]:
  "holdsChain (sent @ [c]) n name = chainStep n name (holdsChain sent n name) c"
  by (simp add: holdsChain_def)

lemma dbSent_SendMsg:
  "dbSent (exec (SendMsg E n d t) s) = dbSent s @ (if nodeOnline E (dbSent s) n then [Cmd n t d] else [])"
  by (simp add: exec_SendMsg)

lemma holdsService_SendMsg [simp]:
  "holdsService (dbSent (exec (SendMsg E m d t) s)) n name =
     (if nodeOnline E (dbSent s) m then svcStep n name (holdsService (dbSent s) n name) (Cmd m t d)
      else holdsService (dbSent s) n name)"
  by (simp add: dbSent_SendMsg)

lemma holdsChain_SendMsg [simp]:
  "holdsChain (dbSent (exec (SendMsg E m d t) s)) n name =
     (if nodeOnline E (dbSent s) m then chainStep n name (holdsChain (dbSent s) n name) (Cmd m t d)
      else holdsChain (dbSent s) n name)"
  by (simp add: dbSent_SendMsg)

text \<open>A node that stays connected.\<close>

definition staysOnline :: "env \<Rightarrow> int \<Rightarrow> bool" where
  "staysOnline E n = (\<forall>sent. nodeOnline E sent n)"

lemma staysOnlineD [simp]: "staysOnline E n \<Longrightarrow> nodeOnline E sent n"
  by (simp add: staysOnline_def)

lemma chName_buildChainData [simp]: "chName (buildChainData n r p i) = n @ ''_chains''"
  by (simp add: buildChainData_def)

lemma svcName_buildRemoteService [simp]: "svcName (buildRemoteService n o' r p st i) = n @ ''_tls''"
  by (simp add: buildRemoteService_def)

lemma overrideListen_simps [simp]:
  "tunType (overrideListen t ip) = tunType t"
  "tunInNodeId (overrideListen t ip) = tunInNodeId t"
  "tunOutNodeId (overrideListen t ip) = tunOutNodeId t"
  "tunOutIp (overrideListen t ip) = tunOutIp t"
  "tunProtocol (overrideListen t ip) = tunProtocol t"
  "tunInterfaceName (overrideListen t ip) = tunInterfaceName t"
  "tunID (overrideListen t ip) = tunID t"
  "tunTcpListenAddr (overrideListen t ip) = (if ip = [] then tunTcpListenAddr t else ip)"
  by (simp_all add: overrideListen_def)

lemma exec_sum_case: "exec (case x of Inl a \<Rightarrow> f a | Inr b \<Rightarrow> g b) s
  = (case x of Inl a \<Rightarrow> exec (f a) s | Inr b \<Rightarrow> exec (g b) s)"
  by (cases x) auto

section \<open>Creation\<close>

text \<open>The commands of a successful creation, in order.\<close>

definition creationCommands ::
  "forward \<Rightarrow> tunnel \<Rightarrow> int option \<Rightarrow> node \<Rightarrow> node option \<Rightarrow> string \<Rightarrow> cmd list" where
  "creationCommands f tunnel limiter inNode outNode n =
     (case outNode of
        Some o' \<Rightarrow>
          (if tunType tunnel = tunnelTypeTunnelForward then
             [Cmd (nodeID inNode) ''AddChains'' (DChain (buildChainData n
                (formatRemoteAddr (tunOutIp tunnel) (fwdOutPort f)) (tunProtocol tunnel)
                (tunInterfaceName tunnel))),
              Cmd (nodeID o') ''AddService'' (DServices [buildRemoteService n (fwdOutPort f)
                (fwdRemoteAddr f) (tunProtocol tunnel) (fwdStrategy f) (fwdInterfaceName f)])]
           else [])
      | None \<Rightarrow> []) @
     [Cmd (nodeID inNode) ''AddService'' (DServices (buildServices n (fwdInPort f) limiter
        (fwdRemoteAddr f) (tunType tunnel) tunnel (fwdStrategy f)
        (if tunType tunnel \<noteq> tunnelTypeTunnelForward then fwdInterfaceName f else [])))]"

definition noSilentFailure :: "env \<Rightarrow> bool" where
  "noSilentFailure E = (\<forall>sent c. respMsg (nodeReply E sent c) \<noteq> [])"

lemma success_online:
  "isGostSuccess (result (SendMsg E n d t) s) \<Longrightarrow> nodeOnline E (dbSent s) n"
  by (auto simp: result_SendMsg isGostSuccess_def gostSuccessMsg_def msgNodeOffline_def split: if_splits)

lemma failure_msg:
  "noSilentFailure E \<Longrightarrow> respMsg (result (SendMsg E n d t) s) \<noteq> []"
  by (auto simp: result_SendMsg noSilentFailure_def msgNodeOffline_def split: if_splits)

lemma createGostServices_commands:
  assumes "result (createGostServices E f t l i outn n) s = []" "noSilentFailure E"
    and "outn = None \<longleftrightarrow> tunType t \<noteq> tunnelTypeTunnelForward"
  shows "dbSent (exec (createGostServices E f t l i outn n) s) = dbSent s @ creationCommands f t l i outn n"
proof (cases outn)
  case None
  then show ?thesis
    using assms failure_msg [OF assms(2)]
    by (auto simp: createGostServices_def creationCommands_def gost_api_defs run Let_def dbSent_SendMsg success_online
        split: if_splits)
next
  case (Some o')
  then show ?thesis
    using assms failure_msg [OF assms(2)]
    by (auto simp: createGostServices_def creationCommands_def gost_api_defs run Let_def dbSent_SendMsg success_online
        split: if_splits dest!: success_online)
qed

text \<open>A failed creation of a tunnel forward leaves neither its chain nor its relay behind, when
  the nodes stay connected; nor does it undo more than its own commands.\<close>

lemma createGostServices_rollback:
  assumes "result (createGostServices E f t l i (Some o') n) s \<noteq> []"
    and "tunType t = tunnelTypeTunnelForward"
    and "staysOnline E (nodeID i)" "staysOnline E (nodeID o')"
    and "\<not> holdsService (dbSent s) (nodeID o') (n @ ''_tls'')"
  shows "\<not> holdsChain (dbSent (exec (createGostServices E f t l i (Some o') n) s)) (nodeID i) (n @ ''_chains'')"
    and "\<not> holdsService (dbSent (exec (createGostServices E f t l i (Some o') n) s)) (nodeID o') (n @ ''_tls'')"
  using assms
  by (auto simp: createGostServices_def gost_api_defs run Let_def svcStep_def chainStep_def
      split: if_splits)

section \<open>Deletion\<close>

text \<open>The listeners a forward has: those \<open>createGostServices\<close> makes for it.\<close>

definition listenerNames :: "forward \<Rightarrow> tunnel \<Rightarrow> string \<Rightarrow> string list" where
  "listenerNames f tunnel n =
     buildMultiIPServiceNames n (tunTcpListenAddr (overrideListen tunnel (fwdListenIp f)))"

text \<open>The names the deletion of a forward computes: the ones above, unless the forward listens
  on the several addresses of its tunnel.\<close>

definition deletedNames :: "forward \<Rightarrow> string \<Rightarrow> string list" where
  "deletedNames f n =
     (if fwdListenIp f \<noteq> [] \<and> strContains (fwdListenIp f) '',''
      then buildMultiIPServiceNames n (fwdListenIp f) else [n @ ''_tcp'', n @ ''_udp''])"

lemma deletedNames_eq:
  assumes "fwdListenIp f \<noteq> [] \<or> CHR '','' \<notin> set (tunTcpListenAddr t)"
  shows "deletedNames f n = listenerNames f t n"
  using assms
  by (auto simp: deletedNames_def listenerNames_def strContains_char buildMultiIPServiceNames_single)

lemma suffixed_tcp_not_plain: "suffixedName n i @ ''_tcp'' \<noteq> n @ ''_tcp''"
  "suffixedName n i @ ''_udp'' \<noteq> n @ ''_udp''"
  "suffixedName n i @ ''_tcp'' \<noteq> n @ ''_udp''"
  "suffixedName n i @ ''_udp'' \<noteq> n @ ''_tcp''"
  using tcp_udp_differ [of "suffixedName n i" n] tcp_udp_differ [of n "suffixedName n i"]
  by (auto simp: suffixedName_def)

lemma deletedNames_disjoint:
  assumes "fwdListenIp f = []" "1 < length (splitListenIPs (tunTcpListenAddr t))"
  shows "set (deletedNames f n) \<inter> set (listenerNames f t n) = {}"
  using assms suffixed_tcp_not_plain [of n] suffixed_tcp_not_plain [of n, symmetric]
  by (auto simp: deletedNames_def listenerNames_def buildMultiIPServiceNames_def Let_def)

text \<open>The steps of a deletion, the first one with the names of both of its branches.\<close>

definition deleteRelay :: "env \<Rightarrow> node option \<Rightarrow> string \<Rightarrow> string prog" where
  "deleteRelay E outn n = (case outn of
     None \<Rightarrow> return []
   | Some o' \<Rightarrow> do {
       r3 \<leftarrow> DeleteRemoteService E (nodeID o') n;
       if \<not> isGostSuccess r3 \<and> \<not> gostNotFound r3 then return (respMsg r3) else return [] })"

definition deleteChainAndRelay :: "env \<Rightarrow> tunnel \<Rightarrow> node \<Rightarrow> node option \<Rightarrow> string \<Rightarrow> string prog" where
  "deleteChainAndRelay E t i outn n =
     (if tunType t = tunnelTypeTunnelForward then do {
        r2 \<leftarrow> DeleteChains E (nodeID i) n;
        if \<not> isGostSuccess r2 \<and> \<not> gostNotFound r2 then return (respMsg r2) else deleteRelay E outn n }
      else return [])"

lemma deleteListeners_eq:
  "(if fwdListenIp f \<noteq> [] \<and> strContains (fwdListenIp f) '',''
    then DeleteServiceMultiIP E k n (fwdListenIp f) else DeleteService E k n)
   = SendMsg E k (DNames (deletedNames f n)) ''DeleteService''"
  by (simp add: DeleteServiceMultiIP_def DeleteService_def deletedNames_def)

lemma deleteGostServicesWithIP_eq:
  "deleteGostServicesWithIP E t i outn n (fwdListenIp f) = do {
     r1 \<leftarrow> SendMsg E (nodeID i) (DNames (deletedNames f n)) ''DeleteService'';
     if \<not> isGostSuccess r1 \<and> \<not> gostNotFound r1 then return (respMsg r1)
     else deleteChainAndRelay E t i outn n }"
  unfolding deleteGostServicesWithIP_def deleteListeners_eq deleteChainAndRelay_def deleteRelay_def
  by (rule refl)

lemma keeps_holdsService:
  "svcStep m name b (Cmd k t d) = b \<Longrightarrow> keeps (\<lambda>s. holdsService (dbSent s) m name = b) (SendMsg E k d t)"
  by (rule keepsI) simp

lemma keeps_holdsChain:
  "chainStep m name b (Cmd k t d) = b \<Longrightarrow> keeps (\<lambda>s. holdsChain (dbSent s) m name = b) (SendMsg E k d t)"
  by (rule keepsI) simp

lemma keeps_deleteRelay:
  "(b \<Longrightarrow> name \<noteq> n @ ''_tls'') \<Longrightarrow>
   keeps (\<lambda>s. holdsService (dbSent s) m name = b) (deleteRelay E outn n)"
  unfolding deleteRelay_def DeleteRemoteService_def
  by (intro keeps_intro keeps_holdsService) (auto simp: svcStep_def)

lemma keeps_deleteChainAndRelay:
  "(b \<Longrightarrow> name \<noteq> n @ ''_tls'') \<Longrightarrow>
   keeps (\<lambda>s. holdsService (dbSent s) m name = b) (deleteChainAndRelay E t i outn n)"
  unfolding deleteChainAndRelay_def DeleteChains_def
  by (intro keeps_intro keeps_holdsService keeps_deleteRelay) (auto simp: svcStep_def)

lemma keeps_chain_deleteRelay:
  "keeps (\<lambda>s. holdsChain (dbSent s) m name = b) (deleteRelay E outn n)"
  unfolding deleteRelay_def DeleteRemoteService_def
  by (intro keeps_intro keeps_holdsChain) (simp add: chainStep_def)

text \<open>What the deletion does not name stays.\<close>

lemma deleteGostServicesWithIP_keeps_others:
  assumes "name \<notin> set (deletedNames f n)" "name \<noteq> n @ ''_tls''"
  shows "holdsService (dbSent (exec (deleteGostServicesWithIP E t i outn n (fwdListenIp f)) s)) m name
       = holdsService (dbSent s) m name"
proof -
  have "keeps (\<lambda>s. holdsService (dbSent s) m name = b)
      (deleteGostServicesWithIP E t i outn n (fwdListenIp f))" for b
    unfolding deleteGostServicesWithIP_eq using assms
    by (intro keeps_intro keeps_holdsService keeps_deleteChainAndRelay) (auto simp: svcStep_def)
  from keepsD [OF this] show ?thesis by blast
qed

text \<open>A deletion that reports success has removed what it names.\<close>

lemma deleteGostServicesWithIP_listeners:
  fixes f :: forward
  assumes "staysOnline E (nodeID i)" "name \<in> set (deletedNames f n)"
  shows "\<not> holdsService (dbSent (exec (deleteGostServicesWithIP E t i outn n (fwdListenIp f)) s)) (nodeID i) name"
proof -
  let ?first = "SendMsg E (nodeID i) (DNames (deletedNames f n)) ''DeleteService''"
  have "holdsService (dbSent (exec ?first s)) (nodeID i) name = False"
    using assms by (simp add: svcStep_def)
  moreover have "keeps (\<lambda>s. holdsService (dbSent s) (nodeID i) name = False)
      (if \<not> isGostSuccess r \<and> \<not> gostNotFound r then return (respMsg r) else deleteChainAndRelay E t i outn n)"
    for r :: gostResponse
    by (intro keeps_intro keeps_deleteChainAndRelay) simp
  ultimately show ?thesis
    unfolding deleteGostServicesWithIP_eq exec_bind using keepsD by fast
qed

lemma deleteGostServicesWithIP_success:
  fixes f :: forward
  assumes "result (deleteGostServicesWithIP E t i outn n (fwdListenIp f)) s = []" "noSilentFailure E"
  obtains s' where
    "exec (deleteGostServicesWithIP E t i outn n (fwdListenIp f)) s = exec (deleteChainAndRelay E t i outn n) s'"
    "result (deleteChainAndRelay E t i outn n) s' = []"
  using assms failure_msg [OF assms(2)] unfolding deleteGostServicesWithIP_eq
  by (auto simp: run split: if_splits)

lemma deleteChainAndRelay_clears:
  assumes "result (deleteChainAndRelay E t i outn n) s = []" "noSilentFailure E"
    and "tunType t = tunnelTypeTunnelForward" "staysOnline E (nodeID i)"
  shows "\<not> holdsChain (dbSent (exec (deleteChainAndRelay E t i outn n) s)) (nodeID i) (n @ ''_chains'')"
    and "outn = Some o' \<Longrightarrow> staysOnline E (nodeID o') \<Longrightarrow>
      \<not> holdsService (dbSent (exec (deleteChainAndRelay E t i outn n) s)) (nodeID o') (n @ ''_tls'')"
proof -
  let ?chain = "SendMsg E (nodeID i) (DChainName (n @ ''_chains'')) ''DeleteChains''"
  have "holdsChain (dbSent (exec ?chain s)) (nodeID i) (n @ ''_chains'') = False"
    using assms(4) by (simp add: chainStep_def)
  moreover have ex: "exec (deleteChainAndRelay E t i outn n) s = exec (deleteRelay E outn n) (exec ?chain s)"
    using assms(1,3) failure_msg [OF assms(2)]
    by (auto simp: deleteChainAndRelay_def DeleteChains_def run split: if_splits)
  ultimately show "\<not> holdsChain (dbSent (exec (deleteChainAndRelay E t i outn n) s)) (nodeID i) (n @ ''_chains'')"
    using keepsD [OF keeps_chain_deleteRelay] by metis
  show "\<not> holdsService (dbSent (exec (deleteChainAndRelay E t i outn n) s)) (nodeID o') (n @ ''_tls'')"
    if "outn = Some o'" "staysOnline E (nodeID o')"
    unfolding ex using that
    by (simp add: deleteRelay_def DeleteRemoteService_def run svcStep_def)
qed

lemma deleteGostServicesWithIP_chain:
  fixes f :: forward
  assumes "result (deleteGostServicesWithIP E t i outn n (fwdListenIp f)) s = []" "noSilentFailure E"
    and "tunType t = tunnelTypeTunnelForward" "staysOnline E (nodeID i)"
  shows "\<not> holdsChain (dbSent (exec (deleteGostServicesWithIP E t i outn n (fwdListenIp f)) s)) (nodeID i) (n @ ''_chains'')"
    and "outn = Some o' \<Longrightarrow> staysOnline E (nodeID o') \<Longrightarrow>
      \<not> holdsService (dbSent (exec (deleteGostServicesWithIP E t i outn n (fwdListenIp f)) s)) (nodeID o') (n @ ''_tls'')"
  using deleteGostServicesWithIP_success [OF assms(1,2)] deleteChainAndRelay_clears [OF _ assms(2-4)]
  by metis+

end
