(* ===== verification/Ports.thy ===== *)
theory Ports
  imports Access
begin

text \<open>
  Port allocation of \<open>service/forward.go\<close>. The set \<open>usedPorts\<close> is the list of its keys. A
  forward occupies its entry port on the tunnel's entry node and its exit port on the exit node
  (port 0 is no port); \<open>portsDistinct\<close> says that no two forwards occupy the same port of a node.
\<close>

definition getAllUsedPortsOnNode :: "panel \<Rightarrow> int \<Rightarrow> int option \<Rightarrow> int list" where
  "getAllUsedPortsOnNode s nodeId exclude =
     (let forwardsOf = (\<lambda>ids. filter (\<lambda>f. fwdTunnelId f \<in> set ids \<and>
                          (case exclude of None \<Rightarrow> True | Some x \<Rightarrow> fwdID f \<noteq> x)) (dbForwards s));
          inTunnelIds = map tunID (filter (\<lambda>t. tunInNodeId t = nodeId) (dbTunnels s));
          outTunnelIds = map tunID (filter (\<lambda>t. tunOutNodeId t = nodeId) (dbTunnels s))
      in (if inTunnelIds = [] then []
          else filter (\<lambda>p. p \<noteq> 0) (map fwdInPort (forwardsOf inTunnelIds))) @
         (if outTunnelIds = [] then []
          else filter (\<lambda>p. p \<noteq> 0) (map fwdOutPort (forwardsOf outTunnelIds))))"

definition isInPortAvailable :: "panel \<Rightarrow> tunnel \<Rightarrow> int \<Rightarrow> int option \<Rightarrow> bool" where
  "isInPortAvailable s tunnel port exclude =
     (case GetNodeById s (tunInNodeId tunnel) of
        None \<Rightarrow> False
      | Some inNode \<Rightarrow>
          if port < nodePortSta inNode \<or> nodePortEnd inNode < port then False
          else port \<notin> set (getAllUsedPortsOnNode s (tunInNodeId tunnel) exclude))"

definition allocatePortForNode :: "panel \<Rightarrow> int \<Rightarrow> int option \<Rightarrow> int option" where
  "allocatePortForNode s nodeId exclude =
     (case GetNodeById s nodeId of
        None \<Rightarrow> None
      | Some node \<Rightarrow>
          let usedPorts = getAllUsedPortsOnNode s nodeId exclude
          in find (\<lambda>port. port \<notin> set usedPorts) [nodePortSta node..nodePortEnd node])"

definition allocatePorts :: "panel \<Rightarrow> tunnel \<Rightarrow> int option \<Rightarrow> int option \<Rightarrow> err + (int \<times> int)" where
  "allocatePorts s tunnel specifiedInPort exclude =
     (case (case specifiedInPort of
              Some p \<Rightarrow> if isInPortAvailable s tunnel p exclude then Inr p else Inl (EPortUnavailable p)
            | None \<Rightarrow> (case allocatePortForNode s (tunInNodeId tunnel) exclude of
                         None \<Rightarrow> Inl EInPortsFull
                       | Some p \<Rightarrow> Inr p)) of
        Inl e \<Rightarrow> Inl e
      | Inr inPort \<Rightarrow>
          if tunType tunnel = tunnelTypeTunnelForward then
            (case allocatePortForNode s (tunOutNodeId tunnel) exclude of
               None \<Rightarrow> Inl EOutPortsFull
             | Some outPort \<Rightarrow> Inr (inPort, outPort))
          else Inr (inPort, 0))"

section \<open>What a forward occupies\<close>

definition occupies :: "panel \<Rightarrow> forward \<Rightarrow> int \<Rightarrow> int \<Rightarrow> bool" where
  "occupies s f n p =
     (p \<noteq> 0 \<and> list_ex (\<lambda>t. tunID t = fwdTunnelId f \<and>
        (tunInNodeId t = n \<and> fwdInPort f = p \<or> tunOutNodeId t = n \<and> fwdOutPort f = p)) (dbTunnels s))"

definition portsDistinct :: "panel \<Rightarrow> bool" where
  "portsDistinct s = (\<forall>f \<in> set (dbForwards s). \<forall>g \<in> set (dbForwards s). fwdID f \<noteq> fwdID g \<longrightarrow>
     (\<forall>n p. \<not> (occupies s f n p \<and> occupies s g n p)))"

lemma portsOf_iff:
  "p \<in> set (if map tunID (filter K ts) = [] then []
           else filter (\<lambda>p. p \<noteq> 0) (map port (filter (\<lambda>f. fwdTunnelId f \<in> set (map tunID (filter K ts)) \<and> C f) fs)))
   \<longleftrightarrow> p \<noteq> 0 \<and> (\<exists>f \<in> set fs. C f \<and> port f = p \<and> (\<exists>t \<in> set ts. tunID t = fwdTunnelId f \<and> K t))"
proof (cases "filter K ts = []")
  case True
  then show ?thesis by (auto simp: filter_empty_conv)
next
  case False
  have "fwdTunnelId f \<in> set (map tunID (filter K ts)) \<longleftrightarrow> (\<exists>t \<in> set ts. tunID t = fwdTunnelId f \<and> K t)"
    for f by force
  note mem = this
  have "(if map tunID (filter K ts) = [] then []
           else filter (\<lambda>p. p \<noteq> 0) (map port (filter (\<lambda>f. fwdTunnelId f \<in> set (map tunID (filter K ts)) \<and> C f) fs)))
     = filter (\<lambda>p. p \<noteq> 0) (map port (filter (\<lambda>f. (\<exists>t \<in> set ts. tunID t = fwdTunnelId f \<and> K t) \<and> C f) fs))"
    unfolding mem using False by (simp only: map_is_Nil_conv if_False)
  then show ?thesis by (simp only: set_filter set_map image_iff mem_Collect_eq) blast
qed

lemma usedPorts_iff:
  "p \<in> set (getAllUsedPortsOnNode s n exclude) \<longleftrightarrow>
     (\<exists>f \<in> set (dbForwards s). exclude \<noteq> Some (fwdID f) \<and> occupies s f n p)"
proof -
  have ex: "(case exclude of None \<Rightarrow> True | Some x \<Rightarrow> fwdID f \<noteq> x) \<longleftrightarrow> exclude \<noteq> Some (fwdID f)" for f
    by (auto split: option.splits)
  show ?thesis
    unfolding getAllUsedPortsOnNode_def Let_def set_append Un_iff portsOf_iff ex occupies_def list_ex_iff
    by blast
qed

lemma find_Some_first:
  "find P [a..b] = Some x \<longleftrightarrow> P x \<and> a \<le> x \<and> x \<le> b \<and> (\<forall>y. a \<le> y \<and> y < x \<longrightarrow> \<not> P y)"
proof (induction "nat (b - a + 1)" arbitrary: a)
  case 0
  then show ?case by simp
next
  case (Suc k)
  then have "a \<le> b" by simp
  then have find: "find P [a..b] = (if P a then Some a else find P [a + 1..b])"
    by (simp add: upto_rec1)
  have IH: "find P [a + 1..b] = Some x \<longleftrightarrow>
      P x \<and> a + 1 \<le> x \<and> x \<le> b \<and> (\<forall>y. a + 1 \<le> y \<and> y < x \<longrightarrow> \<not> P y)"
    using Suc.hyps(1) [of "a + 1"] Suc.hyps(2) by simp
  show ?case
  proof (cases "P a")
    case True
    have "x = a" if "a \<le> x" "\<forall>y. a \<le> y \<and> y < x \<longrightarrow> \<not> P y" using that True by force
    then show ?thesis using True \<open>a \<le> b\<close> find by auto
  next
    case False
    have "(P x \<and> a \<le> x) = (P x \<and> a + 1 \<le> x)" using False by (cases "x = a") auto
    moreover have "(\<forall>y. a \<le> y \<and> y < x \<longrightarrow> \<not> P y) = (\<forall>y. a + 1 \<le> y \<and> y < x \<longrightarrow> \<not> P y)"
    proof -
      have "a \<le> y \<longleftrightarrow> y = a \<or> a + 1 \<le> y" for y by auto
      with False show ?thesis by metis
    qed
    ultimately show ?thesis using find IH False by metis
  qed
qed

lemma allocatePortForNode_Some:
  assumes "allocatePortForNode s n exclude = Some p"
  obtains nd where "GetNodeById s n = Some nd" "nodePortSta nd \<le> p" "p \<le> nodePortEnd nd"
    "p \<notin> set (getAllUsedPortsOnNode s n exclude)"
    "\<And>q. nodePortSta nd \<le> q \<Longrightarrow> q < p \<Longrightarrow> q \<in> set (getAllUsedPortsOnNode s n exclude)"
  using assms by (auto simp: allocatePortForNode_def Let_def find_Some_first split: option.splits)

lemma allocatePortForNode_None:
  "allocatePortForNode s n exclude = None \<longleftrightarrow>
     (\<forall>nd. GetNodeById s n = Some nd \<longrightarrow>
        {nodePortSta nd..nodePortEnd nd} \<subseteq> set (getAllUsedPortsOnNode s n exclude))"
  by (auto simp: allocatePortForNode_def Let_def find_None_iff split: option.splits)

lemma isInPortAvailableD:
  "isInPortAvailable s t p exclude \<Longrightarrow> p \<notin> set (getAllUsedPortsOnNode s (tunInNodeId t) exclude)"
  by (auto simp: isInPortAvailable_def split: option.splits if_splits)

lemma allocatePorts_Inr:
  assumes "allocatePorts s t spec exclude = Inr (i, outp)"
  shows "i \<notin> set (getAllUsedPortsOnNode s (tunInNodeId t) exclude)"
    and "outp \<noteq> 0 \<Longrightarrow> outp \<notin> set (getAllUsedPortsOnNode s (tunOutNodeId t) exclude)"
    and "tunType t \<noteq> tunnelTypeTunnelForward \<Longrightarrow> outp = 0"
  using assms
  by (auto simp: allocatePorts_def split: option.splits sum.splits if_splits
      dest: isInPortAvailableD elim: allocatePortForNode_Some)

text \<open>The ports a forward gets clash with no other forward.\<close>

lemma allocatePorts_no_clash:
  assumes "allocatePorts s t spec exclude = Inr (i, outp)"
    and "distinct (map tunID (dbTunnels s))" "t \<in> set (dbTunnels s)"
    and "fwdTunnelId f = tunID t" "fwdInPort f = i" "fwdOutPort f = outp"
    and "g \<in> set (dbForwards s)" "exclude \<noteq> Some (fwdID g)"
  shows "\<not> (occupies s f n p \<and> occupies s g n p)"
proof
  assume occ: "occupies s f n p \<and> occupies s g n p"
  then obtain t' where "t' \<in> set (dbTunnels s)" "tunID t' = tunID t" "p \<noteq> 0"
    "tunInNodeId t' = n \<and> i = p \<or> tunOutNodeId t' = n \<and> outp = p"
    using assms by (auto simp: occupies_def list_ex_iff)
  moreover from this have "t' = t"
    using assms(2,3) by (auto simp: distinct_map inj_on_def)
  moreover have "p \<in> set (getAllUsedPortsOnNode s n exclude)"
    using occ assms(7,8) by (auto simp: usedPorts_iff)
  ultimately show False using allocatePorts_Inr [OF assms(1)] by auto
qed

lemma occupies_cong:
  "fwdTunnelId f = fwdTunnelId g \<Longrightarrow> fwdInPort f = fwdInPort g \<Longrightarrow> fwdOutPort f = fwdOutPort g \<Longrightarrow>
   dbTunnels s = dbTunnels s' \<Longrightarrow> occupies s f n p = occupies s' g n p"
  by (simp add: occupies_def)

end
