(* ===== verification/ForwardApi.thy ===== *)
theory ForwardApi
  imports NodeView Ports "HOL-Library.Product_Lexorder"
begin

text \<open>
  The operations on port forwards: the exported functions of \<open>service/forward.go\<close>. A handler reads
  the database, refuses with an \<open>err\<close>, sends commands to the nodes and writes the row back. The
  checks that only read come first in the code; they are a function of the state of their own
  (\<open>createForwardChecks\<close>, \<open>updateForwardChecks\<close>), so that a refused request is seen to change nothing.
\<close>

section \<open>CreateForward\<close>

definition createForwardChecks ::
  "env \<Rightarrow> panel \<Rightarrow> forwardDto \<Rightarrow> int \<Rightarrow> int \<Rightarrow> err + (tunnel \<times> int option \<times> userTunnel option \<times> int \<times> int)" where
  "createForwardChecks E s d userId roleId =
     (case validateRemoteAddr E (fdRemoteAddr d) roleId of Some e \<Rightarrow> Inl e
    | None \<Rightarrow> (case firstTunnel s (fdTunnelId d) of None \<Rightarrow> Inl ETunnelNotFound
    | Some tunnel \<Rightarrow>
        if tunStatus tunnel \<noteq> tunnelStatusActive then Inl ETunnelDisabled
        else if roleId \<noteq> adminRoleId \<and> (case GetNodeById s (tunInNodeId tunnel) of
                  None \<Rightarrow> False | Some inNode \<Rightarrow> \<not> UserHasGostNodeAccess s userId (nodeID inNode))
        then Inl ENoInNodeAccess
        else if roleId \<noteq> adminRoleId \<and> tunType tunnel = tunnelTypeTunnelForward \<and>
                (case GetNodeById s (tunOutNodeId tunnel) of
                  None \<Rightarrow> False | Some outNode \<Rightarrow> \<not> UserHasGostNodeAccess s userId (nodeID outNode))
        then Inl ENoOutNodeAccess
        else (case (if roleId \<noteq> adminRoleId then checkUserPermissions E s userId roleId tunnel None
                    else Inr (None, None)) of
            Inl e \<Rightarrow> Inl e
          | Inr (limiter, ut) \<Rightarrow>
              (case allocatePorts s tunnel (fdInPort d) None of
                 Inl e \<Rightarrow> Inl e
               | Inr (inPort, outPort) \<Rightarrow> Inr (tunnel, limiter, ut, inPort, outPort)))))"

definition maxInx :: "panel \<Rightarrow> int" where
  "maxInx s = (case map fwdInx (dbForwards s) of [] \<Rightarrow> 0 | x # xs \<Rightarrow> foldl max x xs)"

definition newForward ::
  "env \<Rightarrow> panel \<Rightarrow> forwardDto \<Rightarrow> int \<Rightarrow> string \<Rightarrow> int \<Rightarrow> int \<Rightarrow> forward" where
  "newForward E s d userId userName inPort outPort =
     zeroForward\<lparr>fwdID := dbAutoInc s ''forward'', fwdUserId := userId, fwdUserName := userName,
       fwdName := fdName d, fwdTunnelId := fdTunnelId d, fwdRemoteAddr := fdRemoteAddr d,
       fwdStrategy := fdStrategy d, fwdListenIp := fdListenIp d,
       fwdInterfaceName := fdInterfaceName d, fwdInPort := inPort, fwdOutPort := outPort,
       fwdStatus := forwardStatusActive, fwdInx := maxInx s + 1, fwdCreatedTime := now E,
       fwdUpdatedTime := now E\<rparr>"

definition insertForward :: "forward \<Rightarrow> unit prog" where
  "insertForward f = modify (\<lambda>s. s\<lparr>dbForwards := dbForwards s @ [f],
     dbAutoInc := (dbAutoInc s)(''forward'' := fwdID f + 1)\<rparr>)"

definition removeForward :: "int \<Rightarrow> unit prog" where
  "removeForward i = modify (\<lambda>s. s\<lparr>dbForwards := deleteRows (\<lambda>f. fwdID f = i) (dbForwards s)\<rparr>)"

definition updateForwardRow :: "int \<Rightarrow> (forward \<Rightarrow> forward) \<Rightarrow> unit prog" where
  "updateForwardRow i g =
     modify (\<lambda>s. s\<lparr>dbForwards := updateRows (\<lambda>f. fwdID f = i) g (dbForwards s)\<rparr>)"

text \<open>Steps 5 to 7: the services of the row just inserted.\<close>

definition deployForward ::
  "env \<Rightarrow> panel \<Rightarrow> forward \<Rightarrow> tunnel \<Rightarrow> int option \<Rightarrow> userTunnel option \<Rightarrow> unit R prog" where
  "deployForward E s f tunnel limiter ut =
     (case getRequiredNodes s tunnel of
        Inl e \<Rightarrow> do { removeForward (fwdID f); return (Err e) }
      | Inr (inNode, outNode) \<Rightarrow> do {
          gostErr \<leftarrow> createGostServices E f (overrideListen tunnel (fwdListenIp f)) limiter
            inNode outNode (buildServiceName (fwdID f) (fwdUserId f) ut);
          if gostErr \<noteq> [] then do {
            updateForwardStatusToError (fwdID f);
            return (Err (EGost gostErr))
          } else return (Ok ()) })"

definition CreateForward :: "env \<Rightarrow> forwardDto \<Rightarrow> int \<Rightarrow> int \<Rightarrow> string \<Rightarrow> unit R prog" where
  "CreateForward E d userId roleId userName = do {
     s \<leftarrow> gets (\<lambda>s. s);
     (case createForwardChecks E s d userId roleId of
        Inl e \<Rightarrow> return (Err e)
      | Inr (tunnel, limiter, ut, inPort, outPort) \<Rightarrow>
          if \<not> createOk E ''forward'' then return (Err ECreateForward)
          else do {
            let f = newForward E s d userId userName inPort outPort;
            insertForward f;
            deployForward E s f tunnel limiter ut }) }"

section \<open>GetAllForwards\<close>

record forwardWithTunnel =
  fwtForward :: forward
  fwtTunnelName :: string
  fwtTunnelType :: int
  fwtInIp :: string
  fwtOutIp :: string

definition joinTunnel :: "panel \<Rightarrow> forward \<Rightarrow> forwardWithTunnel" where
  "joinTunnel s f =
     (let t = (case firstTunnel s (fwdTunnelId f) of None \<Rightarrow> zeroTunnel | Some t \<Rightarrow> t)
      in \<lparr>fwtForward = f, fwtTunnelName = tunName t, fwtTunnelType = tunType t,
          fwtInIp = (if fwdListenIp f \<noteq> [] then fwdListenIp f else tunInIp t), fwtOutIp = tunOutIp t\<rparr>)"

definition GetAllForwards :: "panel \<Rightarrow> int \<Rightarrow> int \<Rightarrow> forwardWithTunnel list" where
  "GetAllForwards s userId roleId =
     map (joinTunnel s) (sort_key (\<lambda>f. (fwdInx f, - fwdCreatedTime f))
       (if roleId \<noteq> adminRoleId then filter (\<lambda>f. fwdUserId f = userId) (dbForwards s) else dbForwards s))"

section \<open>UpdateForward\<close>

text \<open>Step 4, the permissions of a forward that moves to another tunnel: an administrator who
  moves a user's forward is held to that user's permission and quota.\<close>

definition updateForwardPermissions ::
  "env \<Rightarrow> panel \<Rightarrow> forwardUpdateDto \<Rightarrow> forward \<Rightarrow> tunnel \<Rightarrow> int \<Rightarrow> int
     \<Rightarrow> err + (int option \<times> userTunnel option)" where
  "updateForwardPermissions E s d exist tunnel userId roleId =
     (if fwdTunnelId exist = fuTunnelId d then Inr (None, None)
      else if roleId = adminRoleId then
        (if userId = fwdUserId exist then Inr (None, None)
         else (case firstUser s (fwdUserId exist) of
             None \<Rightarrow> Inl EUserNotFound
           | Some originalUser \<Rightarrow>
               (case getUserTunnel s (fwdUserId exist) (fuTunnelId d) of
                  None \<Rightarrow> Inl ENoTunnelPermission
                | Some ut \<Rightarrow>
                    if utStatus ut \<noteq> 1 then Inl EUserTunnelDisabled
                    else if expired E (utExpTime ut) then Inl EUserTunnelExpired
                    else (case checkForwardQuota s (fwdUserId exist) (fuTunnelId d) ut originalUser
                                 (Some (fuID d)) of
                        Some e \<Rightarrow> Inl e
                      | None \<Rightarrow> Inr (utSpeedId ut, Some ut)))))
      else checkUserPermissions E s userId roleId tunnel (Some (fuID d)))"

definition updateForwardChecks ::
  "env \<Rightarrow> panel \<Rightarrow> forwardUpdateDto \<Rightarrow> int \<Rightarrow> int
     \<Rightarrow> err + (forward \<times> tunnel \<times> int option \<times> userTunnel option \<times> forward)" where
  "updateForwardChecks E s d userId roleId =
     (case checkUserStatus s userId roleId of Some e \<Rightarrow> Inl e
    | None \<Rightarrow> (case validateRemoteAddr E (fuRemoteAddr d) roleId of Some e \<Rightarrow> Inl e
    | None \<Rightarrow> (case validateForwardExists s (fuID d) userId roleId of None \<Rightarrow> Inl EForwardNotFound
    | Some exist \<Rightarrow> (case firstTunnel s (fuTunnelId d) of None \<Rightarrow> Inl ETunnelNotFound
    | Some tunnel \<Rightarrow>
        if tunStatus tunnel \<noteq> tunnelStatusActive then Inl ETunnelDisabled
        else (case updateForwardPermissions E s d exist tunnel userId roleId of Inl e \<Rightarrow> Inl e
        | Inr (limiter, permUserTunnel) \<Rightarrow>
            let tunnelChanged = (fwdTunnelId exist \<noteq> fuTunnelId d);
                ownerTunnel = getUserTunnel s (if roleId \<noteq> adminRoleId then userId else fwdUserId exist)
                                (tunID tunnel);
                ut = (if tunnelChanged \<and> permUserTunnel \<noteq> None then permUserTunnel else ownerTunnel);
                inPortChanged = (fuInPort d \<noteq> None \<and> fuInPort d \<noteq> Some (fwdInPort exist));
                specifiedInPort = (if fuInPort d = None \<and> \<not> tunnelChanged then Some (fwdInPort exist)
                                   else fuInPort d)
            in if roleId \<noteq> adminRoleId \<and> ownerTunnel = None then Inl ENoTunnelPermission
               else (case (if tunnelChanged \<or> inPortChanged
                           then allocatePorts s tunnel specifiedInPort (Some (fuID d))
                           else Inr (fwdInPort exist, fwdOutPort exist)) of
                   Inl e \<Rightarrow> Inl e
                 | Inr (inPort, outPort) \<Rightarrow>
                     Inr (exist, tunnel, limiter, ut,
                       zeroForward\<lparr>fwdID := fuID d, fwdUserId := fwdUserId exist, fwdName := fuName d,
                         fwdTunnelId := fuTunnelId d, fwdRemoteAddr := fuRemoteAddr d,
                         fwdStrategy := fuStrategy d, fwdListenIp := fuListenIp d,
                         fwdInterfaceName := fuInterfaceName d, fwdUpdatedTime := now E,
                         fwdInPort := inPort, fwdOutPort := outPort\<rparr>)))))))"

text \<open>The final write.\<close>

definition writeForward :: "forward \<Rightarrow> forward \<Rightarrow> forward" where
  "writeForward upd f =
     f\<lparr>fwdName := fwdName upd, fwdTunnelId := fwdTunnelId upd, fwdRemoteAddr := fwdRemoteAddr upd,
       fwdStrategy := fwdStrategy upd, fwdListenIp := fwdListenIp upd,
       fwdInterfaceName := fwdInterfaceName upd, fwdInPort := fwdInPort upd,
       fwdOutPort := fwdOutPort upd, fwdStatus := forwardStatusActive,
       fwdUpdatedTime := fwdUpdatedTime upd\<rparr>"

definition saveForward :: "env \<Rightarrow> forward \<Rightarrow> unit R prog" where
  "saveForward E upd =
     (if \<not> updateOk E ''forward'' then return (Err EUpdateForward)
      else do { updateForwardRow (fwdID upd) (writeForward upd); return (Ok ()) })"

text \<open>Tunnel and listen address unchanged: the lightest path. A hot update replaces the targets
  without touching the listener; a change of port or interface rebuilds it.\<close>

definition hotUpdate :: "env \<Rightarrow> forward \<Rightarrow> tunnel \<Rightarrow> node \<Rightarrow> node option \<Rightarrow> string \<Rightarrow> bool prog" where
  "hotUpdate E upd tunnel inNode outNode serviceName =
     (if tunType tunnel = tunnelTypePortForward then do {
        r \<leftarrow> UpdateForwarder E (nodeID inNode) serviceName (fwdRemoteAddr upd) (fwdStrategy upd);
        return (isGostSuccess r) }
      else (case outNode of
          None \<Rightarrow> return False
        | Some o' \<Rightarrow>
            if tunType tunnel = tunnelTypeTunnelForward then do {
              r \<leftarrow> UpdateRemoteForwarder E (nodeID o') serviceName (fwdRemoteAddr upd) (fwdStrategy upd);
              return (isGostSuccess r) }
            else return False))"

definition fullUpdate ::
  "env \<Rightarrow> forward \<Rightarrow> tunnel \<Rightarrow> int option \<Rightarrow> node \<Rightarrow> node option \<Rightarrow> string \<Rightarrow> unit R prog" where
  "fullUpdate E upd tunnel limiter inNode outNode serviceName = do {
     gostErr \<leftarrow> updateGostServices E upd tunnel limiter inNode outNode serviceName;
     if gostErr \<noteq> [] then do {
       updateForwardStatusToError (fwdID upd);
       return (Err (EGost gostErr))
     } else saveForward E upd }"

definition updateInPlace ::
  "env \<Rightarrow> forward \<Rightarrow> forward \<Rightarrow> tunnel \<Rightarrow> int option \<Rightarrow> node \<Rightarrow> node option \<Rightarrow> string \<Rightarrow> unit R prog" where
  "updateInPlace E exist upd tunnel limiter inNode outNode serviceName =
     (let portSame = (fwdInPort exist = fwdInPort upd);
          interfaceSame = (fwdInterfaceName exist = fwdInterfaceName upd);
          addrChanged = (fwdRemoteAddr exist \<noteq> fwdRemoteAddr upd \<or> fwdStrategy exist \<noteq> fwdStrategy upd)
      in if portSame \<and> interfaceSame \<and> addrChanged then do {
           hotOk \<leftarrow> hotUpdate E upd tunnel inNode outNode serviceName;
           if hotOk then saveForward E upd
           else fullUpdate E upd tunnel limiter inNode outNode serviceName }
         else if portSame \<and> interfaceSame \<and> \<not> addrChanged then saveForward E upd
         else fullUpdate E upd tunnel limiter inNode outNode serviceName)"

definition UpdateForward :: "env \<Rightarrow> forwardUpdateDto \<Rightarrow> int \<Rightarrow> int \<Rightarrow> unit R prog" where
  "UpdateForward E d userId roleId = do {
     s \<leftarrow> gets (\<lambda>s. s);
     (case updateForwardChecks E s d userId roleId of
        Inl e \<Rightarrow> return (Err e)
      | Inr (exist, tunnel0, limiter, ut, upd) \<Rightarrow>
      (case getRequiredNodes s tunnel0 of
        Inl e \<Rightarrow> return (Err e)
      | Inr (inNode, outNode) \<Rightarrow>
          let tunnel = overrideListen tunnel0 (fwdListenIp upd);
              serviceName = buildServiceName (fwdID upd) (fwdUserId upd) ut;
              tunnelChanged = (fwdTunnelId exist \<noteq> fuTunnelId d);
              listenIpChanged = (fwdListenIp exist \<noteq> fwdListenIp upd)
          in if tunnelChanged \<or> listenIpChanged then
               (case (if tunnelChanged then firstTunnel s (fwdTunnelId exist) else Some tunnel) of
                  None \<Rightarrow> return (Err EOldTunnelNotFound)
                | Some oldTunnel \<Rightarrow> do {
                    deleteOldGostServices E exist oldTunnel;
                    gostErr \<leftarrow> createGostServices E upd tunnel limiter inNode outNode serviceName;
                    if gostErr \<noteq> [] then do {
                      updateForwardRow (fwdID upd) (\<lambda>f. f\<lparr>fwdTunnelId := fwdTunnelId upd,
                        fwdInPort := fwdInPort upd, fwdOutPort := fwdOutPort upd,
                        fwdListenIp := fwdListenIp upd, fwdStatus := forwardStatusError\<rparr>);
                      return (Err (EPrefixGost ''create'' gostErr))
                    } else saveForward E upd })
             else updateInPlace E exist upd tunnel limiter inNode outNode serviceName)) }"

section \<open>DeleteForward, ForceDeleteForward\<close>

text \<open>The user-tunnel row that names the services: a user must hold the permission himself, an
  administrator acts under the owner's.\<close>

definition ownedUserTunnel ::
  "panel \<Rightarrow> forward \<Rightarrow> tunnel \<Rightarrow> int \<Rightarrow> int \<Rightarrow> err + userTunnel option" where
  "ownedUserTunnel s f tunnel userId roleId =
     (if roleId \<noteq> adminRoleId then
        (case getUserTunnel s userId (tunID tunnel) of
           None \<Rightarrow> Inl ENoTunnelPermission
         | Some ut \<Rightarrow> Inr (Some ut))
      else Inr (getUserTunnel s (fwdUserId f) (tunID tunnel)))"

definition eraseForward :: "env \<Rightarrow> int \<Rightarrow> unit R prog" where
  "eraseForward E i =
     (if \<not> deleteOk E ''forward'' then return (Err EDeleteForward)
      else do { removeForward i; return (Ok ()) })"

definition DeleteForward :: "env \<Rightarrow> int \<Rightarrow> int \<Rightarrow> int \<Rightarrow> unit R prog" where
  "DeleteForward E i userId roleId = do {
     s \<leftarrow> gets (\<lambda>s. s);
     (case validateForwardExists s i userId roleId of
        None \<Rightarrow> return (Err EForwardNotFound)
      | Some f \<Rightarrow> (case firstTunnel s (fwdTunnelId f) of
        None \<Rightarrow> return (Err ETunnelNotFound)
      | Some tunnel \<Rightarrow> (case ownedUserTunnel s f tunnel userId roleId of
        Inl e \<Rightarrow> return (Err e)
      | Inr ut \<Rightarrow> (case getRequiredNodes s tunnel of
        Inl _ \<Rightarrow> eraseForward E i
      | Inr (inNode, outNode) \<Rightarrow> do {
          inOnline \<leftarrow> IsNodeOnline E (nodeID inNode);
          outOnline \<leftarrow> (case outNode of None \<Rightarrow> return True | Some o' \<Rightarrow> IsNodeOnline E (nodeID o'));
          if inOnline \<and> outOnline then do {
            gostErr \<leftarrow> deleteGostServicesWithIP E tunnel inNode outNode
              (buildServiceName (fwdID f) (fwdUserId f) ut) (fwdListenIp f);
            if gostErr \<noteq> [] then return (Err (EGost gostErr)) else eraseForward E i }
          else eraseForward E i })))) }"

definition ForceDeleteForward :: "env \<Rightarrow> int \<Rightarrow> unit R prog" where
  "ForceDeleteForward E i = do {
     s \<leftarrow> gets (\<lambda>s. s);
     (case firstForward s i of
        None \<Rightarrow> return (Err EForwardNotFound)
      | Some f \<Rightarrow> do {
          (case firstTunnel s (fwdTunnelId f) of
             None \<Rightarrow> return ()
           | Some tunnel \<Rightarrow> deleteOldGostServices E f tunnel);
          eraseForward E i }) }"

section \<open>PauseForward, ResumeForward\<close>

definition pauseListeners :: "env \<Rightarrow> int \<Rightarrow> string \<Rightarrow> string \<Rightarrow> gostResponse prog" where
  "pauseListeners E nodeId serviceName listenIp =
     (if listenIp \<noteq> [] \<and> strContains listenIp '','' then PauseServiceMultiIP E nodeId serviceName listenIp
      else PauseService E nodeId serviceName)"

definition resumeListeners :: "env \<Rightarrow> int \<Rightarrow> string \<Rightarrow> string \<Rightarrow> gostResponse prog" where
  "resumeListeners E nodeId serviceName listenIp =
     (if listenIp \<noteq> [] \<and> strContains listenIp '','' then ResumeServiceMultiIP E nodeId serviceName listenIp
      else ResumeService E nodeId serviceName)"

definition setForwardStatus :: "env \<Rightarrow> int \<Rightarrow> int \<Rightarrow> unit prog" where
  "setForwardStatus E i status =
     updateForwardRow i (\<lambda>f. f\<lparr>fwdStatus := status, fwdUpdatedTime := now E\<rparr>)"

definition PauseForward :: "env \<Rightarrow> int \<Rightarrow> int \<Rightarrow> int \<Rightarrow> unit R prog" where
  "PauseForward E i userId roleId = do {
     s \<leftarrow> gets (\<lambda>s. s);
     (case checkUserStatus s userId roleId of
        Some e \<Rightarrow> return (Err e)
      | None \<Rightarrow> (case validateForwardExists s i userId roleId of
        None \<Rightarrow> return (Err EForwardNotFound)
      | Some f \<Rightarrow> (case firstTunnel s (fwdTunnelId f) of
        None \<Rightarrow> return (Err ETunnelNotFound)
      | Some tunnel \<Rightarrow> (case ownedUserTunnel s f tunnel userId roleId of
        Inl e \<Rightarrow> return (Err e)
      | Inr ut \<Rightarrow> (case getRequiredNodes s tunnel of
        Inl e \<Rightarrow> return (Err e)
      | Inr (inNode, outNode) \<Rightarrow> do {
          let serviceName = buildServiceName (fwdID f) (fwdUserId f) ut;
          r \<leftarrow> pauseListeners E (nodeID inNode) serviceName (fwdListenIp f);
          if \<not> isGostSuccess r then return (Err (EPrefixGost ''pause'' (respMsg r)))
          else if tunType tunnel = tunnelTypeTunnelForward then
            (case outNode of
               None \<Rightarrow> do { setForwardStatus E i forwardStatusPaused; return (Ok ()) }
             | Some o' \<Rightarrow> do {
                 remoteResult \<leftarrow> PauseRemoteService E (nodeID o') serviceName;
                 if \<not> isGostSuccess remoteResult
                 then return (Err (EPrefixGost ''pause remote'' (respMsg remoteResult)))
                 else do { setForwardStatus E i forwardStatusPaused; return (Ok ()) } })
          else do { setForwardStatus E i forwardStatusPaused; return (Ok ()) } }))))) }"

definition resumeChecks ::
  "env \<Rightarrow> panel \<Rightarrow> forward \<Rightarrow> tunnel \<Rightarrow> int \<Rightarrow> int \<Rightarrow> err + userTunnel option" where
  "resumeChecks E s f tunnel userId roleId =
     (if tunStatus tunnel \<noteq> tunnelStatusActive then Inl ETunnelDisabled
      else if roleId \<noteq> adminRoleId then
        (case checkUserFlowLimits E s userId tunnel of
           Some e \<Rightarrow> Inl e
         | None \<Rightarrow> (case getUserTunnel s userId (tunID tunnel) of
             None \<Rightarrow> Inl ENoTunnelPermission
           | Some ut \<Rightarrow> if utStatus ut \<noteq> 1 then Inl EUserTunnelDisabled else Inr (Some ut)))
      else Inr (getUserTunnel s (fwdUserId f) (tunID tunnel)))"

definition ResumeForward :: "env \<Rightarrow> int \<Rightarrow> int \<Rightarrow> int \<Rightarrow> unit R prog" where
  "ResumeForward E i userId roleId = do {
     s \<leftarrow> gets (\<lambda>s. s);
     (case checkUserStatus s userId roleId of
        Some e \<Rightarrow> return (Err e)
      | None \<Rightarrow> (case validateForwardExists s i userId roleId of
        None \<Rightarrow> return (Err EForwardNotFound)
      | Some f \<Rightarrow> (case firstTunnel s (fwdTunnelId f) of
        None \<Rightarrow> return (Err ETunnelNotFound)
      | Some tunnel \<Rightarrow> (case resumeChecks E s f tunnel userId roleId of
        Inl e \<Rightarrow> return (Err e)
      | Inr ut \<Rightarrow> (case getRequiredNodes s tunnel of
        Inl e \<Rightarrow> return (Err e)
      | Inr (inNode, outNode) \<Rightarrow> do {
          let serviceName = buildServiceName (fwdID f) (fwdUserId f) ut;
          r \<leftarrow> resumeListeners E (nodeID inNode) serviceName (fwdListenIp f);
          if \<not> isGostSuccess r then return (Err (EPrefixGost ''resume'' (respMsg r)))
          else if tunType tunnel = tunnelTypeTunnelForward then
            (case outNode of
               None \<Rightarrow> do { setForwardStatus E i forwardStatusActive; return (Ok ()) }
             | Some o' \<Rightarrow> do {
                 remoteResult \<leftarrow> ResumeRemoteService E (nodeID o') serviceName;
                 if \<not> isGostSuccess remoteResult
                 then return (Err (EPrefixGost ''resume remote'' (respMsg remoteResult)))
                 else do { setForwardStatus E i forwardStatusActive; return (Ok ()) } })
          else do { setForwardStatus E i forwardStatusActive; return (Ok ()) } }))))) }"

section \<open>UpdateForwardOrder, UpdateForwardA\<close>

text \<open>\<open>items\<close> is the decoded \<open>forwards\<close> parameter, \<open>None\<close> where it is absent or malformed.
  \<open>id IN ?\<close> counts rows, so a repeated id is counted once.\<close>

definition UpdateForwardOrder :: "orderItem list option \<Rightarrow> int \<Rightarrow> int \<Rightarrow> unit R prog" where
  "UpdateForwardOrder items userId roleId = do {
     s \<leftarrow> gets (\<lambda>s. s);
     (case items of
        None \<Rightarrow> return (Err EOrderEmpty)
      | Some items \<Rightarrow>
          if items = [] then return (Err EOrderEmpty)
          else if roleId \<noteq> adminRoleId \<and>
              length (filter (\<lambda>f. fwdID f \<in> set (map oiID items) \<and> fwdUserId f = userId) (dbForwards s))
                \<noteq> length items
          then return (Err EOrderForeign)
          else do {
            forEach (\<lambda>it. updateForwardRow (oiID it) (\<lambda>f. f\<lparr>fwdInx := oiInx it\<rparr>)) items;
            return (Ok ()) }) }"

definition UpdateForwardA :: "env \<Rightarrow> forward \<Rightarrow> unit prog" where
  "UpdateForwardA E f = do {
     s \<leftarrow> gets (\<lambda>s. s);
     (case firstTunnel s (fwdTunnelId f) of
        None \<Rightarrow> return ()
      | Some tunnel0 \<Rightarrow>
          let tunnel = overrideListen tunnel0 (fwdListenIp f);
              ut = getUserTunnel s (fwdUserId f) (tunID tunnel)
          in (case getRequiredNodes s tunnel of
                Inl _ \<Rightarrow> return ()
              | Inr (inNode, outNode) \<Rightarrow> do {
                  updateGostServices E f tunnel (case ut of None \<Rightarrow> None | Some t \<Rightarrow> utSpeedId t)
                    inNode outNode (buildServiceName (fwdID f) (fwdUserId f) ut);
                  return () })) }"

end
