(* ===== verification/ForwardInv.thy ===== *)
theory ForwardInv
  imports ForwardApi
begin

text \<open>
  The invariant of the forward table and that every operation on forwards keeps it: row ids are
  unique and below the next auto-increment key, and no two forwards occupy the same port of a
  node (\<open>portsDistinct\<close>). Programs between two writes only talk to nodes, so the
  proofs follow their structure with the rules for \<open>keeps\<close>.
\<close>

definition forwardKeys :: "panel \<Rightarrow> bool" where
  "forwardKeys s = (distinct (map fwdID (dbForwards s)) \<and>
     (\<forall>f \<in> set (dbForwards s). fwdID f < dbAutoInc s ''forward''))"

definition forwardInv :: "panel \<Rightarrow> bool" where
  "forwardInv s = (distinct (map tunID (dbTunnels s)) \<and> forwardKeys s \<and> portsDistinct s)"

text \<open>\<open>fits upd s\<close>: a row with the tunnel and ports of \<open>upd\<close> would clash with no other row.\<close>

definition fits :: "forward \<Rightarrow> panel \<Rightarrow> bool" where
  "fits upd s = (\<forall>g \<in> set (dbForwards s). fwdID g \<noteq> fwdID upd \<longrightarrow>
     (\<forall>n p. \<not> (occupies s upd n p \<and> occupies s g n p)))"

lemma ignoresSent_forward [simp]:
  "ignoresSent forwardInv" "ignoresSent forwardKeys" "ignoresSent (fits upd)"
  "ignoresSent (\<lambda>s. forwardInv s \<and> fits upd s)"
  by (simp_all add: ignoresSent_def forwardInv_def forwardKeys_def portsDistinct_def fits_def occupies_def)

lemma occupies_frame [simp]:
  "occupies (s\<lparr>dbForwards := x\<rparr>) = occupies s"
  "occupies (s\<lparr>dbForwards := x, dbAutoInc := y\<rparr>) = occupies s"
  "occupies (s\<lparr>dbAutoInc := y\<rparr>) = occupies s"
  by (intro ext, simp add: occupies_def)+

lemma occupies_row:
  "fwdTunnelId (g f) = fwdTunnelId f \<Longrightarrow> fwdInPort (g f) = fwdInPort f \<Longrightarrow>
   fwdOutPort (g f) = fwdOutPort f \<Longrightarrow> occupies s (g f) = occupies s f"
  by (intro ext) (simp add: occupies_def)

section \<open>Writes that keep the invariant\<close>

lemma forwardKeys_update:
  assumes "\<And>f. fwdID (g f) = fwdID f" "forwardKeys s"
  shows "forwardKeys (s\<lparr>dbForwards := updateRows P g (dbForwards s)\<rparr>)"
proof -
  have "map fwdID (updateRows P g (dbForwards s)) = map fwdID (dbForwards s)"
    by (rule map_updateRows) (rule assms(1))
  with assms show ?thesis by (auto simp: forwardKeys_def set_updateRows)
qed

text \<open>A write that does not touch tunnel and ports.\<close>

definition keepsPlace :: "(forward \<Rightarrow> forward) \<Rightarrow> bool" where
  "keepsPlace g = (\<forall>f. fwdID (g f) = fwdID f \<and> fwdTunnelId (g f) = fwdTunnelId f \<and>
     fwdInPort (g f) = fwdInPort f \<and> fwdOutPort (g f) = fwdOutPort f)"

text \<open>Introduction and elimination rules, so that proofs need not search below quantifiers.\<close>

lemma portsDistinctI:
  assumes "\<And>f g n p. f \<in> set (dbForwards s) \<Longrightarrow> g \<in> set (dbForwards s) \<Longrightarrow> fwdID f \<noteq> fwdID g \<Longrightarrow>
      occupies s f n p \<Longrightarrow> occupies s g n p \<Longrightarrow> False"
  shows "portsDistinct s"
  unfolding portsDistinct_def by (blast intro: assms)

lemma portsDistinctD:
  "portsDistinct s \<Longrightarrow> f \<in> set (dbForwards s) \<Longrightarrow> g \<in> set (dbForwards s) \<Longrightarrow> fwdID f \<noteq> fwdID g \<Longrightarrow>
   occupies s f n p \<Longrightarrow> occupies s g n p \<Longrightarrow> False"
  unfolding portsDistinct_def by blast

lemma fitsI:
  assumes "\<And>g n p. g \<in> set (dbForwards s) \<Longrightarrow> fwdID g \<noteq> fwdID upd \<Longrightarrow>
      occupies s upd n p \<Longrightarrow> occupies s g n p \<Longrightarrow> False"
  shows "fits upd s"
  unfolding fits_def by (blast intro: assms)

lemma fitsD:
  "fits upd s \<Longrightarrow> g \<in> set (dbForwards s) \<Longrightarrow> fwdID g \<noteq> fwdID upd \<Longrightarrow>
   occupies s upd n p \<Longrightarrow> occupies s g n p \<Longrightarrow> False"
  unfolding fits_def by blast

text \<open>Rewriting the rows with \<open>h\<close>.\<close>

lemma portsDistinct_map:
  assumes "\<And>f. fwdID (h f) = fwdID f"
    and "\<And>f g n p. f \<in> set (dbForwards s) \<Longrightarrow> g \<in> set (dbForwards s) \<Longrightarrow> fwdID f \<noteq> fwdID g \<Longrightarrow>
      occupies s (h f) n p \<Longrightarrow> occupies s (h g) n p \<Longrightarrow> False"
  shows "portsDistinct (s\<lparr>dbForwards := map h (dbForwards s)\<rparr>)"
proof (rule portsDistinctI)
  fix f' g' n p
  assume "f' \<in> set (dbForwards (s\<lparr>dbForwards := map h (dbForwards s)\<rparr>))"
    "g' \<in> set (dbForwards (s\<lparr>dbForwards := map h (dbForwards s)\<rparr>))" "fwdID f' \<noteq> fwdID g'"
    and occ: "occupies (s\<lparr>dbForwards := map h (dbForwards s)\<rparr>) f' n p"
      "occupies (s\<lparr>dbForwards := map h (dbForwards s)\<rparr>) g' n p"
  then obtain f g where "f \<in> set (dbForwards s)" "g \<in> set (dbForwards s)" "f' = h f" "g' = h g"
    "fwdID f \<noteq> fwdID g" using assms(1) by auto
  with assms(2) occ show False by simp
qed

lemma forwardInv_update:
  assumes "keepsPlace g" "forwardInv s"
  shows "forwardInv (s\<lparr>dbForwards := updateRows P g (dbForwards s)\<rparr>)"
proof -
  have occ: "occupies s (if P f then g f else f) = occupies s f"
    and id: "fwdID (if P f then g f else f) = fwdID f" for f
    using assms(1) by (auto simp: keepsPlace_def intro!: occupies_row)
  have D: "portsDistinct s" using assms(2) by (simp add: forwardInv_def)
  have "portsDistinct (s\<lparr>dbForwards := updateRows P g (dbForwards s)\<rparr>)"
    unfolding updateRows_def using portsDistinctD [OF D]
    by (intro portsDistinct_map) (simp_all only: occ id)
  with assms show ?thesis
    using forwardKeys_update [of g s P] by (auto simp: forwardInv_def keepsPlace_def)
qed

lemma fits_update:
  assumes "keepsPlace g" "fits upd s"
  shows "fits upd (s\<lparr>dbForwards := updateRows P g (dbForwards s)\<rparr>)"
proof (rule fitsI)
  have occ: "occupies s (if P f then g f else f) = occupies s f"
    and id: "fwdID (if P f then g f else f) = fwdID f" for f
    using assms(1) by (auto simp: keepsPlace_def intro!: occupies_row)
  fix f' n p
  assume f': "f' \<in> set (dbForwards (s\<lparr>dbForwards := updateRows P g (dbForwards s)\<rparr>))" "fwdID f' \<noteq> fwdID upd"
    "occupies (s\<lparr>dbForwards := updateRows P g (dbForwards s)\<rparr>) upd n p"
    "occupies (s\<lparr>dbForwards := updateRows P g (dbForwards s)\<rparr>) f' n p"
  then obtain f where "f \<in> set (dbForwards s)" "f' = (if P f then g f else f)"
    by (auto simp: set_updateRows)
  with f' show False using fitsD [OF assms(2)] by (simp only: occupies_frame occ id)
qed

lemma forwardInv_delete:
  assumes "forwardInv s"
  shows "forwardInv (s\<lparr>dbForwards := deleteRows P (dbForwards s)\<rparr>)"
proof -
  have "portsDistinct s" using assms by (simp add: forwardInv_def)
  from portsDistinctD [OF this] have "portsDistinct (s\<lparr>dbForwards := deleteRows P (dbForwards s)\<rparr>)"
    by (intro portsDistinctI) (simp, blast)
  then show ?thesis using assms by (simp add: forwardInv_def forwardKeys_def distinct_deleteRows)
qed

text \<open>The write that moves a row to where \<open>upd\<close> fits.\<close>

definition movesTo :: "forward \<Rightarrow> (forward \<Rightarrow> forward) \<Rightarrow> bool" where
  "movesTo upd g = (\<forall>f. fwdID (g f) = fwdID f \<and> fwdTunnelId (g f) = fwdTunnelId upd \<and>
     fwdInPort (g f) = fwdInPort upd \<and> fwdOutPort (g f) = fwdOutPort upd)"

lemma forwardInv_move:
  assumes "movesTo upd g" "forwardInv s \<and> fits upd s"
  shows "forwardInv (s\<lparr>dbForwards := updateRows (\<lambda>f. fwdID f = fwdID upd) g (dbForwards s)\<rparr>) \<and>
         fits upd (s\<lparr>dbForwards := updateRows (\<lambda>f. fwdID f = fwdID upd) g (dbForwards s)\<rparr>)"
proof -
  let ?h = "\<lambda>f. if fwdID f = fwdID upd then g f else f"
  let ?s = "s\<lparr>dbForwards := updateRows (\<lambda>f. fwdID f = fwdID upd) g (dbForwards s)\<rparr>"
  have id: "fwdID (?h f) = fwdID f" for f
    using assms(1) by (simp add: movesTo_def)
  have moved: "occupies s (?h f) = occupies s upd" if "fwdID f = fwdID upd" for f
    using assms(1) that by (simp add: movesTo_def occupies_def fun_eq_iff)
  have same: "occupies s (?h f) = occupies s f" if "fwdID f \<noteq> fwdID upd" for f
    using that by simp
  have D: "portsDistinct s" and F: "fits upd s" and K: "forwardKeys s"
    using assms(2) by (auto simp: forwardInv_def)
  have "False" if "f \<in> set (dbForwards s)" "g' \<in> set (dbForwards s)" "fwdID f \<noteq> fwdID g'"
      "occupies s (?h f) n p" "occupies s (?h g') n p" for f g' n p
    using that portsDistinctD [OF D] fitsD [OF F] moved same by metis
  then have "portsDistinct ?s"
    unfolding updateRows_def by (intro portsDistinct_map id)
  moreover have "fits upd ?s"
  proof (rule fitsI)
    fix f' n p assume f': "f' \<in> set (dbForwards ?s)" "fwdID f' \<noteq> fwdID upd" "occupies ?s upd n p" "occupies ?s f' n p"
    then obtain f where "f \<in> set (dbForwards s)" "f' = ?h f" by (auto simp: set_updateRows)
    moreover from this have "f' = f" using f'(2) id by auto
    ultimately show False using fitsD [OF F] f' by simp
  qed
  moreover have "forwardKeys ?s"
    using assms(1) K by (intro forwardKeys_update) (auto simp: movesTo_def)
  ultimately show ?thesis using assms(2) by (simp add: forwardInv_def)
qed

lemma forwardInv_insert:
  assumes "forwardInv s" "fwdID f = dbAutoInc s ''forward''" "fits f s"
  shows "forwardInv (s\<lparr>dbForwards := dbForwards s @ [f],
           dbAutoInc := (dbAutoInc s)(''forward'' := fwdID f + 1)\<rparr>)"
proof -
  have less: "fwdID g < fwdID f" if "g \<in> set (dbForwards s)" for g
    using assms that by (auto simp: forwardInv_def forwardKeys_def)
  then have "fwdID f \<notin> fwdID ` set (dbForwards s)" by force
  moreover have "fwdID g < fwdID f + 1" if "g \<in> set (dbForwards s)" for g
    using less [OF that] by simp
  ultimately have "forwardKeys (s\<lparr>dbForwards := dbForwards s @ [f],
           dbAutoInc := (dbAutoInc s)(''forward'' := fwdID f + 1)\<rparr>)"
    using assms(1) by (simp add: forwardInv_def forwardKeys_def)
  moreover have D: "portsDistinct s" using assms(1) by (simp add: forwardInv_def)
  have "portsDistinct (s\<lparr>dbForwards := dbForwards s @ [f],
           dbAutoInc := (dbAutoInc s)(''forward'' := fwdID f + 1)\<rparr>)"
    using portsDistinctD [OF D] fitsD [OF assms(3)] less
    by (intro portsDistinctI) (simp, metis less_irrefl)
  ultimately show ?thesis using assms(1) by (simp add: forwardInv_def)
qed

section \<open>The operations\<close>

lemma keeps_setStatusError [keeps_intro]:
  "keeps forwardInv (updateForwardStatusToError i)"
  "keeps (\<lambda>s. forwardInv s \<and> fits upd s) (updateForwardStatusToError i)"
  by (rule keeps_updateForwardStatusToError, simp add: forwardInv_update fits_update keepsPlace_def)+

lemma keeps_updateForwardRow:
  "keepsPlace g \<Longrightarrow> keeps forwardInv (updateForwardRow i g)"
  unfolding updateForwardRow_def by (intro keeps_modify forwardInv_update)

lemma keeps_removeForward [keeps_intro]: "keeps forwardInv (removeForward i)"
  unfolding removeForward_def by (intro keeps_modify forwardInv_delete)

lemma keeps_eraseForward [keeps_intro]: "keeps forwardInv (eraseForward E i)"
  unfolding eraseForward_def by (intro keeps_intro)

lemma createForwardChecks_Inr:
  assumes "createForwardChecks E s d u r = Inr (t, l, ut, i, outp)"
  shows "firstTunnel s (fdTunnelId d) = Some t" "tunStatus t = tunnelStatusActive"
    "validateRemoteAddr E (fdRemoteAddr d) r = None"
    "allocatePorts s t (fdInPort d) None = Inr (i, outp)"
    "r \<noteq> adminRoleId \<Longrightarrow> checkUserPermissions E s u r t None = Inr (l, ut)"
    "r = adminRoleId \<Longrightarrow> l = None \<and> ut = None"
    "r \<noteq> adminRoleId \<Longrightarrow> GetNodeById s (tunInNodeId t) = Some n \<Longrightarrow> UserHasGostNodeAccess s u (nodeID n)"
    "r \<noteq> adminRoleId \<Longrightarrow> tunType t = tunnelTypeTunnelForward \<Longrightarrow> GetNodeById s (tunOutNodeId t) = Some n \<Longrightarrow>
       UserHasGostNodeAccess s u (nodeID n)"
  using assms by (auto simp: createForwardChecks_def split: option.splits sum.splits if_splits)

lemma allocated_fits:
  assumes "forwardInv s" "allocatePorts s t spec (Some i) = Inr (a, b) \<or>
      (allocatePorts s t spec None = Inr (a, b) \<and> (\<forall>g \<in> set (dbForwards s). fwdID g \<noteq> i))"
    and "t \<in> set (dbTunnels s)"
    and "fwdID f = i" "fwdTunnelId f = tunID t" "fwdInPort f = a" "fwdOutPort f = b"
  shows "fits f s"
proof -
  have "distinct (map tunID (dbTunnels s))" using assms(1) by (simp add: forwardInv_def)
  note clash = allocatePorts_no_clash [OF _ this assms(3) assms(5-7)]
  show ?thesis unfolding fits_def
  proof (intro ballI impI allI)
    fix g n p assume g: "g \<in> set (dbForwards s)" "fwdID g \<noteq> fwdID f"
    from assms(2) show "\<not> (occupies s f n p \<and> occupies s g n p)"
    proof
      assume "allocatePorts s t spec (Some i) = Inr (a, b)"
      from clash [OF this g(1)] show ?thesis using g assms(4) by simp
    next
      assume "allocatePorts s t spec None = Inr (a, b) \<and> (\<forall>g \<in> set (dbForwards s). fwdID g \<noteq> i)"
      then have "allocatePorts s t spec None = Inr (a, b)" ..
      from clash [OF this g(1)] show ?thesis by simp
    qed
  qed
qed

lemma newForward_simps [simp]:
  "fwdID (newForward E s d u nm i outp) = dbAutoInc s ''forward''"
  "fwdTunnelId (newForward E s d u nm i outp) = fdTunnelId d"
  "fwdInPort (newForward E s d u nm i outp) = i"
  "fwdOutPort (newForward E s d u nm i outp) = outp"
  "fwdUserId (newForward E s d u nm i outp) = u"
  "fwdStatus (newForward E s d u nm i outp) = forwardStatusActive"
  "fwdListenIp (newForward E s d u nm i outp) = fdListenIp d"
  "fwdRemoteAddr (newForward E s d u nm i outp) = fdRemoteAddr d"
  "fwdStrategy (newForward E s d u nm i outp) = fdStrategy d"
  by (simp_all add: newForward_def)

lemma newForward_fits:
  assumes "forwardInv s" "createForwardChecks E s d u r = Inr (t, l, ut, i, outp)"
  shows "fits (newForward E s d u nm i outp) s"
proof (rule allocated_fits [OF assms(1)])
  note c = createForwardChecks_Inr [OF assms(2)]
  show "t \<in> set (dbTunnels s)" "fwdTunnelId (newForward E s d u nm i outp) = tunID t"
    using firstTunnel_in [OF c(1)] firstTunnel_id [OF c(1)] by simp_all
  show "allocatePorts s t (fdInPort d) (Some (dbAutoInc s ''forward'')) = Inr (i, outp) \<or>
      (allocatePorts s t (fdInPort d) None = Inr (i, outp) \<and>
       (\<forall>g \<in> set (dbForwards s). fwdID g \<noteq> dbAutoInc s ''forward''))"
    using c(4) assms(1) by (auto simp: forwardInv_def forwardKeys_def)
qed simp_all

text \<open>A program that first reads the state.\<close>

lemma keeps_read:
  "(\<And>s. I s \<Longrightarrow> I (exec (f s) s)) \<Longrightarrow> keeps I (State_Monad.bind (gets (\<lambda>s. s)) f)"
  by (simp add: keeps_def)

lemma exec_insertForward:
  "exec (insertForward f) s =
     s\<lparr>dbForwards := dbForwards s @ [f], dbAutoInc := (dbAutoInc s)(''forward'' := fwdID f + 1)\<rparr>"
  by (simp add: insertForward_def)

lemma keeps_deployForward [keeps_intro]: "keeps forwardInv (deployForward E s f t l ut)"
  unfolding deployForward_def by (intro keeps_intro) simp

lemma keeps_CreateForward: "keeps forwardInv (CreateForward E d u r nm)"
  unfolding CreateForward_def
proof (rule keeps_read, goal_cases)
  case (1 s)
  show ?case
  proof (cases "createForwardChecks E s d u r")
    case (Inl e)
    then show ?thesis using 1 by simp
  next
    case (Inr x)
    then obtain t l ut i outp where x: "createForwardChecks E s d u r = Inr (t, l, ut, i, outp)"
      by (cases x) auto
    let ?f = "newForward E s d u nm i outp"
    have ins: "forwardInv (exec (insertForward ?f) s)"
      using forwardInv_insert [OF 1 _ newForward_fits [OF 1 x]] by (simp add: exec_insertForward)
    from keepsD [OF keeps_deployForward ins] show ?thesis
      using 1 by (simp add: x run Let_def)
  qed
qed

text \<open>\<open>UpdateForward\<close>: what it writes at the end fits where it was allocated, or stays in place.\<close>

lemma updateForwardChecks_Inr:
  assumes "updateForwardChecks E s d u r = Inr (exist, t, l, ut, upd)"
  shows "validateForwardExists s (fuID d) u r = Some exist" "firstTunnel s (fuTunnelId d) = Some t"
    "tunStatus t = tunnelStatusActive" "checkUserStatus s u r = None"
    "validateRemoteAddr E (fuRemoteAddr d) r = None"
    "fwdID upd = fuID d" "fwdUserId upd = fwdUserId exist" "fwdTunnelId upd = fuTunnelId d"
    "fwdListenIp upd = fuListenIp d" "fwdRemoteAddr upd = fuRemoteAddr d" "fwdStrategy upd = fuStrategy d"
    "fwdInterfaceName upd = fuInterfaceName d" "fwdName upd = fuName d"
    "(\<exists>spec. allocatePorts s t spec (Some (fuID d)) = Inr (fwdInPort upd, fwdOutPort upd)) \<or>
     (fwdTunnelId exist = fuTunnelId d \<and> fwdInPort upd = fwdInPort exist \<and> fwdOutPort upd = fwdOutPort exist)"
    "updateForwardPermissions E s d exist t u r \<noteq> Inl e"
  using assms
  by (auto simp: updateForwardChecks_def Let_def split: option.splits sum.splits if_splits prod.splits)

lemma updated_fits:
  assumes I: "forwardInv s" and c: "updateForwardChecks E s d u r = Inr (exist, t, l, ut, upd)"
  shows "fits upd s"
proof -
  note c = updateForwardChecks_Inr [OF c]
  from c(14) show ?thesis
  proof
    assume "\<exists>spec. allocatePorts s t spec (Some (fuID d)) = Inr (fwdInPort upd, fwdOutPort upd)"
    then obtain spec where "allocatePorts s t spec (Some (fuID d)) = Inr (fwdInPort upd, fwdOutPort upd)" ..
    then show ?thesis
      using c(6,8) firstTunnel_id [OF c(2)]
      by (intro allocated_fits [OF I disjI1 firstTunnel_in [OF c(2)]]) simp_all
  next
    assume "fwdTunnelId exist = fuTunnelId d \<and> fwdInPort upd = fwdInPort exist \<and> fwdOutPort upd = fwdOutPort exist"
    then have occ: "occupies s upd = occupies s exist"
      using c(8) by (simp add: occupies_def fun_eq_iff)
    have "firstForward s (fuID d) = Some exist" using c(1) by (simp add: validateForwardExists_Some)
    then have "exist \<in> set (dbForwards s)" "fwdID exist = fwdID upd"
      using firstForward_in firstForward_id c(6) by auto
    moreover have "portsDistinct s" using I by (simp add: forwardInv_def)
    ultimately show ?thesis using portsDistinctD [of s exist] by (intro fitsI) (simp add: occ, metis)
  qed
qed

lemma keeps_move:
  "movesTo upd g \<Longrightarrow> i = fwdID upd \<Longrightarrow> keeps (\<lambda>s. forwardInv s \<and> fits upd s) (updateForwardRow i g)"
  unfolding updateForwardRow_def by (intro keeps_modify) (auto dest: forwardInv_move)

lemma keeps_saveForward [keeps_intro]: "keeps (\<lambda>s. forwardInv s \<and> fits upd s) (saveForward E upd)"
  unfolding saveForward_def by (intro keeps_intro keeps_move) (simp_all add: movesTo_def writeForward_def)

lemma keeps_hotUpdate [keeps_intro]: "ignoresSent I \<Longrightarrow> keeps I (hotUpdate E upd t i outn n)"
  unfolding hotUpdate_def by (intro keeps_intro) assumption+

lemma keeps_fullUpdate [keeps_intro]:
  "keeps (\<lambda>s. forwardInv s \<and> fits upd s) (fullUpdate E upd t l i outn n)"
  unfolding fullUpdate_def by (intro keeps_intro) simp_all

lemma keeps_updateInPlace [keeps_intro]:
  "keeps (\<lambda>s. forwardInv s \<and> fits upd s) (updateInPlace E exist upd t l i outn n)"
  unfolding updateInPlace_def by (intro keeps_intro) simp_all

lemma keeps_UpdateForward: "keeps forwardInv (UpdateForward E d u r)"
  unfolding UpdateForward_def
proof (rule keeps_read, goal_cases)
  case (1 s)
  show ?case
  proof (cases "updateForwardChecks E s d u r")
    case (Inl e)
    then show ?thesis using 1 by simp
  next
    case (Inr x)
    then obtain exist t l ut upd where x: "updateForwardChecks E s d u r = Inr (exist, t, l, ut, upd)"
      by (cases x) auto
    show ?thesis
      unfolding x sum.case prod.case Let_def
      by (rule keepsD [where I = "\<lambda>s. forwardInv s \<and> fits upd s", THEN conjunct1])
         (intro keeps_intro keeps_move, simp_all add: movesTo_def 1 updated_fits [OF 1 x])
  qed
qed

lemma keeps_DeleteForward: "keeps forwardInv (DeleteForward E i u r)"
  unfolding DeleteForward_def by (intro keeps_intro) simp

lemma keeps_ForceDeleteForward: "keeps forwardInv (ForceDeleteForward E i)"
  unfolding ForceDeleteForward_def by (intro keeps_intro) simp

lemma keeps_setForwardStatus [keeps_intro]: "keeps forwardInv (setForwardStatus E i st)"
  unfolding setForwardStatus_def by (intro keeps_updateForwardRow) (simp add: keepsPlace_def)

lemma keeps_pauseListeners [keeps_intro]: "ignoresSent I \<Longrightarrow> keeps I (pauseListeners E k n ip)"
  unfolding pauseListeners_def by (intro keeps_intro) assumption+

lemma keeps_resumeListeners [keeps_intro]: "ignoresSent I \<Longrightarrow> keeps I (resumeListeners E k n ip)"
  unfolding resumeListeners_def by (intro keeps_intro) assumption+

lemma keeps_PauseForward: "keeps forwardInv (PauseForward E i u r)"
  unfolding PauseForward_def Let_def by (intro keeps_intro) simp_all

lemma keeps_ResumeForward: "keeps forwardInv (ResumeForward E i u r)"
  unfolding ResumeForward_def Let_def by (intro keeps_intro) simp_all

lemma keeps_UpdateForwardOrder: "keeps forwardInv (UpdateForwardOrder items u r)"
  unfolding UpdateForwardOrder_def
  by (intro keeps_intro keeps_updateForwardRow) (simp_all add: keepsPlace_def)

lemma keeps_UpdateForwardA: "keeps forwardInv (UpdateForwardA E f)"
  unfolding UpdateForwardA_def Let_def by (intro keeps_intro) simp_all

end
