(* ===== verification/Fixtures.thy ===== *)
theory Fixtures
  imports ForwardApi
begin

text \<open>
  A small concrete panel on which the theorems are instantiated: two nodes, a port-forward tunnel
  and a relayed tunnel, an administrator and a user with permission on both tunnels, one forward
  of each kind. Every node is connected and answers \<open>OK\<close>.
\<close>

definition exEnv :: env where
  "exEnv = \<lparr>now = 1000, todayYear = 2024, todayMonth = 2, todayDay = 29, todayWeekday = 4, todayHour = 15,
     nodeOnline = (\<lambda>_ _. True), nodeReply = (\<lambda>_ _. \<lparr>respMsg = ''OK'', respData = None\<rparr>),
     createOk = (\<lambda>_. True), updateOk = (\<lambda>_. True), deleteOk = (\<lambda>_. True),
     rawFirstForward = (\<lambda>_ _. None), rawFirstUser = (\<lambda>_ _. None), sqlIdMatch = (\<lambda>_ _. False),
     i64ToF64 = rat_of_int, f64Mul = (*), lookupIP = (\<lambda>_. None), hashPassword = (\<lambda>p. ''$2a$'' @ p), bcryptOk = (\<lambda>h p. h = ''$2a$'' @ p), md5Hex = (\<lambda>p. p),
     captchaOk = (\<lambda>_ _. False), jsonParse = (\<lambda>_. None), jsonPrint = (\<lambda>_. ''{}''), jsonStream = (\<lambda>_. None),
     jsonMethod = (\<lambda>_. None), freshUuid = ''uuid'', freshRandom = (\<lambda>_. ''random''),
     freshSecret = ''secret'', randPerm = (\<lambda>n. [0..<n])\<rparr>"

definition exNode1 :: node where
  "exNode1 = zeroNode\<lparr>nodeID := 1, nodeServerIp := ''192.0.2.1'', nodePortSta := 1000, nodePortEnd := 1002,
     nodeStatus := 1\<rparr>"

definition exNode2 :: node where
  "exNode2 = zeroNode\<lparr>nodeID := 2, nodeServerIp := ''192.0.2.2'', nodePortSta := 2000, nodePortEnd := 2002,
     nodeStatus := 1\<rparr>"

definition exTunnel1 :: tunnel where
  "exTunnel1 = zeroTunnel\<lparr>tunID := 1, tunTrafficRatio := 1, tunInNodeId := 1, tunOutNodeId := 1, tunType := 1,
     tunProtocol := ''tls'', tunFlow := 1, tunTcpListenAddr := ''[::]'', tunUdpListenAddr := ''[::]'',
     tunStatus := 1\<rparr>"

definition exTunnel2 :: tunnel where
  "exTunnel2 = zeroTunnel\<lparr>tunID := 2, tunTrafficRatio := 2, tunInNodeId := 1, tunOutNodeId := 2,
     tunOutIp := ''192.0.2.2'', tunType := 2, tunProtocol := ''tls'', tunFlow := 2,
     tunTcpListenAddr := ''[::]'', tunUdpListenAddr := ''[::]'', tunStatus := 1\<rparr>"

definition exUser :: user where
  "exUser = zeroUser\<lparr>userID := 7, userUser := ''ann'', userRoleId := 1, userFlow := 10, userNum := 3,
     userGostEnabled := 1, userXrayEnabled := 1, userStatus := 1\<rparr>"

definition exUserTunnel1 :: userTunnel where
  "exUserTunnel1 = zeroUserTunnel\<lparr>utID := 3, utUserId := 7, utTunnelId := 1, utNum := 2, utFlow := 5,
     utStatus := 1\<rparr>"

definition exUserTunnel2 :: userTunnel where
  "exUserTunnel2 = zeroUserTunnel\<lparr>utID := 4, utUserId := 7, utTunnelId := 2, utNum := 2, utFlow := 5,
     utStatus := 1\<rparr>"

definition exForward1 :: forward where
  "exForward1 = zeroForward\<lparr>fwdID := 1, fwdUserId := 7, fwdName := ''web'', fwdTunnelId := 1, fwdInPort := 1000,
     fwdRemoteAddr := ''198.51.100.1:80'', fwdStrategy := ''fifo'', fwdStatus := 1, fwdInx := 1\<rparr>"

definition exForward2 :: forward where
  "exForward2 = zeroForward\<lparr>fwdID := 2, fwdUserId := 7, fwdName := ''db'', fwdTunnelId := 2, fwdInPort := 1001,
     fwdOutPort := 2000, fwdRemoteAddr := ''198.51.100.2:5432'', fwdStrategy := ''fifo'', fwdStatus := 1,
     fwdInx := 2\<rparr>"

definition exPanel :: panel where
  "exPanel = emptyPanel\<lparr>dbUsers := [zeroUser\<lparr>userID := 1, userUser := ''admin'', userStatus := 1\<rparr>, exUser],
     dbNodes := [exNode1, exNode2], dbTunnels := [exTunnel1, exTunnel2],
     dbForwards := [exForward1, exForward2], dbUserTunnels := [exUserTunnel1, exUserTunnel2],
     dbAutoInc := (\<lambda>t. if t = ''user'' then 8 else if t = ''user_tunnel'' then 5 else 3)\<rparr>"

definition exDto :: forwardDto where
  "exDto = \<lparr>fdName = ''ssh'', fdTunnelId = 1, fdRemoteAddr = ''198.51.100.3:22'', fdStrategy = [],
     fdInPort = None, fdListenIp = [], fdInterfaceName = []\<rparr>"

definition exUpdate :: forwardUpdateDto where
  "exUpdate = \<lparr>fuID = 1, fuUserId = 0, fuName = ''site'', fuTunnelId = 1, fuRemoteAddr = ''198.51.100.1:80'',
     fuStrategy = ''fifo'', fuInPort = None, fuListenIp = [], fuInterfaceName = []\<rparr>"

end
