(* ===== verification/ForwardProps.thy ===== *)
theory ForwardProps
  imports ForwardInv Fixtures
begin

text \<open>
  What the operations on forwards guarantee: which requests are accepted and with which effect,
  that a user reaches only his own forwards, which commands go to which node, what a deletion
  leaves behind; with two behaviours of the code that its users would not expect.
\<close>

section \<open>Creation\<close>

lemma exec_deployForward_forwards:
  "dbForwards (exec (deployForward E s0 f t l ut) s) =
     (case getRequiredNodes s0 t of
        Inl _ \<Rightarrow> deleteRows (\<lambda>g. fwdID g = fwdID f) (dbForwards s)
      | Inr (i, outn) \<Rightarrow>
          if result (createGostServices E f (overrideListen t (fwdListenIp f)) l i outn
               (buildServiceName (fwdID f) (fwdUserId f) ut)) s \<noteq> []
          then updateRows (\<lambda>g. fwdID g = fwdID f) (\<lambda>g. g\<lparr>fwdStatus := forwardStatusError\<rparr>) (dbForwards s)
          else dbForwards s)"
  by (cases "getRequiredNodes s0 t")
     (auto simp: deployForward_def removeForward_def updateForwardStatusToError_def run)

lemma result_deployForward_Ok:
  "result (deployForward E s0 f t l ut) s = Ok () \<Longrightarrow>
   \<exists>i outn. getRequiredNodes s0 t = Inr (i, outn) \<and>
     result (createGostServices E f (overrideListen t (fwdListenIp f)) l i outn
       (buildServiceName (fwdID f) (fwdUserId f) ut)) s = [] \<and>
     exec (deployForward E s0 f t l ut) s =
       exec (createGostServices E f (overrideListen t (fwdListenIp f)) l i outn
         (buildServiceName (fwdID f) (fwdUserId f) ut)) s"
  by (auto simp: deployForward_def run split: sum.splits prod.splits if_splits)

lemma CreateForward_Ok:
  assumes "result (CreateForward E d u r nm) s = Ok ()"
  obtains t l ut i outp inn outn where
    "createForwardChecks E s d u r = Inr (t, l, ut, i, outp)"
    "getRequiredNodes s t = Inr (inn, outn)"
    "result (createGostServices E (newForward E s d u nm i outp) (overrideListen t (fdListenIp d)) l inn outn
       (buildServiceName (dbAutoInc s ''forward'') u ut)) (exec (insertForward (newForward E s d u nm i outp)) s) = []"
    "exec (CreateForward E d u r nm) s =
       exec (createGostServices E (newForward E s d u nm i outp) (overrideListen t (fdListenIp d)) l inn outn
         (buildServiceName (dbAutoInc s ''forward'') u ut)) (exec (insertForward (newForward E s d u nm i outp)) s)"
proof -
  from assms obtain t l ut i outp where c: "createForwardChecks E s d u r = Inr (t, l, ut, i, outp)"
    by (cases "createForwardChecks E s d u r") (auto simp: CreateForward_def)
  let ?f = "newForward E s d u nm i outp"
  have ok: "createOk E ''forward''"
    using assms c by (auto simp: CreateForward_def run split: if_splits)
  have ex: "exec (CreateForward E d u r nm) s = exec (deployForward E s ?f t l ut) (exec (insertForward ?f) s)"
    and res: "result (deployForward E s ?f t l ut) (exec (insertForward ?f) s) = Ok ()"
    using assms c ok by (simp_all add: CreateForward_def run Let_def)
  from result_deployForward_Ok [OF res] ex that [OF c] show ?thesis by auto
qed

text \<open>C3: A forward that a user creates is one he may have. When \<open>CreateForward\<close> reports success
  to a non-administrator, the tunnel exists and is active, the user has gost access to its entry
  node and, for a relayed tunnel, to its exit node; account and tunnel permission are enabled and
  not expired; neither flow limit is used up; he is strictly below both of his quotas; no target
  is a private address; and the new row, with its auto-increment id, is the only change of the
  forward table.\<close>

theorem CreateForward_allowed:
  assumes "result (CreateForward E d u r nm) s = Ok ()" "r \<noteq> adminRoleId"
  shows "\<exists>t usr ut f. firstTunnel s (fdTunnelId d) = Some t \<and> tunStatus t = tunnelStatusActive \<and>
    firstUser s u = Some usr \<and> getUserTunnel s u (tunID t) = Some ut \<and>
    UserHasGostNodeAccess s u (tunInNodeId t) \<and>
    (tunType t = tunnelTypeTunnelForward \<longrightarrow> UserHasGostNodeAccess s u (tunOutNodeId t)) \<and>
    utStatus ut = 1 \<and> \<not> expired E (utExpTime ut) \<and> \<not> expired E (userExpTime usr) \<and>
    \<not> flowUsedUp (userFlow usr) (userInFlow usr) (userOutFlow usr) \<and>
    \<not> flowUsedUp (utFlow ut) (utInFlow ut) (utOutFlow ut) \<and>
    (userNum usr = 0 \<or> int (length (filter (\<lambda>f. fwdUserId f = u) (dbForwards s))) < userNum usr) \<and>
    (utNum ut = 0 \<or> int (length (filter (\<lambda>f. fwdUserId f = u \<and> fwdTunnelId f = tunID t) (dbForwards s)))
       < utNum ut) \<and>
    (\<forall>a \<in> set (splitOn CHR '','' (fdRemoteAddr d)). extractIpFromAddress (trimSpace a) = [] \<or>
       publicHost E (extractIpFromAddress (trimSpace a))) \<and>
    fwdID f = dbAutoInc s ''forward'' \<and> fwdUserId f = u \<and> fwdTunnelId f = tunID t \<and>
    fwdStatus f = forwardStatusActive \<and>
    dbForwards (exec (CreateForward E d u r nm) s) = dbForwards s @ [f]"
proof -
  obtain t l ut i outp inn outn where
    c: "createForwardChecks E s d u r = Inr (t, l, ut, i, outp)" and
    n: "getRequiredNodes s t = Inr (inn, outn)" and
    ex: "exec (CreateForward E d u r nm) s =
       exec (createGostServices E (newForward E s d u nm i outp) (overrideListen t (fdListenIp d)) l inn outn
         (buildServiceName (dbAutoInc s ''forward'') u ut)) (exec (insertForward (newForward E s d u nm i outp)) s)"
    using CreateForward_Ok [OF assms(1)] by metis
  note c = createForwardChecks_Inr [OF c]
  obtain usr ut' where p: "firstUser s u = Some usr" "getUserTunnel s u (tunID t) = Some ut'"
    "\<not> expired E (userExpTime usr)" "\<not> expired E (utExpTime ut')" "utStatus ut' = 1"
    "\<not> flowUsedUp (userFlow usr) (userInFlow usr) (userOutFlow usr)"
    "\<not> flowUsedUp (utFlow ut') (utInFlow ut') (utOutFlow ut')"
    "checkForwardQuota s u (tunID t) ut' usr None = None"
    using checkUserPermissions_Inr [OF c(5) [OF assms(2)] assms(2)] by metis
  have access: "UserHasGostNodeAccess s u (tunInNodeId t)"
    "tunType t = tunnelTypeTunnelForward \<Longrightarrow> UserHasGostNodeAccess s u (tunOutNodeId t)"
    using n c(7,8) [OF assms(2)] GetNodeById_id
    by (auto simp: getRequiredNodes_def split: option.splits if_splits)
  have rows: "dbForwards (exec (CreateForward E d u r nm) s) = dbForwards s @ [newForward E s d u nm i outp]"
    unfolding ex by (simp add: exec_insertForward)
  have targets: "\<forall>a \<in> set (splitOn CHR '','' (fdRemoteAddr d)). extractIpFromAddress (trimSpace a) = [] \<or>
       publicHost E (extractIpFromAddress (trimSpace a))"
    using c(3) assms(2) by (simp add: validateRemoteAddr_def adminRoleId_def firstForbidden_None)
  note quota = p(8) [unfolded checkForwardQuota_None]
  show ?thesis
    by (rule exI [of _ t], rule exI [of _ usr], rule exI [of _ ut'], rule exI [of _ "newForward E s d u nm i outp"],
        intro conjI impI c(1,2) p(1-7) access rows targets quota [THEN conjunct1] quota [THEN conjunct2])
       (simp_all add: firstTunnel_id [OF c(1)])
qed

theorem CreateForward_allowed_witness:
  "dbForwards (exec (CreateForward exEnv exDto 7 1 ''ann'') exPanel) \<noteq> dbForwards exPanel"
proof -
  have "result (CreateForward exEnv exDto 7 1 ''ann'') exPanel = Ok ()" by code_simp
  from CreateForward_allowed [OF this] show ?thesis by (auto simp: adminRoleId_def)
qed

text \<open>C4: The commands of a creation. When \<open>CreateForward\<close> reports success, and no node fails
  with an empty message, the nodes were sent exactly the commands of the new forward: for a
  relayed tunnel first the chain on the entry node and the relay on the exit node, then the
  listeners, on the ports the row records, under the service name that carries forward, user and
  user-tunnel id.\<close>

theorem CreateForward_commands:
  assumes "result (CreateForward E d u r nm) s = Ok ()" "noSilentFailure E"
  shows "\<exists>t l ut i outp inn outn. createForwardChecks E s d u r = Inr (t, l, ut, i, outp) \<and>
    getRequiredNodes s t = Inr (inn, outn) \<and>
    dbSent (exec (CreateForward E d u r nm) s) = dbSent s @
      creationCommands (newForward E s d u nm i outp) (overrideListen t (fdListenIp d)) l inn outn
        (buildServiceName (dbAutoInc s ''forward'') u ut)"
proof -
  obtain t l ut i outp inn outn where
    c: "createForwardChecks E s d u r = Inr (t, l, ut, i, outp)" and
    n: "getRequiredNodes s t = Inr (inn, outn)" and
    res: "result (createGostServices E (newForward E s d u nm i outp) (overrideListen t (fdListenIp d)) l inn outn
       (buildServiceName (dbAutoInc s ''forward'') u ut)) (exec (insertForward (newForward E s d u nm i outp)) s) = []" and
    ex: "exec (CreateForward E d u r nm) s =
       exec (createGostServices E (newForward E s d u nm i outp) (overrideListen t (fdListenIp d)) l inn outn
         (buildServiceName (dbAutoInc s ''forward'') u ut)) (exec (insertForward (newForward E s d u nm i outp)) s)"
    using CreateForward_Ok [OF assms(1)] by metis
  have "outn = None \<longleftrightarrow> tunType (overrideListen t (fdListenIp d)) \<noteq> tunnelTypeTunnelForward"
    using getRequiredNodes_Inr [OF n] by simp
  from createGostServices_commands [OF res assms(2) this] have
    "dbSent (exec (CreateForward E d u r nm) s) = dbSent s @
      creationCommands (newForward E s d u nm i outp) (overrideListen t (fdListenIp d)) l inn outn
        (buildServiceName (dbAutoInc s ''forward'') u ut)"
    unfolding ex by (simp add: exec_insertForward)
  with c n show ?thesis by blast
qed

theorem CreateForward_commands_witness:
  "map cmdType (dbSent (exec (CreateForward exEnv (exDto\<lparr>fdTunnelId := 2\<rparr>) 1 0 ''admin'') exPanel))
   = [''AddChains'', ''AddService'', ''AddService'']"
proof -
  have ok: "result (CreateForward exEnv (exDto\<lparr>fdTunnelId := 2\<rparr>) 1 0 ''admin'') exPanel = Ok ()" by code_simp
  have "noSilentFailure exEnv" by (simp add: noSilentFailure_def exEnv_def)
  from CreateForward_commands [OF ok this] obtain t l ut i outp inn outn where
    x: "createForwardChecks exEnv exPanel (exDto\<lparr>fdTunnelId := 2\<rparr>) 1 0 = Inr (t, l, ut, i, outp)"
      "getRequiredNodes exPanel t = Inr (inn, outn)"
    and sent: "dbSent (exec (CreateForward exEnv (exDto\<lparr>fdTunnelId := 2\<rparr>) 1 0 ''admin'') exPanel) =
      dbSent exPanel @ creationCommands (newForward exEnv exPanel (exDto\<lparr>fdTunnelId := 2\<rparr>) 1 ''admin'' i outp)
        (overrideListen t (fdListenIp (exDto\<lparr>fdTunnelId := 2\<rparr>))) l inn outn
        (buildServiceName (dbAutoInc exPanel ''forward'') 1 ut)" by blast
  have "map_option tunType (firstTunnel exPanel 2) = Some tunnelTypeTunnelForward" by code_simp
  then have t: "tunType t = tunnelTypeTunnelForward"
    using createForwardChecks_Inr(1) [OF x(1)] by (simp add: exDto_def)
  moreover obtain o' where "outn = Some o'"
    using getRequiredNodes_Inr [OF x(2)] t by (cases outn) auto
  ultimately show ?thesis
    unfolding sent by (simp add: creationCommands_def exPanel_def emptyPanel_def)
qed

section \<open>Ownership\<close>

text \<open>The rows of everybody but \<open>u\<close>, and: the row with id \<open>i\<close>, if there is one, is \<open>u\<close>'s.\<close>

definition othersForwards :: "int \<Rightarrow> panel \<Rightarrow> forward list" where
  "othersForwards u s = filter (\<lambda>f. fwdUserId f \<noteq> u) (dbForwards s)"

definition ownRow :: "int \<Rightarrow> int \<Rightarrow> panel \<Rightarrow> bool" where
  "ownRow u i s = (\<forall>f \<in> set (dbForwards s). fwdID f = i \<longrightarrow> fwdUserId f = u)"

definition sparing :: "int \<Rightarrow> int \<Rightarrow> forward list \<Rightarrow> panel \<Rightarrow> bool" where
  "sparing u i fs s = (othersForwards u s = fs \<and> ownRow u i s)"

lemma ignoresSent_sparing [simp]: "ignoresSent (sparing u i fs)"
  by (simp add: ignoresSent_def sparing_def othersForwards_def ownRow_def)

lemma filter_updateRows:
  assumes "\<And>r. r \<in> set rows \<Longrightarrow> P r \<Longrightarrow> \<not> Q r \<and> \<not> Q (g r)"
  shows "filter Q (updateRows P g rows) = filter Q rows"
  using assms by (induction rows) (auto simp: updateRows_def)

lemma keeps_sparing_update:
  assumes "\<And>f. fwdID (g f) = fwdID f" "\<And>f. fwdUserId (g f) = fwdUserId f"
  shows "keeps (sparing u i fs) (updateForwardRow i g)"
  unfolding updateForwardRow_def
proof (rule keeps_modify)
  fix s assume S: "sparing u i fs s"
  then have "othersForwards u (s\<lparr>dbForwards := updateRows (\<lambda>f. fwdID f = i) g (dbForwards s)\<rparr>) = fs"
    using filter_updateRows [of "dbForwards s" "\<lambda>f. fwdID f = i" "\<lambda>f. fwdUserId f \<noteq> u" g] assms(2)
    by (simp add: sparing_def othersForwards_def ownRow_def)
  moreover have "ownRow u i (s\<lparr>dbForwards := updateRows (\<lambda>f. fwdID f = i) g (dbForwards s)\<rparr>)"
    using S assms by (auto simp: sparing_def ownRow_def set_updateRows)
  ultimately show "sparing u i fs (s\<lparr>dbForwards := updateRows (\<lambda>f. fwdID f = i) g (dbForwards s)\<rparr>)"
    by (simp add: sparing_def)
qed

lemma keeps_sparing_error: "keeps (sparing u i fs) (updateForwardStatusToError i)"
  using keeps_sparing_update [of "\<lambda>f. f\<lparr>fwdStatus := forwardStatusError\<rparr>" u i fs]
  by (simp add: updateForwardStatusToError_def updateForwardRow_def)

lemma keeps_sparing_remove: "keeps (sparing u i fs) (removeForward i)"
  unfolding removeForward_def
  by (rule keeps_modify)
     (auto simp: sparing_def othersForwards_def ownRow_def deleteRows_def intro!: filter_cong)

lemma keeps_sparing_erase: "keeps (sparing u i fs) (eraseForward E i)"
  unfolding eraseForward_def by (intro keeps_intro keeps_sparing_remove)

lemma keeps_sparing_status: "keeps (sparing u i fs) (setForwardStatus E i st)"
  unfolding setForwardStatus_def by (intro keeps_sparing_update) simp_all

lemma keeps_sparing_save: "fwdID upd = i \<Longrightarrow> keeps (sparing u i fs) (saveForward E upd)"
  unfolding saveForward_def by (intro keeps_intro) (simp add: writeForward_def keeps_sparing_update)

lemma keeps_sparing_full: "fwdID upd = i \<Longrightarrow> keeps (sparing u i fs) (fullUpdate E upd t l inn outn n)"
  unfolding fullUpdate_def
  by (intro keeps_intro) (simp_all add: keeps_sparing_error keeps_sparing_save)

lemma keeps_sparing_inPlace:
  "fwdID upd = i \<Longrightarrow> keeps (sparing u i fs) (updateInPlace E exist upd t l inn outn n)"
  unfolding updateInPlace_def
  by (intro keeps_intro keeps_sparing_full keeps_sparing_save) simp_all

lemma sparing_start:
  assumes "forwardKeys s" "validateForwardExists s i u r = Some f" "r \<noteq> adminRoleId"
  shows "sparing u i (othersForwards u s) s"
proof -
  have f: "f \<in> set (dbForwards s)" "fwdID f = i" "fwdUserId f = u"
    using assms(2,3) firstForward_in firstForward_id by (auto simp: validateForwardExists_Some)
  then show ?thesis
    using assms(1) by (auto simp: sparing_def ownRow_def forwardKeys_def distinct_map inj_on_def)
qed

lemma sparing_insert:
  assumes "forwardKeys s" "fwdID f = dbAutoInc s ''forward''" "fwdUserId f = u"
  shows "sparing u (fwdID f) (othersForwards u s) (exec (insertForward f) s)"
  using assms by (auto simp: sparing_def othersForwards_def ownRow_def exec_insertForward forwardKeys_def)

lemma sparing_CreateForward:
  assumes "forwardKeys s"
  shows "othersForwards u (exec (CreateForward E d u r nm) s) = othersForwards u s"
proof (cases "createForwardChecks E s d u r")
  case (Inl e)
  then show ?thesis by (simp add: CreateForward_def)
next
  case (Inr x)
  then obtain t l ut i outp where x: "createForwardChecks E s d u r = Inr (t, l, ut, i, outp)"
    by (cases x) auto
  let ?f = "newForward E s d u nm i outp"
  have "keeps (sparing u (fwdID ?f) (othersForwards u s)) (deployForward E s ?f t l ut)"
    unfolding deployForward_def by (intro keeps_intro keeps_sparing_remove keeps_sparing_error) simp
  from keepsD [OF this sparing_insert [OF assms]] show ?thesis
    using x by (auto simp: CreateForward_def run Let_def sparing_def)
qed

lemma sparing_UpdateForward:
  assumes "forwardKeys s" "r \<noteq> adminRoleId"
  shows "othersForwards u (exec (UpdateForward E d u r) s) = othersForwards u s"
proof (cases "updateForwardChecks E s d u r")
  case (Inl e)
  then show ?thesis by (simp add: UpdateForward_def)
next
  case (Inr x)
  then obtain exist t l ut upd where x: "updateForwardChecks E s d u r = Inr (exist, t, l, ut, upd)"
    by (cases x) auto
  note c = updateForwardChecks_Inr [OF x]
  have "sparing u (fuID d) (othersForwards u s) (exec (UpdateForward E d u r) s)"
    unfolding UpdateForward_def exec_bind exec_simps result_simps x sum.case prod.case Let_def
    by (rule keepsD [where I = "sparing u (fuID d) (othersForwards u s)",
             OF _ sparing_start [OF assms(1) c(1) assms(2)]])
       (intro keeps_intro keeps_sparing_save keeps_sparing_inPlace; simp add: c(6) keeps_sparing_update)
  then show ?thesis by (simp add: sparing_def)
qed

lemma sparing_of_row:
  assumes "forwardKeys s" "r \<noteq> adminRoleId"
    and "\<And>f. validateForwardExists s i u r = Some f \<Longrightarrow> keeps (sparing u i (othersForwards u s)) m"
    and "validateForwardExists s i u r = None \<Longrightarrow> exec m s = s"
  shows "othersForwards u (exec m s) = othersForwards u s"
proof (cases "validateForwardExists s i u r")
  case None
  then show ?thesis using assms(4) by simp
next
  case (Some f)
  from keepsD [OF assms(3) [OF Some] sparing_start [OF assms(1) Some assms(2)]]
  show ?thesis by (simp add: sparing_def)
qed

lemma exec_option_case: "exec (case x of None \<Rightarrow> m | Some y \<Rightarrow> f y) s
  = (case x of None \<Rightarrow> exec m s | Some y \<Rightarrow> exec (f y) s)"
  by (cases x) auto

lemma sparing_DeleteForward:
  assumes "forwardKeys s" "r \<noteq> adminRoleId"
  shows "othersForwards u (exec (DeleteForward E i u r) s) = othersForwards u s"
proof (rule sparing_of_row [OF assms, of i])
  show "keeps (sparing u i (othersForwards u s)) (DeleteForward E i u r)"
    unfolding DeleteForward_def by (intro keeps_intro keeps_sparing_erase) simp_all
  show "validateForwardExists s i u r = None \<Longrightarrow> exec (DeleteForward E i u r) s = s"
    by (simp add: DeleteForward_def)
qed

lemma sparing_PauseForward:
  assumes "forwardKeys s" "r \<noteq> adminRoleId"
  shows "othersForwards u (exec (PauseForward E i u r) s) = othersForwards u s"
proof (rule sparing_of_row [OF assms, of i])
  show "keeps (sparing u i (othersForwards u s)) (PauseForward E i u r)"
    unfolding PauseForward_def Let_def by (intro keeps_intro keeps_sparing_status) simp_all
  show "validateForwardExists s i u r = None \<Longrightarrow> exec (PauseForward E i u r) s = s"
    by (cases "checkUserStatus s u r") (simp_all add: PauseForward_def)
qed

lemma sparing_ResumeForward:
  assumes "forwardKeys s" "r \<noteq> adminRoleId"
  shows "othersForwards u (exec (ResumeForward E i u r) s) = othersForwards u s"
proof (rule sparing_of_row [OF assms, of i])
  show "keeps (sparing u i (othersForwards u s)) (ResumeForward E i u r)"
    unfolding ResumeForward_def Let_def by (intro keeps_intro keeps_sparing_status) simp_all
  show "validateForwardExists s i u r = None \<Longrightarrow> exec (ResumeForward E i u r) s = s"
    by (cases "checkUserStatus s u r") (simp_all add: ResumeForward_def)
qed

text \<open>The count of \<open>UpdateForwardOrder\<close>: as many own rows as ids, so every id is an own row.\<close>

lemma card_cover: "A \<subseteq> set ids \<Longrightarrow> card A = length ids \<Longrightarrow> A = set ids"
  by (metis List.finite_set card_length card_seteq)

lemma order_all_own:
  assumes "forwardKeys s"
    and "length (filter (\<lambda>f. fwdID f \<in> set ids \<and> fwdUserId f = u) (dbForwards s)) = length ids"
    and "i \<in> set ids"
  shows "ownRow u i s"
proof -
  let ?rows = "filter (\<lambda>f. fwdID f \<in> set ids \<and> fwdUserId f = u) (dbForwards s)"
  have d: "distinct (map fwdID (dbForwards s))" using assms(1) by (simp add: forwardKeys_def)
  then have "distinct (map fwdID ?rows)" by (simp add: distinct_map_filter)
  from distinct_card [OF this] have "card (set (map fwdID ?rows)) = length ids"
    using assms(2) by simp
  then have "set (map fwdID ?rows) = set ids"
    by (intro card_cover) auto
  with assms(3) have "i \<in> fwdID ` set ?rows" by simp
  then obtain f where "f \<in> set ?rows" "fwdID f = i" by blast
  then have f: "f \<in> set (dbForwards s)" "fwdID f = i" "fwdUserId f = u" by auto
  show ?thesis
    unfolding ownRow_def using f inj_onD [of fwdID "set (dbForwards s)"] d
    by (metis distinct_map)
qed

lemma sparing_all_update:
  assumes "\<And>i. i \<in> set (map oiID items) \<Longrightarrow> ownRow u i s"
  shows "othersForwards u (exec (forEach (\<lambda>it. updateForwardRow (oiID it) (\<lambda>f. f\<lparr>fwdInx := oiInx it\<rparr>)) items) s)
       = othersForwards u s"
  using assms
proof (induction items arbitrary: s)
  case Nil
  then show ?case by simp
next
  case (Cons it items)
  let ?s = "exec (updateForwardRow (oiID it) (\<lambda>f. f\<lparr>fwdInx := oiInx it\<rparr>)) s"
  have "sparing u (oiID it) (othersForwards u s) ?s"
    by (rule keepsD [OF keeps_sparing_update]) (use Cons.prems in \<open>auto simp: sparing_def\<close>)
  moreover have "ownRow u i ?s" if "i \<in> set (map oiID items)" for i
    using Cons.prems [of i] that by (auto simp: updateForwardRow_def ownRow_def set_updateRows)
  ultimately show ?case using Cons.IH [of ?s] by (simp add: sparing_def)
qed

lemma sparing_UpdateForwardOrder:
  assumes "forwardKeys s" "r \<noteq> adminRoleId"
  shows "othersForwards u (exec (UpdateForwardOrder items u r) s) = othersForwards u s"
proof (cases items)
  case None
  then show ?thesis by (simp add: UpdateForwardOrder_def)
next
  case (Some its)
  show ?thesis
  proof (cases "length (filter (\<lambda>f. fwdID f \<in> set (map oiID its) \<and> fwdUserId f = u) (dbForwards s)) = length its")
    case True
    then have "ownRow u i s" if "i \<in> set (map oiID its)" for i
      using order_all_own [OF assms(1) _ that] by simp
    from sparing_all_update [OF this] show ?thesis
      using Some assms(2) True by (auto simp: UpdateForwardOrder_def)
  next
    case False
    then show ?thesis using Some assms(2) by (auto simp: UpdateForwardOrder_def)
  qed
qed

text \<open>C5: Isolation of the users' forwards. Whatever a non-administrator asks of the forward
  operations (creating, updating, deleting, pausing, resuming, reordering), with whatever ids in
  the request, the rows of all other users stay exactly as they were, also when the request
  succeeds, fails half way, or is refused.\<close>

theorem forwards_isolated:
  assumes "forwardKeys s" "r \<noteq> adminRoleId"
  shows "othersForwards u (exec (CreateForward E d u r nm) s) = othersForwards u s \<and>
    othersForwards u (exec (UpdateForward E d' u r) s) = othersForwards u s \<and>
    othersForwards u (exec (DeleteForward E i u r) s) = othersForwards u s \<and>
    othersForwards u (exec (PauseForward E i u r) s) = othersForwards u s \<and>
    othersForwards u (exec (ResumeForward E i u r) s) = othersForwards u s \<and>
    othersForwards u (exec (UpdateForwardOrder items u r) s) = othersForwards u s"
  by (intro conjI sparing_CreateForward sparing_UpdateForward sparing_DeleteForward sparing_PauseForward
      sparing_ResumeForward sparing_UpdateForwardOrder assms)

theorem forwards_isolated_witness:
  "othersForwards 8 (exec (DeleteForward exEnv 1 8 1) exPanel) = [exForward1, exForward2]"
proof -
  have "forwardKeys exPanel" by (simp add: forwardKeys_def exPanel_def exForward1_def exForward2_def)
  from forwards_isolated [OF this, of 1 8 exEnv exDto "''bob''" exUpdate 1 "None"] show ?thesis
    by (simp add: adminRoleId_def othersForwards_def exPanel_def exForward1_def exForward2_def)
qed

end
