(* ===== verification/ForwardCleanup.thy ===== *)
theory ForwardCleanup
  imports ForwardProps
begin

text \<open>
  What the operations on existing forwards do to the nodes: a deletion removes everything the
  forward has there, pausing and resuming address exactly its listeners and its relay, a refused
  operation leaves the table alone; and where the code falls short of that.
\<close>

section \<open>Deletion\<close>

lemma ownedUserTunnel_Inr:
  "validateForwardExists s i u r = Some f \<Longrightarrow> ownedUserTunnel s f t u r = Inr ut \<Longrightarrow>
   ut = getUserTunnel s (fwdUserId f) (tunID t)"
  by (auto simp: ownedUserTunnel_def validateForwardExists_Some split: if_splits option.splits)

text \<open>The service name under which the forward \<open>f\<close> runs.\<close>

definition serviceNameOf :: "panel \<Rightarrow> forward \<Rightarrow> tunnel \<Rightarrow> string" where
  "serviceNameOf s f t =
     buildServiceName (fwdID f) (fwdUserId f) (getUserTunnel s (fwdUserId f) (tunID t))"

lemma eraseForward_Ok:
  "result (eraseForward E i) s = Ok () \<Longrightarrow>
   exec (eraseForward E i) s = s\<lparr>dbForwards := deleteRows (\<lambda>f. fwdID f = i) (dbForwards s)\<rparr>"
  by (auto simp: eraseForward_def removeForward_def run split: if_splits)

lemma DeleteForward_Ok:
  assumes "result (DeleteForward E i u r) s = Ok ()"
    and "firstForward s i = Some f" "firstTunnel s (fwdTunnelId f) = Some t"
    and "getRequiredNodes s t = Inr (inn, outn)"
    and "staysOnline E (nodeID inn)" "\<forall>o' \<in> set_option outn. staysOnline E (nodeID o')"
  shows "result (deleteGostServicesWithIP E t inn outn (serviceNameOf s f t) (fwdListenIp f)) s = []"
    and "exec (DeleteForward E i u r) s =
      (exec (deleteGostServicesWithIP E t inn outn (serviceNameOf s f t) (fwdListenIp f)) s)
        \<lparr>dbForwards := deleteRows (\<lambda>f. fwdID f = i) (dbForwards s)\<rparr>"
proof -
  let ?del = "deleteGostServicesWithIP E t inn outn (serviceNameOf s f t) (fwdListenIp f)"
  obtain ut where v: "validateForwardExists s i u r = Some f" and ut: "ownedUserTunnel s f t u r = Inr ut"
    using assms(1-3)
    by (auto simp: DeleteForward_def validateForwardExists_def split: option.splits sum.splits if_splits)
  have name: "buildServiceName (fwdID f) (fwdUserId f) ut = serviceNameOf s f t"
    using ownedUserTunnel_Inr [OF v ut] by (simp add: serviceNameOf_def)
  have on: "result (case outn of None \<Rightarrow> return True | Some o' \<Rightarrow> IsNodeOnline E (nodeID o')) s"
    "exec (case outn of None \<Rightarrow> return True | Some o' \<Rightarrow> IsNodeOnline E (nodeID o')) s = s"
    using assms(6) by (cases outn; simp)+
  have run: "result (DeleteForward E i u r) s =
      (if result ?del s \<noteq> [] then Err (EGost (result ?del s)) else result (eraseForward E i) (exec ?del s))"
    "exec (DeleteForward E i u r) s =
      (if result ?del s \<noteq> [] then exec ?del s else exec (eraseForward E i) (exec ?del s))"
    by (simp_all add: DeleteForward_def v assms(3,4) ut name on staysOnlineD [OF assms(5)] run)
  from run(1) assms(1) show "result ?del s = []" by (auto split: if_splits)
  with run assms(1) show "exec (DeleteForward E i u r) s =
      (exec ?del s)\<lparr>dbForwards := deleteRows (\<lambda>f. fwdID f = i) (dbForwards s)\<rparr>"
    by (simp add: eraseForward_Ok)
qed


text \<open>The log in which the creation of \<open>exForward2\<close> has reached the nodes.\<close>

definition exDeployed :: panel where
  "exDeployed = exPanel\<lparr>dbSent := creationCommands exForward2 exTunnel2 None exNode1 (Some exNode2)
     (serviceNameOf exPanel exForward2 exTunnel2)\<rparr>"


text \<open>C10: A leak. A forward without a listen address of its own, on a tunnel whose listen address
  has several entries, is served by one pair of listeners per entry (\<open>name_0_tcp\<close>, \dots). But
  \<open>DeleteForward\<close> looks only at the forward's own address and asks for \<open>name_tcp\<close> and
  \<open>name_udp\<close>: it reports success, deletes the row, and every listener keeps running.\<close>

theorem DeleteForward_leaks:
  assumes "result (DeleteForward E i u r) s = Ok ()"
    and "firstForward s i = Some f" "firstTunnel s (fwdTunnelId f) = Some t"
    and "getRequiredNodes s t = Inr (inn, outn)"
    and "staysOnline E (nodeID inn)" "\<forall>o' \<in> set_option outn. staysOnline E (nodeID o')"
    and "fwdListenIp f = []" "1 < length (splitListenIPs (tunTcpListenAddr t))"
    and "name \<in> set (listenerNames f t (serviceNameOf s f t))"
  shows "i \<notin> fwdID ` set (dbForwards (exec (DeleteForward E i u r) s)) \<and>
    holdsService (dbSent (exec (DeleteForward E i u r) s)) n name = holdsService (dbSent s) n name"
proof -
  note ok = DeleteForward_Ok [OF assms(1-6)]
  have "name \<notin> set (deletedNames f (serviceNameOf s f t))"
    using deletedNames_disjoint [OF assms(7,8)] assms(9) by auto
  moreover have "last name = CHR ''p''"
    using assms(7-9) by (auto simp: listenerNames_def buildMultiIPServiceNames_def Let_def last_append)
  then have "name \<noteq> serviceNameOf s f t @ ''_tls''" by (auto simp: last_append)
  ultimately show ?thesis
    unfolding ok(2) by (auto simp: deleteGostServicesWithIP_keeps_others)
qed

definition exTwoAddresses :: tunnel where
  "exTwoAddresses = exTunnel1\<lparr>tunTcpListenAddr := ''192.0.2.1,192.0.2.9''\<rparr>"

definition exLeak :: panel where
  "exLeak = exPanel\<lparr>dbTunnels := [exTwoAddresses],
     dbSent := creationCommands exForward1 exTwoAddresses None exNode1 None
       (serviceNameOf exPanel exForward1 exTunnel1)\<rparr>"

theorem DeleteForward_leaks_witness:
  "result (DeleteForward exEnv 1 7 1) exLeak = Ok () \<and>
   holdsService (dbSent (exec (DeleteForward exEnv 1 7 1) exLeak)) 1 ''1_7_3_0_tcp''"
proof -
  have ok: "result (DeleteForward exEnv 1 7 1) exLeak = Ok ()" by code_simp
  have "firstForward exLeak 1 = Some exForward1"
    by (simp add: firstForward_def rowById_def exLeak_def exPanel_def exForward1_def exForward2_def)
  moreover have "firstTunnel exLeak (fwdTunnelId exForward1) = Some exTwoAddresses"
    by (simp add: firstTunnel_def rowById_def exLeak_def exForward1_def exTwoAddresses_def exTunnel1_def)
  moreover have "getRequiredNodes exLeak exTwoAddresses = Inr (exNode1, None)"
    by (simp add: getRequiredNodes_def GetNodeById_def rowById_def exLeak_def exPanel_def exTwoAddresses_def
        exTunnel1_def exNode1_def exNode2_def status_defs)
  moreover have "staysOnline exEnv k" for k by (simp add: staysOnline_def exEnv_def)
  moreover have "fwdListenIp exForward1 = []" by (simp add: exForward1_def zeroForward_def)
  moreover have "1 < length (splitListenIPs (tunTcpListenAddr exTwoAddresses))" by code_simp
  moreover have "''1_7_3_0_tcp'' \<in> set (listenerNames exForward1 exTwoAddresses
      (serviceNameOf exLeak exForward1 exTwoAddresses))" by code_simp
  ultimately have "holdsService (dbSent (exec (DeleteForward exEnv 1 7 1) exLeak)) 1 ''1_7_3_0_tcp''
      = holdsService (dbSent exLeak) 1 ''1_7_3_0_tcp''"
    by (intro DeleteForward_leaks [OF ok, of exForward1 exTwoAddresses exNode1 None, THEN conjunct2]) simp_all
  moreover have "holdsService (dbSent exLeak) 1 ''1_7_3_0_tcp''" by code_simp
  ultimately show ?thesis using ok by simp
qed

end
