(* ===== verification/FlowService.thy ===== *)
theory FlowService
  imports ForwardCleanup
begin

text \<open>
  Traffic accounting: \<open>service/flow.go\<close>. A node reports the bytes of a service under its name; the
  panel bills them to the forward, the user and the user-tunnel row that the name carries, and
  pauses what is over a limit. The ids are the strings of the name: GORM looks up a numeral by
  primary key and takes anything else for SQL (\<open>rawFirstForward\<close>, \<open>rawFirstUser\<close>,
  \<open>sqlIdMatch\<close> of \<open>env\<close> say what the database makes of that). Factors are multiplied in
  floating point, whose operations are parameters too. Decoding a request (JSON, AES) is a \<open>codec\<close>.
\<close>

section \<open>Ids of a report\<close>

definition firstForwardStr :: "env \<Rightarrow> panel \<Rightarrow> string \<Rightarrow> forward option" where
  "firstForwardStr E s i = (case parseInt i of Some n \<Rightarrow> firstForward s n | None \<Rightarrow> rawFirstForward E i s)"

definition firstUserStr :: "env \<Rightarrow> panel \<Rightarrow> string \<Rightarrow> user option" where
  "firstUserStr E s i = (case parseInt i of Some n \<Rightarrow> firstUser s n | None \<Rightarrow> rawFirstUser E i s)"

definition idMatches :: "env \<Rightarrow> string \<Rightarrow> int \<Rightarrow> bool" where
  "idMatches E i n = (case parseInt i of Some k \<Rightarrow> n = k | None \<Rightarrow> sqlIdMatch E i n)"

section \<open>Pausing\<close>

definition pauseOne :: "env \<Rightarrow> forward \<Rightarrow> unit prog" where
  "pauseOne E fwd =
     (if fwdStatus fwd = forwardStatusPaused then return ()
      else do {
        s \<leftarrow> gets (\<lambda>s. s);
        (case firstTunnel s (fwdTunnelId fwd) of
           None \<Rightarrow> return ()
         | Some tunnel \<Rightarrow> do {
             let svcName = buildServiceName (fwdID fwd) (fwdUserId fwd)
                             (getUserTunnel s (fwdUserId fwd) (fwdTunnelId fwd));
             pauseListeners E (tunInNodeId tunnel) svcName (fwdListenIp fwd);
             (if tunType tunnel = 2 then do {
                PauseRemoteService E (tunOutNodeId tunnel) svcName; return () }
              else return ());
             updateForwardRow (fwdID fwd) (\<lambda>f. f\<lparr>fwdStatus := forwardStatusPaused\<rparr>) }) })"

definition pauseForwardServices :: "env \<Rightarrow> forward list \<Rightarrow> unit prog" where
  "pauseForwardServices E forwards = forEach (pauseOne E) forwards"

definition pauseAllUserServices :: "env \<Rightarrow> string \<Rightarrow> unit prog" where
  "pauseAllUserServices E userId = do {
     forwards \<leftarrow> gets (\<lambda>s. filter (\<lambda>f. idMatches E userId (fwdUserId f)) (dbForwards s));
     pauseForwardServices E forwards }"

definition pauseSpecificForward :: "env \<Rightarrow> int \<Rightarrow> string \<Rightarrow> unit prog" where
  "pauseSpecificForward E tunnelId userId = do {
     forwards \<leftarrow> gets (\<lambda>s. filter (\<lambda>f. fwdTunnelId f = tunnelId \<and> idMatches E userId (fwdUserId f)) (dbForwards s));
     pauseForwardServices E forwards }"

section \<open>Limits\<close>

definition checkUserLimits :: "env \<Rightarrow> string \<Rightarrow> unit prog" where
  "checkUserLimits E userId = do {
     s \<leftarrow> gets (\<lambda>s. s);
     (case firstUserStr E s userId of
        None \<Rightarrow> return ()
      | Some user \<Rightarrow>
          if userFlow user \<noteq> 0 \<and>
             mulI64 (userFlow user) bytesToGB < addI64 (userInFlow user) (userOutFlow user)
          then pauseAllUserServices E userId
          else if 0 < userExpTime user \<and> userExpTime user \<le> now E then pauseAllUserServices E userId
          else if userStatus user \<noteq> 1 then pauseAllUserServices E userId
          else return ()) }"

definition checkUserTunnelLimits :: "env \<Rightarrow> string \<Rightarrow> string \<Rightarrow> unit prog" where
  "checkUserTunnelLimits E userTunnelId userId = do {
     s \<leftarrow> gets (\<lambda>s. s);
     (case rowById utID (parseIntVal userTunnelId) (dbUserTunnels s) of
        None \<Rightarrow> return ()
      | Some ut \<Rightarrow>
          if utFlow ut \<noteq> 0 \<and> mulI64 (utFlow ut) bytesToGB \<le> addI64 (utInFlow ut) (utOutFlow ut)
          then pauseSpecificForward E (utTunnelId ut) userId
          else if 0 < utExpTime ut \<and> utExpTime ut \<le> now E then pauseSpecificForward E (utTunnelId ut) userId
          else if utStatus ut \<noteq> 1 then pauseSpecificForward E (utTunnelId ut) userId
          else return ()) }"

section \<open>Billing\<close>

definition flowFactors :: "panel \<Rightarrow> forward \<Rightarrow> int \<times> rat" where
  "flowFactors s f =
     (case firstTunnel s (fwdTunnelId f) of
        None \<Rightarrow> (1, 1)
      | Some tunnel \<Rightarrow> (if 0 < tunFlow tunnel then tunFlow tunnel else 1,
                       if 0 < tunTrafficRatio tunnel then tunTrafficRatio tunnel else 1))"

text \<open>\<open>int64(math.Floor(float64(n) * ratio * float64(flowType)))\<close>; a float outside \<open>int64\<close> converts
  to the smallest integer, as on amd64.\<close>

definition billed :: "env \<Rightarrow> int \<Rightarrow> rat \<Rightarrow> int \<Rightarrow> int" where
  "billed E n ratio flowType =
     (let v = \<lfloor>f64Mul E (f64Mul E (i64ToF64 E n) ratio) (i64ToF64 E flowType)\<rfloor>
      in if minInt64 \<le> v \<and> v \<le> maxInt64 then v else minInt64)"

definition addForwardFlow :: "int \<Rightarrow> int \<Rightarrow> forward \<Rightarrow> forward" where
  "addForwardFlow d u f = f\<lparr>fwdInFlow := fwdInFlow f + d, fwdOutFlow := fwdOutFlow f + u\<rparr>"

definition addUserFlow :: "int \<Rightarrow> int \<Rightarrow> user \<Rightarrow> user" where
  "addUserFlow d u x = x\<lparr>userInFlow := userInFlow x + d, userOutFlow := userOutFlow x + u\<rparr>"

definition addUserTunnelFlow :: "int \<Rightarrow> int \<Rightarrow> userTunnel \<Rightarrow> userTunnel" where
  "addUserTunnelFlow d u x = x\<lparr>utInFlow := utInFlow x + d, utOutFlow := utOutFlow x + u\<rparr>"

definition addUserXrayFlow :: "int \<Rightarrow> int \<Rightarrow> user \<Rightarrow> user" where
  "addUserXrayFlow d u x = x\<lparr>userXrayInFlow := userXrayInFlow x + d, userXrayOutFlow := userXrayOutFlow x + u\<rparr>"

definition addClientTraffic :: "int \<Rightarrow> int \<Rightarrow> xrayClient \<Rightarrow> xrayClient" where
  "addClientTraffic d u x = x\<lparr>xcUpTraffic := xcUpTraffic x + u, xcDownTraffic := xcDownTraffic x + d\<rparr>"

text \<open>The three increments of \<open>processFlowData\<close>, each one SQL statement under its own lock.\<close>

definition billForward :: "env \<Rightarrow> string \<Rightarrow> int \<Rightarrow> int \<Rightarrow> unit prog" where
  "billForward E forwardId d u = modify (\<lambda>s. s\<lparr>dbForwards :=
     updateRows (\<lambda>f. idMatches E forwardId (fwdID f)) (addForwardFlow d u) (dbForwards s)\<rparr>)"

definition billUser :: "env \<Rightarrow> string \<Rightarrow> int \<Rightarrow> int \<Rightarrow> unit prog" where
  "billUser E userId d u = modify (\<lambda>s. s\<lparr>dbUsers :=
     updateRows (\<lambda>x. idMatches E userId (userID x)) (addUserFlow d u) (dbUsers s)\<rparr>)"

definition billUserTunnel :: "env \<Rightarrow> string \<Rightarrow> int \<Rightarrow> int \<Rightarrow> unit prog" where
  "billUserTunnel E userTunnelId d u = modify (\<lambda>s. s\<lparr>dbUserTunnels :=
     updateRows (\<lambda>x. idMatches E userTunnelId (utID x)) (addUserTunnelFlow d u) (dbUserTunnels s)\<rparr>)"

definition processFlowData :: "env \<Rightarrow> flowDto \<Rightarrow> unit prog" where
  "processFlowData E flowData =
     (case splitOn CHR ''_'' (flowN flowData) of
        forwardId # userId # userTunnelId # _ \<Rightarrow> do {
          s \<leftarrow> gets (\<lambda>s. s);
          (case firstForwardStr E s forwardId of
             None \<Rightarrow> return ()
           | Some f \<Rightarrow> do {
               let (flowType, trafficRatio) = flowFactors s f;
               let d = billed E (flowD flowData) trafficRatio flowType;
               let u = billed E (flowU flowData) trafficRatio flowType;
               billForward E forwardId d u;
               billUser E userId d u;
               if userTunnelId \<noteq> ''0'' then do {
                 billUserTunnel E userTunnelId d u;
                 checkUserLimits E userId;
                 checkUserTunnelLimits E userTunnelId userId }
               else return () }) }
      | _ \<Rightarrow> return ())"

section \<open>Xray clients\<close>

text \<open>A client is disabled and, when its inbound still exists, removed from the running core.\<close>

definition cutOffClient :: "env \<Rightarrow> int \<Rightarrow> int \<Rightarrow> string \<Rightarrow> unit prog" where
  "cutOffClient E clientId inboundId email = do {
     modify (\<lambda>s. s\<lparr>dbClients := updateRows (\<lambda>c. xcID c = clientId) (\<lambda>c. c\<lparr>xcEnable := 0\<rparr>) (dbClients s)\<rparr>);
     inb \<leftarrow> gets (\<lambda>s. rowById ibID inboundId (dbInbounds s));
     (case inb of
        None \<Rightarrow> return ()
      | Some ib \<Rightarrow> do { XrayRemoveClient E (ibNodeId ib) (ibTag ib) email; return () }) }"

definition checkUserXrayLimits :: "env \<Rightarrow> int \<Rightarrow> unit prog" where
  "checkUserXrayLimits E userId = do {
     s \<leftarrow> gets (\<lambda>s. s);
     (case firstUser s userId of
        None \<Rightarrow> return ()
      | Some user \<Rightarrow>
          if userXrayFlow user = 0 then return ()
          else if mulI64 (userXrayFlow user) bytesToGB \<le> addI64 (userXrayInFlow user) (userXrayOutFlow user)
          then forEach (\<lambda>c. cutOffClient E (xcID c) (xcInboundId c) (xcEmail c))
                 (filter (\<lambda>c. xcUserId c = userId \<and> xcEnable c = 1) (dbClients s))
          else return ()) }"

definition processXrayClient :: "env \<Rightarrow> string \<times> int \<times> int \<Rightarrow> unit prog" where
  "processXrayClient E report =
     (case report of (email, u, d) \<Rightarrow>
        if email = [] \<or> (u = 0 \<and> d = 0) then return ()
        else do {
          found \<leftarrow> gets (\<lambda>s. find (\<lambda>c. xcEmail c = email) (dbClients s));
          (case found of
             None \<Rightarrow> return ()
           | Some c \<Rightarrow> do {
               modify (\<lambda>s. s\<lparr>dbClients := updateRows (\<lambda>x. xcID x = xcID c) (addClientTraffic d u) (dbClients s)\<rparr>);
               modify (\<lambda>s. s\<lparr>dbUsers := updateRows (\<lambda>x. userID x = xcUserId c) (addUserXrayFlow d u) (dbUsers s)\<rparr>);
               checkUserXrayLimits E (xcUserId c);
               if 0 < xcTotalTraffic c then do {
                 updated \<leftarrow> gets (\<lambda>s. case rowById xcID (xcID c) (dbClients s) of None \<Rightarrow> zeroClient | Some x \<Rightarrow> x);
                 if xcTotalTraffic c \<le> addI64 (xcUpTraffic updated) (xcDownTraffic updated) \<and> xcEnable updated = 1
                 then cutOffClient E (xcID updated) (xcInboundId c) (xcEmail c)
                 else return () }
               else return () }) })"

section \<open>Requests\<close>

record codec =
  codecEnvelope :: "string \<Rightarrow> (bool \<times> string) option"
  codecCrypto :: "string \<Rightarrow> (string \<Rightarrow> string option) option"
  codecFlow :: "string \<Rightarrow> flowDto option"
  codecXray :: "string \<Rightarrow> (string \<times> int \<times> int) list option"
  codecConfig :: "string \<Rightarrow> configDto option"

definition decryptIfNeeded :: "codec \<Rightarrow> string \<Rightarrow> string \<Rightarrow> string" where
  "decryptIfNeeded C rawData secret =
     (if rawData = [] then rawData
      else case codecEnvelope C rawData of
        None \<Rightarrow> rawData
      | Some (encrypted, payload) \<Rightarrow>
          if \<not> encrypted \<or> payload = [] then rawData
          else (case codecCrypto C secret of
                  None \<Rightarrow> rawData
                | Some decrypt \<Rightarrow> (case decrypt payload of None \<Rightarrow> rawData | Some p \<Rightarrow> p)))"

definition knownSecret :: "panel \<Rightarrow> string \<Rightarrow> bool" where
  "knownSecret s secret = (filter (\<lambda>n. nodeSecret n = secret) (dbNodes s) \<noteq> [])"

definition ProcessFlowUpload :: "env \<Rightarrow> codec \<Rightarrow> string \<Rightarrow> string \<Rightarrow> unit prog" where
  "ProcessFlowUpload E C rawData secret = do {
     known \<leftarrow> gets (\<lambda>s. knownSecret s secret);
     if \<not> known then return ()
     else (case codecFlow C (decryptIfNeeded C rawData secret) of
             None \<Rightarrow> return ()
           | Some flowData \<Rightarrow> if flowN flowData = ''web_api'' then return () else processFlowData E flowData) }"

definition ProcessXrayFlowUpload :: "env \<Rightarrow> codec \<Rightarrow> string \<Rightarrow> string \<Rightarrow> unit prog" where
  "ProcessXrayFlowUpload E C rawData secret = do {
     known \<leftarrow> gets (\<lambda>s. knownSecret s secret);
     if \<not> known then return ()
     else (case codecXray C (decryptIfNeeded C rawData secret) of
             None \<Rightarrow> return ()
           | Some clients \<Rightarrow> forEach (processXrayClient E) clients) }"

end
