(* ===== verification/FlowProps.thy ===== *)
theory FlowProps
  imports FlowService "HOL-Library.Multiset"
begin

text \<open>
  Correctness of the traffic accounting. The abstract view is a \<open>ledger\<close> of counters; processing
  a report refines one \<open>post\<close> to it. Posts commute, so the totals do not depend on the
  order in which the nodes' reports arrive. Pausing never touches a counter.
\<close>

section \<open>Counters\<close>

text \<open>The rows that carry a pair of counters share this interface.\<close>

locale counter_rows =
  fixes rid :: "'r \<Rightarrow> int" and inFlow :: "'r \<Rightarrow> int" and outFlow :: "'r \<Rightarrow> int"
    and add :: "int \<Rightarrow> int \<Rightarrow> 'r \<Rightarrow> 'r"
  assumes add_id: "rid (add d u r) = rid r"
    and add_in: "inFlow (add d u r) = inFlow r + d"
    and add_out: "outFlow (add d u r) = outFlow r + u"
begin

lemma view_bill:
  "map (\<lambda>r. (rid r, inFlow r, outFlow r)) (updateRows (\<lambda>r. P (rid r)) (add d u) rows) =
   map (\<lambda>(i, a, b). if P i then (i, a + d, b + u) else (i, a, b)) (map (\<lambda>r. (rid r, inFlow r, outFlow r)) rows)"
  by (simp add: updateRows_def add_id add_in add_out)

lemma ids_bill: "map rid (updateRows P (add d u) rows) = map rid rows"
  by (rule map_updateRows) (rule add_id)

lemma first_bill:
  "rowById rid i (updateRows (\<lambda>r. P (rid r)) (add d u) rows) =
   map_option (\<lambda>r. if P (rid r) then add d u r else r) (rowById rid i rows)"
  by (rule rowById_updateRows) (rule add_id)

end

interpretation forwardFlow: counter_rows fwdID fwdInFlow fwdOutFlow addForwardFlow
  by unfold_locales (simp_all add: addForwardFlow_def)

interpretation userFlow: counter_rows userID userInFlow userOutFlow addUserFlow
  by unfold_locales (simp_all add: addUserFlow_def)

interpretation userTunnelFlow: counter_rows utID utInFlow utOutFlow addUserTunnelFlow
  by unfold_locales (simp_all add: addUserTunnelFlow_def)

interpretation userXrayFlow: counter_rows userID userXrayInFlow userXrayOutFlow addUserXrayFlow
  by unfold_locales (simp_all add: addUserXrayFlow_def)

interpretation clientFlow: counter_rows xcID xcDownTraffic xcUpTraffic addClientTraffic
  by unfold_locales (simp_all add: addClientTraffic_def)

section \<open>The ledger\<close>

record ledger =
  ledPlaces :: "(int \<times> int) list"
  ledFactors :: "(int \<times> int \<times> rat) list"
  ledForwards :: "(int \<times> int \<times> int) list"
  ledUsers :: "(int \<times> int \<times> int) list"
  ledUserTunnels :: "(int \<times> int \<times> int) list"

definition ledgerOf :: "panel \<Rightarrow> ledger" where
  "ledgerOf s = \<lparr>ledPlaces = map (\<lambda>f. (fwdID f, fwdTunnelId f)) (dbForwards s),
     ledFactors = map (\<lambda>t. (tunID t, tunFlow t, tunTrafficRatio t)) (dbTunnels s),
     ledForwards = map (\<lambda>f. (fwdID f, fwdInFlow f, fwdOutFlow f)) (dbForwards s),
     ledUsers = map (\<lambda>x. (userID x, userInFlow x, userOutFlow x)) (dbUsers s),
     ledUserTunnels = map (\<lambda>x. (utID x, utInFlow x, utOutFlow x)) (dbUserTunnels s)\<rparr>"

definition addAt :: "(int \<Rightarrow> bool) \<Rightarrow> int \<Rightarrow> int \<Rightarrow> (int \<times> int \<times> int) list \<Rightarrow> (int \<times> int \<times> int) list" where
  "addAt P d u rows = map (\<lambda>(i, a, b). if P i then (i, a + d, b + u) else (i, a, b)) rows"

text \<open>The effect of one report on the ledger: the forward named first sets the factors, and
  the bytes go to the three rows the name carries.\<close>

definition post :: "env \<Rightarrow> flowDto \<Rightarrow> ledger \<Rightarrow> ledger" where
  "post E r L =
     (case splitOn CHR ''_'' (flowN r) of
        a # b # c # _ \<Rightarrow>
          (case map_of (ledPlaces L) (the (parseInt a)) of
             None \<Rightarrow> L
           | Some t \<Rightarrow>
               let (ft, ratio) = (case map_of (ledFactors L) t of
                     None \<Rightarrow> (1, 1)
                   | Some (fl, ra) \<Rightarrow> (if 0 < fl then fl else 1, if 0 < ra then ra else 1));
                   d = billed E (flowD r) ratio ft; u = billed E (flowU r) ratio ft
               in L\<lparr>ledForwards := addAt (idMatches E a) d u (ledForwards L),
                    ledUsers := addAt (idMatches E b) d u (ledUsers L),
                    ledUserTunnels := (if c \<noteq> ''0'' then addAt (idMatches E c) d u (ledUserTunnels L)
                                       else ledUserTunnels L)\<rparr>)
      | _ \<Rightarrow> L)"

text \<open>A report whose first id is a number, as in every name the panel gives out.\<close>

definition numericReport :: "flowDto \<Rightarrow> bool" where
  "numericReport r = (parseInt (hd (splitOn CHR ''_'' (flowN r))) \<noteq> None)"

lemma map_of_rows: "map_of (map (\<lambda>r. (rid r, g r)) rows) i = map_option g (rowById rid i rows)"
  by (induction rows) (simp_all add: rowById_Cons)

lemma addAt_commute: "addAt P d u (addAt Q d' u' rows) = addAt Q d' u' (addAt P d u rows)"
  by (auto simp: addAt_def)

section \<open>Pausing leaves the ledger alone\<close>

lemma ignoresSent_ledger [simp]: "ignoresSent (\<lambda>s. ledgerOf s = L)"
  by (simp add: ignoresSent_def ledgerOf_def)

lemma ledger_pause:
  "ledgerOf (s\<lparr>dbForwards := updateRows P (\<lambda>f. f\<lparr>fwdStatus := x\<rparr>) (dbForwards s)\<rparr>) = ledgerOf s"
  by (auto simp: ledgerOf_def updateRows_def)

lemma keeps_ledger_pauseForwards [keeps_intro]:
  "keeps (\<lambda>s. ledgerOf s = L) (pauseForwardServices E fs)"
  unfolding pauseForwardServices_def pauseOne_def Let_def updateForwardRow_def
  by (intro keeps_intro keeps_modify) (simp_all add: ledger_pause)

lemma keeps_ledger_checkUserLimits [keeps_intro]: "keeps (\<lambda>s. ledgerOf s = L) (checkUserLimits E u)"
  unfolding checkUserLimits_def pauseAllUserServices_def by (intro keeps_intro)

lemma keeps_ledger_checkUserTunnelLimits [keeps_intro]:
  "keeps (\<lambda>s. ledgerOf s = L) (checkUserTunnelLimits E t u)"
  unfolding checkUserTunnelLimits_def pauseSpecificForward_def by (intro keeps_intro)

lemma ledger_checkUserLimits: "ledgerOf (exec (checkUserLimits E u) s) = ledgerOf s"
  using keepsD [OF keeps_ledger_checkUserLimits] by blast

lemma ledger_checkUserTunnelLimits: "ledgerOf (exec (checkUserTunnelLimits E t u) s) = ledgerOf s"
  using keepsD [OF keeps_ledger_checkUserTunnelLimits] by blast

lemma places_bill:
  "map (\<lambda>f. (fwdID f, fwdTunnelId f)) (updateRows P (addForwardFlow d u) fs) = map (\<lambda>f. (fwdID f, fwdTunnelId f)) fs"
  by (rule map_updateRows) (simp add: addForwardFlow_def)

lemma ledger_bill:
  "ledgerOf (exec (billForward E a d u) s) = (ledgerOf s)\<lparr>ledForwards := addAt (idMatches E a) d u (ledForwards (ledgerOf s))\<rparr>"
  "ledgerOf (exec (billUser E b d u) s) = (ledgerOf s)\<lparr>ledUsers := addAt (idMatches E b) d u (ledUsers (ledgerOf s))\<rparr>"
  "ledgerOf (exec (billUserTunnel E c d u) s) =
     (ledgerOf s)\<lparr>ledUserTunnels := addAt (idMatches E c) d u (ledUserTunnels (ledgerOf s))\<rparr>"
  by (simp_all add: billForward_def billUser_def billUserTunnel_def ledgerOf_def addAt_def places_bill
      forwardFlow.view_bill userFlow.view_bill userTunnelFlow.view_bill)

section \<open>Refinement\<close>

lemma post_factors:
  "(case map_of (ledFactors (ledgerOf s)) (fwdTunnelId f) of None \<Rightarrow> (1, 1)
    | Some (fl, ra) \<Rightarrow> (if 0 < fl then fl else 1, if 0 < ra then ra else 1)) = flowFactors s f"
  by (auto simp: ledgerOf_def map_of_rows flowFactors_def firstTunnel_def split: option.splits)

lemma ledger_process:
  assumes "numericReport r"
  shows "ledgerOf (exec (processFlowData E r) s) = post E r (ledgerOf s)"
proof (cases "splitOn CHR ''_'' (flowN r)")
  case Nil
  then show ?thesis by simp
next
  case (Cons a rest)
  then obtain n where n: "parseInt a = Some n"
    using assms by (auto simp: numericReport_def)
  show ?thesis
  proof (cases "\<exists>b c xs. rest = b # c # xs")
    case False
    then show ?thesis
      using Cons by (auto simp: processFlowData_def post_def split: list.splits)
  next
    case True
    then obtain b c xs where N: "splitOn CHR ''_'' (flowN r) = a # b # c # xs" using Cons by auto
    have place: "map_of (ledPlaces (ledgerOf s)) n = map_option fwdTunnelId (firstForward s n)"
      by (simp add: ledgerOf_def map_of_rows firstForward_def)
    have ff: "firstForwardStr E s a = firstForward s n"
      by (simp add: firstForwardStr_def n)
    show ?thesis
    proof (cases "firstForward s n")
      case None
      then show ?thesis by (simp add: processFlowData_def post_def N n place ff)
    next
      case (Some f)
      obtain ft ra where fac: "flowFactors s f = (ft, ra)" by (cases "flowFactors s f")
      have pf: "(case map_of (ledFactors (ledgerOf s)) (fwdTunnelId f) of None \<Rightarrow> (1, 1)
          | Some (fl, ra) \<Rightarrow> (if 0 < fl then fl else 1, if 0 < ra then ra else 1)) = (ft, ra)"
        using post_factors [of s f] fac by simp
      show ?thesis
        by (simp add: processFlowData_def post_def N n place ff Some fac pf Let_def run ledger_bill
            ledger_checkUserLimits ledger_checkUserTunnelLimits)
    qed
  qed
qed

text \<open>C16: Accounting refines the ledger. Whatever the report, whatever limits it triggers and
  whatever the nodes answer, processing it changes the counters of forwards, users and
  user-tunnels exactly as one posting: the bytes, times the tunnel's ratio and flow type, are added
  to the rows named in the report and to no other.\<close>

theorem processFlowData_refines:
  assumes "numericReport r"
  shows "ledgerOf (exec (processFlowData E r) s) = post E r (ledgerOf s)"
  by (rule ledger_process [OF assms])

definition exReport :: flowDto where
  "exReport = \<lparr>flowN = ''2_7_4_tls'', flowU = 100, flowD = 50\<rparr>"

theorem processFlowData_refines_witness:
  "ledForwards (ledgerOf (exec (processFlowData exEnv exReport) exPanel)) = [(1, 0, 0), (2, 200, 400)] \<and>
   ledUserTunnels (ledgerOf (exec (processFlowData exEnv exReport) exPanel)) = [(3, 0, 0), (4, 200, 400)]"
proof -
  have "numericReport exReport" by code_simp
  note eq = processFlowData_refines [OF this, of exEnv exPanel]
  have "ledForwards (post exEnv exReport (ledgerOf exPanel)) = [(1, 0, 0), (2, 200, 400)]"
    "ledUserTunnels (post exEnv exReport (ledgerOf exPanel)) = [(3, 0, 0), (4, 200, 400)]"
    by code_simp+
  then show ?thesis unfolding eq by simp
qed

section \<open>Order of the reports\<close>

lemma post_config [simp]:
  "ledPlaces (post E r L) = ledPlaces L" "ledFactors (post E r L) = ledFactors L"
  by (auto simp: post_def Let_def split: list.splits option.splits prod.splits)

text \<open>A posting, with its factors looked up.\<close>

definition charge :: "env \<Rightarrow> flowDto \<Rightarrow> (int \<times> int) list \<Rightarrow> (int \<times> int \<times> rat) list
    \<Rightarrow> (string \<times> string \<times> string \<times> int \<times> int) option" where
  "charge E r places factors =
     (case splitOn CHR ''_'' (flowN r) of
        a # b # c # _ \<Rightarrow>
          map_option (\<lambda>t.
            let (ft, ratio) = (case map_of factors t of
                  None \<Rightarrow> (1, 1)
                | Some (fl, ra) \<Rightarrow> (if 0 < fl then fl else 1, if 0 < ra then ra else 1))
            in (a, b, c, billed E (flowD r) ratio ft, billed E (flowU r) ratio ft))
            (map_of places (the (parseInt a)))
      | _ \<Rightarrow> None)"

definition applyCharge ::
  "env \<Rightarrow> (string \<times> string \<times> string \<times> int \<times> int) option \<Rightarrow> ledger \<Rightarrow> ledger" where
  "applyCharge E c L =
     (case c of None \<Rightarrow> L
      | Some (a, b, c, d, u) \<Rightarrow>
          L\<lparr>ledForwards := addAt (idMatches E a) d u (ledForwards L),
            ledUsers := addAt (idMatches E b) d u (ledUsers L),
            ledUserTunnels := (if c \<noteq> ''0'' then addAt (idMatches E c) d u (ledUserTunnels L)
                               else ledUserTunnels L)\<rparr>)"

lemma post_charge: "post E r L = applyCharge E (charge E r (ledPlaces L) (ledFactors L)) L"
  by (auto simp: post_def charge_def applyCharge_def Let_def split: list.splits option.splits prod.splits)

lemma applyCharge_commute: "applyCharge E c (applyCharge E c' L) = applyCharge E c' (applyCharge E c L)"
  by (cases c; cases c') (auto simp: applyCharge_def addAt_commute)

lemma post_commute: "post E r (post E r' L) = post E r' (post E r L)"
  by (metis applyCharge_commute post_charge post_config)

lemma ledger_forEach:
  "\<forall>r \<in> set rs. numericReport r \<Longrightarrow>
   ledgerOf (exec (forEach (processFlowData E) rs) s) = fold (post E) rs (ledgerOf s)"
proof (induction rs arbitrary: s)
  case Nil
  then show ?case by simp
next
  case (Cons r rs)
  have "ledgerOf (exec (processFlowData E r) s) = post E r (ledgerOf s)"
    using Cons.prems by (intro ledger_process) simp
  with Cons show ?case by simp
qed

text \<open>C17: The totals do not depend on the order. However the reports of the nodes interleave
  (the same reports, in any order), the counters of all forwards, users and user-tunnels come out
  the same, although reports may pause services and talk to nodes in between.\<close>

theorem reports_in_any_order:
  assumes "\<forall>r \<in> set rs. numericReport r" "mset rs = mset rs'"
  shows "ledgerOf (exec (forEach (processFlowData E) rs) s) = ledgerOf (exec (forEach (processFlowData E) rs') s)"
proof -
  have "\<forall>r \<in> set rs'. numericReport r" using assms by (metis set_mset_mset)
  moreover have "fold (post E) rs = fold (post E) rs'"
    using assms(2) by (intro fold_multiset_equiv) (auto simp: fun_eq_iff post_commute)
  ultimately show ?thesis using assms(1) by (simp add: ledger_forEach)
qed

definition exReport2 :: flowDto where
  "exReport2 = \<lparr>flowN = ''1_7_3_tcp'', flowU = 7, flowD = 5\<rparr>"

theorem reports_in_any_order_witness:
  "ledgerOf (exec (forEach (processFlowData exEnv) [exReport, exReport2, exReport]) exPanel) =
   ledgerOf (exec (forEach (processFlowData exEnv) [exReport2, exReport, exReport]) exPanel)"
proof -
  have "\<forall>r \<in> set [exReport, exReport2, exReport]. numericReport r" by code_simp
  from reports_in_any_order [OF this, of "[exReport2, exReport, exReport]"] show ?thesis by simp
qed

section \<open>The names the panel gives out\<close>

lemma splitOn_serviceName:
  "splitOn CHR ''_'' (buildServiceName i u ut @ CHR ''_'' # rest) =
    itoa i # itoa u # itoa (case ut of None \<Rightarrow> 0 | Some t \<Rightarrow> utID t) # splitOn CHR ''_'' rest"
  by (simp add: buildServiceName_def splitOn_append)

lemma idMatches_itoa [simp]: "minInt64 \<le> k \<Longrightarrow> k \<le> maxInt64 \<Longrightarrow> idMatches E (itoa k) n \<longleftrightarrow> n = k"
  by (simp add: idMatches_def)

lemma itoa_zero: "itoa k = ''0'' \<longleftrightarrow> k = 0"
proof -
  have "itoa 0 = ''0''" by code_simp
  then show ?thesis by (metis itoa_inj)
qed

text \<open>An \<open>int64\<close>.\<close>

definition isI64 :: "int \<Rightarrow> bool" where
  "isI64 k = (minInt64 \<le> k \<and> k \<le> maxInt64)"

text \<open>C18: The round trip of the service name. The report of any listener or relay of a forward
  (its service name, an underscore, and any protocol or address suffix) is billed to that
  forward, to its owner and to the owner's user-tunnel row, with the factors of the forward's
  tunnel; and the name never resolves to other rows.\<close>

theorem report_finds_its_rows:
  assumes "firstForward s (fwdID f) = Some f" "isI64 (fwdID f)" "isI64 (fwdUserId f)" "isI64 (utID ut)"
    and "utID ut \<noteq> 0" "flowFactors s f = (ft, ratio)"
    and "flowN r = buildServiceName (fwdID f) (fwdUserId f) (Some ut) @ CHR ''_'' # sfx"
  shows "ledgerOf (exec (processFlowData E r) s) = (ledgerOf s)
    \<lparr>ledForwards := addAt (\<lambda>i. i = fwdID f) (billed E (flowD r) ratio ft) (billed E (flowU r) ratio ft)
       (ledForwards (ledgerOf s)),
     ledUsers := addAt (\<lambda>i. i = fwdUserId f) (billed E (flowD r) ratio ft) (billed E (flowU r) ratio ft)
       (ledUsers (ledgerOf s)),
     ledUserTunnels := addAt (\<lambda>i. i = utID ut) (billed E (flowD r) ratio ft) (billed E (flowU r) ratio ft)
       (ledUserTunnels (ledgerOf s))\<rparr>"
proof -
  have N: "splitOn CHR ''_'' (flowN r) = itoa (fwdID f) # itoa (fwdUserId f) # itoa (utID ut) # splitOn CHR ''_'' sfx"
    using splitOn_serviceName [of "fwdID f" "fwdUserId f" "Some ut" sfx] assms(7) by simp
  have num: "numericReport r" using assms(2) by (simp add: numericReport_def N isI64_def)
  have place: "map_of (ledPlaces (ledgerOf s)) (fwdID f) = Some (fwdTunnelId f)"
    using assms(1) by (simp add: ledgerOf_def map_of_rows firstForward_def)
  have match: "idMatches E (itoa (fwdID f)) = (\<lambda>i. i = fwdID f)"
    "idMatches E (itoa (fwdUserId f)) = (\<lambda>i. i = fwdUserId f)" "idMatches E (itoa (utID ut)) = (\<lambda>i. i = utID ut)"
    using assms(2-4) by (auto simp: isI64_def fun_eq_iff)
  have pf: "(case map_of (ledFactors (ledgerOf s)) (fwdTunnelId f) of None \<Rightarrow> (1, 1)
          | Some (fl, ra) \<Rightarrow> (if 0 < fl then fl else 1, if 0 < ra then ra else 1)) = (ft, ratio)"
    using post_factors [of s f] assms(6) by simp
  have "post E r (ledgerOf s) = (ledgerOf s)
    \<lparr>ledForwards := addAt (\<lambda>i. i = fwdID f) (billed E (flowD r) ratio ft) (billed E (flowU r) ratio ft)
       (ledForwards (ledgerOf s)),
     ledUsers := addAt (\<lambda>i. i = fwdUserId f) (billed E (flowD r) ratio ft) (billed E (flowU r) ratio ft)
       (ledUsers (ledgerOf s)),
     ledUserTunnels := addAt (\<lambda>i. i = utID ut) (billed E (flowD r) ratio ft) (billed E (flowU r) ratio ft)
       (ledUserTunnels (ledgerOf s))\<rparr>"
    using assms(2,5) by (simp add: post_def N place pf match itoa_zero isI64_def Let_def)
  then show ?thesis by (simp add: ledger_process [OF num])
qed

theorem report_finds_its_rows_witness:
  "ledUsers (ledgerOf (exec (processFlowData exEnv exReport) exPanel)) = [(1, 0, 0), (7, 200, 400)]"
proof -
  have 1: "firstForward exPanel (fwdID exForward2) = Some exForward2"
    by (simp add: firstForward_def rowById_def exPanel_def exForward1_def exForward2_def)
  have 2: "isI64 (fwdID exForward2)" "isI64 (fwdUserId exForward2)" "isI64 (utID exUserTunnel2)" by code_simp+
  have 3: "utID exUserTunnel2 \<noteq> 0" by (simp add: exUserTunnel2_def)
  have 4: "flowFactors exPanel exForward2 = (2, 2)" by code_simp
  have 5: "flowN exReport = buildServiceName (fwdID exForward2) (fwdUserId exForward2) (Some exUserTunnel2) @
      CHR ''_'' # ''tls''" by code_simp
  have b: "billed exEnv (flowD exReport) 2 2 = 200" "billed exEnv (flowU exReport) 2 2 = 400" by code_simp+
  have u: "ledUsers (ledgerOf exPanel) = [(1, 0, 0), (7, 0, 0)]" "fwdUserId exForward2 = 7" by code_simp+
  show ?thesis
    unfolding report_finds_its_rows [OF 1 2 3 4 5] b by (simp add: u addAt_def)
qed

end
