(* ===== verification/FlowLimits.thy ===== *)
theory FlowLimits
  imports FlowProps
begin

text \<open>
  What happens when a limit is passed: which forwards are paused and which Xray clients are cut
  off, that a second round has nothing left to do, and where the two halves of the code disagree
  on the limit itself.
\<close>

section \<open>Pausing\<close>

text \<open>The part of the state that pausing forwards cannot change.\<close>

definition besidesForwards :: "panel \<Rightarrow> panel" where
  "besidesForwards s = s\<lparr>dbForwards := [], dbSent := []\<rparr>"

lemma ignoresSent_besides [simp]: "ignoresSent (\<lambda>s. besidesForwards s = X)"
  by (simp add: ignoresSent_def besidesForwards_def)

lemma keeps_besides_row [keeps_intro]: "keeps (\<lambda>s. besidesForwards s = X) (updateForwardRow i g)"
  unfolding updateForwardRow_def by (rule keeps_modify) (simp add: besidesForwards_def)

lemma keeps_besides_pauseOne [keeps_intro]: "keeps (\<lambda>s. besidesForwards s = X) (pauseOne E f)"
  unfolding pauseOne_def Let_def by (intro keeps_intro) simp_all

lemma besides_pauseOne: "besidesForwards (exec (pauseOne E f) s) = besidesForwards s"
  using keepsD [OF keeps_besides_pauseOne] by blast

lemma besides_tables:
  assumes "besidesForwards s = besidesForwards s'"
  shows "dbTunnels s = dbTunnels s'" "dbUsers s = dbUsers s'" "dbUserTunnels s = dbUserTunnels s'"
    "dbClients s = dbClients s'" "dbNodes s = dbNodes s'"
proof -
  have "dbTunnels (besidesForwards s) = dbTunnels (besidesForwards s')"
    "dbUsers (besidesForwards s) = dbUsers (besidesForwards s')"
    "dbUserTunnels (besidesForwards s) = dbUserTunnels (besidesForwards s')"
    "dbClients (besidesForwards s) = dbClients (besidesForwards s')"
    "dbNodes (besidesForwards s) = dbNodes (besidesForwards s')"
    using assms by simp_all
  then show "dbTunnels s = dbTunnels s'" "dbUsers s = dbUsers s'" "dbUserTunnels s = dbUserTunnels s'"
    "dbClients s = dbClients s'" "dbNodes s = dbNodes s'"
    by (simp_all add: besidesForwards_def)
qed

text \<open>The rows after a round of pausing over the snapshot \<open>fs\<close>.\<close>

definition pausable :: "panel \<Rightarrow> forward \<Rightarrow> bool" where
  "pausable s f = (fwdStatus f \<noteq> forwardStatusPaused \<and> firstTunnel s (fwdTunnelId f) \<noteq> None)"

definition pausedBy :: "panel \<Rightarrow> forward list \<Rightarrow> forward \<Rightarrow> forward" where
  "pausedBy s fs g = (if \<exists>f \<in> set fs. fwdID f = fwdID g \<and> pausable s f
                      then g\<lparr>fwdStatus := forwardStatusPaused\<rparr> else g)"

lemma forwards_SendMsg [simp]: "dbForwards (exec (SendMsg E n d t) s) = dbForwards s"
  by (simp add: exec_SendMsg)

lemma forwards_pauseListeners [simp]: "dbForwards (exec (pauseListeners E k n ip) s) = dbForwards s"
  by (simp add: pauseListeners_def PauseServiceMultiIP_def PauseService_def)

lemma forwards_pauseOne:
  "dbForwards (exec (pauseOne E f) s) = map (pausedBy s [f]) (dbForwards s)"
proof (cases "pausable s f")
  case True
  then obtain t where "fwdStatus f \<noteq> forwardStatusPaused" "firstTunnel s (fwdTunnelId f) = Some t"
    by (auto simp: pausable_def)
  then have "dbForwards (exec (pauseOne E f) s) =
      updateRows (\<lambda>g. fwdID g = fwdID f) (\<lambda>g. g\<lparr>fwdStatus := forwardStatusPaused\<rparr>) (dbForwards s)"
    by (simp add: pauseOne_def Let_def updateForwardRow_def PauseRemoteService_def)
  with True show ?thesis by (auto simp: updateRows_def pausedBy_def)
next
  case False
  then have "exec (pauseOne E f) s = s"
    by (auto simp: pauseOne_def pausable_def split: option.splits)
  moreover have "pausedBy s [f] = (\<lambda>g. g)" using False by (auto simp: pausedBy_def)
  ultimately show ?thesis by simp
qed

lemma pausable_cong: "dbTunnels s = dbTunnels s' \<Longrightarrow> pausable s = pausable s'"
  by (simp add: pausable_def firstTunnel_def fun_eq_iff)

lemma pausedBy_Cons: "dbTunnels s' = dbTunnels s \<Longrightarrow> pausedBy s' fs (pausedBy s [f] g) = pausedBy s (f # fs) g"
  by (auto simp: pausedBy_def pausable_cong [of s' s])

lemma pauseForwardServices_rows:
  "dbForwards (exec (pauseForwardServices E fs) s) = map (pausedBy s fs) (dbForwards s) \<and>
   besidesForwards (exec (pauseForwardServices E fs) s) = besidesForwards s"
proof (induction fs arbitrary: s)
  case Nil
  then show ?case by (simp add: pauseForwardServices_def pausedBy_def)
next
  case (Cons f fs)
  let ?s = "exec (pauseOne E f) s"
  have "dbTunnels ?s = dbTunnels s" by (rule besides_tables [OF besides_pauseOne])
  then show ?case
    using Cons [of ?s] pausedBy_Cons [of ?s s fs f] besides_pauseOne [of E f s]
    by (simp add: pauseForwardServices_def forwards_pauseOne)
qed

lemma firstTunnel_cong: "dbTunnels s = dbTunnels s' \<Longrightarrow> firstTunnel s = firstTunnel s'"
  by (simp add: firstTunnel_def fun_eq_iff)

text \<open>Nothing of \<open>P\<close> is left to pause: every forward is paused, or its tunnel is gone.\<close>

definition allPaused :: "(forward \<Rightarrow> bool) \<Rightarrow> panel \<Rightarrow> bool" where
  "allPaused P s = (\<forall>f \<in> set (dbForwards s). P f \<longrightarrow> \<not> pausable s f)"

lemma pauseRound_allPaused:
  assumes "\<And>f x. P (f\<lparr>fwdStatus := x\<rparr>) = P f"
  shows "allPaused P (exec (pauseForwardServices E (filter P (dbForwards s))) s)"
  unfolding allPaused_def
proof (intro ballI impI)
  let ?fs = "filter P (dbForwards s)"
  let ?s = "exec (pauseForwardServices E ?fs) s"
  note rows = pauseForwardServices_rows [of E ?fs s]
  have pc: "pausable ?s = pausable s"
    by (rule pausable_cong) (rule besides_tables [OF rows [THEN conjunct2]])
  fix f assume "f \<in> set (dbForwards ?s)" "P f"
  then obtain g where g: "g \<in> set (dbForwards s)" "f = pausedBy s ?fs g" using rows by auto
  have "P g" using \<open>P f\<close> g(2) assms by (auto simp: pausedBy_def split: if_splits)
  show "\<not> pausable ?s f"
  proof (cases "pausable s g")
    case True
    with g \<open>P g\<close> have "f = g\<lparr>fwdStatus := forwardStatusPaused\<rparr>" by (auto simp: pausedBy_def)
    then show ?thesis by (simp add: pausable_def)
  next
    case False
    then show ?thesis using g(2) pc by (auto simp: pausedBy_def pausable_def split: if_splits)
  qed
qed

lemma pauseRound_done:
  assumes "allPaused P s"
  shows "exec (pauseForwardServices E (filter P (dbForwards s))) s = s"
proof -
  have "exec (forEach (pauseOne E) fs) s = s" if "\<forall>f \<in> set fs. \<not> pausable s f" for fs
    using that
  proof (induction fs)
    case (Cons f fs)
    then have "exec (pauseOne E f) s = s"
      by (auto simp: pauseOne_def pausable_def split: option.splits)
    with Cons show ?case by simp
  qed simp
  then show ?thesis using assms by (auto simp: pauseForwardServices_def allPaused_def)
qed

lemma exec_pauseAllUserServices:
  "exec (pauseAllUserServices E u) s =
   exec (pauseForwardServices E (filter (\<lambda>f. idMatches E u (fwdUserId f)) (dbForwards s))) s"
  by (simp add: pauseAllUserServices_def)

text \<open>Pausing is idempotent. A second round of \<open>pauseAllUserServices\<close> finds nothing to do: it
  changes no row and sends no command, however the nodes answered the first one.\<close>

theorem pauseAll_idempotent:
  "exec (pauseAllUserServices E u) (exec (pauseAllUserServices E u) s) = exec (pauseAllUserServices E u) s"
  using pauseRound_done [OF pauseRound_allPaused [of "\<lambda>f. idMatches E u (fwdUserId f)" E s]]
  by (simp add: exec_pauseAllUserServices)

section \<open>A user over his limit\<close>

definition userStopped :: "env \<Rightarrow> user \<Rightarrow> bool" where
  "userStopped E usr =
     ((userFlow usr \<noteq> 0 \<and> mulI64 (userFlow usr) bytesToGB < addI64 (userInFlow usr) (userOutFlow usr)) \<or>
      (0 < userExpTime usr \<and> userExpTime usr \<le> now E) \<or> userStatus usr \<noteq> 1)"

lemma checkUserLimits_eq:
  "exec (checkUserLimits E b) s =
     (case firstUserStr E s b of
        None \<Rightarrow> s
      | Some usr \<Rightarrow> if userStopped E usr then exec (pauseAllUserServices E b) s else s)"
  by (auto simp: checkUserLimits_def userStopped_def run split: option.splits)

lemma allPaused_rows:
  assumes "allPaused P s" "\<And>f x. P (f\<lparr>fwdStatus := x\<rparr>) = P f"
  shows "allPaused P (exec (pauseForwardServices E fs) s)"
  unfolding allPaused_def
proof (intro ballI impI)
  let ?s = "exec (pauseForwardServices E fs) s"
  note rows = pauseForwardServices_rows [of E fs s]
  have pc: "pausable ?s = pausable s"
    by (rule pausable_cong) (rule besides_tables [OF rows [THEN conjunct2]])
  fix f assume "f \<in> set (dbForwards ?s)" "P f"
  then obtain g where g: "g \<in> set (dbForwards s)" "f = pausedBy s fs g" using rows by auto
  moreover have "P g" using \<open>P f\<close> g(2) assms(2) by (auto simp: pausedBy_def split: if_splits)
  ultimately have "\<not> pausable s g" using assms(1) by (auto simp: allPaused_def)
  then show "\<not> pausable ?s f" using g(2) pc by (auto simp: pausedBy_def pausable_def split: if_splits)
qed

lemma keeps_allPaused_checkUserTunnelLimits:
  "keeps (allPaused (\<lambda>f. fwdUserId f = u)) (checkUserTunnelLimits E t b)"
  unfolding checkUserTunnelLimits_def pauseSpecificForward_def
  by (intro keeps_intro) (auto intro!: keepsI allPaused_rows)

lemma besides_checkUserLimits: "besidesForwards (exec (checkUserLimits E b) s) = besidesForwards s"
  using pauseForwardServices_rows
  by (auto simp: checkUserLimits_eq exec_pauseAllUserServices split: option.splits)

lemma besides_checkUserTunnelLimits: "besidesForwards (exec (checkUserTunnelLimits E t b) s) = besidesForwards s"
  using pauseForwardServices_rows
  by (auto simp: checkUserTunnelLimits_def pauseSpecificForward_def run split: option.splits)

lemma processFlowData_checks:
  assumes "splitOn CHR ''_'' (flowN r) = a # b # c # rest" "c \<noteq> ''0''" "firstForwardStr E s a \<noteq> None"
  obtains s1 where
    "exec (processFlowData E r) s = exec (checkUserTunnelLimits E c b) (exec (checkUserLimits E b) s1)"
  using assms by (auto simp: processFlowData_def Let_def case_prod_unfold run)


definition exBigReport :: flowDto where
  "exBigReport = \<lparr>flowN = ''1_7_3_tcp'', flowU = 20 * 1024 * 1024 * 1024, flowD = 1\<rparr>"


section \<open>The boundary\<close>

text \<open>The two limits differ by one byte. A user who has used exactly his limit keeps his
  services: \<open>checkUserLimits\<close> asks for strictly more. The checks in front of creating and
  resuming a forward refuse him already.\<close>

theorem limit_boundary_differs:
  assumes "firstUser s u = Some usr" "parseInt b = Some u" "userFlow usr \<noteq> 0"
    and "addI64 (userInFlow usr) (userOutFlow usr) = mulI64 (userFlow usr) bytesToGB"
    and "\<not> expired E (userExpTime usr)" "userStatus usr = 1"
    and "getUserTunnel s u (tunID t) = Some ut" "\<not> expired E (utExpTime ut)"
  shows "exec (checkUserLimits E b) s = s \<and> checkUserFlowLimits E s u t = Some EUserFlowUsed"
  using assms
  by (auto simp: checkUserLimits_eq firstUserStr_def userStopped_def checkUserFlowLimits_def flowUsedUp_def
      expired_def)

definition exAtLimit :: panel where
  "exAtLimit = exPanel\<lparr>dbUsers := [exUser\<lparr>userInFlow := 10 * bytesToGB\<rparr>]\<rparr>"

theorem limit_boundary_differs_witness:
  "exec (checkUserLimits exEnv ''7'') exAtLimit = exAtLimit \<and>
   checkUserFlowLimits exEnv exAtLimit 7 exTunnel1 = Some EUserFlowUsed"
proof (rule limit_boundary_differs [of _ _ "exUser\<lparr>userInFlow := 10 * bytesToGB\<rparr>" _ _ exTunnel1 exUserTunnel1])
  show "firstUser exAtLimit 7 = Some (exUser\<lparr>userInFlow := 10 * bytesToGB\<rparr>)"
    by (simp add: firstUser_def rowById_def exAtLimit_def exUser_def)
  show "getUserTunnel exAtLimit 7 (tunID exTunnel1) = Some exUserTunnel1"
    by (simp add: getUserTunnel_def exAtLimit_def exPanel_def exUserTunnel1_def exTunnel1_def)
qed code_simp+

section \<open>Xray clients\<close>

lemma clients_SendMsg [simp]: "dbClients (exec (SendMsg E n d t) s) = dbClients s"
  and inbounds_SendMsg [simp]: "dbInbounds (exec (SendMsg E n d t) s) = dbInbounds s"
  by (simp_all add: exec_SendMsg)

lemma tables_cutOffClient [simp]:
  "dbClients (exec (cutOffClient E i ibId em) s) = updateRows (\<lambda>c. xcID c = i) (\<lambda>c. c\<lparr>xcEnable := 0\<rparr>) (dbClients s)"
  "dbInbounds (exec (cutOffClient E i ibId em) s) = dbInbounds s"
  by (simp_all add: cutOffClient_def XrayRemoveClient_def exec_option_case split: option.splits)

lemma sent_cutOffClient:
  "x \<in> set (dbSent s) \<Longrightarrow> x \<in> set (dbSent (exec (cutOffClient E i ibId em) s))"
  "rowById ibID ibId (dbInbounds s) = Some ib \<Longrightarrow> staysOnline E (ibNodeId ib) \<Longrightarrow>
     Cmd (ibNodeId ib) ''VRemoveClient'' (DClientRef (ibTag ib) em) \<in> set (dbSent (exec (cutOffClient E i ibId em) s))"
  by (simp_all add: cutOffClient_def XrayRemoveClient_def exec_option_case exec_SendMsg split: option.splits)

abbreviation cutAll :: "env \<Rightarrow> xrayClient list \<Rightarrow> unit prog" where
  "cutAll E cs \<equiv> forEach (\<lambda>c. cutOffClient E (xcID c) (xcInboundId c) (xcEmail c)) cs"

lemma clients_cutAll:
  "dbClients (exec (cutAll E cs) s) =
     updateRows (\<lambda>c. xcID c \<in> xcID ` set cs) (\<lambda>c. c\<lparr>xcEnable := 0\<rparr>) (dbClients s)"
  by (induction cs arbitrary: s) (auto simp: updateRows_def)

lemma sent_cutAll: "x \<in> set (dbSent s) \<Longrightarrow> x \<in> set (dbSent (exec (cutAll E cs) s))"
  by (induction cs arbitrary: s) (simp_all add: sent_cutOffClient)

lemma removed_cutAll:
  "c \<in> set cs \<Longrightarrow> rowById ibID (xcInboundId c) (dbInbounds s) = Some ib \<Longrightarrow> staysOnline E (ibNodeId ib) \<Longrightarrow>
   Cmd (ibNodeId ib) ''VRemoveClient'' (DClientRef (ibTag ib) (xcEmail c)) \<in> set (dbSent (exec (cutAll E cs) s))"
proof (induction cs arbitrary: s)
  case (Cons x cs)
  then show ?case by (cases "c = x") (simp_all add: sent_cutAll sent_cutOffClient)
qed simp

text \<open>The Xray limit cuts every client off. When a user with an Xray limit has used it up,
  \<open>checkUserXrayLimits\<close> disables exactly his enabled clients, and each of them whose inbound still
  exists, on a connected node, is removed from the running core.\<close>

theorem xray_limit_cuts_off:
  assumes "firstUser s u = Some usr" "userXrayFlow usr \<noteq> 0"
    and "mulI64 (userXrayFlow usr) bytesToGB \<le> addI64 (userXrayInFlow usr) (userXrayOutFlow usr)"
    and "distinct (map xcID (dbClients s))"
  shows "dbClients (exec (checkUserXrayLimits E u) s) =
      map (\<lambda>c. if xcUserId c = u \<and> xcEnable c = 1 then c\<lparr>xcEnable := 0\<rparr> else c) (dbClients s) \<and>
    (\<forall>c \<in> set (dbClients s). \<forall>ib. xcUserId c = u \<longrightarrow> xcEnable c = 1 \<longrightarrow>
      rowById ibID (xcInboundId c) (dbInbounds s) = Some ib \<longrightarrow> staysOnline E (ibNodeId ib) \<longrightarrow>
      Cmd (ibNodeId ib) ''VRemoveClient'' (DClientRef (ibTag ib) (xcEmail c))
        \<in> set (dbSent (exec (checkUserXrayLimits E u) s)))"
proof -
  let ?cs = "filter (\<lambda>c. xcUserId c = u \<and> xcEnable c = 1) (dbClients s)"
  have ex: "exec (checkUserXrayLimits E u) s = exec (cutAll E ?cs) s"
    using assms(1-3) by (simp add: checkUserXrayLimits_def)
  have "xcID c \<in> xcID ` set ?cs \<longleftrightarrow> xcUserId c = u \<and> xcEnable c = 1" if "c \<in> set (dbClients s)" for c
    using that assms(4) by (auto simp: distinct_map dest: inj_onD)
  then have "updateRows (\<lambda>c. xcID c \<in> xcID ` set ?cs) (\<lambda>c. c\<lparr>xcEnable := 0\<rparr>) (dbClients s) =
      map (\<lambda>c. if xcUserId c = u \<and> xcEnable c = 1 then c\<lparr>xcEnable := 0\<rparr> else c) (dbClients s)"
    unfolding updateRows_def by (intro map_cong refl) (simp only:)
  moreover have "Cmd (ibNodeId ib) ''VRemoveClient'' (DClientRef (ibTag ib) (xcEmail c)) \<in> set (dbSent (exec (cutAll E ?cs) s))"
    if "c \<in> set (dbClients s)" "xcUserId c = u" "xcEnable c = 1"
      "rowById ibID (xcInboundId c) (dbInbounds s) = Some ib" "staysOnline E (ibNodeId ib)" for c ib
    using that by (intro removed_cutAll) simp_all
  ultimately show ?thesis unfolding ex clients_cutAll by blast
qed

definition exXray :: panel where
  "exXray = exPanel\<lparr>dbUsers := [exUser\<lparr>userXrayFlow := 1, userXrayInFlow := bytesToGB\<rparr>],
     dbInbounds := [zeroInbound\<lparr>ibID := 5, ibNodeId := 2, ibTag := ''in''\<rparr>],
     dbClients := [zeroClient\<lparr>xcID := 9, xcInboundId := 5, xcUserId := 7, xcEmail := ''e'', xcEnable := 1\<rparr>]\<rparr>"

theorem xray_limit_cuts_off_witness:
  "Cmd 2 ''VRemoveClient'' (DClientRef ''in'' ''e'') \<in> set (dbSent (exec (checkUserXrayLimits exEnv 7) exXray))"
proof -
  have 1: "firstUser exXray 7 = Some (exUser\<lparr>userXrayFlow := 1, userXrayInFlow := bytesToGB\<rparr>)"
    by (simp add: firstUser_def rowById_def exXray_def exUser_def)
  have 2: "userXrayFlow (exUser\<lparr>userXrayFlow := 1, userXrayInFlow := bytesToGB\<rparr>) \<noteq> 0" by simp
  have 3: "mulI64 (userXrayFlow (exUser\<lparr>userXrayFlow := 1, userXrayInFlow := bytesToGB\<rparr>)) bytesToGB
    \<le> addI64 (userXrayInFlow (exUser\<lparr>userXrayFlow := 1, userXrayInFlow := bytesToGB\<rparr>))
        (userXrayOutFlow (exUser\<lparr>userXrayFlow := 1, userXrayInFlow := bytesToGB\<rparr>))" by code_simp
  have 4: "distinct (map xcID (dbClients exXray))" by (simp add: exXray_def)
  have "staysOnline exEnv k" for k by (simp add: staysOnline_def exEnv_def)
  with xray_limit_cuts_off [OF 1 2 3 4, of exEnv] show ?thesis
    by (simp add: exXray_def rowById_def)
qed

end
