(* ===== verification/UserTunnels.thy ===== *)
theory UserTunnels
  imports ForwardCleanup
begin

text \<open>
  Permissions of users on tunnels: \<open>service/user_tunnel.go\<close>. Assigning a tunnel, changing and
  removing the permission, with what this does to the forwards that run under it.
\<close>

section \<open>Assign, list\<close>

definition AddSpeedLimiter :: "env \<Rightarrow> int \<Rightarrow> int \<Rightarrow> unit prog" where
  "AddSpeedLimiter E nodeId speedId = do {
     sl \<leftarrow> gets (\<lambda>s. rowById slID speedId (dbSpeedLimits s));
     (case sl of
        None \<Rightarrow> return ()
      | Some speedLimit \<Rightarrow> do { AddLimiters E nodeId speedId (itoa (slSpeed speedLimit)); return () }) }"

definition newUserTunnel :: "panel \<Rightarrow> userTunnelDto \<Rightarrow> userTunnel" where
  "newUserTunnel s d =
     zeroUserTunnel\<lparr>utID := dbAutoInc s ''user_tunnel'', utUserId := utdUserId d, utTunnelId := utdTunnelId d,
       utNum := utdNum d, utFlow := utdFlow d, utFlowResetType := utdFlowResetType d,
       utFlowResetDay := utdFlowResetDay d, utExpTime := utdExpTime d, utSpeedId := utdSpeedId d,
       utStatus := 1\<rparr>"

definition insertUserTunnel :: "userTunnel \<Rightarrow> unit prog" where
  "insertUserTunnel ut = modify (\<lambda>s. s\<lparr>dbUserTunnels := dbUserTunnels s @ [ut],
     dbAutoInc := (dbAutoInc s)(''user_tunnel'' := utID ut + 1)\<rparr>)"

definition AssignUserTunnel :: "env \<Rightarrow> userTunnelDto \<Rightarrow> userTunnel R prog" where
  "AssignUserTunnel E d = do {
     s \<leftarrow> gets (\<lambda>s. s);
     (case firstUser s (utdUserId d) of
        None \<Rightarrow> return (Err EUserNotFound)
      | Some user \<Rightarrow> (case firstTunnel s (utdTunnelId d) of
        None \<Rightarrow> return (Err ETunnelNotFound)
      | Some tunnel \<Rightarrow>
          if filter (\<lambda>ut. utUserId ut = utdUserId d \<and> utTunnelId ut = utdTunnelId d) (dbUserTunnels s) \<noteq> []
          then return (Err EAlreadyAssigned)
          else do {
            let ut = newUserTunnel s d;
            (case utdSpeedId d of
               None \<Rightarrow> return ()
             | Some sp \<Rightarrow>
                 if 0 < sp then
                   (case GetNodeById s (tunInNodeId tunnel) of
                      None \<Rightarrow> return ()
                    | Some inNode \<Rightarrow> AddSpeedLimiter E (nodeID inNode) sp)
                 else return ());
            if \<not> createOk E ''user_tunnel'' then return (Err EAssign)
            else do { insertUserTunnel ut; return (Ok ut) } })) }"

record userTunnelDetail =
  utdRow :: userTunnel
  utdTunnelName :: string
  utdTunnelType :: int
  utdUserName :: string
  utdSpeedName :: string

definition ListUserTunnels :: "panel \<Rightarrow> int option \<Rightarrow> int option \<Rightarrow> userTunnelDetail list" where
  "ListUserTunnels s tunnelId userId =
     map (\<lambda>ut. let t = (case firstTunnel s (utTunnelId ut) of None \<Rightarrow> zeroTunnel | Some t \<Rightarrow> t);
                   u = (case firstUser s (utUserId ut) of None \<Rightarrow> [] | Some u \<Rightarrow> userUser u);
                   sl = (case utSpeedId ut of None \<Rightarrow> []
                         | Some sp \<Rightarrow> (case rowById slID sp (dbSpeedLimits s) of None \<Rightarrow> [] | Some r \<Rightarrow> slName r))
               in \<lparr>utdRow = ut, utdTunnelName = tunName t, utdTunnelType = tunType t, utdUserName = u,
                   utdSpeedName = sl\<rparr>)
       (filter (\<lambda>ut. (case tunnelId of None \<Rightarrow> True | Some t \<Rightarrow> utTunnelId ut = t) \<and>
                     (case userId of None \<Rightarrow> True | Some u \<Rightarrow> utUserId ut = u)) (dbUserTunnels s))"

section \<open>Remove\<close>

definition deleteListeners :: "env \<Rightarrow> int \<Rightarrow> string \<Rightarrow> string \<Rightarrow> gostResponse prog" where
  "deleteListeners E nodeId serviceName listenIp =
     (if listenIp \<noteq> [] \<and> strContains listenIp '','' then DeleteServiceMultiIP E nodeId serviceName listenIp
      else DeleteService E nodeId serviceName)"

text \<open>\<open>fmt.Sprintf("%d_%d_%d", fwd.ID, fwd.UserId, utId)\<close>.\<close>

definition tripleName :: "int \<Rightarrow> int \<Rightarrow> int \<Rightarrow> string" where
  "tripleName forwardId userId utId = itoa forwardId @ ''_'' @ itoa userId @ ''_'' @ itoa utId"

definition cleanupForwardOf :: "env \<Rightarrow> tunnel \<Rightarrow> int \<Rightarrow> forward \<Rightarrow> unit prog" where
  "cleanupForwardOf E tunnel utId fwd = do {
     s \<leftarrow> gets (\<lambda>s. s);
     (case GetNodeById s (tunInNodeId tunnel) of
        None \<Rightarrow> return ()
      | Some inNode \<Rightarrow> do {
          let serviceName = tripleName (fwdID fwd) (fwdUserId fwd) utId;
          deleteListeners E (nodeID inNode) serviceName (fwdListenIp fwd);
          if tunType tunnel = 2 then do {
            DeleteChains E (nodeID inNode) serviceName;
            (case GetNodeById s (tunOutNodeId tunnel) of
               None \<Rightarrow> return ()
             | Some outNode \<Rightarrow> do { DeleteRemoteService E (nodeID outNode) serviceName; return () }) }
          else return () }) }"

definition removeForwardOf :: "env \<Rightarrow> tunnel \<Rightarrow> int \<Rightarrow> forward \<Rightarrow> unit prog" where
  "removeForwardOf E tunnel utId fwd = do {
     cleanupForwardOf E tunnel utId fwd;
     removeForward (fwdID fwd) }"

definition removeUserTunnelRow :: "int \<Rightarrow> unit prog" where
  "removeUserTunnelRow i =
     modify (\<lambda>s. s\<lparr>dbUserTunnels := deleteRows (\<lambda>ut. utID ut = i) (dbUserTunnels s)\<rparr>)"

definition RemoveUserTunnel :: "env \<Rightarrow> int \<Rightarrow> unit R prog" where
  "RemoveUserTunnel E i = do {
     s \<leftarrow> gets (\<lambda>s. s);
     (case rowById utID i (dbUserTunnels s) of
        None \<Rightarrow> return (Err EUserTunnelNotFound)
      | Some ut \<Rightarrow> do {
          let forwards = filter (\<lambda>f. fwdUserId f = utUserId ut \<and> fwdTunnelId f = utTunnelId ut) (dbForwards s);
          let tunnel = (case firstTunnel s (utTunnelId ut) of None \<Rightarrow> zeroTunnel | Some t \<Rightarrow> t);
          forEach (removeForwardOf E tunnel (utID ut)) forwards;
          removeUserTunnelRow (utID ut);
          return (Ok ()) }) }"

section \<open>Update\<close>

definition pauseForwardForDisable :: "env \<Rightarrow> forward \<Rightarrow> tunnel \<Rightarrow> userTunnel \<Rightarrow> unit prog" where
  "pauseForwardForDisable E fwd tunnel ut = do {
     s \<leftarrow> gets (\<lambda>s. s);
     (case GetNodeById s (tunInNodeId tunnel) of
        None \<Rightarrow> return ()
      | Some inNode \<Rightarrow> do {
          let serviceName = tripleName (fwdID fwd) (fwdUserId fwd) (utID ut);
          pauseListeners E (nodeID inNode) serviceName (fwdListenIp fwd);
          (if tunType tunnel = 2 then
             (case GetNodeById s (tunOutNodeId tunnel) of
                None \<Rightarrow> return ()
              | Some outNode \<Rightarrow> do { PauseRemoteService E (nodeID outNode) serviceName; return () })
           else return ());
          updateForwardRow (fwdID fwd) (\<lambda>f. f\<lparr>fwdStatus := 0\<rparr>) }) }"

definition updateForwardWithNewSpeed :: "env \<Rightarrow> tunnel \<Rightarrow> userTunnel \<Rightarrow> forward \<Rightarrow> unit prog" where
  "updateForwardWithNewSpeed E tunnel0 ut fwd = do {
     s \<leftarrow> gets (\<lambda>s. s);
     let tunnel = overrideListen tunnel0 (fwdListenIp fwd);
     (case GetNodeById s (tunInNodeId tunnel) of
        None \<Rightarrow> return ()
      | Some inNode \<Rightarrow> do {
          UpdateService E (nodeID inNode) (tripleName (fwdID fwd) (fwdUserId fwd) (utID ut)) (fwdInPort fwd)
            (utSpeedId ut) (fwdRemoteAddr fwd) (tunType tunnel) tunnel (fwdStrategy fwd)
            (if tunType tunnel \<noteq> 2 then fwdInterfaceName fwd else []);
          return () }) }"

text \<open>The column updates: \<open>None\<close> leaves a column alone.\<close>

definition setOpt :: "('v \<Rightarrow> 'r \<Rightarrow> 'r) \<Rightarrow> 'v option \<Rightarrow> 'r \<Rightarrow> 'r" where
  "setOpt f v r = (case v of None \<Rightarrow> r | Some x \<Rightarrow> f x r)"

definition writeUserTunnel :: "userTunnelUpdateDto \<Rightarrow> userTunnel \<Rightarrow> userTunnel" where
  "writeUserTunnel d ut =
     setOpt (\<lambda>x r. r\<lparr>utNum := x\<rparr>) (utuNum d)
    (setOpt (\<lambda>x r. r\<lparr>utFlow := x\<rparr>) (utuFlow d)
    (setOpt (\<lambda>x r. r\<lparr>utFlowResetType := x\<rparr>) (utuFlowResetType d)
    (setOpt (\<lambda>x r. r\<lparr>utFlowResetDay := x\<rparr>) (utuFlowResetDay d)
    (setOpt (\<lambda>x r. r\<lparr>utExpTime := x\<rparr>) (utuExpTime d)
    (setOpt (\<lambda>x r. r\<lparr>utStatus := x\<rparr>) (utuStatus d)
    (setOpt (\<lambda>x r. r\<lparr>utSpeedId := Some x\<rparr>) (utuSpeedId d) ut))))))"

text \<open>A new speed rebuilds the services of the user's forwards on the tunnel under it. The row
  in memory (\<open>ut\<close>, returned) carries the new speed from then on.\<close>

definition applyNewSpeed :: "env \<Rightarrow> userTunnel \<Rightarrow> int option \<Rightarrow> userTunnel prog" where
  "applyNewSpeed E ut newSpeed = do {
     s \<leftarrow> gets (\<lambda>s. s);
     (case newSpeed of
        None \<Rightarrow> return ut
      | Some sp \<Rightarrow> (case firstTunnel s (utTunnelId ut) of
        None \<Rightarrow> return ut
      | Some tunnel \<Rightarrow> (case GetNodeById s (tunInNodeId tunnel) of
        None \<Rightarrow> return ut
      | Some inNode \<Rightarrow>
          if utSpeedId ut = Some sp then return ut
          else do {
            (if 0 < sp then AddSpeedLimiter E (nodeID inNode) sp else return ());
            let ut' = ut\<lparr>utSpeedId := Some sp\<rparr>;
            forEach (updateForwardWithNewSpeed E tunnel ut')
              (filter (\<lambda>f. fwdUserId f = utUserId ut \<and> fwdTunnelId f = utTunnelId ut) (dbForwards s));
            return ut' }))) }"

definition UpdateUserTunnel :: "env \<Rightarrow> userTunnelUpdateDto \<Rightarrow> unit R prog" where
  "UpdateUserTunnel E d = do {
     s \<leftarrow> gets (\<lambda>s. s);
     (case rowById utID (utuID d) (dbUserTunnels s) of
        None \<Rightarrow> return (Err EUserTunnelNotFound)
      | Some ut0 \<Rightarrow> do {
          ut \<leftarrow> applyNewSpeed E ut0 (utuSpeedId d);
          (if utuStatus d = Some 0 then
             (case firstTunnel s (utTunnelId ut) of
                None \<Rightarrow> return ()
              | Some tunnel \<Rightarrow>
                  forEach (\<lambda>f. pauseForwardForDisable E f tunnel ut)
                    (filter (\<lambda>f. fwdUserId f = utUserId ut \<and> fwdTunnelId f = utTunnelId ut \<and> fwdStatus f = 1)
                      (dbForwards s)))
           else return ());
          modify (\<lambda>s. s\<lparr>dbUserTunnels := updateRows (\<lambda>r. utID r = utID ut) (writeUserTunnel d) (dbUserTunnels s)\<rparr>);
          return (Ok ()) }) }"

section \<open>Facts\<close>

lemma tripleName_serviceName:
  "tripleName i u k = buildServiceName i u (Some (zeroUserTunnel\<lparr>utID := k\<rparr>))"
  by (simp add: tripleName_def buildServiceName_def)

lemma keeps_AddSpeedLimiter [keeps_intro]: "ignoresSent I \<Longrightarrow> keeps I (AddSpeedLimiter E n sp)"
  unfolding AddSpeedLimiter_def by (intro keeps_intro) assumption+

lemma keeps_deleteListeners [keeps_intro]: "ignoresSent I \<Longrightarrow> keeps I (deleteListeners E k n ip)"
  unfolding deleteListeners_def by (intro keeps_intro) assumption+

lemma keeps_cleanupForwardOf [keeps_intro]: "ignoresSent I \<Longrightarrow> keeps I (cleanupForwardOf E t k f)"
  unfolding cleanupForwardOf_def Let_def by (intro keeps_intro) assumption+

lemma keeps_updateForwardWithNewSpeed [keeps_intro]:
  "ignoresSent I \<Longrightarrow> keeps I (updateForwardWithNewSpeed E t ut f)"
  unfolding updateForwardWithNewSpeed_def Let_def by (intro keeps_intro) assumption+

lemma keeps_applyNewSpeed [keeps_intro]: "ignoresSent I \<Longrightarrow> keeps I (applyNewSpeed E ut sp)"
  unfolding applyNewSpeed_def Let_def by (intro keeps_intro) assumption+

end
