(* ===== verification/ResetFlow.thy ===== *)
theory ResetFlow
  imports UserTunnels
begin

text \<open>
  The nightly task of \<open>task/reset_flow.go\<close>: counters whose reset day has come go to zero, expired
  users and user-tunnels are disabled after their active forwards have been paused. The calendar
  (\<open>time.Date\<close> with day 0 of the next month) is the Gregorian one.
\<close>

definition leapYear :: "int \<Rightarrow> bool" where
  "leapYear y = (y mod 4 = 0 \<and> (y mod 100 \<noteq> 0 \<or> y mod 400 = 0))"

definition daysInCurrentMonth :: "int \<Rightarrow> nat \<Rightarrow> int" where
  "daysInCurrentMonth y m =
     (if m = 2 then (if leapYear y then 29 else 28) else if m \<in> {4, 6, 9, 11} then 30 else 31)"

text \<open>The \<open>WHERE\<close> of the monthly and the weekly query.\<close>

definition dueMonthly :: "int \<Rightarrow> int \<Rightarrow> int \<Rightarrow> int \<Rightarrow> bool" where
  "dueMonthly dayOfMonth daysInMonth resetType resetDay =
     (resetType = 1 \<and> (resetDay = dayOfMonth \<or> (daysInMonth < resetDay \<and> dayOfMonth = daysInMonth)))"

definition dueWeekly :: "int \<Rightarrow> int \<Rightarrow> int \<Rightarrow> bool" where
  "dueWeekly dayOfWeek resetType resetDay = (resetType = 2 \<and> resetDay = dayOfWeek)"

definition pauseSingleForward :: "env \<Rightarrow> forward \<Rightarrow> unit prog" where
  "pauseSingleForward E fwd = do {
     s \<leftarrow> gets (\<lambda>s. s);
     (case firstTunnel s (fwdTunnelId fwd) of
        None \<Rightarrow> return ()
      | Some tunnel \<Rightarrow> (case GetNodeById s (tunInNodeId tunnel) of
        None \<Rightarrow> return ()
      | Some inNode \<Rightarrow> do {
          let ut = (case getUserTunnel s (fwdUserId fwd) (tunID tunnel) of None \<Rightarrow> zeroUserTunnel | Some u \<Rightarrow> u);
          let serviceName = tripleName (fwdID fwd) (fwdUserId fwd) (utID ut);
          pauseListeners E (nodeID inNode) serviceName (fwdListenIp fwd);
          (if tunType tunnel = 2 then
             (case GetNodeById s (tunOutNodeId tunnel) of
                None \<Rightarrow> return ()
              | Some outNode \<Rightarrow> do { PauseRemoteService E (nodeID outNode) serviceName; return () })
           else return ());
          updateForwardRow (fwdID fwd) (\<lambda>f. f\<lparr>fwdStatus := 0\<rparr>) })) }"

definition pauseUserForwards :: "env \<Rightarrow> int \<Rightarrow> unit prog" where
  "pauseUserForwards E userId = do {
     forwards \<leftarrow> gets (\<lambda>s. filter (\<lambda>f. fwdUserId f = userId \<and> fwdStatus f = 1) (dbForwards s));
     forEach (pauseSingleForward E) forwards }"

definition pauseUserTunnelForwards :: "env \<Rightarrow> int \<Rightarrow> int \<Rightarrow> unit prog" where
  "pauseUserTunnelForwards E userId tunnelId = do {
     forwards \<leftarrow> gets (\<lambda>s. filter (\<lambda>f. fwdUserId f = userId \<and> fwdTunnelId f = tunnelId \<and> fwdStatus f = 1)
       (dbForwards s));
     forEach (pauseSingleForward E) forwards }"

definition updateUserRow :: "int \<Rightarrow> (user \<Rightarrow> user) \<Rightarrow> unit prog" where
  "updateUserRow i g = modify (\<lambda>s. s\<lparr>dbUsers := updateRows (\<lambda>u. userID u = i) g (dbUsers s)\<rparr>)"

definition updateUserTunnelRow :: "int \<Rightarrow> (userTunnel \<Rightarrow> userTunnel) \<Rightarrow> unit prog" where
  "updateUserTunnelRow i g =
     modify (\<lambda>s. s\<lparr>dbUserTunnels := updateRows (\<lambda>u. utID u = i) g (dbUserTunnels s)\<rparr>)"

definition zeroUserFlow :: "user \<Rightarrow> user" where
  "zeroUserFlow u = u\<lparr>userInFlow := 0, userOutFlow := 0, userXrayInFlow := 0, userXrayOutFlow := 0\<rparr>"

definition zeroUserTunnelFlow :: "userTunnel \<Rightarrow> userTunnel" where
  "zeroUserTunnelFlow u = u\<lparr>utInFlow := 0, utOutFlow := 0\<rparr>"

definition resetUsers :: "env \<Rightarrow> unit prog" where
  "resetUsers E = do {
     let daysInMonth = daysInCurrentMonth (todayYear E) (todayMonth E);
     usersMonthly \<leftarrow> gets (\<lambda>s. filter (\<lambda>u. userStatus u = 1 \<and>
       dueMonthly (todayDay E) daysInMonth (userFlowResetType u) (userFlowResetDay u)) (dbUsers s));
     usersWeekly \<leftarrow> gets (\<lambda>s. filter (\<lambda>u. userStatus u = 1 \<and>
       dueWeekly (todayWeekday E) (userFlowResetType u) (userFlowResetDay u)) (dbUsers s));
     forEach (\<lambda>u. updateUserRow (userID u) zeroUserFlow) (usersMonthly @ usersWeekly) }"

definition resetUserTunnels :: "env \<Rightarrow> unit prog" where
  "resetUserTunnels E = do {
     let daysInMonth = daysInCurrentMonth (todayYear E) (todayMonth E);
     tunnelsMonthly \<leftarrow> gets (\<lambda>s. filter (\<lambda>u. utStatus u = 1 \<and>
       dueMonthly (todayDay E) daysInMonth (utFlowResetType u) (utFlowResetDay u)) (dbUserTunnels s));
     tunnelsWeekly \<leftarrow> gets (\<lambda>s. filter (\<lambda>u. utStatus u = 1 \<and>
       dueWeekly (todayWeekday E) (utFlowResetType u) (utFlowResetDay u)) (dbUserTunnels s));
     forEach (\<lambda>u. updateUserTunnelRow (utID u) zeroUserTunnelFlow) (tunnelsMonthly @ tunnelsWeekly) }"

definition disableExpiredUsers :: "env \<Rightarrow> unit prog" where
  "disableExpiredUsers E = do {
     expiredUsers \<leftarrow> gets (\<lambda>s. filter (\<lambda>u. 0 < userExpTime u \<and> userExpTime u \<le> now E \<and> userStatus u = 1)
       (dbUsers s));
     forEach (\<lambda>u. do {
       pauseUserForwards E (userID u);
       updateUserRow (userID u) (\<lambda>r. r\<lparr>userStatus := 0\<rparr>) }) expiredUsers }"

definition disableExpiredUserTunnels :: "env \<Rightarrow> unit prog" where
  "disableExpiredUserTunnels E = do {
     expiredUTs \<leftarrow> gets (\<lambda>s. filter (\<lambda>u. 0 < utExpTime u \<and> utExpTime u \<le> now E \<and> utStatus u = 1)
       (dbUserTunnels s));
     forEach (\<lambda>u. do {
       pauseUserTunnelForwards E (utUserId u) (utTunnelId u);
       updateUserTunnelRow (utID u) (\<lambda>r. r\<lparr>utStatus := 0\<rparr>) }) expiredUTs }"

definition resetFlow :: "env \<Rightarrow> unit prog" where
  "resetFlow E = do {
     resetUsers E;
     resetUserTunnels E;
     disableExpiredUsers E;
     disableExpiredUserTunnels E }"

section \<open>Facts\<close>

lemma days_bounds: "28 \<le> daysInCurrentMonth y m \<and> daysInCurrentMonth y m \<le> 31"
  by (simp add: daysInCurrentMonth_def)

lemma forEach_updateUserRow:
  assumes "\<And>u. userID (g u) = userID u" "\<And>u. g (g u) = g u"
  shows "dbUsers (exec (forEach (\<lambda>u. updateUserRow (userID u) g) us) s) =
      updateRows (\<lambda>u. userID u \<in> userID ` set us) g (dbUsers s)"
proof (induction us arbitrary: s)
  case Nil
  then show ?case by (simp add: updateRows_def)
next
  case (Cons u us)
  then show ?case using assms by (auto simp: updateUserRow_def updateRows_def)
qed

lemma forEach_updateUserTunnelRow:
  assumes "\<And>u. utID (g u) = utID u" "\<And>u. g (g u) = g u"
  shows "dbUserTunnels (exec (forEach (\<lambda>u. updateUserTunnelRow (utID u) g) us) s) =
      updateRows (\<lambda>u. utID u \<in> utID ` set us) g (dbUserTunnels s)"
proof (induction us arbitrary: s)
  case Nil
  then show ?case by (simp add: updateRows_def)
next
  case (Cons u us)
  then show ?case using assms by (auto simp: updateUserTunnelRow_def updateRows_def)
qed

text \<open>With unique ids, updating the rows found by a query is updating where the query holds.\<close>

lemma updateRows_query:
  assumes "distinct (map rid rows)"
  shows "updateRows (\<lambda>r. rid r \<in> rid ` {x \<in> set rows. P x}) g rows = updateRows P g rows"
    and "updateRows (\<lambda>r. rid r \<in> rid ` {x \<in> set rows. P x} \<or> rid r \<in> rid ` {x \<in> set rows. Q x}) g rows
      = updateRows (\<lambda>r. P r \<or> Q r) g rows"
proof -
  have query: "rid r \<in> rid ` {x \<in> set rows. R x} \<longleftrightarrow> R r" if "r \<in> set rows" for r R
    using that assms by (auto simp: distinct_map dest: inj_onD)
  show "updateRows (\<lambda>r. rid r \<in> rid ` {x \<in> set rows. P x}) g rows = updateRows P g rows"
    unfolding updateRows_def by (rule map_cong [OF refl]) (simp only: query)
  show "updateRows (\<lambda>r. rid r \<in> rid ` {x \<in> set rows. P x} \<or> rid r \<in> rid ` {x \<in> set rows. Q x}) g rows
      = updateRows (\<lambda>r. P r \<or> Q r) g rows"
    unfolding updateRows_def by (rule map_cong [OF refl]) (simp only: query)
qed

end
