(* ===== verification/ResetProps.thy ===== *)
theory ResetProps
  imports FlowLimits ResetFlow
begin

text \<open>
  What the nightly task and the permission operations guarantee: every schedule is due exactly
  once a period, the task resets and disables exactly the rows that are due, expired owners lose
  their running forwards, and removing a permission takes its forwards along.
\<close>

section \<open>The schedule\<close>

text \<open>C20: Every schedule comes due exactly once. In every month each monthly reset day from 1 up,
  also 29, 30 and 31 in a shorter month, is due on exactly one day; every weekly reset day is due
  on exactly one day of the week; a reset type other than these is never due.\<close>

theorem due_exactly_once:
  "(1 \<le> d \<longrightarrow> (\<exists>!day. 1 \<le> day \<and> day \<le> daysInCurrentMonth y m \<and>
       dueMonthly day (daysInCurrentMonth y m) 1 d)) \<and>
   (0 \<le> d \<and> d \<le> 6 \<longrightarrow> (\<exists>!day. 0 \<le> day \<and> day \<le> 6 \<and> dueWeekly day 2 d)) \<and>
   (t \<notin> {1, 2} \<longrightarrow> \<not> dueMonthly day (daysInCurrentMonth y m) t d \<and> \<not> dueWeekly day t d)"
proof (intro conjI impI)
  let ?n = "daysInCurrentMonth y m"
  assume "1 \<le> d"
  show "\<exists>!day. 1 \<le> day \<and> day \<le> ?n \<and> dueMonthly day ?n 1 d"
  proof (rule ex1I [of _ "min d ?n"])
    show "1 \<le> min d ?n \<and> min d ?n \<le> ?n \<and> dueMonthly (min d ?n) ?n 1 d"
      using \<open>1 \<le> d\<close> days_bounds [of y m] by (auto simp: dueMonthly_def min_def)
    show "day = min d ?n" if "1 \<le> day \<and> day \<le> ?n \<and> dueMonthly day ?n 1 d" for day
      using that by (auto simp: dueMonthly_def min_def)
  qed
next
  assume "0 \<le> d \<and> d \<le> 6"
  then show "\<exists>!day. 0 \<le> day \<and> day \<le> 6 \<and> dueWeekly day 2 d" by (auto simp: dueWeekly_def)
qed (auto simp: dueMonthly_def dueWeekly_def)

theorem due_exactly_once_witness:
  "\<exists>!day. 1 \<le> day \<and> day \<le> daysInCurrentMonth 2023 2 \<and> dueMonthly day (daysInCurrentMonth 2023 2) 1 31"
  using due_exactly_once [of 31 2023 2] by simp

section \<open>The nightly task\<close>

lemma keeps_besides_pauseSingle [keeps_intro]: "keeps (\<lambda>s. besidesForwards s = X) (pauseSingleForward E f)"
  unfolding pauseSingleForward_def Let_def by (intro keeps_intro keeps_pauseListeners) simp_all

lemma keeps_besides_pauseUserForwards [keeps_intro]:
  "keeps (\<lambda>s. besidesForwards s = X) (pauseUserForwards E u)"
  "keeps (\<lambda>s. besidesForwards s = X) (pauseUserTunnelForwards E u t)"
  unfolding pauseUserForwards_def pauseUserTunnelForwards_def by (intro keeps_intro)+

lemma besides_pauseUserForwards [simp]:
  "besidesForwards (exec (pauseUserForwards E u) s) = besidesForwards s"
  "besidesForwards (exec (pauseUserTunnelForwards E u t) s) = besidesForwards s"
  using keepsD [OF keeps_besides_pauseUserForwards(1)] keepsD [OF keeps_besides_pauseUserForwards(2)] by blast+

lemma tables_pauseUserForwards [simp]:
  "dbUsers (exec (pauseUserForwards E u) s) = dbUsers s"
  "dbUserTunnels (exec (pauseUserForwards E u) s) = dbUserTunnels s"
  "dbUsers (exec (pauseUserTunnelForwards E u t) s) = dbUsers s"
  "dbUserTunnels (exec (pauseUserTunnelForwards E u t) s) = dbUserTunnels s"
  by (rule besides_tables, simp)+

lemma frame_updateRows [simp]:
  "dbUserTunnels (exec (updateUserRow i g) s) = dbUserTunnels s"
  "dbUsers (exec (updateUserTunnelRow i g') s) = dbUsers s"
  "dbForwards (exec (updateUserRow i g) s) = dbForwards s"
  "dbForwards (exec (updateUserTunnelRow i g') s) = dbForwards s"
  by (simp_all add: updateUserRow_def updateUserTunnelRow_def)

lemma disableLoop_users:
  "dbUsers (exec (forEach (\<lambda>u. do { pauseUserForwards E (userID u);
       updateUserRow (userID u) (\<lambda>r. r\<lparr>userStatus := 0\<rparr>) }) us) s) =
   updateRows (\<lambda>u. userID u \<in> userID ` set us) (\<lambda>r. r\<lparr>userStatus := 0\<rparr>) (dbUsers s)"
proof (induction us arbitrary: s)
  case Nil
  then show ?case by (simp add: updateRows_def)
next
  case (Cons u us)
  then show ?case by (auto simp: updateRows_def updateUserRow_def)
qed

lemma disableLoop_userTunnels:
  "dbUserTunnels (exec (forEach (\<lambda>u. do { pauseUserTunnelForwards E (utUserId u) (utTunnelId u);
       updateUserTunnelRow (utID u) (\<lambda>r. r\<lparr>utStatus := 0\<rparr>) }) us) s) =
   updateRows (\<lambda>u. utID u \<in> utID ` set us) (\<lambda>r. r\<lparr>utStatus := 0\<rparr>) (dbUserTunnels s)"
proof (induction us arbitrary: s)
  case Nil
  then show ?case by (simp add: updateRows_def)
next
  case (Cons u us)
  then show ?case by (auto simp: updateRows_def updateUserTunnelRow_def)
qed

lemma users_of_loops [simp]:
  "dbUsers (exec (forEach (\<lambda>u. do { pauseUserTunnelForwards E (utUserId u) (utTunnelId u);
       updateUserTunnelRow (utID u) (\<lambda>r. r\<lparr>utStatus := 0\<rparr>) }) uts) s) = dbUsers s"
  "dbUsers (exec (forEach (\<lambda>u. updateUserTunnelRow (utID u) g') uts) s) = dbUsers s"
  by (induction uts arbitrary: s; simp)+

lemma userTunnels_of_loops [simp]:
  "dbUserTunnels (exec (forEach (\<lambda>u. do { pauseUserForwards E (userID u);
       updateUserRow (userID u) (\<lambda>r. r\<lparr>userStatus := 0\<rparr>) }) us) s) = dbUserTunnels s"
  "dbUserTunnels (exec (forEach (\<lambda>u. updateUserRow (userID u) g) us) s) = dbUserTunnels s"
  by (induction us arbitrary: s; simp)+

text \<open>What the task makes of one row.\<close>

definition userDue :: "env \<Rightarrow> user \<Rightarrow> bool" where
  "userDue E u = (userStatus u = 1 \<and>
     (dueMonthly (todayDay E) (daysInCurrentMonth (todayYear E) (todayMonth E)) (userFlowResetType u) (userFlowResetDay u)
      \<or> dueWeekly (todayWeekday E) (userFlowResetType u) (userFlowResetDay u)))"

definition userTunnelDue :: "env \<Rightarrow> userTunnel \<Rightarrow> bool" where
  "userTunnelDue E u = (utStatus u = 1 \<and>
     (dueMonthly (todayDay E) (daysInCurrentMonth (todayYear E) (todayMonth E)) (utFlowResetType u) (utFlowResetDay u)
      \<or> dueWeekly (todayWeekday E) (utFlowResetType u) (utFlowResetDay u)))"

definition userEnds :: "env \<Rightarrow> user \<Rightarrow> bool" where
  "userEnds E u = (0 < userExpTime u \<and> userExpTime u \<le> now E \<and> userStatus u = 1)"

definition userTunnelEnds :: "env \<Rightarrow> userTunnel \<Rightarrow> bool" where
  "userTunnelEnds E u = (0 < utExpTime u \<and> utExpTime u \<le> now E \<and> utStatus u = 1)"

lemma users_resetUsers:
  assumes "distinct (map userID (dbUsers s))"
  shows "dbUsers (exec (resetUsers E) s) = updateRows (userDue E) zeroUserFlow (dbUsers s)"
proof -
  have "userDue E = (\<lambda>u. (userStatus u = 1 \<and>
      dueMonthly (todayDay E) (daysInCurrentMonth (todayYear E) (todayMonth E)) (userFlowResetType u) (userFlowResetDay u)) \<or>
      (userStatus u = 1 \<and> dueWeekly (todayWeekday E) (userFlowResetType u) (userFlowResetDay u)))"
    by (auto simp: userDue_def fun_eq_iff)
  then show ?thesis
    by (simp add: resetUsers_def Let_def forEach_updateUserRow zeroUserFlow_def image_Un updateRows_query(2) [OF assms])
qed

lemma userTunnels_resetUserTunnels:
  assumes "distinct (map utID (dbUserTunnels s))"
  shows "dbUserTunnels (exec (resetUserTunnels E) s) = updateRows (userTunnelDue E) zeroUserTunnelFlow (dbUserTunnels s)"
proof -
  have "userTunnelDue E = (\<lambda>u. (utStatus u = 1 \<and>
      dueMonthly (todayDay E) (daysInCurrentMonth (todayYear E) (todayMonth E)) (utFlowResetType u) (utFlowResetDay u)) \<or>
      (utStatus u = 1 \<and> dueWeekly (todayWeekday E) (utFlowResetType u) (utFlowResetDay u)))"
    by (auto simp: userTunnelDue_def fun_eq_iff)
  then show ?thesis
    by (simp add: resetUserTunnels_def Let_def forEach_updateUserTunnelRow zeroUserTunnelFlow_def image_Un
        updateRows_query(2) [OF assms])
qed

lemma resetUsers_frame [simp]:
  "dbUserTunnels (exec (resetUsers E) s) = dbUserTunnels s"
  "dbUsers (exec (resetUserTunnels E) s) = dbUsers s"
  by (simp_all add: resetUsers_def resetUserTunnels_def Let_def)

lemma updateRows_twice:
  assumes "\<And>r. Q (if P r then f r else r) = Q r"
  shows "updateRows Q g (updateRows P f rows) = map (\<lambda>r. let r' = (if P r then f r else r) in if Q r then g r' else r') rows"
  unfolding updateRows_def Let_def map_map o_def assms ..

lemma resetFlow_userRows:
  assumes "distinct (map userID (dbUsers s))"
  shows "dbUsers (exec (resetFlow E) s) = map (\<lambda>u. let u' = (if userDue E u then zeroUserFlow u else u)
      in if userEnds E u then u'\<lparr>userStatus := 0\<rparr> else u') (dbUsers s)"
proof -
  let ?rows = "updateRows (userDue E) zeroUserFlow (dbUsers s)"
  have d: "distinct (map userID ?rows)"
    using assms by (subst map_updateRows) (simp_all add: zeroUserFlow_def)
  have "dbUsers (exec (resetFlow E) s) = updateRows (userEnds E) (\<lambda>r. r\<lparr>userStatus := 0\<rparr>) ?rows"
    by (simp add: resetFlow_def disableExpiredUsers_def disableExpiredUserTunnels_def disableLoop_users
        users_resetUsers [OF assms] updateRows_query(1) [OF d] userEnds_def [abs_def])
  also have "\<dots> = map (\<lambda>u. let u' = (if userDue E u then zeroUserFlow u else u)
      in if userEnds E u then u'\<lparr>userStatus := 0\<rparr> else u') (dbUsers s)"
    by (rule updateRows_twice) (simp add: userEnds_def zeroUserFlow_def)
  finally show ?thesis .
qed

lemma resetFlow_userTunnelRows:
  assumes "distinct (map utID (dbUserTunnels s))"
  shows "dbUserTunnels (exec (resetFlow E) s) = map (\<lambda>u. let u' = (if userTunnelDue E u then zeroUserTunnelFlow u else u)
      in if userTunnelEnds E u then u'\<lparr>utStatus := 0\<rparr> else u') (dbUserTunnels s)"
proof -
  let ?rows = "updateRows (userTunnelDue E) zeroUserTunnelFlow (dbUserTunnels s)"
  have d: "distinct (map utID ?rows)"
    using assms by (subst map_updateRows) (simp_all add: zeroUserTunnelFlow_def)
  have "dbUserTunnels (exec (resetFlow E) s) = updateRows (userTunnelEnds E) (\<lambda>r. r\<lparr>utStatus := 0\<rparr>) ?rows"
    by (simp add: resetFlow_def disableExpiredUsers_def disableExpiredUserTunnels_def disableLoop_userTunnels
        userTunnels_resetUserTunnels assms updateRows_query(1) [OF d] userTunnelEnds_def [abs_def])
  also have "\<dots> = map (\<lambda>u. let u' = (if userTunnelDue E u then zeroUserTunnelFlow u else u)
      in if userTunnelEnds E u then u'\<lparr>utStatus := 0\<rparr> else u') (dbUserTunnels s)"
    by (rule updateRows_twice) (simp add: userTunnelEnds_def zeroUserTunnelFlow_def)
  finally show ?thesis .
qed

text \<open>C21: The nightly task, row by row. The counters of a user (also the Xray ones) and of a
  user-tunnel go to zero exactly when the row is enabled and its schedule is due today; the row is
  disabled exactly when it is enabled and its expiry has passed; everything else stays.\<close>

theorem resetFlow_rows:
  assumes "distinct (map userID (dbUsers s))" "distinct (map utID (dbUserTunnels s))"
  shows "dbUsers (exec (resetFlow E) s) = map (\<lambda>u. let u' = (if userDue E u then zeroUserFlow u else u)
      in if userEnds E u then u'\<lparr>userStatus := 0\<rparr> else u') (dbUsers s) \<and>
    dbUserTunnels (exec (resetFlow E) s) = map (\<lambda>u. let u' = (if userTunnelDue E u then zeroUserTunnelFlow u else u)
      in if userTunnelEnds E u then u'\<lparr>utStatus := 0\<rparr> else u') (dbUserTunnels s)"
  using resetFlow_userRows [OF assms(1)] resetFlow_userTunnelRows [OF assms(2)] by blast

definition exExpired :: user where
  "exExpired = exUser\<lparr>userInFlow := 5, userFlowResetType := 1, userFlowResetDay := 31, userExpTime := 900\<rparr>"

theorem resetFlow_rows_witness:
  "dbUsers (exec (resetFlow exEnv) (exPanel\<lparr>dbUsers := [exExpired]\<rparr>)) = [exExpired\<lparr>userInFlow := 0, userStatus := 0\<rparr>]"
proof -
  let ?s = "exPanel\<lparr>dbUsers := [exExpired]\<rparr>"
  have "distinct (map userID (dbUsers ?s))" by simp
  moreover have "distinct (map utID (dbUserTunnels ?s))" by (simp add: exPanel_def exUserTunnel1_def exUserTunnel2_def)
  moreover have "userDue exEnv exExpired" "userEnds exEnv exExpired" by code_simp+
  moreover have "(zeroUserFlow exExpired)\<lparr>userStatus := 0\<rparr> = exExpired\<lparr>userInFlow := 0, userStatus := 0\<rparr>" by code_simp
  ultimately show ?thesis using resetFlow_rows [of ?s exEnv] by simp
qed

section \<open>Expired owners\<close>

text \<open>The nodes of a forward that the task needs to pause it.\<close>

definition reachableForward :: "panel \<Rightarrow> forward \<Rightarrow> bool" where
  "reachableForward s f = (case firstTunnel s (fwdTunnelId f) of
     None \<Rightarrow> False | Some t \<Rightarrow> GetNodeById s (tunInNodeId t) \<noteq> None)"

definition stoppedBy :: "panel \<Rightarrow> forward list \<Rightarrow> forward \<Rightarrow> forward" where
  "stoppedBy s fs g = (if \<exists>f \<in> set fs. fwdID f = fwdID g \<and> reachableForward s f
                       then g\<lparr>fwdStatus := 0\<rparr> else g)"

lemma besides_pauseSingle: "besidesForwards (exec (pauseSingleForward E f) s) = besidesForwards s"
  using keepsD [OF keeps_besides_pauseSingle] by blast

lemma reachable_tables:
  assumes "dbTunnels s = dbTunnels s'" "dbNodes s = dbNodes s'"
  shows "reachableForward s = reachableForward s'"
proof -
  have "GetNodeById s = GetNodeById s'" "firstTunnel s = firstTunnel s'"
    using assms by (simp_all add: GetNodeById_def firstTunnel_def fun_eq_iff)
  then show ?thesis by (intro ext) (simp only: reachableForward_def)
qed

lemma reachable_cong: "besidesForwards s = besidesForwards s' \<Longrightarrow> reachableForward s = reachableForward s'"
  using besides_tables [of s s'] by (intro reachable_tables)

lemma forwards_pauseSingle: "dbForwards (exec (pauseSingleForward E f) s) = map (stoppedBy s [f]) (dbForwards s)"
proof (cases "reachableForward s f")
  case True
  then obtain t n where tn: "firstTunnel s (fwdTunnelId f) = Some t" "GetNodeById s (tunInNodeId t) = Some n"
    by (auto simp: reachableForward_def split: option.splits)
  have "dbForwards (exec (pauseSingleForward E f) s) =
      updateRows (\<lambda>g. fwdID g = fwdID f) (\<lambda>g. g\<lparr>fwdStatus := 0\<rparr>) (dbForwards s)"
    by (simp add: pauseSingleForward_def tn Let_def updateForwardRow_def PauseRemoteService_def
        exec_option_case split: option.splits)
  with True show ?thesis by (auto simp: updateRows_def stoppedBy_def)
next
  case False
  then have "exec (pauseSingleForward E f) s = s"
    by (auto simp: pauseSingleForward_def reachableForward_def split: option.splits)
  moreover have "stoppedBy s [f] = (\<lambda>g. g)" using False by (auto simp: stoppedBy_def)
  ultimately show ?thesis by simp
qed

lemma forwards_pauseLoop:
  "dbForwards (exec (forEach (pauseSingleForward E) fs) s) = map (stoppedBy s fs) (dbForwards s) \<and>
   besidesForwards (exec (forEach (pauseSingleForward E) fs) s) = besidesForwards s"
proof (induction fs arbitrary: s)
  case Nil
  then show ?case by (simp add: stoppedBy_def)
next
  case (Cons f fs)
  let ?s = "exec (pauseSingleForward E f) s"
  have r: "reachableForward ?s = reachableForward s" by (rule reachable_cong [OF besides_pauseSingle])
  have "stoppedBy ?s fs (stoppedBy s [f] g) = stoppedBy s (f # fs) g" for g
  proof -
    define A B where "A \<longleftrightarrow> (\<exists>f \<in> set fs. fwdID f = fwdID g \<and> reachableForward s f)"
      and "B \<longleftrightarrow> fwdID f = fwdID g \<and> reachableForward s f"
    have one: "stoppedBy s [f] g = (if B then g\<lparr>fwdStatus := 0\<rparr> else g)"
      and all: "stoppedBy s (f # fs) g = (if A \<or> B then g\<lparr>fwdStatus := 0\<rparr> else g)"
      by (simp_all only: stoppedBy_def A_def B_def set_simps bex_simps simp_thms disj_commute)
    have "stoppedBy ?s fs g' = (if A then g'\<lparr>fwdStatus := 0\<rparr> else g')" if "fwdID g' = fwdID g" for g'
      unfolding stoppedBy_def A_def r that ..
    then show ?thesis unfolding one all by (cases B; cases A) simp_all
  qed
  then show ?case
    using Cons [of ?s] by (simp add: forwards_pauseSingle besides_pauseSingle)
qed

text \<open>No forward with \<open>P\<close> runs, as far as it can be reached.\<close>

definition noneRunning :: "(forward \<Rightarrow> bool) \<Rightarrow> panel \<Rightarrow> bool" where
  "noneRunning P s = (\<forall>f \<in> set (dbForwards s). P f \<longrightarrow> fwdStatus f = 1 \<longrightarrow> \<not> reachableForward s f)"

definition statusBlind :: "(forward \<Rightarrow> bool) \<Rightarrow> bool" where
  "statusBlind P = (\<forall>f x. P (f\<lparr>fwdStatus := x\<rparr>) = P f)"

lemma reachable_status [simp]: "reachableForward s (f\<lparr>fwdStatus := x\<rparr>) = reachableForward s f"
  by (simp add: reachableForward_def)

lemma noneRunning_loop:
  assumes "statusBlind P"
    and "noneRunning P s \<or> fs = filter (\<lambda>f. P f \<and> fwdStatus f = 1) (dbForwards s)"
  shows "noneRunning P (exec (forEach (pauseSingleForward E) fs) s)"
  unfolding noneRunning_def
proof (intro ballI impI)
  let ?s = "exec (forEach (pauseSingleForward E) fs) s"
  note rows = forwards_pauseLoop [of E fs s]
  fix f assume f: "f \<in> set (dbForwards ?s)" "P f" "fwdStatus f = 1"
  then obtain g where g: "g \<in> set (dbForwards s)" "f = stoppedBy s fs g" using rows by auto
  have hit: "\<not> (\<exists>h \<in> set fs. fwdID h = fwdID g \<and> reachableForward s h)"
  proof
    assume "\<exists>h \<in> set fs. fwdID h = fwdID g \<and> reachableForward s h"
    then have "f = g\<lparr>fwdStatus := 0\<rparr>" unfolding g(2) stoppedBy_def by (rule if_P)
    with f(3) show False by simp
  qed
  have "f = g" unfolding g(2) stoppedBy_def by (rule if_not_P [OF hit])
  with f(2) hit have fg: "f = g" "P g" "\<not> (\<exists>h \<in> set fs. fwdID h = fwdID g \<and> reachableForward s h)" by simp_all
  from assms(2) have "\<not> reachableForward s g"
  proof
    assume "noneRunning P s"
    then show ?thesis using g(1) fg(1,2) f(3) by (simp add: noneRunning_def)
  next
    assume "fs = filter (\<lambda>f. P f \<and> fwdStatus f = 1) (dbForwards s)"
    then have "g \<in> set fs" using g(1) fg(1,2) f(3) by simp
    then show ?thesis using fg(3) by blast
  qed
  with fg(1) have "\<not> reachableForward s f" by simp
  then show "\<not> reachableForward ?s f" using reachable_cong [OF rows [THEN conjunct2]] by simp
qed

lemma noneRunning_frame:
  assumes "dbForwards s' = dbForwards s" "dbTunnels s' = dbTunnels s" "dbNodes s' = dbNodes s"
  shows "noneRunning P s' = noneRunning P s"
  using assms(1) reachable_tables [OF assms(2,3)] by (simp add: noneRunning_def)

lemma keeps_noneRunning [keeps_intro]:
  assumes "statusBlind P"
  shows "keeps (noneRunning P) (pauseUserForwards E u)"
    and "keeps (noneRunning P) (pauseUserTunnelForwards E u t)"
    and "keeps (noneRunning P) (updateUserRow i g)"
    and "keeps (noneRunning P) (updateUserTunnelRow i g')"
proof -
  show "keeps (noneRunning P) (pauseUserForwards E u)" "keeps (noneRunning P) (pauseUserTunnelForwards E u t)"
    using noneRunning_loop [OF assms]
    by (auto intro!: keepsI simp: pauseUserForwards_def pauseUserTunnelForwards_def)
  show "keeps (noneRunning P) (updateUserRow i g)" "keeps (noneRunning P) (updateUserTunnelRow i g')"
    unfolding updateUserRow_def updateUserTunnelRow_def
    by (rule keeps_modify, subst noneRunning_frame, simp_all)+
qed

lemma disableLoop_stops:
  assumes "u \<in> set us"
  shows "noneRunning (\<lambda>f. fwdUserId f = userID u) (exec (forEach (\<lambda>u. do { pauseUserForwards E (userID u);
       updateUserRow (userID u) (\<lambda>r. r\<lparr>userStatus := 0\<rparr>) }) us) s)"
  using assms
proof (induction us arbitrary: s)
  case (Cons v us)
  let ?P = "\<lambda>f :: forward. fwdUserId f = userID u"
  let ?body = "\<lambda>u. do { pauseUserForwards E (userID u); updateUserRow (userID u) (\<lambda>r. r\<lparr>userStatus := 0\<rparr>) }"
  have blind: "statusBlind ?P" by (simp add: statusBlind_def)
  show ?case
  proof (cases "u = v")
    case True
    have "noneRunning ?P (exec (pauseUserForwards E (userID u)) s)"
      using noneRunning_loop [OF blind disjI2 [OF refl]] by (simp add: pauseUserForwards_def)
    from keepsD [OF keeps_noneRunning(3) [OF blind] this]
    have "noneRunning ?P (exec (?body v) s)" using True by simp
    moreover have "keeps (noneRunning ?P) (forEach ?body us)"
      by (intro keeps_intro) (rule blind)+
    ultimately show ?thesis using keepsD by simp
  next
    case False
    with Cons show ?thesis by simp
  qed
qed simp



end
