(* ===== verification/UserTunnelProps.thy ===== *)
theory UserTunnelProps
  imports UserTunnels
begin

text \<open>
  Removing a permission takes the forwards under it along, in the database and on the nodes; a
  change of speed reaches forwards that are paused.
\<close>

section \<open>Removal\<close>

lemma forwards_deleteListeners [simp]: "dbForwards (exec (deleteListeners E k n ip) s) = dbForwards s"
  by (simp add: deleteListeners_def DeleteServiceMultiIP_def DeleteService_def exec_SendMsg)

lemma forwards_removeForwardOf:
  "dbForwards (exec (removeForwardOf E t k f) s) = deleteRows (\<lambda>g. fwdID g = fwdID f) (dbForwards s)"
proof -
  have "dbForwards (exec (cleanupForwardOf E t k f) s) = dbForwards s"
    by (subst talks_frame [OF keeps_cleanupForwardOf]) simp_all
  then show ?thesis by (simp add: removeForwardOf_def removeForward_def)
qed

lemma exec_sent_removeForward [simp]: "dbSent (exec (removeForward i) s) = dbSent s"
  by (simp add: removeForward_def)

lemma keeps_gone_removeForward [keeps_intro]: "keeps (\<lambda>s. holdsService (dbSent s) m name = b) (removeForward i)"
  by (rule keepsI) simp

lemma deleteListeners_names: "deleteListeners E k n (fwdListenIp f) = SendMsg E k (DNames (deletedNames f n)) ''DeleteService''"
  by (simp add: deleteListeners_def deleteListeners_eq)

lemma svcStep_gone:
  "svcStep m name False (Cmd k t (DNames l)) = False" "svcStep m name False (Cmd k t (DChainName c)) = False"
  by (auto simp: svcStep_def)

lemma keeps_gone_removeForwardOf [keeps_intro]:
  "keeps (\<lambda>s. holdsService (dbSent s) m name = False) (removeForwardOf E t k f)"
  unfolding removeForwardOf_def cleanupForwardOf_def Let_def deleteListeners_names DeleteChains_def DeleteRemoteService_def
  by (intro keeps_intro keeps_holdsService svcStep_gone)

lemma removeForwardOf_clears:
  assumes "GetNodeById s (tunInNodeId t) = Some n" "staysOnline E (nodeID n)"
    and "name \<in> set (deletedNames f (tripleName (fwdID f) (fwdUserId f) k))"
  shows "holdsService (dbSent (exec (removeForwardOf E t k f) s)) (nodeID n) name = False"
proof -
  let ?n = "tripleName (fwdID f) (fwdUserId f) k"
  let ?first = "SendMsg E (nodeID n) (DNames (deletedNames f ?n)) ''DeleteService''"
  let ?I = "\<lambda>s. holdsService (dbSent s) (nodeID n) name = False"
  have first: "holdsService (dbSent (exec ?first s)) (nodeID n) name = False"
    using assms(2,3) by (simp add: svcStep_def)
  have rest: "keeps ?I
      (if tunType t = 2 then do {
             DeleteChains E (nodeID n) ?n;
             (case GetNodeById s (tunOutNodeId t) of None \<Rightarrow> return ()
              | Some outNode \<Rightarrow> do { DeleteRemoteService E (nodeID outNode) ?n; return () }) }
           else return ())"
    unfolding DeleteChains_def DeleteRemoteService_def
    by (intro keeps_intro keeps_holdsService svcStep_gone)
  have ex: "exec (cleanupForwardOf E t k f) s = exec (if tunType t = 2 then do {
             DeleteChains E (nodeID n) ?n;
             (case GetNodeById s (tunOutNodeId t) of None \<Rightarrow> return ()
              | Some outNode \<Rightarrow> do { DeleteRemoteService E (nodeID outNode) ?n; return () }) }
           else return ()) (exec ?first s)"
    unfolding cleanupForwardOf_def exec_bind exec_simps result_simps assms(1) option.case Let_def deleteListeners_names ..
  have "?I (exec (cleanupForwardOf E t k f) s)"
    unfolding ex by (rule keepsD [where I = ?I, OF rest first])
  then show ?thesis by (simp add: removeForwardOf_def)
qed

lemma nodes_removeForwardOf [simp]: "GetNodeById (exec (removeForwardOf E t k f) s) = GetNodeById s"
proof -
  have "ignoresSent (\<lambda>s'. dbNodes s' = x)" for x by (simp add: ignoresSent_def)
  moreover have "keeps (\<lambda>s'. dbNodes s' = x) (removeForward i)" for x i
    unfolding removeForward_def by (rule keeps_modify) simp
  ultimately have "keeps (\<lambda>s'. dbNodes s' = x) (removeForwardOf E t k f)" for x
    unfolding removeForwardOf_def by (intro keeps_intro)
  from keepsD [OF this refl] show ?thesis by (simp add: GetNodeById_def fun_eq_iff)
qed

lemma removeLoop_rows:
  "dbForwards (exec (forEach (removeForwardOf E t k) fs) s) =
   filter (\<lambda>g. fwdID g \<notin> fwdID ` set fs) (dbForwards s)"
  by (induction fs arbitrary: s) (auto simp: forwards_removeForwardOf deleteRows_def intro!: filter_cong)

lemma removeLoop_clears:
  assumes "f \<in> set fs" "GetNodeById s (tunInNodeId t) = Some n" "staysOnline E (nodeID n)"
    and "name \<in> set (deletedNames f (tripleName (fwdID f) (fwdUserId f) k))"
  shows "holdsService (dbSent (exec (forEach (removeForwardOf E t k) fs) s)) (nodeID n) name = False"
  using assms(1,2)
proof (induction fs arbitrary: s)
  case (Cons g fs)
  have keep: "keeps (\<lambda>s. holdsService (dbSent s) (nodeID n) name = False) (forEach (removeForwardOf E t k) fs)"
    by (intro keeps_intro)
  show ?case
  proof (cases "f = g")
    case True
    from keepsD [OF keep removeForwardOf_clears [OF Cons.prems(2) assms(3,4)]] True show ?thesis by simp
  next
    case False
    with Cons show ?thesis by simp
  qed
qed simp



section \<open>A new speed\<close>

lemma sent_extends_updateForwardWithNewSpeed:
  "x \<in> set (dbSent s) \<Longrightarrow> x \<in> set (dbSent (exec (updateForwardWithNewSpeed E t ut f) s))"
  by (simp add: updateForwardWithNewSpeed_def Let_def UpdateService_def exec_option_case exec_SendMsg
      split: option.splits)

lemma sent_speedLoop:
  "x \<in> set (dbSent s) \<Longrightarrow> x \<in> set (dbSent (exec (forEach (updateForwardWithNewSpeed E t ut) fs) s))"
  by (induction fs arbitrary: s) (simp_all add: sent_extends_updateForwardWithNewSpeed)

lemma nodes_updateForwardWithNewSpeed [simp]:
  "GetNodeById (exec (updateForwardWithNewSpeed E t ut f) s) = GetNodeById s"
proof -
  have "ignoresSent (\<lambda>s'. dbNodes s' = x)" for x by (simp add: ignoresSent_def)
  from keepsD [OF keeps_updateForwardWithNewSpeed [OF this] refl]
  show ?thesis by (simp add: GetNodeById_def fun_eq_iff)
qed

lemma speedLoop_sends:
  assumes "f \<in> set fs" "GetNodeById s (tunInNodeId t) = Some n" "staysOnline E (nodeID n)"
  shows "\<exists>svcs. Cmd (nodeID n) ''UpdateService'' (DServices svcs)
      \<in> set (dbSent (exec (forEach (updateForwardWithNewSpeed E t ut) fs) s)) \<and>
    map svcName svcs = listenerNames f t (tripleName (fwdID f) (fwdUserId f) (utID ut))"
  using assms(1,2)
proof (induction fs arbitrary: s)
  case (Cons g fs)
  show ?case
  proof (cases "f = g")
    case True
    let ?svcs = "buildServices (tripleName (fwdID f) (fwdUserId f) (utID ut)) (fwdInPort f) (utSpeedId ut)
      (fwdRemoteAddr f) (tunType t) (overrideListen t (fwdListenIp f)) (fwdStrategy f)
      (if tunType t \<noteq> 2 then fwdInterfaceName f else [])"
    have "Cmd (nodeID n) ''UpdateService'' (DServices ?svcs) \<in> set (dbSent (exec (updateForwardWithNewSpeed E t ut f) s))"
      using Cons.prems(2) assms(3)
      by (simp add: updateForwardWithNewSpeed_def Let_def UpdateService_def exec_SendMsg)
    from sent_speedLoop [OF this] True have
      "Cmd (nodeID n) ''UpdateService'' (DServices ?svcs)
        \<in> set (dbSent (exec (forEach (updateForwardWithNewSpeed E t ut) (g # fs)) s))" by simp
    then show ?thesis by (intro exI [of _ ?svcs]) (simp add: listenerNames_def)
  next
    case False
    with Cons show ?thesis by simp
  qed
qed simp

text \<open>A new speed restarts paused forwards. \<open>UpdateUserTunnel\<close> rebuilds the services of all
  forwards under the permission when the speed changes, also of those that are paused: the node
  is told to close and re-create their listeners, while the row goes on saying that the forward
  is paused.\<close>

theorem new_speed_restarts_paused:
  assumes "rowById utID (utuID d) (dbUserTunnels s) = Some ut" "utuSpeedId d = Some sp" "utSpeedId ut \<noteq> Some sp"
    and "utuStatus d = None" "firstTunnel s (utTunnelId ut) = Some t"
    and "GetNodeById s (tunInNodeId t) = Some n" "staysOnline E (nodeID n)"
    and "f \<in> set (dbForwards s)" "fwdUserId f = utUserId ut" "fwdTunnelId f = utTunnelId ut"
    and "fwdStatus f = forwardStatusPaused"
  shows "f \<in> set (dbForwards (exec (UpdateUserTunnel E d) s)) \<and>
    (\<exists>svcs. Cmd (nodeID n) ''UpdateService'' (DServices svcs) \<in> set (dbSent (exec (UpdateUserTunnel E d) s)) \<and>
      map svcName svcs = listenerNames f t (tripleName (fwdID f) (fwdUserId f) (utID ut)))"
proof -
  let ?fs = "filter (\<lambda>f. fwdUserId f = utUserId ut \<and> fwdTunnelId f = utTunnelId ut) (dbForwards s)"
  let ?ut = "ut\<lparr>utSpeedId := Some sp\<rparr>"
  let ?pre = "if 0 < sp then AddSpeedLimiter E (nodeID n) sp else return ()"
  have app: "exec (applyNewSpeed E ut (Some sp)) s =
      exec (forEach (updateForwardWithNewSpeed E t ?ut) ?fs) (exec ?pre s)"
    using assms(3,5,6) by (simp add: applyNewSpeed_def Let_def)
  have talk: "ignoresSent I \<Longrightarrow> keeps I (applyNewSpeed E ut (Some sp))" for I by (rule keeps_applyNewSpeed)
  have rows: "dbForwards (exec (applyNewSpeed E ut (Some sp)) s) = dbForwards s"
    by (subst talks_frame [OF talk]) simp_all
  have ex: "exec (UpdateUserTunnel E d) s = (exec (applyNewSpeed E ut (Some sp)) s)
      \<lparr>dbUserTunnels := updateRows (\<lambda>r. utID r = utID (result (applyNewSpeed E ut (Some sp)) s)) (writeUserTunnel d)
        (dbUserTunnels (exec (applyNewSpeed E ut (Some sp)) s))\<rparr>"
    using assms(1,2,4) by (simp add: UpdateUserTunnel_def)
  have "ignoresSent (\<lambda>s'. dbNodes s' = x)" for x by (simp add: ignoresSent_def)
  then have "keeps (\<lambda>s'. dbNodes s' = x) ?pre" for x by (intro keeps_intro)
  from keepsD [OF this refl] have "GetNodeById (exec ?pre s) (tunInNodeId t) = Some n"
    using assms(6) by (simp add: GetNodeById_def)
  then have "\<exists>svcs. Cmd (nodeID n) ''UpdateService'' (DServices svcs) \<in> set (dbSent (exec (applyNewSpeed E ut (Some sp)) s)) \<and>
      map svcName svcs = listenerNames f t (tripleName (fwdID f) (fwdUserId f) (utID ut))"
    unfolding app using speedLoop_sends [of f ?fs "exec ?pre s" t n E ?ut] assms(7-10) by simp
  then show ?thesis unfolding ex using rows assms(8) by simp
qed

definition exSpeed :: panel where
  "exSpeed = exPanel\<lparr>dbForwards := [exForward1\<lparr>fwdStatus := 0\<rparr>]\<rparr>"

definition exSpeedDto :: userTunnelUpdateDto where
  "exSpeedDto = \<lparr>utuID = 3, utuNum = None, utuFlow = None, utuFlowResetType = None, utuFlowResetDay = None,
     utuExpTime = None, utuSpeedId = Some 6, utuStatus = None\<rparr>"

theorem new_speed_restarts_paused_witness:
  "\<exists>svcs. Cmd 1 ''UpdateService'' (DServices svcs) \<in> set (dbSent (exec (UpdateUserTunnel exEnv exSpeedDto) exSpeed)) \<and>
     map svcName svcs = [''1_7_3_tcp'', ''1_7_3_udp'']"
proof -
  let ?f = "exForward1\<lparr>fwdStatus := 0\<rparr>"
  have 1: "rowById utID (utuID exSpeedDto) (dbUserTunnels exSpeed) = Some exUserTunnel1"
    by (simp add: rowById_def exSpeed_def exPanel_def exUserTunnel1_def exSpeedDto_def)
  have 2: "utuSpeedId exSpeedDto = Some 6" "utSpeedId exUserTunnel1 \<noteq> Some 6" "utuStatus exSpeedDto = None"
    by (simp_all add: exSpeedDto_def exUserTunnel1_def zeroUserTunnel_def)
  have 3: "firstTunnel exSpeed (utTunnelId exUserTunnel1) = Some exTunnel1"
    by (simp add: firstTunnel_def rowById_def exSpeed_def exPanel_def exUserTunnel1_def exTunnel1_def)
  have 4: "GetNodeById exSpeed (tunInNodeId exTunnel1) = Some exNode1"
    by (simp add: GetNodeById_def rowById_def exSpeed_def exPanel_def exTunnel1_def exNode1_def)
  have 5: "staysOnline exEnv (nodeID exNode1)" by (simp add: staysOnline_def exEnv_def)
  have 6: "?f \<in> set (dbForwards exSpeed)" "fwdUserId ?f = utUserId exUserTunnel1"
    "fwdTunnelId ?f = utTunnelId exUserTunnel1" "fwdStatus ?f = forwardStatusPaused"
    by (simp_all add: exSpeed_def exForward1_def exUserTunnel1_def forwardStatusPaused_def)
  have 7: "listenerNames ?f exTunnel1 (tripleName (fwdID ?f) (fwdUserId ?f) (utID exUserTunnel1)) = [''1_7_3_tcp'', ''1_7_3_udp'']"
    by code_simp
  have 8: "nodeID exNode1 = 1" by (simp add: exNode1_def)
  from new_speed_restarts_paused [OF 1 2 3 4 5 6] show ?thesis unfolding 7 8 by blast
qed

end
