(* ===== verification/Tunnels.thy ===== *)
theory Tunnels
  imports ForwardCleanup
begin

text \<open>
  Tunnels and speed limits: \<open>service/tunnel.go\<close> and \<open>service/speed_limit.go\<close>. A tunnel names its
  entry node and, when relayed, a different exit node; a port-forward tunnel has the entry node in
  both columns.
\<close>

section \<open>Tunnels\<close>

definition insertTunnel :: "tunnel \<Rightarrow> unit prog" where
  "insertTunnel t = modify (\<lambda>s. s\<lparr>dbTunnels := dbTunnels s @ [t],
     dbAutoInc := (dbAutoInc s)(''tunnel'' := tunID t + 1)\<rparr>)"

definition updateTunnelRow :: "int \<Rightarrow> (tunnel \<Rightarrow> tunnel) \<Rightarrow> unit prog" where
  "updateTunnelRow i g = modify (\<lambda>s. s\<lparr>dbTunnels := updateRows (\<lambda>t. tunID t = i) g (dbTunnels s)\<rparr>)"

text \<open>The exit side of a new tunnel: node id and address, or the reason it is refused.\<close>

definition exitOf :: "panel \<Rightarrow> tunnelDto \<Rightarrow> node \<Rightarrow> err + (int \<times> string)" where
  "exitOf s d inNode =
     (if tdType d = 2 then
        (case tdOutNodeId d of
           None \<Rightarrow> Inl EOutNodeRequired
         | Some outId \<Rightarrow>
             if outId = tdInNodeId d then Inl ESameNode
             else (case GetNodeById s outId of
                     None \<Rightarrow> Inl EOutNodeNotFound
                   | Some outNode \<Rightarrow> Inr (outId, nodeServerIp outNode)))
      else Inr (tdInNodeId d, nodeServerIp inNode))"

definition CreateTunnel :: "env \<Rightarrow> tunnelDto \<Rightarrow> tunnel R prog" where
  "CreateTunnel E d = do {
     s \<leftarrow> gets (\<lambda>s. s);
     if filter (\<lambda>t. tunName t = tdName d) (dbTunnels s) \<noteq> [] then return (Err ETunnelNameTaken)
     else (case GetNodeById s (tdInNodeId d) of
        None \<Rightarrow> return (Err EInNodeNotFound)
      | Some inNode \<Rightarrow> (case exitOf s d inNode of
        Inl e \<Rightarrow> return (Err e)
      | Inr (outNodeId, outIp) \<Rightarrow> do {
          let t = zeroTunnel\<lparr>tunID := dbAutoInc s ''tunnel'', tunName := tdName d, tunInNodeId := tdInNodeId d,
            tunInIp := nodeServerIp inNode, tunOutNodeId := outNodeId, tunOutIp := outIp, tunType := tdType d,
            tunFlow := tdFlow d,
            tunTrafficRatio := (case tdTrafficRatio d of None \<Rightarrow> 1 | Some r \<Rightarrow> r),
            tunProtocol := (if tdProtocol d \<noteq> [] then tdProtocol d else ''tls''),
            tunTcpListenAddr := (if tdTcpListenAddr d \<noteq> [] then tdTcpListenAddr d else ''::''),
            tunUdpListenAddr := (if tdUdpListenAddr d \<noteq> [] then tdUdpListenAddr d else ''::''),
            tunInterfaceName := tdInterfaceName d, tunStatus := 1, tunCreatedTime := now E,
            tunUpdatedTime := now E\<rparr>;
          if \<not> createOk E ''tunnel'' then return (Err ECreateTunnel)
          else do { insertTunnel t; return (Ok t) } })) }"

definition GetAllTunnels :: "panel \<Rightarrow> tunnel list" where
  "GetAllTunnels s = sort_key (\<lambda>t. (tunInx t, - tunCreatedTime t)) (dbTunnels s)"

definition UpdateTunnelOrder :: "orderItem list \<Rightarrow> unit R prog" where
  "UpdateTunnelOrder items = do {
     forEach (\<lambda>it. updateTunnelRow (oiID it) (\<lambda>t. t\<lparr>tunInx := oiInx it\<rparr>)) items;
     return (Ok ()) }"

definition UpdateTunnel :: "env \<Rightarrow> tunnelUpdateDto \<Rightarrow> unit R prog" where
  "UpdateTunnel E d = do {
     s \<leftarrow> gets (\<lambda>s. s);
     (case firstTunnel s (tuID d) of
        None \<Rightarrow> return (Err ETunnelNotFound)
      | Some tunnel \<Rightarrow>
          if filter (\<lambda>t. tunName t = tuName d \<and> tunID t \<noteq> tuID d) (dbTunnels s) \<noteq> []
          then return (Err ETunnelNameTaken)
          else if \<not> updateOk E ''tunnel'' then return (Err EUpdateTunnel)
          else do {
            updateTunnelRow (tunID tunnel) (\<lambda>t. t\<lparr>tunName := tuName d, tunFlow := tuFlow d,
              tunProtocol := tuProtocol d, tunTcpListenAddr := tuTcpListenAddr d,
              tunUdpListenAddr := tuUdpListenAddr d, tunInterfaceName := tuInterfaceName d,
              tunUpdatedTime := now E,
              tunTrafficRatio := (case tuTrafficRatio d of None \<Rightarrow> tunTrafficRatio t | Some r \<Rightarrow> r)\<rparr>);
            return (Ok ()) }) }"

definition DeleteTunnel :: "int \<Rightarrow> unit R prog" where
  "DeleteTunnel i = do {
     s \<leftarrow> gets (\<lambda>s. s);
     (case firstTunnel s i of
        None \<Rightarrow> return (Err ETunnelNotFound)
      | Some tunnel \<Rightarrow>
          if filter (\<lambda>f. fwdTunnelId f = i) (dbForwards s) \<noteq> [] then return (Err ETunnelHasForwards)
          else do {
            modify (\<lambda>s. s\<lparr>dbUserTunnels := deleteRows (\<lambda>u. utTunnelId u = i) (dbUserTunnels s)\<rparr>);
            modify (\<lambda>s. s\<lparr>dbTunnels := deleteRows (\<lambda>t. tunID t = tunID tunnel) (dbTunnels s)\<rparr>);
            return (Ok ()) }) }"

definition TcpPingNode :: "env \<Rightarrow> int \<Rightarrow> string \<Rightarrow> int \<Rightarrow> gostResponse prog" where
  "TcpPingNode E nodeId ip port = SendMsg E nodeId (DTcpPing ip port) ''TcpPing''"

definition DiagnoseTunnel :: "env \<Rightarrow> int \<Rightarrow> gostResponse option R prog" where
  "DiagnoseTunnel E i = do {
     s \<leftarrow> gets (\<lambda>s. s);
     (case firstTunnel s i of
        None \<Rightarrow> return (Err ETunnelNotFound)
      | Some tunnel \<Rightarrow> (case GetNodeById s (tunInNodeId tunnel) of
        None \<Rightarrow> return (Err EInNodeNotFound)
      | Some inNode \<Rightarrow>
          if tunType tunnel = 2 then
            (case GetNodeById s (tunOutNodeId tunnel) of
               None \<Rightarrow> return (Err EOutNodeNotFound)
             | Some outNode \<Rightarrow> do {
                 r \<leftarrow> TcpPingNode E (nodeID inNode) (nodeServerIp outNode) 0;
                 return (Ok (Some r)) })
          else return (Ok None))) }"

text \<open>The joins of \<open>GetUserAccessibleTunnels\<close>: a tunnel once per enabled permission row.\<close>

definition permittedTunnels :: "panel \<Rightarrow> int \<Rightarrow> (tunnel \<Rightarrow> bool) \<Rightarrow> (tunnel \<times> int) list" where
  "permittedTunnels s userId P =
     concat (map (\<lambda>t. map (\<lambda>ut. (t, utID ut))
       (filter (\<lambda>ut. utTunnelId ut = tunID t \<and> utUserId ut = userId \<and> utStatus ut = 1) (dbUserTunnels s)))
       (filter P (dbTunnels s)))"

definition GetUserAccessibleTunnels :: "panel \<Rightarrow> int \<Rightarrow> int \<Rightarrow> tunnel list + (tunnel \<times> int) list" where
  "GetUserAccessibleTunnels s userId roleId =
     (if roleId = 0 then Inl (GetAllTunnels s)
      else let gostNodes = map unNodeId (filter (\<lambda>un. unUserId un = userId \<and> unGostEnabled un = 1) (dbUserNodes s))
           in if filter (\<lambda>un. unUserId un = userId) (dbUserNodes s) \<noteq> []
              then Inr (permittedTunnels s userId (\<lambda>t. tunInNodeId t \<in> set gostNodes \<and>
                     (tunType t \<noteq> 2 \<or> tunOutNodeId t \<in> set gostNodes)))
              else Inr (permittedTunnels s userId (\<lambda>t. True)))"

section \<open>Speed limits\<close>

definition onEntryNode :: "panel \<Rightarrow> int \<Rightarrow> (int \<Rightarrow> gostResponse prog) \<Rightarrow> unit prog" where
  "onEntryNode s tunnelId f =
     (case firstTunnel s tunnelId of
        None \<Rightarrow> return ()
      | Some tunnel \<Rightarrow> (case GetNodeById s (tunInNodeId tunnel) of
          None \<Rightarrow> return ()
        | Some inNode \<Rightarrow> do { f (nodeID inNode); return () }))"

definition CreateSpeedLimit :: "env \<Rightarrow> speedLimitDto \<Rightarrow> speedLimit R prog" where
  "CreateSpeedLimit E d = do {
     s \<leftarrow> gets (\<lambda>s. s);
     (case firstTunnel s (sdTunnelId d) of
        None \<Rightarrow> return (Err ETunnelNotFound)
      | Some tunnel \<Rightarrow> do {
          let sl = \<lparr>slID = dbAutoInc s ''speed_limit'', slName = sdName d, slSpeed = sdSpeed d,
            slTunnelId = sdTunnelId d, slTunnelName = tunName tunnel, slCreatedTime = now E,
            slUpdatedTime = now E, slStatus = 1\<rparr>;
          if \<not> createOk E ''speed_limit'' then return (Err ECreateSpeedLimit)
          else do {
            modify (\<lambda>s. s\<lparr>dbSpeedLimits := dbSpeedLimits s @ [sl],
              dbAutoInc := (dbAutoInc s)(''speed_limit'' := slID sl + 1)\<rparr>);
            onEntryNode s (sdTunnelId d) (\<lambda>n. AddLimiters E n (slID sl) (itoa (slSpeed sl)));
            return (Ok sl) } }) }"

definition GetAllSpeedLimits :: "panel \<Rightarrow> speedLimit list" where
  "GetAllSpeedLimits s = sort_key (\<lambda>l. - slCreatedTime l) (dbSpeedLimits s)"

definition UpdateSpeedLimit :: "env \<Rightarrow> speedLimitUpdateDto \<Rightarrow> unit R prog" where
  "UpdateSpeedLimit E d = do {
     s \<leftarrow> gets (\<lambda>s. s);
     (case rowById slID (suuID d) (dbSpeedLimits s) of
        None \<Rightarrow> return (Err ESpeedLimitNotFound)
      | Some sl0 \<Rightarrow> do {
          let sl = sl0\<lparr>slName := (if suuName d \<noteq> [] then suuName d else slName sl0),
            slSpeed := (case suuSpeed d of None \<Rightarrow> slSpeed sl0 | Some x \<Rightarrow> x), slUpdatedTime := now E\<rparr>;
          modify (\<lambda>s. s\<lparr>dbSpeedLimits := updateRows (\<lambda>r. slID r = slID sl) (\<lambda>_. sl) (dbSpeedLimits s)\<rparr>);
          onEntryNode s (slTunnelId sl) (\<lambda>n. UpdateLimiters E n (slID sl) (itoa (slSpeed sl)));
          return (Ok ()) }) }"

definition DeleteSpeedLimit :: "env \<Rightarrow> int \<Rightarrow> unit R prog" where
  "DeleteSpeedLimit E i = do {
     s \<leftarrow> gets (\<lambda>s. s);
     (case rowById slID i (dbSpeedLimits s) of
        None \<Rightarrow> return (Err ESpeedLimitNotFound)
      | Some sl \<Rightarrow>
          if filter (\<lambda>u. utSpeedId u = Some i) (dbUserTunnels s) \<noteq> [] then return (Err ESpeedLimitInUse)
          else do {
            onEntryNode s (slTunnelId sl) (\<lambda>n. DeleteLimiters E n (slID sl));
            modify (\<lambda>s. s\<lparr>dbSpeedLimits := deleteRows (\<lambda>r. slID r = slID sl) (dbSpeedLimits s)\<rparr>);
            return (Ok ()) }) }"

definition GetSpeedLimitsByTunnel :: "panel \<Rightarrow> int \<Rightarrow> speedLimit list" where
  "GetSpeedLimitsByTunnel s tunnelId = filter (\<lambda>l. slTunnelId l = tunnelId) (dbSpeedLimits s)"

section \<open>What a user sees is what he may use\<close>

lemma permittedTunnels_iff:
  "(t, k) \<in> set (permittedTunnels s u P) \<longleftrightarrow> t \<in> set (dbTunnels s) \<and> P t \<and>
     (\<exists>ut \<in> set (dbUserTunnels s). utTunnelId ut = tunID t \<and> utUserId ut = u \<and> utStatus ut = 1 \<and> utID ut = k)"
  by (auto simp: permittedTunnels_def)


definition exRestricted :: panel where
  "exRestricted = exPanel\<lparr>dbUserNodes := [\<lparr>unID = 1, unUserId = 7, unNodeId = 1, unXrayEnabled = 1, unGostEnabled = 1\<rparr>]\<rparr>"


end
