(* ===== verification/Nodes.thy ===== *)
theory Nodes
  imports ForwardCleanup
begin

text \<open>
  Nodes: \<open>service/node.go\<close>. The live figures of a node come from the WebSocket manager's cache and
  are an argument (\<open>info\<close>), as are the version, the port and \<open>clientAddr\<close> of the request that the
  install commands are built from.
\<close>

section \<open>Shell words and names\<close>

text \<open>\<open>strings.ReplaceAll(s, "'", ...)\<close> between single quotes.\<close>

definition shQuote :: "string \<Rightarrow> string" where
  "shQuote s = CHR 0x27 # concat (map (\<lambda>c. if c = CHR 0x27 then [CHR 0x27, CHR 0x22, CHR 0x27, CHR 0x22, CHR 0x27]
                                          else [c]) s) @ [CHR 0x27]"

definition isLetter :: "char \<Rightarrow> bool" where
  "isLetter c = (let n = of_char c :: nat in (97 \<le> n \<and> n \<le> 122) \<or> (65 \<le> n \<and> n \<le> 90))"

definition nameChar :: "char \<Rightarrow> bool" where
  "nameChar c = (isLetter c \<or> isDigit c \<or> c = CHR ''_'' \<or> c = CHR ''-'' \<or> c = CHR ''.'')"

text \<open>The loop runs over the runes of \<open>s\<close>; the index of a rune is 0 only for the first. The
  pool below is ASCII, where runes are bytes.\<close>

definition sanitizeContainerName :: "string \<Rightarrow> string" where
  "sanitizeContainerName s =
     (case s of [] \<Rightarrow> []
      | c # cs \<Rightarrow>
          let out = (if nameChar c then c else CHR ''a'') # map (\<lambda>r. if nameChar r then r else CHR ''-'') cs
          in if \<not> (isLetter (hd out) \<or> isDigit (hd out)) then CHR ''a'' # out else out)"

definition disguisePool :: "string list" where
  "disguisePool = [''accounts-daemon'', ''dbus-broker'', ''networkd-dispatcher'', ''udisksd'', ''packagekitd'',
     ''polkitd'', ''colord-sane'', ''rtkit-daemon'', ''upower-daemon'', ''thermald'', ''irqbalance'', ''lldpd'',
     ''smartd'', ''avahi-daemon'', ''cupsd'', ''bluetoothd'', ''ModemManager'']"

definition pickDisguiseNames :: "env \<Rightarrow> string \<times> string" where
  "pickDisguiseNames E =
     (let indices = randPerm E (length disguisePool)
      in (disguisePool ! (indices ! 0), disguisePool ! (indices ! 1)))"

definition pickOneDisguise :: "env \<Rightarrow> string \<Rightarrow> string" where
  "pickOneDisguise E exclude =
     (case find (\<lambda>name. name \<noteq> exclude) (map (\<lambda>idx. disguisePool ! idx) (randPerm E (length disguisePool))) of
        Some name \<Rightarrow> name
      | None \<Rightarrow> ''systemd-helper'')"

section \<open>Nodes\<close>

definition insertNode :: "node \<Rightarrow> unit prog" where
  "insertNode n = modify (\<lambda>s. s\<lparr>dbNodes := dbNodes s @ [n], dbAutoInc := (dbAutoInc s)(''node'' := nodeID n + 1)\<rparr>)"

definition updateNodeRow :: "int \<Rightarrow> (node \<Rightarrow> node) \<Rightarrow> unit prog" where
  "updateNodeRow i g = modify (\<lambda>s. s\<lparr>dbNodes := updateRows (\<lambda>n. nodeID n = i) g (dbNodes s)\<rparr>)"

definition CreateNode :: "env \<Rightarrow> nodeDto \<Rightarrow> node R prog" where
  "CreateNode E d = do {
     s \<leftarrow> gets (\<lambda>s. s);
     if ndPortEnd d \<le> ndPortSta d then return (Err EPortRange)
     else do {
       let (disguise, xrayDisguise) = pickDisguiseNames E;
       let n = zeroNode\<lparr>nodeID := dbAutoInc s ''node'', nodeName := ndName d, nodeIp := ndIp d,
         nodeEntryIps := ndEntryIps d, nodeServerIp := ndServerIp d, nodePortSta := ndPortSta d,
         nodePortEnd := ndPortEnd d, nodeSecret := freshSecret E, nodeStatus := 0,
         nodeGroupName := ndGroupName d, nodeCreatedTime := now E, nodeUpdatedTime := now E,
         nodeDisguiseName := disguise, nodeXrayDisguiseName := xrayDisguise\<rparr>;
       if \<not> createOk E ''node'' then return (Err ECreateNode)
       else do { insertNode n; return (Ok n) } } }"

record nodeSystemInfo =
  nsUptime :: int
  nsCpuUsage :: rat
  nsMemoryUsage :: rat
  nsBytesReceived :: int
  nsBytesTransmitted :: int
  nsXrayRunning :: bool
  nsXrayVersion :: string
  nsInterfaces :: "(string \<times> string list) list"
  nsPanelAddr :: string
  nsRuntime :: string

record nodeItem =
  niNode :: node
  niStatus :: int
  niXrayVersion :: string
  niInfo :: "nodeSystemInfo option"

definition liveStatus :: "env \<Rightarrow> panel \<Rightarrow> node \<Rightarrow> int" where
  "liveStatus E s n = (if nodeOnline E (dbSent s) (nodeID n) then 1 else nodeStatus n)"

definition sortedNodes :: "panel \<Rightarrow> node list" where
  "sortedNodes s = sort_key (\<lambda>n. (nodeInx n, - nodeCreatedTime n)) (dbNodes s)"

definition GetAllNodes :: "env \<Rightarrow> (int \<Rightarrow> nodeSystemInfo option) \<Rightarrow> panel \<Rightarrow> nodeItem list" where
  "GetAllNodes E info s =
     map (\<lambda>n. \<lparr>niNode = n, niStatus = liveStatus E s n,
               niXrayVersion = (case info (nodeID n) of
                  None \<Rightarrow> nodeXrayVersion n
                | Some i \<Rightarrow> if nsXrayVersion i \<noteq> [] then nsXrayVersion i else nodeXrayVersion n),
               niInfo = info (nodeID n)\<rparr>) (sortedNodes s)"

text \<open>A changed server address is copied into the tunnels that enter or leave at the node.\<close>

definition retargetTunnels :: "int \<Rightarrow> string \<Rightarrow> unit prog" where
  "retargetTunnels nodeId serverIp = do {
     modify (\<lambda>s. s\<lparr>dbTunnels := updateRows (\<lambda>t. tunInNodeId t = nodeId) (\<lambda>t. t\<lparr>tunInIp := serverIp\<rparr>) (dbTunnels s)\<rparr>);
     modify (\<lambda>s. s\<lparr>dbTunnels := updateRows (\<lambda>t. tunOutNodeId t = nodeId) (\<lambda>t. t\<lparr>tunOutIp := serverIp\<rparr>) (dbTunnels s)\<rparr>) }"

definition writeNode :: "env \<Rightarrow> nodeUpdateDto \<Rightarrow> node \<Rightarrow> node" where
  "writeNode E d n =
     n\<lparr>nodeUpdatedTime := now E,
       nodeName := (if nuName d \<noteq> [] then nuName d else nodeName n),
       nodeIp := (if nuIp d \<noteq> [] then nuIp d else nodeIp n),
       nodeEntryIps := nuEntryIps d,
       nodeServerIp := (if nuServerIp d \<noteq> [] then nuServerIp d else nodeServerIp n),
       nodePortSta := (case nuPortSta d of None \<Rightarrow> nodePortSta n | Some p \<Rightarrow> p),
       nodePortEnd := (case nuPortEnd d of None \<Rightarrow> nodePortEnd n | Some p \<Rightarrow> p),
       nodeGroupName := (case nuGroupName d of None \<Rightarrow> nodeGroupName n | Some g \<Rightarrow> g)\<rparr>"

definition UpdateNode :: "env \<Rightarrow> nodeUpdateDto \<Rightarrow> unit R prog" where
  "UpdateNode E d = do {
     s \<leftarrow> gets (\<lambda>s. s);
     (case GetNodeById s (nuID d) of
        None \<Rightarrow> return (Err ENodeNotFound)
      | Some n \<Rightarrow> do {
          (if nuServerIp d \<noteq> [] \<and> nodeServerIp n \<noteq> nuServerIp d
           then retargetTunnels (nuID d) (nuServerIp d) else return ());
          if \<not> updateOk E ''node'' then return (Err EUpdateNode)
          else do { updateNodeRow (nodeID n) (writeNode E d); return (Ok ()) } }) }"

text \<open>A failed push is reported with success and the node's message: the setting is stored.\<close>

definition SetNodeProtocol :: "env \<Rightarrow> nodeProtocolDto \<Rightarrow> string option R prog" where
  "SetNodeProtocol E d = do {
     s \<leftarrow> gets (\<lambda>s. s);
     (case GetNodeById s (npID d) of
        None \<Rightarrow> return (Err ENodeNotFound)
      | Some n \<Rightarrow>
          if \<not> updateOk E ''node'' then return (Err ESetProtocol)
          else do {
            updateNodeRow (nodeID n) (\<lambda>r. r\<lparr>nodeHttp := npHttp d, nodeTls := npTls d, nodeSocks := npSocks d,
              nodeUpdatedTime := now E\<rparr>);
            online \<leftarrow> IsNodeOnline E (npID d);
            if online then do {
              resp \<leftarrow> SendMsg E (npID d) (DProtocol (npHttp d) (npTls d) (npSocks d)) ''SetProtocol'';
              if respMsg resp \<noteq> ''OK'' then return (Ok (Some (respMsg resp))) else return (Ok None)
            } else return (Ok None) }) }"

definition removeInboundOf :: "env \<Rightarrow> int \<Rightarrow> xrayInbound \<Rightarrow> unit prog" where
  "removeInboundOf E nodeId ib = do {
     XrayRemoveInbound E nodeId (ibTag ib);
     modify (\<lambda>s. s\<lparr>dbClients := deleteRows (\<lambda>c. xcInboundId c = ibID ib) (dbClients s)\<rparr>) }"

definition DeleteNode :: "env \<Rightarrow> int \<Rightarrow> unit R prog" where
  "DeleteNode E i = do {
     s \<leftarrow> gets (\<lambda>s. s);
     (case GetNodeById s i of
        None \<Rightarrow> return (Err ENodeNotFound)
      | Some n \<Rightarrow>
          if filter (\<lambda>t. tunInNodeId t = i \<or> tunOutNodeId t = i) (dbTunnels s) \<noteq> []
          then return (Err ENodeInUse)
          else do {
            forEach (removeInboundOf E i) (filter (\<lambda>ib. ibNodeId ib = i) (dbInbounds s));
            modify (\<lambda>s. s\<lparr>dbInbounds := deleteRows (\<lambda>ib. ibNodeId ib = i) (dbInbounds s)\<rparr>);
            modify (\<lambda>s. s\<lparr>dbCerts := deleteRows (\<lambda>c. certNodeId c = i) (dbCerts s)\<rparr>);
            modify (\<lambda>s. s\<lparr>dbUserNodes := deleteRows (\<lambda>u. unNodeId u = i) (dbUserNodes s)\<rparr>);
            modify (\<lambda>s. s\<lparr>dbNodes := deleteRows (\<lambda>r. nodeID r = nodeID n) (dbNodes s)\<rparr>);
            return (Ok ()) }) }"

definition UpdateNodeOrder :: "orderItem list \<Rightarrow> unit R prog" where
  "UpdateNodeOrder items = do {
     forEach (\<lambda>it. updateNodeRow (oiID it) (\<lambda>n. n\<lparr>nodeInx := oiInx it\<rparr>)) items;
     return (Ok ()) }"

record nodeChoice =
  ncID :: int
  ncName :: string
  ncEntryIps :: string
  ncStatus :: int
  ncInterfaces :: "(string \<times> string list) list option"

definition GetUserAccessibleNodes ::
  "env \<Rightarrow> (int \<Rightarrow> nodeSystemInfo option) \<Rightarrow> panel \<Rightarrow> int \<Rightarrow> int \<Rightarrow> bool \<Rightarrow> bool \<Rightarrow> nodeChoice list" where
  "GetUserAccessibleNodes E info s userId roleId xrayOnly gostOnly =
     (let own = filter (\<lambda>un. unUserId un = userId) (dbUserNodes s);
          chosen = filter (\<lambda>un. (xrayOnly \<longrightarrow> unXrayEnabled un = 1) \<and> (gostOnly \<longrightarrow> unGostEnabled un = 1)) own;
          nodes = (if roleId = 0 \<or> own = [] then sortedNodes s
                   else filter (\<lambda>n. nodeID n \<in> set (map unNodeId chosen)) (sortedNodes s))
      in map (\<lambda>n. \<lparr>ncID = nodeID n, ncName = nodeName n, ncEntryIps = nodeEntryIps n,
                   ncStatus = liveStatus E s n, ncInterfaces = map_option nsInterfaces (info (nodeID n))\<rparr>) nodes)"

section \<open>Install commands\<close>

definition normalizePanelAddr :: "string \<Rightarrow> string" where
  "normalizePanelAddr addr =
     (if hasPrefix addr ''http://'' \<or> hasPrefix addr ''https://'' then addr else ''http://'' @ addr)"

definition GetPanelAddress :: "panel \<Rightarrow> int \<Rightarrow> string \<Rightarrow> string" where
  "GetPanelAddress s port clientAddr =
     (case find (\<lambda>c. vcName c = ''panel_addr'') (dbViteConfigs s) of
        Some cfg \<Rightarrow>
          if vcValue cfg \<noteq> [] then normalizePanelAddr (vcValue cfg)
          else if clientAddr \<noteq> [] then clientAddr else ''http://127.0.0.1:'' @ itoa port
      | None \<Rightarrow> if clientAddr \<noteq> [] then clientAddr else ''http://127.0.0.1:'' @ itoa port)"

definition GenerateInstallCommand :: "panel \<Rightarrow> int \<Rightarrow> int \<Rightarrow> string \<Rightarrow> string R" where
  "GenerateInstallCommand s port i clientAddr =
     (case GetNodeById s i of
        None \<Rightarrow> Err ENodeNotFound
      | Some n \<Rightarrow> Ok (''curl -fsSL '' @ GetPanelAddress s port clientAddr @ ''/s/'' @ nodeSecret n @ ''/init | bash''))"

text \<open>The backfill of the disguise names of an old node.\<close>

definition backfillNames :: "env \<Rightarrow> node \<Rightarrow> node" where
  "backfillNames E n =
     (if nodeDisguiseName n = [] \<and> nodeXrayDisguiseName n = [] then
        (let (a, b) = pickDisguiseNames E in n\<lparr>nodeDisguiseName := a, nodeXrayDisguiseName := b\<rparr>)
      else let n1 = (if nodeDisguiseName n = [] then n\<lparr>nodeDisguiseName := pickOneDisguise E (nodeXrayDisguiseName n)\<rparr> else n)
           in if nodeXrayDisguiseName n1 = []
              then n1\<lparr>nodeXrayDisguiseName := pickOneDisguise E (nodeDisguiseName n1)\<rparr> else n1)"

definition dockerCommand :: "string \<Rightarrow> string \<Rightarrow> node \<Rightarrow> string" where
  "dockerCommand version panelAddr n =
     (let imageTag = (if version = [] \<or> version = ''dev'' then ''latest'' else version);
          imageRef = ''0xnetuser/node:'' @ imageTag;
          container0 = sanitizeContainerName (nodeDisguiseName n);
          containerName = (if container0 = [] then ''svc-agent-'' @ itoa (nodeID n) else container0);
          labelValue = ''n-'' @ itoa (nodeID n);
          nameEnv = '' -e APP_NAME='' @ shQuote (nodeDisguiseName n) @ '' -e SEC_NAME='' @
            shQuote (nodeXrayDisguiseName n) @ '' -e SEC_CFG='' @ shQuote ''agent.json''
      in ''ids='' @ [CHR 0x22] @ ''$( { docker ps -aq --filter label=app.scope='' @ shQuote labelValue @
         ''; docker ps -aq --filter name=^/flux-node$; docker ps -aq --filter name=^/'' @ shQuote containerName @
         ''$; } | sort -u )'' @ [CHR 0x22] @ ''; if [ -n '' @ [CHR 0x22] @ ''$ids'' @ [CHR 0x22] @
         '' ]; then docker rm -f $ids; fi; mkdir -p ~/.flux && docker run -d --name '' @ containerName @
         '' --label app.scope='' @ shQuote labelValue @
         '' --restart unless-stopped --network host -v ~/.flux:/etc/node -e PANEL_ADDR='' @ shQuote panelAddr @
         '' -e SECRET='' @ shQuote (nodeSecret n) @ nameEnv @ '' '' @ shQuote imageRef)"

definition GenerateDockerInstallCommand ::
  "env \<Rightarrow> string \<Rightarrow> int \<Rightarrow> int \<Rightarrow> string \<Rightarrow> string R prog" where
  "GenerateDockerInstallCommand E version port i clientAddr = do {
     s \<leftarrow> gets (\<lambda>s. s);
     (case GetNodeById s i of
        None \<Rightarrow> return (Err ENodeNotFound)
      | Some n0 \<Rightarrow> do {
          let n = backfillNames E n0;
          (if n \<noteq> n0 then
             updateNodeRow (nodeID n) (\<lambda>r. r\<lparr>nodeDisguiseName := nodeDisguiseName n,
               nodeXrayDisguiseName := nodeXrayDisguiseName n, nodeUpdatedTime := now E\<rparr>)
           else return ());
          return (Ok (dockerCommand version (GetPanelAddress s port clientAddr) n)) }) }"

end
