(* ===== verification/Encoding.thy ===== *)
theory Encoding
  imports Panel "HOL-Library.List_Lexorder"
begin

text \<open>
  What the panel uses of \<open>encoding/base64\<close> and \<open>net/url\<close>: the standard and the raw URL alphabet of
  base64, \<open>url.QueryEscape\<close> and \<open>url.Values\<close>. A string is its bytes. The decoders are those of the
  Go library (the panel itself only reads raw URL base64, from its tokens); for the others they are
  what the receiver of a link does, and the round trips are stated against them.
\<close>

section \<open>Base64\<close>

definition base64StdAlphabet :: string where
  "base64StdAlphabet = ''ABCDEFGHIJKLMNOPQRSTUVWXYZabcdefghijklmnopqrstuvwxyz0123456789+/''"

definition base64UrlAlphabet :: string where
  "base64UrlAlphabet = ''ABCDEFGHIJKLMNOPQRSTUVWXYZabcdefghijklmnopqrstuvwxyz0123456789-_''"

text \<open>Three bytes are four groups of six bits; a rest of one or two bytes is filled with zeros.\<close>

fun sextets :: "nat list \<Rightarrow> nat list" where
  "sextets [] = []"
| "sextets [a] = [a div 4, a mod 4 * 16]"
| "sextets [a, b] = [a div 4, a mod 4 * 16 + b div 16, b mod 16 * 4]"
| "sextets (a # b # c # r) =
     (a div 4) # (a mod 4 * 16 + b div 16) # (b mod 16 * 4 + c div 64) # (c mod 64) # sextets r"

fun octets :: "nat list \<Rightarrow> nat list option" where
  "octets [] = Some []"
| "octets [x] = None"
| "octets [x, y] = Some [x * 4 + y div 16]"
| "octets [x, y, z] = Some [x * 4 + y div 16, y mod 16 * 16 + z div 4]"
| "octets (x # y # z # w # r) =
     map_option (\<lambda>bs. (x * 4 + y div 16) # (y mod 16 * 16 + z div 4) # (z mod 4 * 64 + w) # bs) (octets r)"

definition base64Raw :: "string \<Rightarrow> string \<Rightarrow> string" where
  "base64Raw alphabet s = map (\<lambda>n. alphabet ! n) (sextets (map of_char s))"

definition base64Std :: "string \<Rightarrow> string" where
  "base64Std s = (let e = base64Raw base64StdAlphabet s in e @ replicate ((4 - length e mod 4) mod 4) CHR ''='')"

definition rawURLEncode :: "string \<Rightarrow> string" where
  "rawURLEncode s = base64Raw base64UrlAlphabet s"

definition base64Index :: "string \<Rightarrow> char \<Rightarrow> nat option" where
  "base64Index alphabet c = map_option fst (find (\<lambda>(_, a). a = c) (enumerate 0 alphabet))"

text \<open>The decoder skips line ends.\<close>

definition base64RawDecode :: "string \<Rightarrow> string \<Rightarrow> string option" where
  "base64RawDecode alphabet s =
     (case those (map (base64Index alphabet) (filter (\<lambda>c. c \<noteq> CHR 0x0A \<and> c \<noteq> CHR 0x0D) s)) of
        None \<Rightarrow> None
      | Some ns \<Rightarrow> map_option (map char_of) (octets ns))"

definition rawURLDecode :: "string \<Rightarrow> string option" where
  "rawURLDecode s = base64RawDecode base64UrlAlphabet s"

definition base64StdDecode :: "string \<Rightarrow> string option" where
  "base64StdDecode s =
     (if length s mod 4 \<noteq> 0 then None
      else base64RawDecode base64StdAlphabet (takeWhile (\<lambda>c. c \<noteq> CHR ''='') s))"

lemma sextets_less: "list_all (\<lambda>n. n < 256) ns \<Longrightarrow> list_all (\<lambda>n. n < 64) (sextets ns)"
  by (induction ns rule: sextets.induct) (auto simp: less_mult_imp_div_less)

lemma octets_sextets: "list_all (\<lambda>n. n < 256) ns \<Longrightarrow> octets (sextets ns) = Some ns"
  by (induction ns rule: sextets.induct) (auto simp: less_mult_imp_div_less)

lemma bytes_less: "list_all (\<lambda>n. n < 256) (map of_char s :: nat list)" for s :: string
  by (simp add: list_all_iff)

lemma those_map_Some: "list_all (\<lambda>x. f x = Some (g x)) xs \<Longrightarrow> those (map f xs) = Some (map g xs)"
  by (induction xs) auto

lemma base64Index_alphabets:
  "list_all (\<lambda>n. base64Index base64StdAlphabet (base64StdAlphabet ! n) = Some n) [0..<64]"
  "list_all (\<lambda>n. base64Index base64UrlAlphabet (base64UrlAlphabet ! n) = Some n) [0..<64]"
  by code_simp+

lemma alphabet_plain:
  "list_all (\<lambda>n. base64StdAlphabet ! n \<notin> {CHR 0x0A, CHR 0x0D, CHR ''='', CHR ''@'', CHR ''#'', CHR ''.''}) [0..<64]"
  "list_all (\<lambda>n. base64UrlAlphabet ! n \<notin> {CHR 0x0A, CHR 0x0D, CHR ''='', CHR ''@'', CHR ''#'', CHR ''.''}) [0..<64]"
  by code_simp+

lemma base64Raw_chars:
  assumes "list_all (\<lambda>n. alphabet ! n \<notin> X) [0..<64]" "c \<in> set (base64Raw alphabet s)"
  shows "c \<notin> X"
proof -
  obtain n where "n \<in> set (sextets (map of_char s))" "c = alphabet ! n"
    using assms(2) by (auto simp: base64Raw_def)
  with sextets_less [OF bytes_less, of s] assms(1) show ?thesis by (auto simp: list_all_iff)
qed

lemma base64Raw_decode:
  assumes "list_all (\<lambda>n. base64Index alphabet (alphabet ! n) = Some n) [0..<64]"
    and "list_all (\<lambda>n. alphabet ! n \<notin> X) [0..<64]" "{CHR 0x0A, CHR 0x0D} \<subseteq> X"
  shows "base64RawDecode alphabet (base64Raw alphabet s) = Some s"
proof -
  have "filter (\<lambda>c. c \<noteq> CHR 0x0A \<and> c \<noteq> CHR 0x0D) (base64Raw alphabet s) = base64Raw alphabet s"
    using base64Raw_chars [OF assms(2)] assms(3) by (intro filter_True) blast
  moreover have "those (map (base64Index alphabet) (base64Raw alphabet s)) = Some (map (\<lambda>n. n) (sextets (map of_char s)))"
    unfolding base64Raw_def map_map
    using sextets_less [OF bytes_less, of s] assms(1) by (intro those_map_Some) (auto simp: list_all_iff)
  moreover have "octets (sextets (map of_char s)) = Some (map of_char s)"
    by (rule octets_sextets [OF bytes_less])
  ultimately show ?thesis by (simp add: base64RawDecode_def comp_def)
qed

lemma rawURL_roundtrip: "rawURLDecode (rawURLEncode s) = Some s"
  unfolding rawURLDecode_def rawURLEncode_def
  by (rule base64Raw_decode [OF base64Index_alphabets(2) alphabet_plain(2)]) simp

lemma rawURLEncode_no_dot: "CHR ''.'' \<notin> set (rawURLEncode s)"
  using base64Raw_chars [OF alphabet_plain(2), of _ s] unfolding rawURLEncode_def by auto

lemma takeWhile_padding: "(\<And>c. c \<in> set xs \<Longrightarrow> P c) \<Longrightarrow> \<not> P d \<Longrightarrow> takeWhile P (xs @ replicate n d) = xs"
  by (cases n) (simp_all add: takeWhile_append2)

lemma pad_to_4: "(n + (4 - n mod 4) mod 4) mod 4 = (0::nat)"
proof -
  have "n mod 4 < 4" by simp
  then have "n mod 4 = 0 \<or> n mod 4 = 1 \<or> n mod 4 = 2 \<or> n mod 4 = 3" by arith
  then show ?thesis by (subst mod_add_left_eq [symmetric]) auto
qed

lemma base64Std_roundtrip: "base64StdDecode (base64Std s) = Some s"
proof -
  let ?e = "base64Raw base64StdAlphabet s"
  have "c \<noteq> CHR ''=''" if "c \<in> set ?e" for c
    using base64Raw_chars [OF alphabet_plain(1) that] by simp
  then have "takeWhile (\<lambda>c. c \<noteq> CHR ''='') (base64Std s) = ?e"
    unfolding base64Std_def Let_def by (intro takeWhile_padding) simp_all
  moreover have "length (base64Std s) mod 4 = 0" by (simp add: base64Std_def Let_def pad_to_4)
  moreover have "base64RawDecode base64StdAlphabet ?e = Some s"
    by (rule base64Raw_decode [OF base64Index_alphabets(1) alphabet_plain(1)]) simp
  ultimately show ?thesis by (simp add: base64StdDecode_def)
qed

lemma base64Std_chars: "c \<in> set (base64Std s) \<Longrightarrow> c \<noteq> CHR ''@'' \<and> c \<noteq> CHR ''#''"
  using base64Raw_chars [OF alphabet_plain(1), of c s] unfolding base64Std_def Let_def by (auto split: if_splits)

section \<open>Query escaping\<close>

definition unreserved :: "char \<Rightarrow> bool" where
  "unreserved c = (let n = of_char c :: nat in
     (97 \<le> n \<and> n \<le> 122) \<or> (65 \<le> n \<and> n \<le> 90) \<or> (48 \<le> n \<and> n \<le> 57) \<or> c \<in> {CHR ''-'', CHR ''_'', CHR ''.'', CHR ''~''})"

definition upperHex :: string where
  "upperHex = ''0123456789ABCDEF''"

definition escapeByte :: "char \<Rightarrow> string" where
  "escapeByte c =
     (if unreserved c then [c] else if c = CHR '' '' then ''+''
      else [CHR ''%'', upperHex ! (of_char c div 16), upperHex ! (of_char c mod 16)])"

definition QueryEscape :: "string \<Rightarrow> string" where
  "QueryEscape s = concat (map escapeByte s)"

definition hexVal :: "char \<Rightarrow> nat option" where
  "hexVal c = (let n = of_char c :: nat in
     if 48 \<le> n \<and> n \<le> 57 then Some (n - 48)
     else if 97 \<le> n \<and> n \<le> 102 then Some (n - 87)
     else if 65 \<le> n \<and> n \<le> 70 then Some (n - 55) else None)"

fun QueryUnescape :: "string \<Rightarrow> string option" where
  "QueryUnescape [] = Some []"
| "QueryUnescape (c # r) =
     (if c = CHR ''%'' then
        (case r of
           h # l # r' \<Rightarrow>
             (case (hexVal h, hexVal l) of
                (Some x, Some y) \<Rightarrow> map_option ((#) (char_of (16 * x + y))) (QueryUnescape r')
              | _ \<Rightarrow> None)
         | _ \<Rightarrow> None)
      else map_option ((#) (if c = CHR ''+'' then CHR '' '' else c)) (QueryUnescape r))"

lemma hexVal_upperHex: "list_all (\<lambda>n. hexVal (upperHex ! n) = Some n) [0..<16]"
  by code_simp

lemma upperHex_safe: "list_all (\<lambda>n. unreserved (upperHex ! n)) [0..<16]"
  by code_simp

lemma unreserved_plain: "unreserved c \<Longrightarrow> c \<notin> {CHR ''%'', CHR ''+'', CHR ''&'', CHR ''='', CHR ''#'', CHR ''?''}"
  by (auto simp: unreserved_def)

lemma char_nibbles: "of_char c div 16 < (16::nat)" "char_of (16 * (of_char c div 16) + of_char c mod 16 :: nat) = c"
proof -
  have "of_char c < (256::nat)" by simp
  then show "of_char c div 16 < (16::nat)" by (simp add: less_mult_imp_div_less)
  show "char_of (16 * (of_char c div 16) + of_char c mod 16 :: nat) = c" by simp
qed

lemma QueryUnescape_byte: "QueryUnescape (escapeByte c @ r) = map_option ((#) c) (QueryUnescape r)"
proof (cases "unreserved c \<or> c = CHR '' ''")
  case True
  then show ?thesis using unreserved_plain [of c] by (auto simp: escapeByte_def)
next
  case False
  have "hexVal (upperHex ! (of_char c div 16)) = Some (of_char c div 16)"
    "hexVal (upperHex ! (of_char c mod 16)) = Some (of_char c mod 16)"
    using hexVal_upperHex char_nibbles(1) [of c] by (auto simp: list_all_iff)
  with False show ?thesis by (simp add: escapeByte_def char_nibbles(2))
qed

lemma QueryEscape_roundtrip: "QueryUnescape (QueryEscape s) = Some s"
  unfolding QueryEscape_def by (induction s) (simp_all add: QueryUnescape_byte)

lemma QueryEscape_chars: "c \<in> set (QueryEscape s) \<Longrightarrow> c \<notin> {CHR ''&'', CHR ''='', CHR ''#'', CHR ''?''}"
proof -
  assume "c \<in> set (QueryEscape s)"
  then obtain b where "c \<in> set (escapeByte b)" by (auto simp: QueryEscape_def)
  moreover have "unreserved (upperHex ! (of_char b div 16))" "unreserved (upperHex ! (of_char b mod 16))"
    using upperHex_safe char_nibbles(1) [of b] by (auto simp: list_all_iff)
  ultimately show ?thesis using unreserved_plain [of c] by (auto simp: escapeByte_def split: if_splits)
qed

text \<open>\<open>url.Values\<close> with one value per key: \<open>Set\<close>, and \<open>Encode\<close> in the order of the keys.\<close>

type_synonym urlValues = "(string \<times> string) list"

definition setParam :: "string \<Rightarrow> string \<Rightarrow> urlValues \<Rightarrow> urlValues" where
  "setParam k v ps = (k, v) # filter (\<lambda>p. fst p \<noteq> k) ps"

definition EncodeValues :: "urlValues \<Rightarrow> string" where
  "EncodeValues ps = joinWith CHR ''&'' (map (\<lambda>(k, v). QueryEscape k @ ''='' @ QueryEscape v)
     (sort_key (\<lambda>p. map of_char (fst p) :: nat list) ps))"

end
