(* ===== verification/Tokens.thy ===== *)
theory Tokens
  imports Encoding
begin

text \<open>
  Session tokens: \<open>pkg/jwt.go\<close>, with the middleware of \<open>middleware/jwt.go\<close> and
  \<open>middleware/role.go\<close> that turns a token into the caller's identity. \<open>mac\<close> is HMAC-SHA256 under
  the configured secret; JSON is encoded and decoded by \<open>jsonPrint\<close> and \<open>jsonParse\<close> of \<open>env\<close>.
\<close>

section \<open>pkg/jwt.go\<close>

definition expireSeconds :: int where
  "expireSeconds = 7 * 24 * 3600"

definition tokenHeader :: json where
  "tokenHeader = JObj [(''alg'', JStr ''HmacSHA256''), (''typ'', JStr ''JWT'')]"

definition tokenPayload :: "env \<Rightarrow> user \<Rightarrow> json" where
  "tokenPayload E u = JObj
     [(''exp'', JNum (of_int (now E div 1000 + expireSeconds))), (''iat'', JNum (of_int (now E div 1000))),
      (''name'', JStr (userUser u)), (''role_id'', JNum (of_int (userRoleId u))),
      (''sub'', JStr (itoa (userID u))), (''user'', JStr (userUser u))]"

definition calcSignature :: "(string \<Rightarrow> string) \<Rightarrow> string \<Rightarrow> string \<Rightarrow> string" where
  "calcSignature mac header payload = rawURLEncode (mac (header @ ''.'' @ payload))"

definition GenerateToken :: "env \<Rightarrow> (string \<Rightarrow> string) \<Rightarrow> user \<Rightarrow> string" where
  "GenerateToken E mac u =
     (let encodedHeader = rawURLEncode (jsonPrint E tokenHeader);
          encodedPayload = rawURLEncode (jsonPrint E (tokenPayload E u))
      in encodedHeader @ ''.'' @ encodedPayload @ ''.'' @ calcSignature mac encodedHeader encodedPayload)"

text \<open>Decoding into a Go map: an object, or \<open>null\<close>, which leaves the map empty.\<close>

definition decodePayload :: "env \<Rightarrow> string \<Rightarrow> (string \<times> json) list option" where
  "decodePayload E encoded =
     (case rawURLDecode encoded of
        None \<Rightarrow> None
      | Some data \<Rightarrow> (case jsonParse E data of
          Some (JObj payload) \<Rightarrow> Some payload
        | Some JNull \<Rightarrow> Some []
        | _ \<Rightarrow> None))"

definition parsePayload :: "env \<Rightarrow> string \<Rightarrow> (string \<times> json) list option" where
  "parsePayload E token =
     (case splitOn CHR ''.'' token of
        [_, payload, _] \<Rightarrow> decodePayload E payload
      | _ \<Rightarrow> None)"

definition numField :: "(string \<times> json) list \<Rightarrow> string \<Rightarrow> rat option" where
  "numField payload k = (case map_of payload k of Some (JNum x) \<Rightarrow> Some x | _ \<Rightarrow> None)"

definition strField :: "(string \<times> json) list \<Rightarrow> string \<Rightarrow> string option" where
  "strField payload k = (case map_of payload k of Some (JStr x) \<Rightarrow> Some x | _ \<Rightarrow> None)"

text \<open>The conversion of a float to \<open>int64\<close>.\<close>

definition floatToI64 :: "rat \<Rightarrow> int" where
  "floatToI64 x =
     (let v = (if x < 0 then \<lceil>x\<rceil> else \<lfloor>x\<rfloor>) in if minInt64 \<le> v \<and> v \<le> maxInt64 then v else minInt64)"

definition ValidateToken :: "env \<Rightarrow> (string \<Rightarrow> string) \<Rightarrow> string \<Rightarrow> bool" where
  "ValidateToken E mac token =
     (case splitOn CHR ''.'' token of
        [header, payload, signature] \<Rightarrow>
          if calcSignature mac header payload \<noteq> signature then False
          else (case decodePayload E payload of
                  None \<Rightarrow> False
                | Some p \<Rightarrow> (case numField p ''exp'' of
                    None \<Rightarrow> False
                  | Some x \<Rightarrow> now E div 1000 < floatToI64 x))
      | _ \<Rightarrow> False)"

text \<open>\<open>json.Unmarshal\<close> into an \<open>int64\<close>: \<open>null\<close> leaves 0, otherwise a JSON number without
  fraction and exponent, in range.\<close>

definition jsonSpace :: "char \<Rightarrow> bool" where
  "jsonSpace c = (c \<in> {CHR '' '', CHR 0x09, CHR 0x0A, CHR 0x0D})"

definition jsonInteger :: "string \<Rightarrow> bool" where
  "jsonInteger s =
     (let d = (case s of c # r \<Rightarrow> if c = CHR ''-'' then r else s | [] \<Rightarrow> s)
      in d \<noteq> [] \<and> list_all isDigit d \<and> (hd d \<noteq> CHR ''0'' \<or> tl d = []))"

definition strToInt64 :: "string \<Rightarrow> int option" where
  "strToInt64 s =
     (let t = rev (dropWhile jsonSpace (rev (dropWhile jsonSpace s)))
      in if t = ''null'' then Some 0 else if jsonInteger t then parseInt t else None)"

definition GetUserIdFromToken :: "env \<Rightarrow> string \<Rightarrow> int option" where
  "GetUserIdFromToken E token =
     (case parsePayload E token of
        None \<Rightarrow> None
      | Some payload \<Rightarrow> (case strField payload ''sub'' of None \<Rightarrow> None | Some sub \<Rightarrow> strToInt64 sub))"

definition GetRoleIdFromToken :: "env \<Rightarrow> string \<Rightarrow> int option" where
  "GetRoleIdFromToken E token =
     (case parsePayload E token of
        None \<Rightarrow> None
      | Some payload \<Rightarrow> map_option floatToI64 (numField payload ''role_id''))"

definition GetNameFromToken :: "env \<Rightarrow> string \<Rightarrow> string option" where
  "GetNameFromToken E token =
     (case parsePayload E token of None \<Rightarrow> None | Some payload \<Rightarrow> strField payload ''name'')"

section \<open>Middleware\<close>

datatype auth = NotLoggedIn | BadToken | BadSubject | Caller (callerId: int) (callerRole: int) (callerName: string)

text \<open>The errors of the role and of the name are dropped, which leaves the zero values.\<close>

definition JWT :: "env \<Rightarrow> (string \<Rightarrow> string) \<Rightarrow> string \<Rightarrow> auth" where
  "JWT E mac token =
     (if token = [] then NotLoggedIn
      else if \<not> ValidateToken E mac token then BadToken
      else (case GetUserIdFromToken E token of
              None \<Rightarrow> BadSubject
            | Some userId \<Rightarrow> Caller userId
                (case GetRoleIdFromToken E token of None \<Rightarrow> 0 | Some r \<Rightarrow> r)
                (case GetNameFromToken E token of None \<Rightarrow> [] | Some n \<Rightarrow> n)))"

fun Admin :: "auth \<Rightarrow> bool" where
  "Admin (Caller _ role _) = (role = 0)"
| "Admin _ = False"

section \<open>Facts\<close>

lemma splitOn_token:
  assumes "CHR ''.'' \<notin> set h" "CHR ''.'' \<notin> set p" "CHR ''.'' \<notin> set g"
  shows "splitOn CHR ''.'' (h @ ''.'' @ p @ ''.'' @ g) = [h, p, g]"
  using assms by (simp add: splitOn_append splitOn_no_sep)

lemma signature_no_dot: "CHR ''.'' \<notin> set (calcSignature mac h p)"
  by (simp add: calcSignature_def rawURLEncode_no_dot)

lemma splitOn_GenerateToken:
  "splitOn CHR ''.'' (GenerateToken E mac u) =
     (let h = rawURLEncode (jsonPrint E tokenHeader); p = rawURLEncode (jsonPrint E (tokenPayload E u))
      in [h, p, calcSignature mac h p])"
  unfolding GenerateToken_def Let_def
  by (rule splitOn_token) (rule rawURLEncode_no_dot rawURLEncode_no_dot signature_no_dot)+

lemma splitOn_three:
  "splitOn sep s = [a, b, c] \<Longrightarrow> s = a @ sep # b @ sep # c"
  using join_split [of sep s] by simp

lemma hd_natToStr_nonzero: "n \<noteq> 0 \<Longrightarrow> hd (natToStr n) \<noteq> CHR ''0''"
proof (induction n rule: natToStr.induct)
  case (1 n)
  show ?case
  proof (cases "n < 10")
    case True
    then have "n \<noteq> 0 \<longrightarrow> digit n \<noteq> CHR ''0''" by (rule digit_cases) (simp_all add: digit_def)
    with True 1(2) show ?thesis by (subst natToStr.simps) simp
  next
    case False
    then have "n div 10 \<noteq> 0" by simp
    with False 1(1) show ?thesis by (subst natToStr.simps) simp
  qed
qed

lemma jsonInteger_natToStr: "jsonInteger (natToStr n)" "jsonInteger (CHR ''-'' # natToStr n)"
proof -
  obtain c r where n: "natToStr n = c # r" using natToStr_nonempty by (metis neq_Nil_conv)
  have "isDigit c" using hd_natToStr [of n] n by simp
  moreover have "c \<noteq> CHR ''0'' \<or> r = []"
    using hd_natToStr_nonzero [of n] n by (cases "n = 0") (auto simp: natToStr.simps)
  ultimately show "jsonInteger (natToStr n)" "jsonInteger (CHR ''-'' # natToStr n)"
    using natToStr_digits [of n] isDigit_no_minus [of c] by (auto simp: jsonInteger_def n Let_def)
qed

lemma jsonInteger_itoa: "jsonInteger (itoa i)"
  by (simp add: itoa_def jsonInteger_natToStr)

lemma strToInt64_itoa:
  assumes "minInt64 \<le> i" "i \<le> maxInt64"
  shows "strToInt64 (itoa i) = Some i"
proof -
  have sp: "\<not> jsonSpace c" if "c \<in> set (itoa i)" for c
    using itoa_chars [OF that] by (auto simp: jsonSpace_def isDigit_def)
  then have t: "rev (dropWhile jsonSpace (rev (dropWhile jsonSpace (itoa i)))) = itoa i"
    by (simp add: dropWhile_none)
  have "itoa i \<noteq> ''null''"
    using itoa_chars [of "CHR ''n''" i] by (auto simp: isDigit_def)
  with t assms jsonInteger_itoa show ?thesis by (simp add: strToInt64_def Let_def)
qed

lemma floatToI64_of_int: "minInt64 \<le> i \<Longrightarrow> i \<le> maxInt64 \<Longrightarrow> floatToI64 (of_int i) = i"
  by (simp add: floatToI64_def)

end
