(* ===== verification/Users.thy ===== *)
theory Users
  imports Tokens ResetFlow
begin

text \<open>
  Accounts: \<open>service/user.go\<close> with \<open>pkg/password.go\<close>. Hashing is a parameter of \<open>env\<close>: bcrypt's
  generation (\<open>hashPassword\<close>, empty when bcrypt refuses the password) and comparison
  (\<open>bcryptOk\<close>), and MD5. User names are compared for equality, as \<open>WHERE user = ?\<close> does.
\<close>

section \<open>Passwords\<close>

definition IsBcrypt :: "string \<Rightarrow> bool" where
  "IsBcrypt hashed = (hasPrefix hashed ''$2a$'' \<or> hasPrefix hashed ''$2b$'')"

definition legacyMd5Hash :: "env \<Rightarrow> string \<Rightarrow> string" where
  "legacyMd5Hash E input = md5Hex E (input @ ''admin_salt_2024'')"

definition CheckPassword :: "env \<Rightarrow> string \<Rightarrow> string \<Rightarrow> bool" where
  "CheckPassword E plain hashed =
     (if hasPrefix hashed ''$2a$'' \<or> hasPrefix hashed ''$2b$'' then bcryptOk E hashed plain
      else hashed = legacyMd5Hash E plain)"

section \<open>Permissions derived from the node table\<close>

definition deriveUserPermissions :: "int \<Rightarrow> unit prog" where
  "deriveUserPermissions userId = do {
     own \<leftarrow> gets (\<lambda>s. filter (\<lambda>un. unUserId un = userId) (dbUserNodes s));
     if own = [] then updateUserRow userId (\<lambda>u. u\<lparr>userGostEnabled := 1, userXrayEnabled := 1\<rparr>)
     else updateUserRow userId (\<lambda>u. u\<lparr>
       userGostEnabled := (if filter (\<lambda>un. unGostEnabled un = 1) own \<noteq> [] then 1 else 0),
       userXrayEnabled := (if filter (\<lambda>un. unXrayEnabled un = 1) own \<noteq> [] then 1 else 0)\<rparr>) }"

section \<open>Login\<close>

record loginResult =
  lrToken :: string
  lrName :: string
  lrRoleId :: int
  lrRequirePasswordChange :: bool
  lrGostEnabled :: int
  lrXrayEnabled :: int

definition captchaError :: "env \<Rightarrow> panel \<Rightarrow> loginDto \<Rightarrow> err option" where
  "captchaError E s d =
     (case find (\<lambda>c. vcName c = ''captcha_enabled'') (dbViteConfigs s) of
        None \<Rightarrow> None
      | Some vc \<Rightarrow>
          if vcValue vc \<noteq> ''true'' then None
          else if ldCaptchaId d = [] \<or> ldCaptchaAnswer d = [] then Some ECaptchaRequired
          else if \<not> captchaOk E (ldCaptchaId d) (ldCaptchaAnswer d) then Some ECaptchaWrong
          else None)"

definition migratePassword :: "env \<Rightarrow> string \<Rightarrow> user \<Rightarrow> unit prog" where
  "migratePassword E plain user =
     (if \<not> IsBcrypt (userPwd user) \<and> hashPassword E plain \<noteq> [] then
        updateUserRow (userID user) (\<lambda>u. u\<lparr>userPwd := hashPassword E plain\<rparr>)
      else return ())"

definition sessionOf :: "env \<Rightarrow> (string \<Rightarrow> string) \<Rightarrow> loginDto \<Rightarrow> user \<Rightarrow> loginResult" where
  "sessionOf E mac d user =
     \<lparr>lrToken = GenerateToken E mac user, lrName = userUser user, lrRoleId = userRoleId user,
      lrRequirePasswordChange = (ldUsername d = ''admin_user'' \<or> ldPassword d = ''admin_user''),
      lrGostEnabled = userGostEnabled user, lrXrayEnabled = userXrayEnabled user\<rparr>"

definition Login :: "env \<Rightarrow> (string \<Rightarrow> string) \<Rightarrow> loginDto \<Rightarrow> loginResult R prog" where
  "Login E mac d = do {
     s \<leftarrow> gets (\<lambda>s. s);
     (case captchaError E s d of
        Some e \<Rightarrow> return (Err e)
      | None \<Rightarrow> (case find (\<lambda>u. userUser u = ldUsername d) (dbUsers s) of
          None \<Rightarrow> return (Err ELoginFailed)
        | Some user0 \<Rightarrow>
            if \<not> CheckPassword E (ldPassword d) (userPwd user0) then return (Err ELoginFailed)
            else do {
              migratePassword E (ldPassword d) user0;
              if userStatus user0 = 0 then return (Err EAccountDisabled)
              else do {
                (if userRoleId user0 \<noteq> adminRoleId then deriveUserPermissions (userID user0) else return ());
                s' \<leftarrow> gets (\<lambda>s. s);
                let user = (if userRoleId user0 \<noteq> adminRoleId
                  then (case firstUser s' (userID user0) of None \<Rightarrow> user0 | Some u \<Rightarrow> u) else user0);
                return (Ok (sessionOf E mac d user)) } })) }"

section \<open>Create\<close>

definition newUser :: "env \<Rightarrow> panel \<Rightarrow> userDto \<Rightarrow> user" where
  "newUser E s d =
     zeroUser\<lparr>userID := dbAutoInc s ''user'', userUser := udUser d, userPwd := hashPassword E (udPwd d),
       userRoleId := 1, userFlow := udFlow d, userXrayFlow := udXrayFlow d, userNum := udNum d,
       userExpTime := udExpTime d, userFlowResetType := udFlowResetType d, userFlowResetDay := udFlowResetDay d,
       userStatus := (case udStatus d of None \<Rightarrow> 1 | Some x \<Rightarrow> x), userGostEnabled := 1, userXrayEnabled := 1,
       userCreatedTime := now E, userUpdatedTime := now E\<rparr>"

definition insertUser :: "user \<Rightarrow> unit prog" where
  "insertUser u = modify (\<lambda>s. s\<lparr>dbUsers := dbUsers s @ [u], dbAutoInc := (dbAutoInc s)(''user'' := userID u + 1)\<rparr>)"

text \<open>The table has a unique index on user and node: a second row for the pair is refused, and the
  code does not look at the error. Either way the key is used up.\<close>

definition insertUserNode :: "int \<Rightarrow> int \<Rightarrow> int \<Rightarrow> int \<Rightarrow> unit prog" where
  "insertUserNode userId nodeId xray gost = modify (\<lambda>s. s\<lparr>dbUserNodes :=
       (if filter (\<lambda>un. unUserId un = userId \<and> unNodeId un = nodeId) (dbUserNodes s) \<noteq> [] then dbUserNodes s
        else dbUserNodes s @ [\<lparr>unID = dbAutoInc s ''user_node'', unUserId = userId, unNodeId = nodeId,
          unXrayEnabled = xray, unGostEnabled = gost\<rparr>]),
     dbAutoInc := (dbAutoInc s)(''user_node'' := dbAutoInc s ''user_node'' + 1)\<rparr>)"

definition permOr1 :: "int option \<Rightarrow> int" where
  "permOr1 v = (case v of None \<Rightarrow> 1 | Some x \<Rightarrow> x)"

definition insertPermission :: "int \<Rightarrow> nodePermission \<Rightarrow> unit prog" where
  "insertPermission userId np =
     insertUserNode userId (permNodeId np) (permOr1 (permXrayEnabled np)) (permOr1 (permGostEnabled np))"

definition orEmpty :: "'a list option \<Rightarrow> 'a list" where
  "orEmpty v = (case v of None \<Rightarrow> [] | Some xs \<Rightarrow> xs)"

definition CreateUser :: "env \<Rightarrow> userDto \<Rightarrow> unit R prog" where
  "CreateUser E d =
     (if length (udPwd d) < 8 then return (Err EPasswordShort)
      else do {
        s \<leftarrow> gets (\<lambda>s. s);
        if filter (\<lambda>u. userUser u = udUser d) (dbUsers s) \<noteq> [] then return (Err EUserNameTaken)
        else do {
          let u = newUser E s d;
          if \<not> createOk E ''user'' then return (Err ECreateUser)
          else do {
            insertUser u;
            (if orEmpty (udNodePermissions d) \<noteq> []
             then forEach (insertPermission (userID u)) (orEmpty (udNodePermissions d))
             else forEach (\<lambda>nodeId. insertUserNode (userID u) nodeId 1 1) (orEmpty (udNodeIds d)));
            deriveUserPermissions (userID u);
            return (Ok ()) } } })"

section \<open>List\<close>

record nodePermissionView =
  npvNodeId :: int
  npvXrayEnabled :: int
  npvGostEnabled :: int

record userWithNodes =
  uwnUser :: user
  uwnNodeIds :: "int list"
  uwnNodePermissions :: "nodePermissionView list"

definition GetAllUsers :: "panel \<Rightarrow> userWithNodes list" where
  "GetAllUsers s =
     map (\<lambda>u. let own = filter (\<lambda>un. unUserId un = userID u) (dbUserNodes s)
              in \<lparr>uwnUser = u\<lparr>userPwd := []\<rparr>, uwnNodeIds = map unNodeId own,
                  uwnNodePermissions = map (\<lambda>un. \<lparr>npvNodeId = unNodeId un, npvXrayEnabled = unXrayEnabled un,
                    npvGostEnabled = unGostEnabled un\<rparr>) own\<rparr>)
       (filter (\<lambda>u. userRoleId u \<noteq> adminRoleId) (dbUsers s))"

section \<open>Pausing and disabling what a user has\<close>

definition utIdOr0 :: "panel \<Rightarrow> int \<Rightarrow> int \<Rightarrow> int" where
  "utIdOr0 s userId tunnelId = (case getUserTunnel s userId tunnelId of None \<Rightarrow> 0 | Some ut \<Rightarrow> utID ut)"

definition pauseUserForward :: "env \<Rightarrow> int \<Rightarrow> forward \<Rightarrow> unit prog" where
  "pauseUserForward E userId fwd = do {
     s \<leftarrow> gets (\<lambda>s. s);
     (case firstTunnel s (fwdTunnelId fwd) of
        None \<Rightarrow> return ()
      | Some tunnel \<Rightarrow> (case GetNodeById s (tunInNodeId tunnel) of
        None \<Rightarrow> return ()
      | Some inNode \<Rightarrow> do {
          let serviceName = tripleName (fwdID fwd) userId (utIdOr0 s userId (tunID tunnel));
          pauseListeners E (nodeID inNode) serviceName (fwdListenIp fwd);
          (if tunType tunnel = 2 then
             (case GetNodeById s (tunOutNodeId tunnel) of
                None \<Rightarrow> return ()
              | Some outNode \<Rightarrow> do { PauseRemoteService E (nodeID outNode) serviceName; return () })
           else return ());
          updateForwardRow (fwdID fwd) (\<lambda>f. f\<lparr>fwdStatus := 0\<rparr>) })) }"

definition pauseAllUserForwards :: "env \<Rightarrow> int \<Rightarrow> unit prog" where
  "pauseAllUserForwards E userId = do {
     forwards \<leftarrow> gets (\<lambda>s. filter (\<lambda>f. fwdUserId f = userId \<and> fwdStatus f = 1) (dbForwards s));
     forEach (pauseUserForward E userId) forwards }"

definition setClientEnable :: "int \<Rightarrow> int \<Rightarrow> unit prog" where
  "setClientEnable i v = modify (\<lambda>s. s\<lparr>dbClients := updateRows (\<lambda>c. xcID c = i) (\<lambda>c. c\<lparr>xcEnable := v\<rparr>) (dbClients s)\<rparr>)"

definition hotRemoveClient :: "env \<Rightarrow> xrayClient \<Rightarrow> unit prog" where
  "hotRemoveClient E client = do {
     inb \<leftarrow> gets (\<lambda>s. rowById ibID (xcInboundId client) (dbInbounds s));
     (case inb of
        None \<Rightarrow> return ()
      | Some ib \<Rightarrow> do { XrayRemoveClient E (ibNodeId ib) (ibTag ib) (xcEmail client); return () }) }"

definition enabledClients :: "panel \<Rightarrow> int \<Rightarrow> xrayClient list" where
  "enabledClients s userId = filter (\<lambda>c. xcUserId c = userId \<and> xcEnable c = 1) (dbClients s)"

definition disableAllUserXrayClients :: "env \<Rightarrow> int \<Rightarrow> unit prog" where
  "disableAllUserXrayClients E userId = do {
     clients \<leftarrow> gets (\<lambda>s. enabledClients s userId);
     forEach (\<lambda>c. do { hotRemoveClient E c; setClientEnable (xcID c) 0 }) clients }"

definition disableUserXrayClientsOnNodes :: "env \<Rightarrow> int \<Rightarrow> int list \<Rightarrow> unit prog" where
  "disableUserXrayClientsOnNodes E userId nodeIds = do {
     clients \<leftarrow> gets (\<lambda>s. enabledClients s userId);
     forEach (\<lambda>c. do {
       inb \<leftarrow> gets (\<lambda>s. rowById ibID (xcInboundId c) (dbInbounds s));
       (case inb of
          None \<Rightarrow> return ()
        | Some ib \<Rightarrow>
            if ibNodeId ib \<in> set nodeIds then do {
              XrayRemoveClient E (ibNodeId ib) (ibTag ib) (xcEmail c);
              setClientEnable (xcID c) 0 }
            else return ()) }) clients }"

section \<open>Update\<close>

definition writeUser :: "env \<Rightarrow> userUpdateDto \<Rightarrow> user \<Rightarrow> user" where
  "writeUser E d u =
     u\<lparr>userUser := uuUser d, userFlow := uuFlow d, userXrayFlow := uuXrayFlow d, userNum := uuNum d,
       userExpTime := uuExpTime d, userFlowResetType := uuFlowResetType d, userFlowResetDay := uuFlowResetDay d,
       userUpdatedTime := now E,
       userStatus := (case uuStatus d of None \<Rightarrow> userStatus u | Some x \<Rightarrow> x),
       userPwd := (if uuPwd d \<noteq> [] then hashPassword E (uuPwd d) else userPwd u)\<rparr>"

definition clearUserNodes :: "int \<Rightarrow> unit prog" where
  "clearUserNodes userId =
     modify (\<lambda>s. s\<lparr>dbUserNodes := deleteRows (\<lambda>un. unUserId un = userId) (dbUserNodes s)\<rparr>)"

text \<open>The nodes that lose their Xray permission; the code collects them from a map, in any order.\<close>

definition lostXrayNodes :: "userNode list \<Rightarrow> nodePermission list \<Rightarrow> int list" where
  "lostXrayNodes oldNodes perms =
     filter (\<lambda>n. n \<notin> set (map permNodeId (filter (\<lambda>np. permOr1 (permXrayEnabled np) = 1) perms)))
       (remdups (map unNodeId (filter (\<lambda>un. unXrayEnabled un = 1) oldNodes)))"

definition updateUserNodes :: "env \<Rightarrow> userUpdateDto \<Rightarrow> unit prog" where
  "updateUserNodes E d =
     (case uuNodePermissions d of
        Some perms \<Rightarrow> do {
          oldNodes \<leftarrow> gets (\<lambda>s. filter (\<lambda>un. unUserId un = uuID d) (dbUserNodes s));
          clearUserNodes (uuID d);
          forEach (insertPermission (uuID d)) perms;
          (if lostXrayNodes oldNodes perms \<noteq> []
           then disableUserXrayClientsOnNodes E (uuID d) (lostXrayNodes oldNodes perms) else return ()) }
      | None \<Rightarrow> (case uuNodeIds d of
          Some nodeIds \<Rightarrow> do {
            clearUserNodes (uuID d);
            forEach (\<lambda>nodeId. insertUserNode (uuID d) nodeId 1 1) nodeIds }
        | None \<Rightarrow> return ()))"

definition UpdateUser :: "env \<Rightarrow> userUpdateDto \<Rightarrow> unit R prog" where
  "UpdateUser E d = do {
     s \<leftarrow> gets (\<lambda>s. s);
     (case firstUser s (uuID d) of
        None \<Rightarrow> return (Err EUserNotFound)
      | Some user \<Rightarrow>
          if userRoleId user = adminRoleId then return (Err EIsAdmin)
          else if filter (\<lambda>u. userUser u = uuUser d \<and> userID u \<noteq> uuID d) (dbUsers s) \<noteq> []
          then return (Err EUserNameTaken)
          else if uuPwd d \<noteq> [] \<and> length (uuPwd d) < 8 then return (Err EPasswordShort)
          else do {
            (if uuStatus d = Some 0 \<and> userStatus user = 1 then do {
               pauseAllUserForwards E (uuID d);
               disableAllUserXrayClients E (uuID d) }
             else return ());
            if \<not> updateOk E ''user'' then return (Err EUpdateUser)
            else do {
              updateUserRow (uuID d) (writeUser E d);
              updateUserNodes E d;
              deriveUserPermissions (uuID d);
              return (Ok ()) } }) }"

section \<open>Delete\<close>

definition deleteGostServicesForForward :: "env \<Rightarrow> forward \<Rightarrow> int \<Rightarrow> unit prog" where
  "deleteGostServicesForForward E fwd userId = do {
     s \<leftarrow> gets (\<lambda>s. s);
     (case firstTunnel s (fwdTunnelId fwd) of
        None \<Rightarrow> return ()
      | Some tunnel \<Rightarrow> (case GetNodeById s (tunInNodeId tunnel) of
        None \<Rightarrow> return ()
      | Some inNode \<Rightarrow> do {
          let serviceName = tripleName (fwdID fwd) userId (utIdOr0 s userId (tunID tunnel));
          deleteListeners E (nodeID inNode) serviceName (fwdListenIp fwd);
          (if tunType tunnel = tunnelTypeTunnelForward then
             (case GetNodeById s (tunOutNodeId tunnel) of
                None \<Rightarrow> return ()
              | Some outNode \<Rightarrow> do {
                  DeleteChains E (nodeID inNode) serviceName;
                  DeleteRemoteService E (nodeID outNode) serviceName;
                  return () })
           else return ()) })) }"

definition deleteForwardOf :: "env \<Rightarrow> int \<Rightarrow> forward \<Rightarrow> unit prog" where
  "deleteForwardOf E userId fwd = do {
     deleteGostServicesForForward E fwd userId;
     modify (\<lambda>s. s\<lparr>dbForwards := deleteRows (\<lambda>f. fwdID f = fwdID fwd) (dbForwards s)\<rparr>) }"

text \<open>Everything a user has: his clients, permissions and statistics.\<close>

definition eraseUserRows :: "int \<Rightarrow> panel \<Rightarrow> panel" where
  "eraseUserRows i s = s\<lparr>
     dbClients := deleteRows (\<lambda>c. xcUserId c = i) (dbClients s),
     dbUserTunnels := deleteRows (\<lambda>u. utUserId u = i) (dbUserTunnels s),
     dbUserNodes := deleteRows (\<lambda>u. unUserId u = i) (dbUserNodes s),
     dbStatFlows := deleteRows (\<lambda>r. sfUserId r = i) (dbStatFlows s),
     dbStatUserFlows := deleteRows (\<lambda>r. suUserId r = i) (dbStatUserFlows s)\<rparr>"

definition DeleteUser :: "env \<Rightarrow> int \<Rightarrow> unit R prog" where
  "DeleteUser E i = do {
     s \<leftarrow> gets (\<lambda>s. s);
     (case firstUser s i of
        None \<Rightarrow> return (Err EUserNotFound)
      | Some user \<Rightarrow>
          if userRoleId user = adminRoleId then return (Err EIsAdmin)
          else do {
            forEach (deleteForwardOf E i) (filter (\<lambda>f. fwdUserId f = i) (dbForwards s));
            clients \<leftarrow> gets (\<lambda>s. filter (\<lambda>c. xcUserId c = i) (dbClients s));
            forEach (hotRemoveClient E) clients;
            modify (eraseUserRows i);
            if \<not> deleteOk E ''user'' then return (Err EDeleteUser)
            else do {
              modify (\<lambda>s. s\<lparr>dbUsers := deleteRows (\<lambda>u. userID u = i) (dbUsers s)\<rparr>);
              return (Ok ()) } }) }"

section \<open>Password and counters\<close>

definition UpdatePassword :: "env \<Rightarrow> int \<Rightarrow> updatePasswordDto \<Rightarrow> unit R prog" where
  "UpdatePassword E userId d = do {
     s \<leftarrow> gets (\<lambda>s. s);
     (case firstUser s userId of
        None \<Rightarrow> return (Err EUserNotFound)
      | Some user \<Rightarrow>
          if \<not> CheckPassword E (upOldPassword d) (userPwd user) then return (Err EWrongPassword)
          else if length (upNewPassword d) < 8 then return (Err ENewPasswordShort)
          else if upNewUsername d \<noteq> [] \<and> upNewUsername d \<noteq> userUser user \<and>
              filter (\<lambda>u. userUser u = upNewUsername d \<and> userID u \<noteq> userID user) (dbUsers s) \<noteq> []
          then return (Err EUserNameTaken)
          else if \<not> updateOk E ''user'' then return (Err EUpdateUser)
          else do {
            updateUserRow (userID user) (\<lambda>u. u\<lparr>
              userUser := (if upNewUsername d \<noteq> [] then upNewUsername d else userUser user),
              userPwd := hashPassword E (upNewPassword d), userUpdatedTime := now E\<rparr>);
            return (Ok ()) }) }"

definition resetFlowOf :: "resetFlowDto \<Rightarrow> int \<Rightarrow> unit R prog" where
  "resetFlowOf d flowType = do {
     s \<leftarrow> gets (\<lambda>s. s);
     if flowType = 1 then
       (case firstUser s (rfID d) of
          None \<Rightarrow> return (Err EUserNotFound)
        | Some user \<Rightarrow> do { updateUserRow (rfID d) zeroUserFlow; return (Ok ()) })
     else
       (case rowById utID (rfID d) (dbUserTunnels s) of
          None \<Rightarrow> return (Err ETunnelNotFound)
        | Some ut \<Rightarrow> do { updateUserTunnelRow (rfID d) zeroUserTunnelFlow; return (Ok ()) }) }"

end
