(* ===== verification/Sessions.thy ===== *)
theory Sessions
  imports Users
begin

text \<open>
  What a session token proves: the middleware accepts only what the panel signed and has not
  expired, and a login leads to exactly the identity and role of the account that logged in.
\<close>

section \<open>Tokens\<close>

lemma ValidateToken_parts:
  assumes "ValidateToken E mac token"
  obtains h p payload x where "token = h @ ''.'' @ p @ ''.'' @ calcSignature mac h p"
    and "splitOn CHR ''.'' token = [h, p, calcSignature mac h p]" "decodePayload E p = Some payload"
    and "numField payload ''exp'' = Some x" "now E div 1000 < floatToI64 x"
proof -
  obtain h p g where sp: "splitOn CHR ''.'' token = [h, p, g]"
    using assms by (auto simp: ValidateToken_def split: list.splits)
  with assms have g: "g = calcSignature mac h p" by (auto simp: ValidateToken_def split: if_splits)
  from assms sp obtain payload x where "decodePayload E p = Some payload" "numField payload ''exp'' = Some x"
      "now E div 1000 < floatToI64 x"
    by (auto simp: ValidateToken_def split: option.splits if_splits)
  with that sp g splitOn_three [OF sp] show thesis by simp
qed

lemma parse_GenerateToken:
  assumes "jsonParse E' (jsonPrint E (tokenPayload E u)) = Some (JObj payload)"
  shows "parsePayload E' (GenerateToken E mac u) = Some payload"
  using assms by (simp add: parsePayload_def splitOn_GenerateToken Let_def decodePayload_def rawURL_roundtrip)

lemma GenerateToken_nonempty: "GenerateToken E mac u \<noteq> []"
  by (simp add: GenerateToken_def Let_def)

lemma token_caller:
  assumes codec: "jsonParse E (jsonPrint E (tokenPayload E u)) = Some (tokenPayload E u)"
    and "minInt64 \<le> userID u" "userID u \<le> maxInt64" "minInt64 \<le> userRoleId u" "userRoleId u \<le> maxInt64"
    and "0 \<le> now E" "now E div 1000 + expireSeconds \<le> maxInt64"
  shows "JWT (E\<lparr>now := t\<rparr>) mac (GenerateToken E mac u) =
    (if t div 1000 < now E div 1000 + expireSeconds then Caller (userID u) (userRoleId u) (userUser u) else BadToken)"
proof -
  let ?E = "E\<lparr>now := t\<rparr>" and ?tok = "GenerateToken E mac u"
  let ?exp = "now E div 1000 + expireSeconds"
  obtain payload where p: "tokenPayload E u = JObj payload" by (simp add: tokenPayload_def)
  have parse: "parsePayload ?E ?tok = Some payload"
    by (rule parse_GenerateToken) (simp add: codec p [symmetric])
  have "minInt64 \<le> ?exp" using assms(6) by (simp add: minInt64_def expireSeconds_def)
  then have "floatToI64 (of_int ?exp) = ?exp" using assms(7) by (rule floatToI64_of_int)
  then have exp: "map_option floatToI64 (numField payload ''exp'') = Some ?exp"
    using p by (auto simp: tokenPayload_def numField_def simp del: of_int_add)
  have "ValidateToken ?E mac ?tok \<longleftrightarrow> t div 1000 < ?exp"
    using parse exp by (auto simp: ValidateToken_def parsePayload_def splitOn_GenerateToken Let_def)
  moreover have "GetUserIdFromToken ?E ?tok = Some (userID u)"
    using p assms(2,3) by (auto simp: GetUserIdFromToken_def parse tokenPayload_def strField_def strToInt64_itoa)
  moreover have "GetRoleIdFromToken ?E ?tok = Some (userRoleId u)"
    using p assms(4,5) by (auto simp: GetRoleIdFromToken_def parse tokenPayload_def numField_def floatToI64_of_int)
  moreover have "GetNameFromToken ?E ?tok = Some (userUser u)"
    using p by (auto simp: GetNameFromToken_def parse tokenPayload_def strField_def)
  ultimately show ?thesis by (simp add: JWT_def GenerateToken_nonempty)
qed


definition exTokenEnv :: env where
  "exTokenEnv = exEnv\<lparr>jsonPrint := (\<lambda>j. if j = tokenHeader then ''h'' else ''p''),
     jsonParse := (\<lambda>x. if x = ''p'' then Some (tokenPayload exEnv exUser) else None)\<rparr>"

definition exMac :: "string \<Rightarrow> string" where
  "exMac m = rev m"


section \<open>Login\<close>

lemma exec_migratePassword_users:
  "dbUsers (exec (migratePassword E plain u) s) =
     (if \<not> IsBcrypt (userPwd u) \<and> hashPassword E plain \<noteq> []
      then updateRows (\<lambda>x. userID x = userID u) (\<lambda>x. x\<lparr>userPwd := hashPassword E plain\<rparr>) (dbUsers s) else dbUsers s)"
  by (simp add: migratePassword_def updateUserRow_def)

lemma deriveUserPermissions_users:
  "\<exists>g x. dbUsers (exec (deriveUserPermissions i) s) =
     updateRows (\<lambda>u. userID u = i) (\<lambda>u. u\<lparr>userGostEnabled := g, userXrayEnabled := x\<rparr>) (dbUsers s)"
  by (auto simp: deriveUserPermissions_def updateUserRow_def)

lemma firstUser_updateRows:
  assumes "dbUsers s' = updateRows (\<lambda>u. userID u = i) g (dbUsers s)" "\<And>u. userID (g u) = userID u"
  shows "firstUser s' i = map_option g (firstUser s i)"
  using assms rowById_id [of userID i "dbUsers s"]
  by (cases "rowById userID i (dbUsers s)") (auto simp: firstUser_def rowById_updateRows)

text \<open>The account as the login reads it back: name, role and id are those of the stored row.\<close>

lemma login_reload:
  fixes u0 u :: user
  assumes "u0 \<in> set (dbUsers s)" "distinct (map userID (dbUsers s))"
    and "firstUser (exec (deriveUserPermissions (userID u0)) (exec (migratePassword E plain u0) s)) (userID u0) = Some u"
  shows "userID u = userID u0 \<and> userRoleId u = userRoleId u0 \<and> userUser u = userUser u0"
proof -
  let ?s1 = "exec (migratePassword E plain u0) s"
  have "firstUser s (userID u0) = Some u0"
    using rowById_mem [OF assms(2,1)] by (simp add: firstUser_def)
  then have "\<exists>v. firstUser ?s1 (userID u0) = Some v \<and> userID v = userID u0 \<and> userRoleId v = userRoleId u0 \<and>
      userUser v = userUser u0"
    using firstUser_updateRows [of ?s1 "userID u0" "\<lambda>x. x\<lparr>userPwd := hashPassword E plain\<rparr>" s]
    by (auto simp: exec_migratePassword_users firstUser_def)
  moreover obtain g x where "dbUsers (exec (deriveUserPermissions (userID u0)) ?s1) =
      updateRows (\<lambda>u. userID u = userID u0) (\<lambda>u. u\<lparr>userGostEnabled := g, userXrayEnabled := x\<rparr>) (dbUsers ?s1)"
    using deriveUserPermissions_users by blast
  from firstUser_updateRows [OF this] assms(3) have
    "map_option (\<lambda>u. u\<lparr>userGostEnabled := g, userXrayEnabled := x\<rparr>) (firstUser ?s1 (userID u0)) = Some u" by simp
  ultimately show ?thesis by auto
qed

lemma Login_Ok:
  assumes "result (Login E mac d) s = Ok r" "distinct (map userID (dbUsers s))"
  obtains u0 u where "u0 \<in> set (dbUsers s)" "userUser u0 = ldUsername d"
    "CheckPassword E (ldPassword d) (userPwd u0)" "userStatus u0 \<noteq> 0" "captchaError E s d = None"
    "lrToken r = GenerateToken E mac u" "userID u = userID u0" "userRoleId u = userRoleId u0" "userUser u = userUser u0"
proof -
  from assms(1) obtain u0 where f: "find (\<lambda>u. userUser u = ldUsername d) (dbUsers s) = Some u0"
    and cap: "captchaError E s d = None" and pw: "CheckPassword E (ldPassword d) (userPwd u0)"
    and st: "userStatus u0 \<noteq> 0"
    by (auto simp: Login_def run split: option.splits if_splits)
  have in_s: "u0 \<in> set (dbUsers s)" "userUser u0 = ldUsername d" using f by (auto simp: find_Some_iff)
  let ?s1 = "exec (migratePassword E (ldPassword d) u0) s"
  let ?s2 = "exec (deriveUserPermissions (userID u0)) ?s1"
  let ?u = "if userRoleId u0 \<noteq> adminRoleId then (case firstUser ?s2 (userID u0) of None \<Rightarrow> u0 | Some u \<Rightarrow> u) else u0"
  have "result (Login E mac d) s = Ok (sessionOf E mac d ?u)"
    by (cases "userRoleId u0 = adminRoleId") (simp_all add: Login_def f cap pw st Let_def)
  then have "lrToken r = GenerateToken E mac ?u" using assms(1) by (simp add: sessionOf_def)
  moreover have "userID ?u = userID u0 \<and> userRoleId ?u = userRoleId u0 \<and> userUser ?u = userUser u0"
  proof (cases "userRoleId u0 \<noteq> adminRoleId \<and> firstUser ?s2 (userID u0) \<noteq> None")
    case True
    then obtain u where u: "firstUser ?s2 (userID u0) = Some u" by blast
    with True have "?u = u" by simp
    then show ?thesis using login_reload [OF in_s(1) assms(2) u] by simp
  next
    case False
    then have "?u = u0" by auto
    then show ?thesis by simp
  qed
  ultimately show thesis using that [OF in_s pw st cap] by blast
qed

text \<open>C29: A login yields the session of the account. When \<open>Login\<close> succeeds, the captcha was passed
  when one is configured, an enabled account with that name and password exists, and for seven
  days (to the second) the middleware takes the returned token for exactly this account's id,
  role and name; after that it refuses the token.\<close>

theorem login_opens_session:
  assumes "result (Login E mac d) s = Ok r" "distinct (map userID (dbUsers s))"
    and "\<forall>u \<in> set (dbUsers s). userUser u = ldUsername d \<longrightarrow>
      jsonParse E (jsonPrint E (tokenPayload E u)) = Some (tokenPayload E u)"
    and "\<forall>u \<in> set (dbUsers s). minInt64 \<le> userID u \<and> userID u \<le> maxInt64 \<and> minInt64 \<le> userRoleId u \<and> userRoleId u \<le> maxInt64"
    and "0 \<le> now E" "now E div 1000 + expireSeconds \<le> maxInt64"
  shows "captchaError E s d = None \<and>
    (\<exists>u \<in> set (dbUsers s). userUser u = ldUsername d \<and> CheckPassword E (ldPassword d) (userPwd u) \<and> userStatus u \<noteq> 0 \<and>
      (\<forall>t. JWT (E\<lparr>now := t\<rparr>) mac (lrToken r) =
        (if t div 1000 < now E div 1000 + expireSeconds then Caller (userID u) (userRoleId u) (userUser u) else BadToken)))"
proof -
  from assms(1,2) obtain u0 u where u0: "u0 \<in> set (dbUsers s)" "userUser u0 = ldUsername d"
      "CheckPassword E (ldPassword d) (userPwd u0)" "userStatus u0 \<noteq> 0" "captchaError E s d = None"
      "lrToken r = GenerateToken E mac u" and same: "userID u = userID u0" "userRoleId u = userRoleId u0" "userUser u = userUser u0"
    by (rule Login_Ok)
  have "tokenPayload E u = tokenPayload E u0" using same by (simp add: tokenPayload_def)
  then have "lrToken r = GenerateToken E mac u0" using u0(6) by (simp add: GenerateToken_def)
  moreover have "JWT (E\<lparr>now := t\<rparr>) mac (GenerateToken E mac u0) =
      (if t div 1000 < now E div 1000 + expireSeconds then Caller (userID u0) (userRoleId u0) (userUser u0) else BadToken)" for t
    using assms(3-6) u0(1,2) by (intro token_caller) auto
  ultimately show ?thesis using u0 by auto
qed

definition exLogin :: loginDto where
  "exLogin = \<lparr>ldUsername = ''ann'', ldPassword = ''opensesame'', ldCaptchaId = [], ldCaptchaAnswer = []\<rparr>"

definition exAccounts :: panel where
  "exAccounts = exPanel\<lparr>dbUsers := [exUser\<lparr>userPwd := ''$2a$opensesame''\<rparr>]\<rparr>"

theorem login_opens_session_witness:
  "\<exists>r. result (Login exTokenEnv exMac exLogin) exAccounts = Ok r \<and>
     (\<exists>u \<in> set (dbUsers exAccounts). JWT (exTokenEnv\<lparr>now := 5000\<rparr>) exMac (lrToken r) = Caller (userID u) (userRoleId u) (userUser u))"
proof -
  obtain r where r: "result (Login exTokenEnv exMac exLogin) exAccounts = Ok r"
  proof -
    have "\<not> isErr (result (Login exTokenEnv exMac exLogin) exAccounts)"
      "(case result (Login exTokenEnv exMac exLogin) exAccounts of Warn _ _ \<Rightarrow> False | _ \<Rightarrow> True)" by code_simp+
    then show thesis using that by (auto split: R.splits)
  qed
  have ids: "distinct (map userID (dbUsers exAccounts))" by code_simp
  have codec: "list_all (\<lambda>u. jsonParse exTokenEnv (jsonPrint exTokenEnv (tokenPayload exTokenEnv u)) = Some (tokenPayload exTokenEnv u))
      (dbUsers exAccounts)" by code_simp
  have bounds: "list_all (\<lambda>u. minInt64 \<le> userID u \<and> userID u \<le> maxInt64 \<and> minInt64 \<le> userRoleId u \<and> userRoleId u \<le> maxInt64)
      (dbUsers exAccounts)" by code_simp
  have clock: "0 \<le> now exTokenEnv" "now exTokenEnv div 1000 + expireSeconds \<le> maxInt64"
    "5000 div 1000 < now exTokenEnv div 1000 + expireSeconds" by code_simp+
  obtain u where u: "u \<in> set (dbUsers exAccounts)" and jwt: "\<forall>t. JWT (exTokenEnv\<lparr>now := t\<rparr>) exMac (lrToken r) =
      (if t div 1000 < now exTokenEnv div 1000 + expireSeconds then Caller (userID u) (userRoleId u) (userUser u) else BadToken)"
    using login_opens_session [OF r ids _ _ clock(1,2)] codec bounds unfolding list_all_iff by blast
  have "JWT (exTokenEnv\<lparr>now := 5000\<rparr>) exMac (lrToken r) = Caller (userID u) (userRoleId u) (userUser u)"
    using jwt clock(3) by (metis (no_types))
  with r u show ?thesis by blast
qed

end
