(* ===== verification/UserProps.thy ===== *)
theory UserProps
  imports Users ResetProps
begin

text \<open>
  What the operations on accounts do to the rest of the panel: deleting an account takes along
  what refers to it, disabling it stops all it runs, the derived flags agree with the access
  checks, and two cases where the outcome is not what the administrator or the user asked for.
\<close>

section \<open>Deleting an account\<close>

text \<open>The part of the state that removing services and forwards of a user cannot change.\<close>

lemma keeps_hotRemoveClient [keeps_intro]: "ignoresSent I \<Longrightarrow> keeps I (hotRemoveClient E c)"
  unfolding hotRemoveClient_def by (intro keeps_intro) assumption+

lemma keeps_deleteGostServicesForForward [keeps_intro]:
  "ignoresSent I \<Longrightarrow> keeps I (deleteGostServicesForForward E f u)"
  unfolding deleteGostServicesForForward_def Let_def by (intro keeps_intro) assumption+

lemma besides_deleteForwardOf [keeps_intro]: "keeps (\<lambda>s. besidesForwards s = X) (deleteForwardOf E u f)"
  unfolding deleteForwardOf_def by (intro keeps_intro keeps_modify ignoresSent_besides) (simp add: besidesForwards_def)

lemma forwards_deleteForwardOf:
  "dbForwards (exec (deleteForwardOf E u f) s) = deleteRows (\<lambda>g. fwdID g = fwdID f) (dbForwards s)"
proof -
  have "dbForwards (exec (deleteGostServicesForForward E f u) s) = dbForwards s"
    by (subst talks_frame [OF keeps_deleteGostServicesForForward]) simp_all
  then show ?thesis by (simp add: deleteForwardOf_def)
qed

lemma forwards_deleteLoop:
  "dbForwards (exec (forEach (deleteForwardOf E u) fs) s) = filter (\<lambda>g. fwdID g \<notin> fwdID ` set fs) (dbForwards s)"
  by (induction fs arbitrary: s) (auto simp: forwards_deleteForwardOf deleteRows_def intro!: filter_cong)

lemma filter_ids:
  assumes "distinct (map rid rows)"
  shows "filter (\<lambda>g. rid g \<notin> rid ` set (filter P rows)) rows = filter (\<lambda>g. \<not> P g) rows"
  using assms by (intro filter_cong refl) (auto simp: distinct_map dest: inj_onD)

lemma DeleteUser_Ok:
  assumes "result (DeleteUser E i) s = Ok ()" "distinct (map fwdID (dbForwards s))"
  obtains s2 where "besidesForwards s2 = besidesForwards s"
    "dbForwards s2 = filter (\<lambda>f. fwdUserId f \<noteq> i) (dbForwards s)"
    "exec (DeleteUser E i) s = (eraseUserRows i s2)\<lparr>dbUsers := deleteRows (\<lambda>u. userID u = i) (dbUsers (eraseUserRows i s2))\<rparr>"
    "\<exists>u. firstUser s i = Some u \<and> userRoleId u \<noteq> adminRoleId"
proof -
  obtain u where u: "firstUser s i = Some u" "userRoleId u \<noteq> adminRoleId" "deleteOk E ''user''"
    using assms(1) by (auto simp: DeleteUser_def run split: option.splits if_splits)
  let ?fs = "filter (\<lambda>f. fwdUserId f = i) (dbForwards s)"
  let ?s1 = "exec (forEach (deleteForwardOf E i) ?fs) s"
  let ?cs = "filter (\<lambda>c. xcUserId c = i) (dbClients ?s1)"
  let ?s2 = "exec (forEach (hotRemoveClient E) ?cs) ?s1"
  have "besidesForwards ?s1 = besidesForwards s"
    by (rule keepsD [where I = "\<lambda>s'. besidesForwards s' = besidesForwards s", OF keeps_forEach [OF besides_deleteForwardOf] refl])
  then have b: "besidesForwards ?s2 = besidesForwards s"
    by (rule keepsD [where I = "\<lambda>s'. besidesForwards s' = besidesForwards s", rotated])
       (intro keeps_forEach keeps_hotRemoveClient, simp)
  have "keeps (\<lambda>s'. dbForwards s' = dbForwards ?s1) (forEach (hotRemoveClient E) ?cs)"
    by (intro keeps_forEach keeps_hotRemoveClient) (simp add: ignoresSent_def)
  from keepsD [OF this refl] have f: "dbForwards ?s2 = filter (\<lambda>f. fwdUserId f \<noteq> i) (dbForwards s)"
    by (simp only: forwards_deleteLoop filter_ids [OF assms(2)])
  have "exec (DeleteUser E i) s = (eraseUserRows i ?s2)\<lparr>dbUsers := deleteRows (\<lambda>u. userID u = i) (dbUsers (eraseUserRows i ?s2))\<rparr>"
    using u by (simp add: DeleteUser_def)
  with that b f u show thesis by blast
qed

lemma besides_more:
  assumes "besidesForwards s = besidesForwards s'"
  shows "dbUserNodes s = dbUserNodes s'" "dbStatFlows s = dbStatFlows s'" "dbStatUserFlows s = dbStatUserFlows s'"
    "dbInbounds s = dbInbounds s'"
proof -
  have "dbUserNodes (besidesForwards s) = dbUserNodes (besidesForwards s')"
    "dbStatFlows (besidesForwards s) = dbStatFlows (besidesForwards s')"
    "dbStatUserFlows (besidesForwards s) = dbStatUserFlows (besidesForwards s')"
    "dbInbounds (besidesForwards s) = dbInbounds (besidesForwards s')"
    using assms by simp_all
  then show "dbUserNodes s = dbUserNodes s'" "dbStatFlows s = dbStatFlows s'" "dbStatUserFlows s = dbStatUserFlows s'"
    "dbInbounds s = dbInbounds s'" by (simp_all add: besidesForwards_def)
qed

text \<open>C25: Deleting an account. A successful \<open>DeleteUser\<close> removes the account and exactly its
  forwards, Xray clients, permissions and statistics; the rows of every other user stay as they
  were. Not removed are the inbounds the user owns: they stay, with their enable flag.\<close>

theorem DeleteUser_cascades:
  assumes "result (DeleteUser E i) s = Ok ()" "distinct (map fwdID (dbForwards s))"
  shows "let s' = exec (DeleteUser E i) s in
    dbUsers s' = filter (\<lambda>u. userID u \<noteq> i) (dbUsers s) \<and>
    dbForwards s' = filter (\<lambda>f. fwdUserId f \<noteq> i) (dbForwards s) \<and>
    dbClients s' = filter (\<lambda>c. xcUserId c \<noteq> i) (dbClients s) \<and>
    dbUserTunnels s' = filter (\<lambda>u. utUserId u \<noteq> i) (dbUserTunnels s) \<and>
    dbUserNodes s' = filter (\<lambda>u. unUserId u \<noteq> i) (dbUserNodes s) \<and>
    dbStatFlows s' = filter (\<lambda>r. sfUserId r \<noteq> i) (dbStatFlows s) \<and>
    dbStatUserFlows s' = filter (\<lambda>r. suUserId r \<noteq> i) (dbStatUserFlows s) \<and>
    dbInbounds s' = dbInbounds s"
proof -
  obtain s2 where s2: "besidesForwards s2 = besidesForwards s"
      "dbForwards s2 = filter (\<lambda>f. fwdUserId f \<noteq> i) (dbForwards s)"
      "exec (DeleteUser E i) s = (eraseUserRows i s2)\<lparr>dbUsers := deleteRows (\<lambda>u. userID u = i) (dbUsers (eraseUserRows i s2))\<rparr>"
    using DeleteUser_Ok [OF assms] by blast
  show ?thesis
    using besides_tables [OF s2(1)] besides_more [OF s2(1)] s2(2)
    by (simp add: s2(3) Let_def eraseUserRows_def deleteRows_def)
qed

definition exOwner :: panel where
  "exOwner = exXray\<lparr>dbInbounds := [zeroInbound\<lparr>ibID := 5, ibNodeId := 2, ibUserId := 7, ibTag := ''in'', ibEnable := 1\<rparr>]\<rparr>"

theorem DeleteUser_cascades_witness:
  "dbForwards (exec (DeleteUser exEnv 7) exOwner) = [] \<and> dbClients (exec (DeleteUser exEnv 7) exOwner) = [] \<and>
   map ibEnable (dbInbounds (exec (DeleteUser exEnv 7) exOwner)) = [1]"
proof -
  have ok: "result (DeleteUser exEnv 7) exOwner = Ok ()" by code_simp
  have d: "distinct (map fwdID (dbForwards exOwner))" by code_simp
  have "filter (\<lambda>f. fwdUserId f \<noteq> 7) (dbForwards exOwner) = []" "filter (\<lambda>c. xcUserId c \<noteq> 7) (dbClients exOwner) = []"
    "map ibEnable (dbInbounds exOwner) = [1]" by code_simp+
  with DeleteUser_cascades [OF ok d] show ?thesis by (simp add: Let_def)
qed

section \<open>Disabling an account\<close>

text \<open>The loop of \<open>UpdateUser\<close> pauses as the nightly task does.\<close>

lemma utIdOr0_eq: "utIdOr0 s u t = utID (case getUserTunnel s u t of None \<Rightarrow> zeroUserTunnel | Some x \<Rightarrow> x)"
  by (simp add: utIdOr0_def zeroUserTunnel_def split: option.splits)

lemma pauseUserForward_own: "pauseUserForward E (fwdUserId f) f = pauseSingleForward E f"
  unfolding pauseUserForward_def pauseSingleForward_def utIdOr0_eq Let_def ..

lemma pauseUserForward_eq: "fwdUserId f = u \<Longrightarrow> pauseUserForward E u f = pauseSingleForward E f"
  using pauseUserForward_own by blast

lemma forEach_cong: "(\<And>x. x \<in> set xs \<Longrightarrow> f x = g x) \<Longrightarrow> forEach f xs = forEach g xs"
  by (induction xs) simp_all

lemma exec_pauseAllUserForwards: "exec (pauseAllUserForwards E u) s = exec (pauseUserForwards E u) s"
proof -
  have "forEach (pauseUserForward E u) (filter (\<lambda>f. fwdUserId f = u \<and> fwdStatus f = 1) (dbForwards s)) =
      forEach (pauseSingleForward E) (filter (\<lambda>f. fwdUserId f = u \<and> fwdStatus f = 1) (dbForwards s))"
    by (rule forEach_cong) (simp add: pauseUserForward_eq)
  then show ?thesis by (simp add: pauseAllUserForwards_def pauseUserForwards_def)
qed

lemma clients_disableLoop:
  "dbClients (exec (forEach (\<lambda>c. do { hotRemoveClient E c; setClientEnable (xcID c) 0 }) cs) s) =
     updateRows (\<lambda>c. xcID c \<in> xcID ` set cs) (\<lambda>c. c\<lparr>xcEnable := 0\<rparr>) (dbClients s)"
proof (induction cs arbitrary: s)
  case Nil
  then show ?case by (simp add: updateRows_def)
next
  case (Cons c cs)
  have "dbClients (exec (hotRemoveClient E c) s) = dbClients s"
    by (subst talks_frame [OF keeps_hotRemoveClient]) simp_all
  with Cons show ?case by (auto simp: updateRows_def setClientEnable_def)
qed

definition noneEnabled :: "int \<Rightarrow> panel \<Rightarrow> bool" where
  "noneEnabled u s = (\<forall>c \<in> set (dbClients s). xcUserId c = u \<longrightarrow> xcEnable c \<noteq> 1)"

lemma disableAll_noneEnabled: "noneEnabled u (exec (disableAllUserXrayClients E u) s)"
  by (auto simp: disableAllUserXrayClients_def clients_disableLoop noneEnabled_def enabledClients_def set_updateRows
      split: if_splits)

lemma keeps_setClientEnable: "keeps (noneEnabled u) (setClientEnable i 0)"
  unfolding setClientEnable_def by (rule keeps_modify) (auto simp: noneEnabled_def set_updateRows)

lemma ignoresSent_stopped [simp]: "ignoresSent (noneRunning P)" "ignoresSent (noneEnabled u)"
  unfolding ignoresSent_def by (intro allI noneRunning_frame; simp) (simp add: noneEnabled_def)

lemma keeps_stopped_tables:
  "keeps (noneRunning P) (setClientEnable i v)" "keeps (noneRunning P) (updateUserRow i g)"
  "keeps (noneRunning P) (clearUserNodes i)" "keeps (noneRunning P) (insertUserNode i n x y)"
  "keeps (noneEnabled u) (updateUserRow i g)" "keeps (noneEnabled u) (clearUserNodes i)"
  "keeps (noneEnabled u) (insertUserNode i n x y)"
  unfolding setClientEnable_def updateUserRow_def clearUserNodes_def insertUserNode_def
  by ((rule keeps_modify, subst noneRunning_frame, simp_all)+) (rule keeps_modify, simp add: noneEnabled_def)+

lemmas keeps_stopped [keeps_intro] = keeps_stopped_tables keeps_setClientEnable

lemma keeps_derive:
  "keeps (noneRunning P) (deriveUserPermissions i)" "keeps (noneEnabled u) (deriveUserPermissions i)"
  "keeps (noneRunning P) (updateUserNodes E d)" "keeps (noneEnabled u) (updateUserNodes E d)"
  unfolding deriveUserPermissions_def updateUserNodes_def disableUserXrayClientsOnNodes_def insertPermission_def
  by (intro keeps_intro; simp)+

lemma UpdateUser_disable:
  assumes "uuStatus d = Some 0" "firstUser s (uuID d) = Some usr" "userStatus usr = 1" "result (UpdateUser E d) s = Ok ()"
  shows "exec (UpdateUser E d) s = exec (do { pauseAllUserForwards E (uuID d); disableAllUserXrayClients E (uuID d);
      updateUserRow (uuID d) (writeUser E d); updateUserNodes E d; deriveUserPermissions (uuID d) }) s"
  using assms by (auto simp: UpdateUser_def run split: if_splits)

text \<open>C26: Disabling an account stops all it runs. When \<open>UpdateUser\<close> succeeds in setting an active
  user's status to disabled, no forward of the user is active any more (unless its tunnel or
  entry node is gone, so that nothing can be sent) and none of his Xray clients is enabled.\<close>

theorem disabled_user_is_stopped:
  assumes "uuStatus d = Some 0" "firstUser s (uuID d) = Some usr" "userStatus usr = 1" "result (UpdateUser E d) s = Ok ()"
  shows "(\<forall>f \<in> set (dbForwards (exec (UpdateUser E d) s)). fwdUserId f = uuID d \<longrightarrow> fwdStatus f = 1 \<longrightarrow>
      \<not> reachableForward (exec (UpdateUser E d) s) f) \<and>
    (\<forall>c \<in> set (dbClients (exec (UpdateUser E d) s)). xcUserId c = uuID d \<longrightarrow> xcEnable c \<noteq> 1)"
proof -
  let ?P = "\<lambda>f :: forward. fwdUserId f = uuID d" and ?i = "uuID d"
  let ?rest = "do { updateUserRow ?i (writeUser E d); updateUserNodes E d; deriveUserPermissions ?i }"
  let ?s1 = "exec (pauseAllUserForwards E ?i) s"
  let ?s2 = "exec (disableAllUserXrayClients E ?i) ?s1"
  have blind: "statusBlind ?P" by (simp add: statusBlind_def)
  have "noneRunning ?P ?s1"
    using noneRunning_loop [OF blind disjI2 [OF refl]] by (simp add: exec_pauseAllUserForwards pauseUserForwards_def)
  moreover have "keeps (noneRunning ?P) (disableAllUserXrayClients E ?i)"
    unfolding disableAllUserXrayClients_def by (intro keeps_intro) simp
  moreover have "keeps (noneRunning ?P) ?rest" by (intro keeps_intro keeps_derive)
  ultimately have "noneRunning ?P (exec ?rest ?s2)" using keepsD by blast
  moreover have "keeps (noneEnabled ?i) ?rest" by (intro keeps_intro keeps_derive)
  then have "noneEnabled ?i (exec ?rest ?s2)" using keepsD disableAll_noneEnabled by blast
  moreover have "exec (UpdateUser E d) s = exec ?rest ?s2" using UpdateUser_disable [OF assms] by simp
  ultimately show ?thesis by (simp add: noneRunning_def noneEnabled_def)
qed

definition exDisable :: userUpdateDto where
  "exDisable = \<lparr>uuID = 7, uuUser = ''ann'', uuPwd = [], uuFlow = 10, uuXrayFlow = 0, uuNum = 3, uuExpTime = 0,
     uuFlowResetType = 0, uuFlowResetDay = 0, uuStatus = Some 0, uuGostEnabled = None, uuXrayEnabled = None,
     uuNodeIds = None, uuNodePermissions = None\<rparr>"

theorem disabled_user_is_stopped_witness:
  "list_all (\<lambda>f. fwdStatus f \<noteq> 1) (dbForwards (exec (UpdateUser exEnv exDisable) exOwner)) \<and>
   list_all (\<lambda>c. xcEnable c \<noteq> 1) (dbClients (exec (UpdateUser exEnv exDisable) exOwner))"
proof -
  let ?s = "exec (UpdateUser exEnv exDisable) exOwner"
  have 1: "uuStatus exDisable = Some 0" by code_simp
  obtain usr where 2: "firstUser exOwner (uuID exDisable) = Some usr" "userStatus usr = 1"
  proof -
    have "(case firstUser exOwner (uuID exDisable) of None \<Rightarrow> False | Some u \<Rightarrow> userStatus u = 1)" by code_simp
    then show thesis using that by (auto split: option.splits)
  qed
  have 3: "result (UpdateUser exEnv exDisable) exOwner = Ok ()" by code_simp
  have "list_all (\<lambda>f. fwdUserId f = uuID exDisable \<and> reachableForward ?s f) (dbForwards ?s)"
    "list_all (\<lambda>c. xcUserId c = uuID exDisable) (dbClients ?s)" by code_simp+
  with disabled_user_is_stopped [OF 1 2 3] show ?thesis by (auto simp: list_all_iff)
qed

section \<open>Derived permissions\<close>

lemma users_updateUserRow: "dbUsers (exec (updateUserRow i g) s) = updateRows (\<lambda>u. userID u = i) g (dbUsers s)"
  by (simp add: updateUserRow_def)

lemma derived_flags:
  assumes "u \<in> set (dbUsers (exec (deriveUserPermissions i) s))" "userID u = i"
  shows "userGostEnabled u = (if (\<exists>un \<in> set (dbUserNodes s). unUserId un = i) \<longrightarrow>
      (\<exists>un \<in> set (dbUserNodes s). unUserId un = i \<and> unGostEnabled un = 1) then 1 else 0)"
    and "userXrayEnabled u = (if (\<exists>un \<in> set (dbUserNodes s). unUserId un = i) \<longrightarrow>
      (\<exists>un \<in> set (dbUserNodes s). unUserId un = i \<and> unXrayEnabled un = 1) then 1 else 0)"
proof -
  let ?own = "filter (\<lambda>un. unUserId un = i) (dbUserNodes s)"
  define g x :: int where "g = (if ?own = [] \<or> filter (\<lambda>un. unGostEnabled un = 1) ?own \<noteq> [] then 1 else 0)"
    and "x = (if ?own = [] \<or> filter (\<lambda>un. unXrayEnabled un = 1) ?own \<noteq> [] then 1 else 0)"
  have "exec (deriveUserPermissions i) s = exec (updateUserRow i (\<lambda>u. u\<lparr>userGostEnabled := g, userXrayEnabled := x\<rparr>)) s"
    unfolding deriveUserPermissions_def exec_bind exec_simps result_simps g_def x_def
    by (cases "?own = []") (simp_all only: if_True if_False simp_thms)
  then have "dbUsers (exec (deriveUserPermissions i) s) =
      updateRows (\<lambda>u. userID u = i) (\<lambda>u. u\<lparr>userGostEnabled := g, userXrayEnabled := x\<rparr>) (dbUsers s)"
    by (simp only: users_updateUserRow)
  then have "u \<in> (\<lambda>u. if userID u = i then u\<lparr>userGostEnabled := g, userXrayEnabled := x\<rparr> else u) ` set (dbUsers s)"
    using assms(1) by (simp only: updateRows_def set_map)
  then obtain v where v: "u = (if userID v = i then v\<lparr>userGostEnabled := g, userXrayEnabled := x\<rparr> else v)"
    by (rule imageE)
  then have "userID v = i" using assms(2) by (cases "userID v = i") simp_all
  with v have "userGostEnabled u = g" "userXrayEnabled u = x" by simp_all
  then show "userGostEnabled u = (if (\<exists>un \<in> set (dbUserNodes s). unUserId un = i) \<longrightarrow>
      (\<exists>un \<in> set (dbUserNodes s). unUserId un = i \<and> unGostEnabled un = 1) then 1 else 0)"
    "userXrayEnabled u = (if (\<exists>un \<in> set (dbUserNodes s). unUserId un = i) \<longrightarrow>
      (\<exists>un \<in> set (dbUserNodes s). unUserId un = i \<and> unXrayEnabled un = 1) then 1 else 0)"
    by (auto simp: g_def x_def filter_empty_conv)
qed

lemma gost_access_somewhere:
  "(\<exists>n. UserHasGostNodeAccess s i n) \<longleftrightarrow> ((\<exists>un \<in> set (dbUserNodes s). unUserId un = i) \<longrightarrow>
     (\<exists>un \<in> set (dbUserNodes s). unUserId un = i \<and> unGostEnabled un = 1))"
  by (auto simp: UserHasGostNodeAccess_def filter_empty_conv)

lemma xray_access_somewhere:
  assumes "r \<noteq> 0" "checkXrayNodeAccess s i r n = None" "\<exists>un \<in> set (dbUserNodes s). unUserId un = i"
  shows "\<exists>un \<in> set (dbUserNodes s). unUserId un = i \<and> unXrayEnabled un = 1"
proof (cases "find (\<lambda>un. unUserId un = i \<and> unNodeId un = n) (dbUserNodes s)")
  case None
  then show ?thesis using assms by (auto simp: checkXrayNodeAccess_def filter_empty_conv split: if_splits)
next
  case (Some un)
  then have "un \<in> set (dbUserNodes s)" "unUserId un = i" by (auto simp: find_Some_iff)
  with Some assms(1,2) show ?thesis by (auto simp: checkXrayNodeAccess_def split: if_splits)
qed

lemma access_updateUserRow [simp]:
  "UserHasGostNodeAccess (exec (deriveUserPermissions i) s) = UserHasGostNodeAccess s"
  "checkXrayNodeAccess (exec (deriveUserPermissions i) s) = checkXrayNodeAccess s"
  by (auto simp: deriveUserPermissions_def updateUserRow_def UserHasGostNodeAccess_def checkXrayNodeAccess_def run fun_eq_iff
      split: option.splits)

lemma UpdateUser_ends:
  assumes "result (UpdateUser E d) s = Ok ()"
  obtains s1 where "exec (UpdateUser E d) s = exec (deriveUserPermissions (uuID d)) (exec (updateUserNodes E d) s1)"
  using assms by (auto simp: UpdateUser_def run split: option.splits if_splits)


definition exRestrict :: userUpdateDto where
  "exRestrict = exDisable\<lparr>uuStatus := None,
     uuNodePermissions := Some [\<lparr>permNodeId = 1, permXrayEnabled = Some 0, permGostEnabled = None\<rparr>]\<rparr>"


text \<open>Taking all nodes away gives all nodes. An update with an empty list of node permissions
  deletes the user's rows of the node table, and a user without rows counts as a legacy user: the
  gost and the Xray checks then accept every node.\<close>

theorem empty_permissions_grant_all:
  assumes "result (UpdateUser E d) s = Ok ()" "uuNodePermissions d = Some []"
  shows "UserHasGostNodeAccess (exec (UpdateUser E d) s) (uuID d) n \<and>
    UserHasNodeAccess (exec (UpdateUser E d) s) (uuID d) n \<and>
    checkXrayNodeAccess (exec (UpdateUser E d) s) (uuID d) r n = None"
proof -
  obtain s1 where e: "exec (UpdateUser E d) s = exec (deriveUserPermissions (uuID d)) (exec (updateUserNodes E d) s1)"
    by (rule UpdateUser_ends [OF assms(1)])
  have nodes: "dbUserNodes (exec (disableUserXrayClientsOnNodes E i l) s') = dbUserNodes s'" for i l s'
  proof -
    have "keeps (\<lambda>s. dbUserNodes s = x) (setClientEnable j v)" for x j v
      unfolding setClientEnable_def by (rule keeps_modify) simp
    then have "keeps (\<lambda>s. dbUserNodes s = x) (disableUserXrayClientsOnNodes E i l)" for x
      unfolding disableUserXrayClientsOnNodes_def by (intro keeps_intro) (simp_all add: ignoresSent_def)
    from keepsD [OF this refl] show ?thesis .
  qed
  have derive: "dbUserNodes (exec (deriveUserPermissions i) s') = dbUserNodes s'" for i s'
    by (simp add: deriveUserPermissions_def updateUserRow_def run)
  have "\<forall>un \<in> set (dbUserNodes (exec (UpdateUser E d) s)). unUserId un \<noteq> uuID d"
    using assms(2) by (simp add: e derive updateUserNodes_def nodes clearUserNodes_def run)
  then have "filter (\<lambda>un. unUserId un = uuID d) (dbUserNodes (exec (UpdateUser E d) s)) = []"
    "find (\<lambda>un. unUserId un = uuID d \<and> unNodeId un = n) (dbUserNodes (exec (UpdateUser E d) s)) = None"
    by (auto simp: filter_empty_conv find_None_iff)
  then show ?thesis
    by (simp add: UserHasGostNodeAccess_def UserHasNodeAccess_def checkXrayNodeAccess_def)
qed

definition exTakeAll :: userUpdateDto where
  "exTakeAll = exDisable\<lparr>uuStatus := None, uuNodePermissions := Some []\<rparr>"

theorem empty_permissions_grant_all_witness:
  "UserHasGostNodeAccess (exec (UpdateUser exEnv exTakeAll) (exec (UpdateUser exEnv exRestrict) exOwner)) 7 2 \<and>
   \<not> UserHasGostNodeAccess (exec (UpdateUser exEnv exRestrict) exOwner) 7 2"
proof -
  let ?s = "exec (UpdateUser exEnv exRestrict) exOwner"
  have ok: "result (UpdateUser exEnv exTakeAll) ?s = Ok ()" by code_simp
  have none: "uuNodePermissions exTakeAll = Some []" and id: "uuID exTakeAll = 7" by code_simp+
  have "\<not> UserHasGostNodeAccess ?s 7 2" by code_simp
  with empty_permissions_grant_all [OF ok none, of 2] id show ?thesis by simp
qed

section \<open>A password that bcrypt refuses\<close>

text \<open>A long password locks the account. \<open>HashPassword\<close> returns the empty string when bcrypt
  refuses the password, as it does beyond 72 bytes; \<open>UpdatePassword\<close> stores that and reports
  success, and from then on no password opens the account.\<close>

theorem long_password_locks_out:
  assumes "result (UpdatePassword E i d) s = Ok ()" "firstUser s i = Some usr" "upNewUsername d = []"
    and "hashPassword E (upNewPassword d) = []" "\<forall>x. md5Hex E x \<noteq> []"
    and "distinct (map userID (dbUsers s))" "distinct (map userUser (dbUsers s))"
    and "ldUsername l = userUser usr"
  shows "isErr (result (Login E mac l) (exec (UpdatePassword E i d) s))"
proof -
  let ?g = "\<lambda>u. u\<lparr>userUser := userUser usr, userPwd := [], userUpdatedTime := now E\<rparr>"
  let ?s = "exec (UpdatePassword E i d) s"
  have users: "dbUsers ?s = updateRows (\<lambda>u. userID u = userID usr) ?g (dbUsers s)"
    using assms(1-4) by (auto simp: UpdatePassword_def updateUserRow_def run split: if_splits)
  have usr: "usr \<in> set (dbUsers s)" "userID usr = i"
    using assms(2) rowById_in rowById_id unfolding firstUser_def by fast+
  have "userPwd u = []" if u: "u \<in> set (dbUsers ?s)" "userUser u = userUser usr" for u
  proof -
    obtain v where v: "v \<in> set (dbUsers s)" "u = (if userID v = userID usr then ?g v else v)"
      using u(1) by (auto simp: users set_updateRows)
    then have "userUser v = userUser usr \<or> userID v = userID usr" using u(2) by (auto split: if_splits)
    then have "v = usr" using v(1) usr(1) assms(6,7) by (auto simp: distinct_map dest: inj_onD)
    then show ?thesis using v(2) by simp
  qed
  then have pw: "find (\<lambda>u. userUser u = ldUsername l) (dbUsers ?s) = Some u \<Longrightarrow> userPwd u = []" for u
    using assms(8) by (auto simp: find_Some_iff)
  have "\<not> CheckPassword E plain []" for plain
    using assms(5) by (simp add: CheckPassword_def legacyMd5Hash_def neq_commute)
  with pw show ?thesis
    by (auto simp: Login_def run split: option.splits)
qed

definition exBcryptEnv :: env where
  "exBcryptEnv = exEnv\<lparr>hashPassword := (\<lambda>p. if 72 < length p then [] else ''$2a$'' @ p), md5Hex := (\<lambda>p. ''md5'')\<rparr>"

definition exNewPassword :: updatePasswordDto where
  "exNewPassword = \<lparr>upOldPassword = ''opensesame'', upNewPassword = replicate 73 CHR ''x'', upNewUsername = []\<rparr>"

definition exNewLogin :: loginDto where
  "exNewLogin = \<lparr>ldUsername = ''ann'', ldPassword = replicate 73 CHR ''x'', ldCaptchaId = [], ldCaptchaAnswer = []\<rparr>"

theorem long_password_locks_out_witness:
  "isErr (result (Login exBcryptEnv (\<lambda>m. m) exNewLogin)
     (exec (UpdatePassword exBcryptEnv 7 exNewPassword) (exPanel\<lparr>dbUsers := [exUser\<lparr>userPwd := ''$2a$opensesame''\<rparr>]\<rparr>)))"
proof (rule long_password_locks_out)
  let ?s = "exPanel\<lparr>dbUsers := [exUser\<lparr>userPwd := ''$2a$opensesame''\<rparr>]\<rparr>"
  show "result (UpdatePassword exBcryptEnv 7 exNewPassword) ?s = Ok ()" by code_simp
  show "firstUser ?s 7 = Some (exUser\<lparr>userPwd := ''$2a$opensesame''\<rparr>)"
    by (simp add: firstUser_def rowById_def exUser_def)
  show "upNewUsername exNewPassword = []" "hashPassword exBcryptEnv (upNewPassword exNewPassword) = []" by code_simp+
  show "\<forall>x. md5Hex exBcryptEnv x \<noteq> []" by (simp add: exBcryptEnv_def)
  show "distinct (map userID (dbUsers ?s))" "distinct (map userUser (dbUsers ?s))" by simp_all
  show "ldUsername exNewLogin = userUser (exUser\<lparr>userPwd := ''$2a$opensesame''\<rparr>)" by code_simp
qed

end
