(* ===== verification/RateLimit.thy ===== *)
theory RateLimit
  imports Prelude
begin

text \<open>
  The rate limiter of \<open>middleware/rate_limit.go\<close> in front of login and captcha: a fixed window per
  client address. The mutex makes \<open>allow\<close> and \<open>cleanup\<close> atomic, so a history is the list of their
  calls with the times at which they read the clock.
\<close>

section \<open>The limiter\<close>

record ipRecord =
  ipCount :: int
  ipResetAt :: int

record rateLimiter =
  rlRecords :: "string \<Rightarrow> ipRecord option"
  rlLimit :: int
  rlWindow :: int

definition newRateLimiter :: "int \<Rightarrow> int \<Rightarrow> rateLimiter" where
  "newRateLimiter limit window = \<lparr>rlRecords = (\<lambda>_. None), rlLimit = limit, rlWindow = window\<rparr>"

text \<open>Durations are nanoseconds.\<close>

definition minuteNs :: int where
  "minuteNs = 60 * 1000000000"

definition loginLimiter :: rateLimiter where
  "loginLimiter = newRateLimiter 10 minuteNs"

definition captchaLimiter :: rateLimiter where
  "captchaLimiter = newRateLimiter 20 minuteNs"

definition allow :: "int \<Rightarrow> string \<Rightarrow> rateLimiter \<Rightarrow> bool \<times> rateLimiter" where
  "allow now ip rl =
     (case rlRecords rl ip of
        None \<Rightarrow> (True, rl\<lparr>rlRecords := (rlRecords rl)(ip \<mapsto> \<lparr>ipCount = 1, ipResetAt = now + rlWindow rl\<rparr>)\<rparr>)
      | Some rec \<Rightarrow>
          if ipResetAt rec < now
          then (True, rl\<lparr>rlRecords := (rlRecords rl)(ip \<mapsto> \<lparr>ipCount = 1, ipResetAt = now + rlWindow rl\<rparr>)\<rparr>)
          else (ipCount rec + 1 \<le> rlLimit rl,
                rl\<lparr>rlRecords := (rlRecords rl)(ip \<mapsto> rec\<lparr>ipCount := ipCount rec + 1\<rparr>)\<rparr>))"

definition cleanup :: "int \<Rightarrow> rateLimiter \<Rightarrow> rateLimiter" where
  "cleanup now rl = rl\<lparr>rlRecords := (\<lambda>ip. case rlRecords rl ip of
     None \<Rightarrow> None | Some rec \<Rightarrow> if ipResetAt rec < now then None else Some rec)\<rparr>"

text \<open>What the middleware does with a request: answer 429 and stop, or hand it on.\<close>

datatype verdict = TooManyRequests | Passed

definition rateLimitMiddleware :: "int \<Rightarrow> string \<Rightarrow> rateLimiter \<Rightarrow> verdict \<times> rateLimiter" where
  "rateLimitMiddleware now ip rl = (let (ok, rl') = allow now ip rl in (if ok then Passed else TooManyRequests, rl'))"

section \<open>Histories\<close>

datatype event = Request (eventIp: string) (eventTime: int) | Cleanup (eventTime: int)

text \<open>The requests that a history lets through, with their times.\<close>

fun served :: "rateLimiter \<Rightarrow> event list \<Rightarrow> (string \<times> int) list" where
  "served rl [] = []"
| "served rl (Request ip t # es) =
     (let (v, rl') = rateLimitMiddleware t ip rl in (if v = Passed then [(ip, t)] else []) @ served rl' es)"
| "served rl (Cleanup t # es) = served (cleanup t rl) es"

definition inOrder :: "event list \<Rightarrow> bool" where
  "inOrder es = sorted (map eventTime es)"

text \<open>The requests of one address in an interval of the clock.\<close>

definition servedIn :: "string \<Rightarrow> int \<Rightarrow> int \<Rightarrow> (string \<times> int) list \<Rightarrow> nat" where
  "servedIn ip a b xs = length (filter (\<lambda>(i, t). i = ip \<and> a \<le> t \<and> t \<le> b) xs)"

lemma servedIn_simps [simp]:
  "servedIn ip a b [] = 0"
  "servedIn ip a b (x # xs) = (if fst x = ip \<and> a \<le> snd x \<and> snd x \<le> b then 1 else 0) + servedIn ip a b xs"
  "servedIn ip a b (xs @ ys) = servedIn ip a b xs + servedIn ip a b ys"
  by (auto simp: servedIn_def case_prod_unfold)

lemma inOrder_Cons: "inOrder (e # es) \<longleftrightarrow> (\<forall>e' \<in> set es. eventTime e \<le> eventTime e') \<and> inOrder es"
  by (simp add: inOrder_def)

definition positive :: "rateLimiter \<Rightarrow> bool" where
  "positive rl = (1 \<le> rlLimit rl \<and> (\<forall>ip r. rlRecords rl ip = Some r \<longrightarrow> 1 \<le> ipCount r))"

text \<open>How many more requests the record of an address lets through in its window.\<close>

definition budget :: "rateLimiter \<Rightarrow> string \<Rightarrow> nat" where
  "budget rl ip = (case rlRecords rl ip of None \<Rightarrow> 0 | Some r \<Rightarrow> nat (rlLimit rl - ipCount r))"

text \<open>A step that serves the address takes from its budget, or opens a window of its own.\<close>

lemma middleware_cases:
  obtains (other) "ip' \<noteq> ip" "rlRecords (snd (rateLimitMiddleware t ip' rl)) ip = rlRecords rl ip"
  | (fresh) "ip' = ip" "fst (rateLimitMiddleware t ip' rl) = Passed" "\<forall>r. rlRecords rl ip = Some r \<longrightarrow> ipResetAt r < t"
      "rlRecords (snd (rateLimitMiddleware t ip' rl)) ip = Some \<lparr>ipCount = 1, ipResetAt = t + rlWindow rl\<rparr>"
  | (counted) r where "ip' = ip" "rlRecords rl ip = Some r" "t \<le> ipResetAt r"
      "fst (rateLimitMiddleware t ip' rl) = (if ipCount r + 1 \<le> rlLimit rl then Passed else TooManyRequests)"
      "rlRecords (snd (rateLimitMiddleware t ip' rl)) ip = Some (r\<lparr>ipCount := ipCount r + 1\<rparr>)"
proof (cases "ip' = ip")
  case False
  then show ?thesis using other by (auto simp: rateLimitMiddleware_def allow_def Let_def split: option.splits)
next
  case True
  show ?thesis
  proof (cases "\<forall>r. rlRecords rl ip = Some r \<longrightarrow> ipResetAt r < t")
    case e: True
    then show ?thesis
      using fresh True by (auto simp: rateLimitMiddleware_def allow_def Let_def split: option.splits)
  next
    case False
    then obtain r where "rlRecords rl ip = Some r" "t \<le> ipResetAt r" by auto
    then show ?thesis using counted [of r] True by (simp add: rateLimitMiddleware_def allow_def Let_def)
  qed
qed

lemma middleware_fixed [simp]:
  "rlLimit (snd (rateLimitMiddleware t ip rl)) = rlLimit rl"
  "rlWindow (snd (rateLimitMiddleware t ip rl)) = rlWindow rl"
  "rlLimit (cleanup t rl) = rlLimit rl" "rlWindow (cleanup t rl) = rlWindow rl"
  by (simp_all add: rateLimitMiddleware_def allow_def cleanup_def Let_def split: option.splits)

lemma positiveD: "positive rl \<Longrightarrow> rlRecords rl ip = Some r \<Longrightarrow> 1 \<le> ipCount r"
  by (simp add: positive_def)

lemma budget_simps:
  "rlRecords rl ip = None \<Longrightarrow> budget rl ip = 0"
  "rlRecords rl ip = Some r \<Longrightarrow> budget rl ip = nat (rlLimit rl - ipCount r)"
  by (simp_all add: budget_def)

lemma budget_same: "rlRecords rl' ip = rlRecords rl ip \<Longrightarrow> rlLimit rl' = rlLimit rl \<Longrightarrow> budget rl' ip = budget rl ip"
  by (simp add: budget_def cong: option.case_cong)

lemma positive_step:
  assumes "positive rl"
  shows "positive (snd (rateLimitMiddleware t ip rl))" "positive (cleanup t rl)"
proof -
  have "1 \<le> ipCount r" if "rlRecords (snd (rateLimitMiddleware t ip rl)) i = Some r" for i r
    using that positiveD [OF assms, of i] by (cases rule: middleware_cases [of ip i t rl]) force+
  with assms show "positive (snd (rateLimitMiddleware t ip rl))" by (simp add: positive_def)
  show "positive (cleanup t rl)"
    using assms by (auto simp: positive_def cleanup_def split: option.splits if_splits)
qed

lemma served_Request:
  "served rl (Request ip t # es) = (if fst (rateLimitMiddleware t ip rl) = Passed then [(ip, t)] else []) @
     served (snd (rateLimitMiddleware t ip rl)) es"
  by (simp add: case_prod_unfold Let_def)

lemma servedIn_head:
  "servedIn ip a b (served rl (Request ip' t # es)) \<le>
     (if ip' = ip \<and> fst (rateLimitMiddleware t ip' rl) = Passed then 1 else 0) +
     servedIn ip a b (served (snd (rateLimitMiddleware t ip' rl)) es)"
  by (simp add: served_Request del: served.simps(2))

lemma nat_spend: "nat (l - c) = (if c + 1 \<le> l then 1 else 0) + nat (l - (c + 1))" for l c :: int
  by auto

lemma served_late: "\<forall>e \<in> set es. b < eventTime e \<Longrightarrow> servedIn ip a b (served rl es) = 0"
proof (induction es arbitrary: rl)
  case Nil
  then show ?case by simp
next
  case (Cons e es)
  then show ?case by (cases e) (auto simp: served_Request simp del: served.simps(2))
qed

text \<open>Inside the window of a record at most its budget is served.\<close>

lemma served_in_window:
  assumes "inOrder es" "rlRecords rl ip = Some r" "b \<le> ipResetAt r"
  shows "servedIn ip a b (served rl es) \<le> budget rl ip"
  using assms
proof (induction es arbitrary: rl r)
  case Nil
  then show ?case by simp
next
  case (Cons e es)
  have es: "inOrder es" using Cons.prems(1) by (simp add: inOrder_Cons)
  show ?case
  proof (cases "eventTime e \<le> b")
    case False
    then have "\<forall>e' \<in> set (e # es). b < eventTime e'" using Cons.prems(1) by (force simp: inOrder_Cons)
    then show ?thesis using served_late by force
  next
    case early: True
    show ?thesis
    proof (cases e)
      case (Request ip' t)
      let ?rl = "snd (rateLimitMiddleware t ip' rl)"
      show ?thesis
      proof (cases rule: middleware_cases [of ip' ip t rl])
        case other
        have "budget ?rl ip = budget rl ip" by (rule budget_same [OF other(2)]) simp
        with other Cons.IH [OF es, of ?rl r] Cons.prems(2,3) show ?thesis
          by (simp add: Request served_Request del: served.simps(2))
      next
        case fresh
        then show ?thesis using Cons.prems(2,3) early Request by auto
      next
        case (counted r')
        have r: "r' = r" using counted(2) Cons.prems(2) by simp
        have "servedIn ip a b (served ?rl es) \<le> nat (rlLimit rl - (ipCount r + 1))"
          using Cons.IH [OF es counted(5)] Cons.prems(3) counted(5) by (simp add: r budget_simps)
        then have "servedIn ip a b (served rl (e # es)) \<le> nat (rlLimit rl - ipCount r)"
          using servedIn_head [of ip a b rl ip' t es] counted(1,4) nat_spend [of "rlLimit rl" "ipCount r"]
          unfolding Request r by (simp del: served.simps(2) split: if_splits)
        then show ?thesis using Cons.prems(2) by (simp add: budget_simps)
      qed
    next
      case (Cleanup t)
      have "rlRecords (cleanup t rl) ip = Some r"
        using Cons.prems(2,3) early Cleanup by (simp add: cleanup_def)
      with Cons.IH [OF es this Cons.prems(3)] Cons.prems(2) show ?thesis by (simp add: Cleanup budget_simps)
    qed
  qed
qed

lemma budget_cleanup: "budget (cleanup t rl) ip \<le> budget rl ip"
  by (simp add: budget_def cleanup_def split: option.splits)

text \<open>From a time on, what is left of the current window and one more window.\<close>

lemma served_from:
  assumes "inOrder es" "positive rl" "\<forall>e \<in> set es. a \<le> eventTime e"
  shows "servedIn ip a (a + rlWindow rl) (served rl es) \<le> budget rl ip + nat (rlLimit rl)"
  using assms
proof (induction es arbitrary: rl)
  case Nil
  then show ?case by simp
next
  case (Cons e es)
  have es: "inOrder es" "\<forall>e \<in> set es. a \<le> eventTime e" using Cons.prems(1,3) by (simp_all add: inOrder_Cons)
  have limit: "1 \<le> rlLimit rl" using Cons.prems(2) by (simp add: positive_def)
  show ?case
  proof (cases e)
    case (Request ip' t)
    let ?rl = "snd (rateLimitMiddleware t ip' rl)"
    note IH = Cons.IH [OF es(1) positive_step(1) [OF Cons.prems(2)] es(2), of t ip', unfolded middleware_fixed]
    show ?thesis
    proof (cases rule: middleware_cases [of ip' ip t rl])
      case other
      have "budget ?rl ip = budget rl ip" by (rule budget_same [OF other(2)]) simp
      with other IH show ?thesis by (simp add: Request served_Request del: served.simps(2))
    next
      case fresh
      then have "servedIn ip a (a + rlWindow rl) (served ?rl es) \<le> nat (rlLimit rl - 1)"
        using served_in_window [OF es(1) fresh(4), of "a + rlWindow rl" a] Cons.prems(3) Request
        by (simp add: budget_simps)
      then have "servedIn ip a (a + rlWindow rl) (served rl (e # es)) \<le> 1 + nat (rlLimit rl - 1)"
        using servedIn_head [of ip a "a + rlWindow rl" rl ip' t es] fresh(1,2) unfolding Request
        by (simp del: served.simps(2))
      with limit show ?thesis by simp
    next
      case (counted r)
      have "servedIn ip a (a + rlWindow rl) (served ?rl es) \<le> nat (rlLimit rl - (ipCount r + 1)) + nat (rlLimit rl)"
        using IH counted(5) by (simp add: budget_simps)
      then have "servedIn ip a (a + rlWindow rl) (served rl (e # es)) \<le> nat (rlLimit rl - ipCount r) + nat (rlLimit rl)"
        using servedIn_head [of ip a "a + rlWindow rl" rl ip' t es] counted(1,4) nat_spend [of "rlLimit rl" "ipCount r"]
        unfolding Request by (simp del: served.simps(2) split: if_splits)
      then show ?thesis using counted(2) by (simp add: budget_simps)
    qed
  next
    case (Cleanup t)
    have "servedIn ip a (a + rlWindow rl) (served (cleanup t rl) es) \<le> budget (cleanup t rl) ip + nat (rlLimit rl)"
      using Cons.IH [OF es(1) positive_step(2) [OF Cons.prems(2)] es(2), of t] by simp
    with budget_cleanup [of t rl ip] show ?thesis by (simp add: Cleanup)
  qed
qed

lemma budget_positive: "positive rl \<Longrightarrow> budget rl ip \<le> nat (rlLimit rl - 1)"
  using positiveD [of rl ip] by (auto simp: budget_def split: option.splits)

lemma served_any:
  assumes "inOrder es" "positive rl"
  shows "servedIn ip a (a + rlWindow rl) (served rl es) \<le> nat (rlLimit rl - 1) + nat (rlLimit rl)"
  using assms
proof (induction es arbitrary: rl)
  case Nil
  then show ?case by simp
next
  case (Cons e es)
  show ?case
  proof (cases "a \<le> eventTime e")
    case True
    then have "\<forall>e' \<in> set (e # es). a \<le> eventTime e'" using Cons.prems(1) by (force simp: inOrder_Cons)
    from served_from [OF Cons.prems this, of ip] budget_positive [OF Cons.prems(2), of ip] show ?thesis by simp
  next
    case False
    have es: "inOrder es" using Cons.prems(1) by (simp add: inOrder_Cons)
    show ?thesis
    proof (cases e)
      case (Request ip' t)
      with False Cons.IH [OF es positive_step(1) [OF Cons.prems(2)], of t ip'] show ?thesis
        by (simp add: served_Request del: served.simps(2))
    next
      case (Cleanup t)
      with Cons.IH [OF es positive_step(2) [OF Cons.prems(2)], of t] show ?thesis by simp
    qed
  qed
qed

section \<open>Properties\<close>

text \<open>C30: The rate is bounded. Whatever requests and clean-ups arrive, in the order of the clock, the
  limiter lets less than twice its limit of requests of one address through in any interval as long
  as its window; for the login, at most 19 in a minute.\<close>

theorem rate_bounded:
  assumes "inOrder es" "1 \<le> limit"
  shows "int (servedIn ip a (a + window) (served (newRateLimiter limit window) es)) < 2 * limit"
proof -
  have "positive (newRateLimiter limit window)" using assms(2) by (simp add: positive_def newRateLimiter_def)
  from served_any [OF assms(1) this, of ip a] assms(2) show ?thesis by (simp add: newRateLimiter_def)
qed

text \<open>The bound is reached: one attempt opens the window, nine follow at its end, and ten more at
  the beginning of the next one.\<close>

definition exAttempts :: "event list" where
  "exAttempts = Request ''a'' 0 # replicate 9 (Request ''a'' minuteNs) @ replicate 12 (Request ''a'' (minuteNs + 1))"

theorem rate_bounded_witness:
  "servedIn ''a'' 1 (1 + minuteNs) (served loginLimiter exAttempts) = 19 \<and>
   int (servedIn ''a'' 1 (1 + minuteNs) (served loginLimiter exAttempts)) < 2 * 10"
proof -
  have "inOrder exAttempts" by code_simp
  moreover have "servedIn ''a'' 1 (1 + minuteNs) (served loginLimiter exAttempts) = 19" by code_simp
  ultimately show ?thesis
    using rate_bounded [of exAttempts 10 "''a''" 1 minuteNs] unfolding loginLimiter_def by simp
qed

text \<open>The periodic clean-up removes only what the next request would replace.\<close>

definition requestsOf :: "event list \<Rightarrow> event list" where
  "requestsOf es = filter (\<lambda>e. case e of Request _ _ \<Rightarrow> True | Cleanup _ \<Rightarrow> False) es"

definition cleanedTo :: "int \<Rightarrow> rateLimiter \<Rightarrow> rateLimiter \<Rightarrow> bool" where
  "cleanedTo t rl rl' = (rlLimit rl' = rlLimit rl \<and> rlWindow rl' = rlWindow rl \<and>
     (\<forall>ip. rlRecords rl' ip = rlRecords rl ip \<or> (rlRecords rl' ip = None \<and> (\<forall>r. rlRecords rl ip = Some r \<longrightarrow> ipResetAt r < t))))"

lemma cleanedToD:
  "cleanedTo t rl rl' \<Longrightarrow> rlRecords rl' ip = rlRecords rl ip \<or>
     (rlRecords rl' ip = None \<and> (\<forall>r. rlRecords rl ip = Some r \<longrightarrow> ipResetAt r < t))"
  by (simp add: cleanedTo_def)

lemma cleanedTo_mono: "cleanedTo t rl rl' \<Longrightarrow> t \<le> t' \<Longrightarrow> cleanedTo t' rl rl'"
  unfolding cleanedTo_def by (meson order_less_le_trans)

lemma cleanedTo_cleanup: "cleanedTo t rl rl' \<Longrightarrow> cleanedTo t rl (cleanup t rl')"
proof -
  assume c: "cleanedTo t rl rl'"
  have "rlRecords (cleanup t rl') ip = rlRecords rl ip \<or>
      (rlRecords (cleanup t rl') ip = None \<and> (\<forall>r. rlRecords rl ip = Some r \<longrightarrow> ipResetAt r < t))" for ip
    using cleanedToD [OF c, of ip] unfolding cleanup_def by (auto split: option.splits)
  with c show ?thesis by (simp add: cleanedTo_def)
qed

lemma cleanedTo_request:
  assumes "cleanedTo t rl rl'"
  shows "fst (rateLimitMiddleware t ip rl') = fst (rateLimitMiddleware t ip rl) \<and>
    cleanedTo t (snd (rateLimitMiddleware t ip rl)) (snd (rateLimitMiddleware t ip rl'))"
proof (cases "rlRecords rl' ip = rlRecords rl ip")
  case True
  with assms show ?thesis
    by (auto simp: cleanedTo_def rateLimitMiddleware_def allow_def Let_def split: option.splits)
next
  case False
  with assms have "rlRecords rl' ip = None" "\<And>r. rlRecords rl ip = Some r \<Longrightarrow> ipResetAt r < t"
    using cleanedToD [OF assms, of ip] by auto
  with assms show ?thesis
    by (auto simp: cleanedTo_def rateLimitMiddleware_def allow_def Let_def split: option.splits)
qed

lemma served_cleaned:
  assumes "inOrder es" "\<forall>e \<in> set es. t \<le> eventTime e" "cleanedTo t rl rl'"
  shows "served rl' es = served rl (requestsOf es)"
  using assms
proof (induction es arbitrary: t rl rl')
  case Nil
  then show ?case by (simp add: requestsOf_def)
next
  case (Cons e es)
  have es: "inOrder es" "\<forall>e' \<in> set es. eventTime e \<le> eventTime e'" using Cons.prems(1) by (simp_all add: inOrder_Cons)
  have c: "cleanedTo (eventTime e) rl rl'" using cleanedTo_mono [OF Cons.prems(3)] Cons.prems(2) by simp
  show ?case
  proof (cases e)
    case (Request ip s)
    then have r: "requestsOf (e # es) = Request ip s # requestsOf es" by (simp add: requestsOf_def)
    have c': "cleanedTo s rl rl'" using c Request by simp
    from Cons.IH [OF es(1), of s] es(2) cleanedTo_request [OF c', of ip] Request show ?thesis
      unfolding r by (simp add: served_Request del: served.simps(2))
  next
    case (Cleanup s)
    then have r: "requestsOf (e # es) = requestsOf es" by (simp add: requestsOf_def)
    have "cleanedTo s rl (cleanup s rl')" using cleanedTo_cleanup c Cleanup by simp
    from Cons.IH [OF es(1) _ this] es(2) Cleanup show ?thesis unfolding r by simp
  qed
qed

text \<open>The clean-up is invisible. The background clean-up decides nothing: a history with
  clean-ups anywhere serves the same requests as the requests alone.\<close>

theorem cleanup_invisible:
  assumes "inOrder es"
  shows "served (newRateLimiter limit window) es = served (newRateLimiter limit window) (requestsOf es)"
proof (cases es)
  case Nil
  then show ?thesis by (simp add: requestsOf_def)
next
  case (Cons e es')
  show ?thesis
  proof (rule served_cleaned [OF assms, of "eventTime e"])
    show "\<forall>e' \<in> set es. eventTime e \<le> eventTime e'" using assms by (simp add: Cons inOrder_Cons)
    show "cleanedTo (eventTime e) (newRateLimiter limit window) (newRateLimiter limit window)"
      by (simp add: cleanedTo_def)
  qed
qed

definition exCleaned :: "event list" where
  "exCleaned = [Request ''a'' 0, Cleanup 5, Request ''a'' 7, Cleanup 20, Request ''a'' 21]"

theorem cleanup_invisible_witness:
  "served (newRateLimiter 1 10) exCleaned = [(''a'', 0), (''a'', 21)] \<and>
   served (newRateLimiter 1 10) (requestsOf exCleaned) = [(''a'', 0), (''a'', 21)]"
proof -
  have "inOrder exCleaned" by code_simp
  moreover have "served (newRateLimiter 1 10) exCleaned = [(''a'', 0), (''a'', 21)]" by code_simp
  ultimately show ?thesis using cleanup_invisible [of exCleaned 1 10] by simp
qed

end
