(* ===== verification/Statistics.thy ===== *)
theory Statistics
  imports Users
begin

text \<open>
  The hourly statistics of \<open>service/statistics.go\<close> and the package overview of
  \<open>GetUserPackageInfo\<close> in \<open>service/user.go\<close>, whose chart is padded to 24 hours. Unix seconds are the
  milliseconds of the clock divided by 1000.
\<close>

section \<open>Hourly records\<close>

definition twoDigits :: "int \<Rightarrow> string" where
  "twoDigits h = (if 0 \<le> h \<and> h < 10 then CHR ''0'' # itoa h else itoa h)"

definition hourLabel :: "int \<Rightarrow> string" where
  "hourLabel h = twoDigits h @ '':00''"

definition nonAdmins :: "panel \<Rightarrow> user list" where
  "nonAdmins s = filter (\<lambda>u. userRoleId u \<noteq> 0) (dbUsers s)"

text \<open>\<open>Order("id DESC").First\<close>: the last row of the user.\<close>

definition lastStatFlow :: "panel \<Rightarrow> int \<Rightarrow> statisticsFlow option" where
  "lastStatFlow s u = find (\<lambda>r. sfUserId r = u) (rev (dbStatFlows s))"

definition incrementalFlow :: "panel \<Rightarrow> int \<Rightarrow> int \<Rightarrow> int" where
  "incrementalFlow s u totalFlow =
     (case lastStatFlow s u of
        None \<Rightarrow> totalFlow
      | Some lastRecord \<Rightarrow>
          let d = subI64 totalFlow (sfTotalFlow lastRecord) in if d < 0 then 0 else d)"

definition nextId :: "panel \<Rightarrow> string \<Rightarrow> int" where
  "nextId s t = dbAutoInc s t"

definition useId :: "string \<Rightarrow> panel \<Rightarrow> panel" where
  "useId t s = s\<lparr>dbAutoInc := (dbAutoInc s)(t := dbAutoInc s t + 1)\<rparr>"

definition recordUserHour :: "env \<Rightarrow> user \<Rightarrow> unit prog" where
  "recordUserHour E u = modify (\<lambda>s.
     let totalFlow = addI64 (userInFlow u) (userOutFlow u)
     in useId ''statistics_flow'' (s\<lparr>dbStatFlows := dbStatFlows s @
       [\<lparr>sfID = nextId s ''statistics_flow'', sfUserId = userID u, sfFlow = incrementalFlow s (userID u) totalFlow,
         sfTotalFlow = totalFlow, sfTime = hourLabel (todayHour E), sfCreatedTime = now E\<rparr>]\<rparr>))"

definition recordForward :: "env \<Rightarrow> forward \<Rightarrow> unit prog" where
  "recordForward E f = modify (\<lambda>s. useId ''statistics_forward_flow'' (s\<lparr>dbStatForwardFlows := dbStatForwardFlows s @
     [\<lparr>sffID = nextId s ''statistics_forward_flow'', sffForwardId = fwdID f, sffInFlow = fwdInFlow f,
       sffOutFlow = fwdOutFlow f, sffRecordTime = now E div 1000\<rparr>]\<rparr>))"

definition RecordForwardFlowSnapshots :: "env \<Rightarrow> unit prog" where
  "RecordForwardFlowSnapshots E = do {
     forwards \<leftarrow> gets dbForwards;
     forEach (recordForward E) forwards }"

text \<open>\<open>GROUP BY inbound_id\<close>: one row per inbound that has clients, in any order.\<close>

definition inboundFlows :: "panel \<Rightarrow> (int \<times> int \<times> int) list" where
  "inboundFlows s = map (\<lambda>i. (i, sum_list (map xcUpTraffic (filter (\<lambda>c. xcInboundId c = i) (dbClients s))),
       sum_list (map xcDownTraffic (filter (\<lambda>c. xcInboundId c = i) (dbClients s)))))
     (remdups (map xcInboundId (dbClients s)))"

definition recordInbound :: "env \<Rightarrow> int \<times> int \<times> int \<Rightarrow> unit prog" where
  "recordInbound E row = (case row of (i, u, d) \<Rightarrow> modify (\<lambda>s. useId ''statistics_xray_flow'' (s\<lparr>dbStatXrayFlows :=
     dbStatXrayFlows s @ [\<lparr>sxID = nextId s ''statistics_xray_flow'', sxInboundId = i, sxUpFlow = u, sxDownFlow = d,
       sxRecordTime = now E div 1000\<rparr>]\<rparr>)))"

definition RecordXrayFlowSnapshots :: "env \<Rightarrow> unit prog" where
  "RecordXrayFlowSnapshots E = do {
     rows \<leftarrow> gets inboundFlows;
     forEach (recordInbound E) rows }"

definition recordUserFlow :: "env \<Rightarrow> user \<Rightarrow> unit prog" where
  "recordUserFlow E u = modify (\<lambda>s. useId ''statistics_user_flow'' (s\<lparr>dbStatUserFlows := dbStatUserFlows s @
     [\<lparr>suID = nextId s ''statistics_user_flow'', suUserId = userID u, suGostFlow = addI64 (userInFlow u) (userOutFlow u),
       suXrayFlow = addI64 (userXrayInFlow u) (userXrayOutFlow u), suRecordTime = now E div 1000\<rparr>]\<rparr>))"

definition RecordUserFlowSnapshots :: "env \<Rightarrow> unit prog" where
  "RecordUserFlowSnapshots E = do {
     users \<leftarrow> gets nonAdmins;
     forEach (recordUserFlow E) users }"

definition retentionDays :: "panel \<Rightarrow> int" where
  "retentionDays s =
     (case find (\<lambda>c. vcName c = ''monitor_retention_days'') (dbViteConfigs s) of
        None \<Rightarrow> 7
      | Some cfg \<Rightarrow> (case parseInt (vcValue cfg) of None \<Rightarrow> 7 | Some v \<Rightarrow> if 0 < v then v else 7))"

definition CleanOldMonitorData :: "env \<Rightarrow> unit prog" where
  "CleanOldMonitorData E = modify (\<lambda>s.
     let cutoff = subI64 (now E div 1000) (mulI64 (retentionDays s) 86400)
     in s\<lparr>dbStatForwardFlows := deleteRows (\<lambda>r. sffRecordTime r < cutoff) (dbStatForwardFlows s),
          dbStatXrayFlows := deleteRows (\<lambda>r. sxRecordTime r < cutoff) (dbStatXrayFlows s),
          dbStatUserFlows := deleteRows (\<lambda>r. suRecordTime r < cutoff) (dbStatUserFlows s),
          dbLatencies := deleteRows (\<lambda>r. mlRecordTime r < cutoff) (dbLatencies s)\<rparr>)"

definition RecordHourlyStatistics :: "env \<Rightarrow> unit prog" where
  "RecordHourlyStatistics E = do {
     users \<leftarrow> gets nonAdmins;
     forEach (recordUserHour E) users;
     modify (\<lambda>s. s\<lparr>dbStatFlows := deleteRows (\<lambda>r. sfCreatedTime r < now E - 48 * 60 * 60 * 1000) (dbStatFlows s)\<rparr>);
     RecordForwardFlowSnapshots E;
     RecordXrayFlowSnapshots E;
     RecordUserFlowSnapshots E;
     CleanOldMonitorData E }"

section \<open>The package overview\<close>

record userInfoDto =
  uiID :: int
  uiUser :: string
  uiStatus :: int
  uiFlow :: int
  uiInFlow :: int
  uiOutFlow :: int
  uiXrayFlow :: int
  uiXrayInFlow :: int
  uiXrayOutFlow :: int
  uiNum :: int
  uiExpTime :: int
  uiFlowResetType :: int
  uiFlowResetDay :: int
  uiGostEnabled :: int
  uiXrayEnabled :: int
  uiCreatedTime :: int
  uiUpdatedTime :: int

record userTunnelDetailDto =
  tdvID :: int
  tdvUserId :: int
  tdvTunnelId :: int
  tdvTunnelName :: string
  tdvTunnelFlow :: int
  tdvFlow :: int
  tdvInFlow :: int
  tdvOutFlow :: int
  tdvNum :: int
  tdvFlowResetType :: int
  tdvFlowResetDay :: int
  tdvExpTime :: int
  tdvSpeedId :: "int option"
  tdvSpeedLimitName :: string
  tdvSpeed :: "int option"
  tdvStatus :: int

record userForwardDetailDto =
  ufdID :: int
  ufdName :: string
  ufdTunnelId :: int
  ufdTunnelName :: string
  ufdInIp :: string
  ufdInPort :: int
  ufdRemoteAddr :: string
  ufdInFlow :: int
  ufdOutFlow :: int
  ufdStatus :: int
  ufdCreatedTime :: int

record userPackageDto =
  pkgUserInfo :: userInfoDto
  pkgTunnelPermissions :: "userTunnelDetailDto list"
  pkgForwards :: "userForwardDetailDto list"
  pkgStatisticsFlows :: "statisticsFlow list"

definition userInfoOf :: "user \<Rightarrow> userInfoDto" where
  "userInfoOf u = \<lparr>uiID = userID u, uiUser = userUser u, uiStatus = userStatus u, uiFlow = userFlow u,
     uiInFlow = userInFlow u, uiOutFlow = userOutFlow u, uiXrayFlow = userXrayFlow u,
     uiXrayInFlow = userXrayInFlow u, uiXrayOutFlow = userXrayOutFlow u, uiNum = userNum u,
     uiExpTime = userExpTime u, uiFlowResetType = userFlowResetType u, uiFlowResetDay = userFlowResetDay u,
     uiGostEnabled = userGostEnabled u, uiXrayEnabled = userXrayEnabled u, uiCreatedTime = userCreatedTime u,
     uiUpdatedTime = userUpdatedTime u\<rparr>"

text \<open>The text the admin query selects as the name of a missing limit.\<close>

definition msgUnlimited :: string where
  "msgUnlimited = map char_of [0xE6, 0x97, 0xA0, 0xE9, 0x99, 0x90, 0xE5, 0x88, 0xB6 :: nat]"

definition adminTunnelDetails :: "panel \<Rightarrow> userTunnelDetailDto list" where
  "adminTunnelDetails s = map (\<lambda>t. \<lparr>tdvID = tunID t, tdvUserId = 0, tdvTunnelId = tunID t, tdvTunnelName = tunName t,
       tdvTunnelFlow = tunFlow t, tdvFlow = 99999, tdvInFlow = 0, tdvOutFlow = 0, tdvNum = 99999,
       tdvFlowResetType = 0, tdvFlowResetDay = 0, tdvExpTime = 0, tdvSpeedId = None,
       tdvSpeedLimitName = msgUnlimited, tdvSpeed = None, tdvStatus = 1\<rparr>)
     (filter (\<lambda>t. tunStatus t = 1) (dbTunnels s))"

definition userTunnelDetails :: "panel \<Rightarrow> int \<Rightarrow> userTunnelDetailDto list" where
  "userTunnelDetails s userId = map (\<lambda>ut.
       let t = firstTunnel s (utTunnelId ut);
           sl = (case utSpeedId ut of None \<Rightarrow> None | Some i \<Rightarrow> rowById slID i (dbSpeedLimits s))
       in \<lparr>tdvID = utID ut, tdvUserId = utUserId ut, tdvTunnelId = utTunnelId ut,
           tdvTunnelName = (case t of None \<Rightarrow> [] | Some x \<Rightarrow> tunName x),
           tdvTunnelFlow = (case t of None \<Rightarrow> 0 | Some x \<Rightarrow> tunFlow x), tdvFlow = utFlow ut,
           tdvInFlow = utInFlow ut, tdvOutFlow = utOutFlow ut, tdvNum = utNum ut,
           tdvFlowResetType = utFlowResetType ut, tdvFlowResetDay = utFlowResetDay ut, tdvExpTime = utExpTime ut,
           tdvSpeedId = utSpeedId ut, tdvSpeedLimitName = (case sl of None \<Rightarrow> [] | Some x \<Rightarrow> slName x),
           tdvSpeed = map_option slSpeed sl, tdvStatus = utStatus ut\<rparr>)
     (filter (\<lambda>ut. utUserId ut = userId) (dbUserTunnels s))"

definition userForwardDetails :: "panel \<Rightarrow> int \<Rightarrow> userForwardDetailDto list" where
  "userForwardDetails s userId = map (\<lambda>f.
       let t = firstTunnel s (fwdTunnelId f)
       in \<lparr>ufdID = fwdID f, ufdName = fwdName f, ufdTunnelId = fwdTunnelId f,
           ufdTunnelName = (case t of None \<Rightarrow> [] | Some x \<Rightarrow> tunName x),
           ufdInIp = (case t of None \<Rightarrow> [] | Some x \<Rightarrow> tunInIp x), ufdInPort = fwdInPort f,
           ufdRemoteAddr = fwdRemoteAddr f, ufdInFlow = fwdInFlow f, ufdOutFlow = fwdOutFlow f,
           ufdStatus = fwdStatus f, ufdCreatedTime = fwdCreatedTime f\<rparr>)
     (sort_key (\<lambda>f. - fwdCreatedTime f) (filter (\<lambda>f. fwdUserId f = userId) (dbForwards s)))"

text \<open>\<open>fmt.Sscanf(s, "%d:", &h)\<close>: spaces, an optional sign, digits, then the colon.\<close>

definition scanHour :: "string \<Rightarrow> int option" where
  "scanHour str =
     (let s0 = dropWhile (\<lambda>c. c = CHR '' '' \<or> c = CHR 0x09) str;
          sign = takeWhile (\<lambda>c. c = CHR ''-'' \<or> c = CHR ''+'') (take 1 s0);
          rest = drop (length sign) s0;
          digits = takeWhile isDigit rest
      in if drop (length digits) rest \<noteq> [] \<and> hd (drop (length digits) rest) = CHR '':''
         then parseInt (sign @ digits) else None)"

definition parseHour :: "env \<Rightarrow> string \<Rightarrow> int" where
  "parseHour E timeStr =
     (if timeStr = [] then todayHour E else case scanHour timeStr of None \<Rightarrow> todayHour E | Some h \<Rightarrow> h)"

definition zeroHour :: "int \<Rightarrow> int \<Rightarrow> statisticsFlow" where
  "zeroHour userId h = \<lparr>sfID = 0, sfUserId = userId, sfFlow = 0, sfTotalFlow = 0, sfTime = hourLabel h, sfCreatedTime = 0\<rparr>"

text \<open>The padding loop.\<close>

function padFlows :: "int \<Rightarrow> statisticsFlow list \<Rightarrow> int \<Rightarrow> statisticsFlow list" where
  "padFlows userId flows startHour =
     (if length flows < 24 then
        let h = (if startHour < 0 then 23 else startHour)
        in padFlows userId (flows @ [zeroHour userId h]) (h - 1)
      else flows)"
  by pat_completeness auto
termination by (relation "measure (\<lambda>(_, flows, _). 24 - length flows)") auto

declare padFlows.simps [simp del]

definition recentFlows :: "panel \<Rightarrow> int \<Rightarrow> statisticsFlow list" where
  "recentFlows s userId = take 24 (rev (filter (\<lambda>r. sfUserId r = userId) (dbStatFlows s)))"

definition chartFlows :: "env \<Rightarrow> panel \<Rightarrow> int \<Rightarrow> statisticsFlow list" where
  "chartFlows E s userId =
     (let flows = recentFlows s userId
      in if length flows < 24
         then padFlows userId flows (if flows \<noteq> [] then parseHour E (sfTime (last flows)) - 1 else todayHour E)
         else flows)"

definition GetUserPackageInfo :: "env \<Rightarrow> panel \<Rightarrow> int \<Rightarrow> int \<Rightarrow> userPackageDto R" where
  "GetUserPackageInfo E s userId roleId =
     (case firstUser s userId of
        None \<Rightarrow> Err EUserNotFound
      | Some user \<Rightarrow> Ok \<lparr>pkgUserInfo = userInfoOf user,
          pkgTunnelPermissions = (if roleId = adminRoleId then adminTunnelDetails s else userTunnelDetails s userId),
          pkgForwards = userForwardDetails s userId,
          pkgStatisticsFlows = chartFlows E s userId\<rparr>)"

end
