(* ===== verification/StatisticsProps.thy ===== *)
theory StatisticsProps
  imports Statistics Fixtures
begin

text \<open>
  The hourly statistics and the chart: what an hourly run adds and removes, and that the chart of a
  user always has 24 bars, the recorded ones followed by empty hours going back in time.
\<close>

section \<open>The padding loop\<close>

lemma padFlows_step:
  "length flows < 24 \<Longrightarrow> padFlows u flows h =
     padFlows u (flows @ [zeroHour u (if h < 0 then 23 else h)]) ((if h < 0 then 23 else h) - 1)"
  by (subst padFlows.simps) (simp add: Let_def)

lemma padFlows_done: "\<not> length flows < 24 \<Longrightarrow> padFlows u flows h = flows"
  by (subst padFlows.simps) simp

text \<open>The hours go down by one and wrap at midnight.\<close>

lemma padFlows_hours:
  assumes "length flows \<le> 24" "-1 \<le> h" "h < 24"
  shows "padFlows u flows h = flows @ map (\<lambda>i. zeroHour u ((h - int i) mod 24)) [0..<24 - length flows]"
  using assms
proof (induction u flows h rule: padFlows.induct)
  case (1 u flows h)
  show ?case
  proof (cases "length flows < 24")
    case False
    with 1(2) show ?thesis by (simp add: padFlows_done)
  next
    case True
    define h' where "h' = (if h < 0 then 23 else h)"
    have h': "h' = h mod 24 \<and> -1 \<le> h' - 1 \<and> h' - 1 < 24"
    proof (cases "h < 0")
      case True
      with 1(3) have "h = -1" by simp
      then show ?thesis by (simp add: h'_def)
    next
      case False
      with 1(4) show ?thesis by (simp add: h'_def)
    qed
    have "padFlows u flows h = padFlows u (flows @ [zeroHour u h']) (h' - 1)"
      unfolding h'_def by (rule padFlows_step [OF True])
    also have "\<dots> = (flows @ [zeroHour u h']) @
        map (\<lambda>i. zeroHour u ((h' - 1 - int i) mod 24)) [0..<24 - length (flows @ [zeroHour u h'])]"
      using 1(1) [OF True h'_def] True h' by simp
    also have "\<dots> = flows @ map (\<lambda>i. zeroHour u ((h - int i) mod 24)) [0..<24 - length flows]"
    proof -
      obtain n where n: "24 - length flows = Suc n" "23 - length flows = n" using True by (cases "24 - length flows") simp_all
      have "[0..<24 - length flows] = 0 # map Suc [0..<23 - length flows]"
        unfolding n map_Suc_upt by (rule upt_conv_Cons) simp
      moreover have "(h' - 1 - int i) mod 24 = (h - int (Suc i)) mod 24" for i
        by (simp add: h' mod_diff_left_eq diff_diff_eq)
      ultimately show ?thesis by (simp add: h')
    qed
    finally show ?thesis .
  qed
qed

text \<open>The label of an hour reads back.\<close>

lemma parseHour_label:
  assumes "0 \<le> h" "h < 24"
  shows "parseHour E (hourLabel h) = h"
proof -
  have "list_all (\<lambda>n. scanHour (hourLabel (int n)) = Some (int n)) [0..<24]" by code_simp
  moreover have "nat h \<in> set [0..<24]" using assms by auto
  ultimately have "scanHour (hourLabel (int (nat h))) = Some (int (nat h))" unfolding list_all_iff by blast
  then show ?thesis using assms by (simp add: parseHour_def hourLabel_def)
qed

definition labelled :: "statisticsFlow \<Rightarrow> bool" where
  "labelled r = list_ex (\<lambda>h. sfTime r = hourLabel h) [0..23]"

lemma labelled_iff: "labelled r \<longleftrightarrow> (\<exists>h. 0 \<le> h \<and> h < 24 \<and> sfTime r = hourLabel h)"
  by (auto simp: labelled_def list_ex_iff)

text \<open>C31: The chart always has 24 bars. Whatever is recorded for a user, the overview shows exactly 24
  rows: his latest records, newest first, then rows with zero traffic for the hours before the
  oldest of them (or from the present hour, when nothing is recorded), going back one hour at a
  time and around midnight.\<close>

theorem chart_is_full:
  assumes "0 \<le> todayHour E" "todayHour E < 24" "\<forall>r \<in> set (dbStatFlows s). labelled r"
  shows "length (chartFlows E s u) = 24 \<and>
    (\<exists>start. chartFlows E s u = recentFlows s u @
        map (\<lambda>i. zeroHour u ((start - int i) mod 24)) [0..<24 - length (recentFlows s u)] \<and>
      start = (if recentFlows s u = [] then todayHour E else parseHour E (sfTime (last (recentFlows s u))) - 1))"
proof -
  let ?fs = "recentFlows s u"
  define start where "start = (if ?fs = [] then todayHour E else parseHour E (sfTime (last ?fs)) - 1)"
  have "set ?fs \<subseteq> set (dbStatFlows s)" by (auto simp: recentFlows_def dest: in_set_takeD)
  then have "?fs \<noteq> [] \<Longrightarrow> last ?fs \<in> set (dbStatFlows s)" using last_in_set [of ?fs] by blast
  then have "?fs \<noteq> [] \<Longrightarrow> labelled (last ?fs)" using assms(3) by blast
  then have "-1 \<le> start \<and> start < 24"
    using assms(1,2) by (cases "?fs = []") (auto simp: start_def labelled_iff parseHour_label)
  moreover have le: "length ?fs \<le> 24" by (simp add: recentFlows_def)
  ultimately have pad: "padFlows u ?fs start = ?fs @ map (\<lambda>i. zeroHour u ((start - int i) mod 24)) [0..<24 - length ?fs]"
    by (intro padFlows_hours) simp_all
  have "chartFlows E s u = padFlows u ?fs start"
    by (cases "length ?fs < 24") (simp_all add: chartFlows_def Let_def start_def padFlows_done)
  with pad le show ?thesis unfolding start_def by auto
qed

definition exHours :: panel where
  "exHours = exPanel\<lparr>dbStatFlows := [(zeroHour 7 23)\<lparr>sfFlow := 5\<rparr>, (zeroHour 7 0)\<lparr>sfFlow := 6\<rparr>, zeroHour 8 1]\<rparr>"

theorem chart_is_full_witness:
  "length (chartFlows exEnv exHours 7) = 24 \<and>
   map sfTime (take 4 (chartFlows exEnv exHours 7)) = [''00:00'', ''23:00'', ''22:00'', ''21:00'']"
proof -
  have "list_all labelled (dbStatFlows exHours)" by code_simp
  moreover have "0 \<le> todayHour exEnv" "todayHour exEnv < 24" by code_simp+
  ultimately have "length (chartFlows exEnv exHours 7) = 24" using chart_is_full [of exEnv exHours 7] unfolding list_all_iff by blast
  moreover have "map sfTime (take 4 (chartFlows exEnv exHours 7)) = [''00:00'', ''23:00'', ''22:00'', ''21:00'']" by code_simp
  ultimately show ?thesis ..
qed

section \<open>An hourly run\<close>

definition hourRow :: "statisticsFlow \<Rightarrow> int \<times> int \<times> int" where
  "hourRow r = (sfUserId r, sfFlow r, sfTotalFlow r)"

definition totalOf :: "user \<Rightarrow> int" where
  "totalOf u = addI64 (userInFlow u) (userOutFlow u)"

lemma statFlows_recordUserHour:
  "\<exists>i. dbStatFlows (exec (recordUserHour E u) s) = dbStatFlows s @
     [\<lparr>sfID = i, sfUserId = userID u, sfFlow = incrementalFlow s (userID u) (totalOf u), sfTotalFlow = totalOf u,
       sfTime = hourLabel (todayHour E), sfCreatedTime = now E\<rparr>]"
  by (simp add: recordUserHour_def totalOf_def useId_def Let_def)

lemma incrementalFlow_append:
  "sfUserId r \<noteq> u \<Longrightarrow> dbStatFlows s' = dbStatFlows s @ [r] \<Longrightarrow> incrementalFlow s' u t = incrementalFlow s u t"
  by (simp add: incrementalFlow_def lastStatFlow_def)

lemma statFlows_recordLoop:
  assumes "distinct (map userID us)"
  shows "\<exists>rows. dbStatFlows (exec (forEach (recordUserHour E) us) s) = dbStatFlows s @ rows \<and>
    map hourRow rows = map (\<lambda>u. (userID u, incrementalFlow s (userID u) (totalOf u), totalOf u)) us \<and>
    (\<forall>r \<in> set rows. sfTime r = hourLabel (todayHour E) \<and> sfCreatedTime r = now E)"
  using assms
proof (induction us arbitrary: s)
  case Nil
  then show ?case by simp
next
  case (Cons u us)
  let ?s = "exec (recordUserHour E u) s"
  obtain r where r: "dbStatFlows ?s = dbStatFlows s @ [r]" "hourRow r = (userID u, incrementalFlow s (userID u) (totalOf u), totalOf u)"
    "sfTime r = hourLabel (todayHour E)" "sfCreatedTime r = now E"
    using statFlows_recordUserHour [of E u s] by (auto simp: hourRow_def)
  obtain rows where rows: "dbStatFlows (exec (forEach (recordUserHour E) us) ?s) = dbStatFlows ?s @ rows"
    "map hourRow rows = map (\<lambda>u. (userID u, incrementalFlow ?s (userID u) (totalOf u), totalOf u)) us"
    "\<forall>r \<in> set rows. sfTime r = hourLabel (todayHour E) \<and> sfCreatedTime r = now E"
    using Cons.IH [of ?s] Cons.prems by auto
  have "incrementalFlow ?s (userID v) (totalOf v) = incrementalFlow s (userID v) (totalOf v)" if "v \<in> set us" for v
    using incrementalFlow_append [OF _ r(1)] r(2) Cons.prems that by (force simp: hourRow_def)
  with rows(2) have "map hourRow (r # rows) = map (\<lambda>u. (userID u, incrementalFlow s (userID u) (totalOf u), totalOf u)) (u # us)"
    using r(2) by simp
  with r rows show ?case by (intro exI [of _ "r # rows"]) simp
qed

lemma statFlows_frames:
  "keeps (\<lambda>s. dbStatFlows s = x) (RecordForwardFlowSnapshots E)"
  "keeps (\<lambda>s. dbStatFlows s = x) (RecordXrayFlowSnapshots E)"
  "keeps (\<lambda>s. dbStatFlows s = x) (RecordUserFlowSnapshots E)"
  "keeps (\<lambda>s. dbStatFlows s = x) (CleanOldMonitorData E)"
  unfolding RecordForwardFlowSnapshots_def RecordXrayFlowSnapshots_def RecordUserFlowSnapshots_def
    CleanOldMonitorData_def recordForward_def recordInbound_def recordUserFlow_def
  by (intro keeps_intro keeps_modify; simp add: useId_def Let_def)+

lemma statFlows_hourly:
  "dbStatFlows (exec (RecordHourlyStatistics E) s) =
     deleteRows (\<lambda>r. sfCreatedTime r < now E - 48 * 60 * 60 * 1000) (dbStatFlows (exec (forEach (recordUserHour E) (nonAdmins s)) s))"
proof -
  let ?rest = "do { RecordForwardFlowSnapshots E; RecordXrayFlowSnapshots E; RecordUserFlowSnapshots E; CleanOldMonitorData E }"
  have "keeps (\<lambda>s. dbStatFlows s = x) ?rest" for x by (intro keeps_intro statFlows_frames)
  from keepsD [OF this refl] show ?thesis by (simp add: RecordHourlyStatistics_def)
qed

lemma find_in: "find P xs = Some r \<Longrightarrow> r \<in> set xs \<and> P r"
  by (induction xs) (auto split: if_splits)

lemma lastStatFlow_in: "lastStatFlow s u = Some r \<Longrightarrow> r \<in> set (dbStatFlows s) \<and> sfUserId r = u"
  using find_in [of "\<lambda>r. sfUserId r = u" "rev (dbStatFlows s)" r] by (simp add: lastStatFlow_def)

text \<open>What an hourly run records. For every account but the administrator's it adds one row
  stamped with the present hour: the counter's total, and as the traffic of the hour the growth
  since the account's last row, the whole counter when there is none, and zero when the counter has
  gone down. Rows of the last 48 hours stay, older ones go.\<close>

theorem hourly_records:
  assumes "distinct (map userID (dbUsers s))"
    and "\<forall>u \<in> set (dbUsers s). 0 \<le> userInFlow u \<and> 0 \<le> userOutFlow u \<and> userInFlow u + userOutFlow u \<le> maxInt64"
    and "\<forall>r \<in> set (dbStatFlows s). 0 \<le> sfTotalFlow r \<and> sfTotalFlow r \<le> maxInt64"
  shows "\<exists>rows. dbStatFlows (exec (RecordHourlyStatistics E) s) =
      filter (\<lambda>r. now E - 48 * 60 * 60 * 1000 \<le> sfCreatedTime r) (dbStatFlows s) @ rows \<and>
    (\<forall>r \<in> set rows. sfTime r = hourLabel (todayHour E) \<and> sfCreatedTime r = now E) \<and>
    map hourRow rows = map (\<lambda>u. let total = userInFlow u + userOutFlow u in
        (userID u, (case lastStatFlow s (userID u) of None \<Rightarrow> total | Some r \<Rightarrow> max 0 (total - sfTotalFlow r)), total))
      (filter (\<lambda>u. userRoleId u \<noteq> 0) (dbUsers s))"
proof -
  have d: "distinct (map userID (nonAdmins s))" using assms(1) by (simp add: nonAdmins_def distinct_map_filter)
  obtain rows where rows: "dbStatFlows (exec (forEach (recordUserHour E) (nonAdmins s)) s) = dbStatFlows s @ rows"
    "map hourRow rows = map (\<lambda>u. (userID u, incrementalFlow s (userID u) (totalOf u), totalOf u)) (nonAdmins s)"
    "\<forall>r \<in> set rows. sfTime r = hourLabel (todayHour E) \<and> sfCreatedTime r = now E"
    using statFlows_recordLoop [OF d] by blast
  have "deleteRows (\<lambda>r. sfCreatedTime r < now E - 48 * 60 * 60 * 1000) rows = rows"
    using rows(3) unfolding deleteRows_def by (intro filter_True) auto
  then have "dbStatFlows (exec (RecordHourlyStatistics E) s) =
      filter (\<lambda>r. now E - 48 * 60 * 60 * 1000 \<le> sfCreatedTime r) (dbStatFlows s) @ rows"
    by (simp add: statFlows_hourly rows(1) deleteRows_def not_less)
  moreover have inc: "incrementalFlow s (userID u) (totalOf u) = (case lastStatFlow s (userID u) of
        None \<Rightarrow> userInFlow u + userOutFlow u | Some r \<Rightarrow> max 0 (userInFlow u + userOutFlow u - sfTotalFlow r)) \<and>
      totalOf u = userInFlow u + userOutFlow u" if "u \<in> set (nonAdmins s)" for u
  proof -
    have u: "0 \<le> userInFlow u + userOutFlow u" "userInFlow u + userOutFlow u \<le> maxInt64"
      using assms(2) that by (auto simp: nonAdmins_def)
    then have t: "totalOf u = userInFlow u + userOutFlow u" by (simp add: totalOf_def addI64_def wrapI64_id minInt64_def)
    have "subI64 (userInFlow u + userOutFlow u) (sfTotalFlow r) = userInFlow u + userOutFlow u - sfTotalFlow r"
      if "lastStatFlow s (userID u) = Some r" for r
      using lastStatFlow_in [OF that] assms(3) u by (auto simp: subI64_def wrapI64_id minInt64_def maxInt64_def)
    then show ?thesis by (auto simp: incrementalFlow_def t Let_def max_def split: option.splits)
  qed
  moreover have "map (\<lambda>u. (userID u, incrementalFlow s (userID u) (totalOf u), totalOf u)) (nonAdmins s) =
      map (\<lambda>u. let total = userInFlow u + userOutFlow u in
        (userID u, (case lastStatFlow s (userID u) of None \<Rightarrow> total | Some r \<Rightarrow> max 0 (total - sfTotalFlow r)), total))
      (nonAdmins s)"
    unfolding Let_def by (intro map_cong refl) (simp only: inc [THEN conjunct1], simp only: inc [THEN conjunct2])
  ultimately show ?thesis using rows(2,3) unfolding nonAdmins_def by (intro exI [of _ rows]) simp
qed

text \<open>After a reset the counter is below the last row, and the traffic since then is lost.\<close>

definition exAfterReset :: panel where
  "exAfterReset = exPanel\<lparr>dbUsers := [exUser\<lparr>userInFlow := 30\<rparr>],
     dbStatFlows := [(zeroHour 7 14)\<lparr>sfTotalFlow := 100, sfCreatedTime := 900\<rparr>]\<rparr>"

theorem hourly_records_witness:
  "\<exists>r. dbStatFlows (exec (RecordHourlyStatistics exEnv) exAfterReset) = dbStatFlows exAfterReset @ [r] \<and> hourRow r = (7, 0, 30)"
proof -
  have 1: "distinct (map userID (dbUsers exAfterReset))" by code_simp
  have "list_all (\<lambda>u. 0 \<le> userInFlow u \<and> 0 \<le> userOutFlow u \<and> userInFlow u + userOutFlow u \<le> maxInt64) (dbUsers exAfterReset)"
    "list_all (\<lambda>r. 0 \<le> sfTotalFlow r \<and> sfTotalFlow r \<le> maxInt64) (dbStatFlows exAfterReset)" by code_simp+
  with hourly_records [OF 1, of exEnv] obtain rows where rows:
    "dbStatFlows (exec (RecordHourlyStatistics exEnv) exAfterReset) =
      filter (\<lambda>r. now exEnv - 48 * 60 * 60 * 1000 \<le> sfCreatedTime r) (dbStatFlows exAfterReset) @ rows"
    "map hourRow rows = map (\<lambda>u. let total = userInFlow u + userOutFlow u in
        (userID u, (case lastStatFlow exAfterReset (userID u) of None \<Rightarrow> total | Some r \<Rightarrow> max 0 (total - sfTotalFlow r)), total))
      (filter (\<lambda>u. userRoleId u \<noteq> 0) (dbUsers exAfterReset))"
    by (auto simp: list_all_iff)
  have "map (\<lambda>u. let total = userInFlow u + userOutFlow u in
        (userID u, (case lastStatFlow exAfterReset (userID u) of None \<Rightarrow> total | Some r \<Rightarrow> max 0 (total - sfTotalFlow r)), total))
      (filter (\<lambda>u. userRoleId u \<noteq> 0) (dbUsers exAfterReset)) = [(7, 0, 30)]" by code_simp
  with rows(2) obtain r where "rows = [r]" "hourRow r = (7, 0, 30)" by auto
  moreover have "filter (\<lambda>r. now exEnv - 48 * 60 * 60 * 1000 \<le> sfCreatedTime r) (dbStatFlows exAfterReset) = dbStatFlows exAfterReset"
    by code_simp
  ultimately show ?thesis using rows(1) by auto
qed

end
