(* ===== verification/XrayInbounds.thy ===== *)
theory XrayInbounds
  imports Access
begin

text \<open>
  Inbounds of the Xray core on the nodes: the handlers of \<open>service/xray_inbound.go\<close>. The row is
  written first, then the change is sent to the running core; several handlers undo the row when
  the node refuses. The settings sent to a node are the stored JSON with the enabled clients of
  the inbound written into its key \<open>clients\<close>. A handler that panics answers \<open>EPanic\<close> (the
  recovery of the router turns a panic into status 500); what it wrote before stays written.
\<close>

section \<open>Rows\<close>

definition firstInbound :: "panel \<Rightarrow> int \<Rightarrow> xrayInbound option" where
  "firstInbound s i = rowById ibID i (dbInbounds s)"

definition updateInboundRow :: "int \<Rightarrow> (xrayInbound \<Rightarrow> xrayInbound) \<Rightarrow> unit prog" where
  "updateInboundRow i f = modify (\<lambda>s. s\<lparr>dbInbounds := updateRows (\<lambda>ib. ibID ib = i) f (dbInbounds s)\<rparr>)"

definition insertInbound :: "xrayInbound \<Rightarrow> unit prog" where
  "insertInbound ib = modify (\<lambda>s. s\<lparr>dbInbounds := dbInbounds s @ [ib],
     dbAutoInc := (dbAutoInc s)(''xray_inbound'' := ibID ib + 1)\<rparr>)"

section \<open>Node lists\<close>

definition getUserAccessibleNodeIds :: "panel \<Rightarrow> int \<Rightarrow> int list" where
  "getUserAccessibleNodeIds s userId =
     (let own = filter (\<lambda>un. unUserId un = userId) (dbUserNodes s)
      in if own = [] then map nodeID (dbNodes s) else map unNodeId own)"

definition getUserAccessibleXrayNodeIds :: "panel \<Rightarrow> int \<Rightarrow> int list" where
  "getUserAccessibleXrayNodeIds s userId =
     (let own = filter (\<lambda>un. unUserId un = userId) (dbUserNodes s)
      in if own = [] then map nodeID (dbNodes s) else map unNodeId (filter (\<lambda>un. unXrayEnabled un = 1) own))"

section \<open>The settings a node receives\<close>

definition setKey :: "string \<Rightarrow> json \<Rightarrow> (string \<times> json) list \<Rightarrow> (string \<times> json) list" where
  "setKey k v kvs = (k, v) # filter (\<lambda>p. fst p \<noteq> k) kvs"

definition stringAt :: "(string \<times> json) list \<Rightarrow> string \<Rightarrow> string" where
  "stringAt kvs k = (case map_of kvs k of Some (JStr x) \<Rightarrow> x | _ \<Rightarrow> [])"

definition clientObject :: "string \<Rightarrow> string \<Rightarrow> xrayClient \<Rightarrow> json" where
  "clientObject protocol ssMethod c = JObj
     ([(''email'', JStr (xcEmail c)), (''level'', JNum 0)] @
      (if protocol = ''vmess'' then
         [(''id'', JStr (xcUuidOrPassword c)), (''alterId'', JNum (of_int (xcAlterId c)))]
       else if protocol = ''vless'' then
         [(''id'', JStr (xcUuidOrPassword c)), (''flow'', JStr (xcFlow c))]
       else if protocol = ''trojan'' then [(''password'', JStr (xcUuidOrPassword c))]
       else if protocol = ''shadowsocks'' then
         (''password'', JStr (xcUuidOrPassword c)) #
         (if ssMethod \<noteq> [] then
            [(''method'', JStr (if hasPrefix ssMethod ''2022-blake3-'' then [] else ssMethod))]
          else [])
       else []))"

text \<open>Decoding into a Go map: \<open>null\<close> gives the nil map, on which the later assignment panics;
  anything that is not an object gives an empty map.\<close>

definition settingsMap :: "env \<Rightarrow> string \<Rightarrow> (string \<times> json) list option" where
  "settingsMap E settingsJson =
     (case jsonParse E settingsJson of
        Some (JObj kvs) \<Rightarrow> Some kvs
      | Some JNull \<Rightarrow> None
      | _ \<Rightarrow> Some [])"

definition clientsOf :: "panel \<Rightarrow> int \<Rightarrow> xrayClient list" where
  "clientsOf s inboundId = filter (\<lambda>c. xcInboundId c = inboundId \<and> xcEnable c = 1) (dbClients s)"

definition mergeClientsIntoSettings :: "env \<Rightarrow> panel \<Rightarrow> xrayInbound \<Rightarrow> string option" where
  "mergeClientsIntoSettings E s ib =
     (case settingsMap E (ibSettingsJson ib) of
        None \<Rightarrow> None
      | Some settings \<Rightarrow> Some (jsonPrint E (JObj (setKey ''clients''
          (JArr (map (clientObject (ibProtocol ib) (stringAt settings ''method'')) (clientsOf s (ibID ib))))
          settings))))"

definition withClients :: "env \<Rightarrow> panel \<Rightarrow> xrayInbound \<Rightarrow> xrayInbound option" where
  "withClients E s ib = map_option (\<lambda>j. ib\<lparr>ibSettingsJson := j\<rparr>) (mergeClientsIntoSettings E s ib)"

text \<open>The whole configuration of a node; the outer option is the panic.\<close>

definition syncXrayNodeConfig :: "env \<Rightarrow> int \<Rightarrow> string option prog" where
  "syncXrayNodeConfig E nodeId =
     (if nodeId \<le> 0 then return (Some [])
      else do {
        s \<leftarrow> gets (\<lambda>s. s);
        (case those (map (withClients E s) (filter (\<lambda>ib. ibNodeId ib = nodeId \<and> ibEnable ib = 1) (dbInbounds s))) of
           None \<Rightarrow> return None
         | Some inbounds \<Rightarrow> do {
             r \<leftarrow> XrayApplyConfig E nodeId inbounds;
             return (Some (if respMsg r \<noteq> ''OK'' then respMsg r else [])) }) })"

section \<open>Create\<close>

definition msgNotInstalled :: string where
  "msgNotInstalled = map char_of [0xE6, 0x9C, 0xAA, 0xE5, 0xAE, 0x89, 0xE8, 0xA3, 0x85 :: nat]"

definition newInbound :: "env \<Rightarrow> panel \<Rightarrow> xrayInboundDto \<Rightarrow> int \<Rightarrow> int \<Rightarrow> xrayInbound" where
  "newInbound E s d userId roleId =
     \<lparr>ibID = dbAutoInc s ''xray_inbound'', ibNodeId = xidNodeId d,
      ibUserId = (if roleId \<noteq> 0 then userId else 0), ibTag = xidTag d, ibProtocol = xidProtocol d,
      ibListen = (if xidListen d \<noteq> [] then xidListen d else ''::''), ibPort = xidPort d,
      ibSettingsJson = xidSettingsJson d, ibStreamSettingsJson = xidStreamSettingsJson d,
      ibSniffingJson = xidSniffingJson d, ibRemark = xidRemark d, ibCustomEntry = xidCustomEntry d,
      ibEnable = 1, ibCreatedTime = now E, ibUpdatedTime = now E\<rparr>"

definition autoTag :: "xrayInbound \<Rightarrow> xrayInbound" where
  "autoTag ib = (if ibTag ib = [] then ib\<lparr>ibTag := ''inbound-'' @ itoa (ibID ib)\<rparr> else ib)"

definition deployInbound :: "env \<Rightarrow> int \<Rightarrow> xrayInbound \<Rightarrow> xrayInbound R prog" where
  "deployInbound E nodeId ib = do {
     s \<leftarrow> gets (\<lambda>s. s);
     (case withClients E s ib of
        None \<Rightarrow> return (Err EPanic)
      | Some merged \<Rightarrow> do {
          r \<leftarrow> XrayAddInbound E nodeId merged;
          if respMsg r \<noteq> ''OK'' then
            if strContains (respMsg r) msgNotInstalled
            then return (Warn (EPrefixGost ''inbound saved'' (respMsg r)) merged)
            else do {
              updateInboundRow (ibID ib) (\<lambda>x. x\<lparr>ibEnable := -1\<rparr>);
              return (Err (EPrefixGost ''add inbound'' (respMsg r))) }
          else return (Ok merged) }) }"

definition portTaken :: "panel \<Rightarrow> int \<Rightarrow> int \<Rightarrow> int option \<Rightarrow> bool" where
  "portTaken s nodeId port except =
     (filter (\<lambda>ib. ibNodeId ib = nodeId \<and> ibPort ib = port \<and> Some (ibID ib) \<noteq> except) (dbInbounds s) \<noteq> [])"

definition CreateXrayInbound :: "env \<Rightarrow> xrayInboundDto \<Rightarrow> int \<Rightarrow> int \<Rightarrow> xrayInbound R prog" where
  "CreateXrayInbound E d userId roleId = do {
     s \<leftarrow> gets (\<lambda>s. s);
     (case checkXrayPermission s userId roleId of
        Some e \<Rightarrow> return (Err e)
      | None \<Rightarrow> (case checkXrayNodeAccess s userId roleId (xidNodeId d) of
          Some e \<Rightarrow> return (Err e)
        | None \<Rightarrow> (case GetNodeById s (xidNodeId d) of
            None \<Rightarrow> return (Err ENodeNotFound)
          | Some node \<Rightarrow>
              if portTaken s (xidNodeId d) (xidPort d) None then return (Err EInboundPortTaken)
              else if \<not> createOk E ''xray_inbound'' then return (Err ECreateInbound)
              else do {
                let ib = newInbound E s d userId roleId;
                insertInbound ib;
                (if ibTag ib = [] then updateInboundRow (ibID ib) autoTag else return ());
                deployInbound E (nodeID node) (autoTag ib) }))) }"

section \<open>List\<close>

record inboundView =
  ivInbound :: xrayInbound
  ivUserName :: string
  ivClientCount :: nat
  ivIsOwner :: bool

definition visibleInbounds :: "panel \<Rightarrow> int option \<Rightarrow> int \<Rightarrow> int \<Rightarrow> xrayInbound list" where
  "visibleInbounds s nodeId userId roleId =
     filter (\<lambda>ib. (case nodeId of
          Some n \<Rightarrow> ibNodeId ib = n
        | None \<Rightarrow> roleId \<noteq> 0 \<longrightarrow> ibNodeId ib \<in> set (getUserAccessibleXrayNodeIds s userId)) \<and>
        (roleId \<noteq> 0 \<longrightarrow> ibUserId ib = userId \<or>
          ibID ib \<in> set (map xcInboundId (filter (\<lambda>c. xcUserId c = userId) (dbClients s)))))
       (sort_key (\<lambda>ib. - ibCreatedTime ib) (dbInbounds s))"

definition viewInbound :: "panel \<Rightarrow> int \<Rightarrow> int \<Rightarrow> xrayInbound \<Rightarrow> inboundView" where
  "viewInbound s userId roleId ib =
     \<lparr>ivInbound = ib,
      ivUserName = (case firstUser s (ibUserId ib) of None \<Rightarrow> [] | Some u \<Rightarrow> userUser u),
      ivClientCount = length (filter (\<lambda>c. xcInboundId c = ibID ib \<and> (roleId \<noteq> 0 \<longrightarrow> xcUserId c = userId)) (dbClients s)),
      ivIsOwner = (roleId = 0 \<or> ibUserId ib = userId)\<rparr>"

definition ListXrayInbounds :: "panel \<Rightarrow> int option \<Rightarrow> int \<Rightarrow> int \<Rightarrow> inboundView list R" where
  "ListXrayInbounds s nodeId userId roleId =
     (case checkXrayPermission s userId roleId of
        Some e \<Rightarrow> Err e
      | None \<Rightarrow> (case (case nodeId of None \<Rightarrow> None | Some n \<Rightarrow> checkXrayNodeAccess s userId roleId n) of
          Some e \<Rightarrow> Err e
        | None \<Rightarrow> Ok (map (viewInbound s userId roleId) (visibleInbounds s nodeId userId roleId))))"

section \<open>Update\<close>

text \<open>The checks that the remaining handlers open with.\<close>

definition ownedInbound :: "panel \<Rightarrow> int \<Rightarrow> int \<Rightarrow> int \<Rightarrow> err + xrayInbound" where
  "ownedInbound s i userId roleId =
     (case checkXrayPermission s userId roleId of
        Some e \<Rightarrow> Inl e
      | None \<Rightarrow> (case firstInbound s i of
          None \<Rightarrow> Inl EInboundNotFound
        | Some ib \<Rightarrow> (case checkXrayNodeAccess s userId roleId (ibNodeId ib) of
            Some e \<Rightarrow> Inl e
          | None \<Rightarrow> if roleId \<noteq> 0 \<and> ibUserId ib \<noteq> userId then Inl ENotOwner else Inr ib)))"

definition orOld :: "string \<Rightarrow> string \<Rightarrow> string" where
  "orOld new old = (if new \<noteq> [] then new else old)"

definition writeInbound :: "env \<Rightarrow> xrayInboundUpdateDto \<Rightarrow> xrayInbound \<Rightarrow> xrayInbound" where
  "writeInbound E d ib = ib\<lparr>
     ibUpdatedTime := now E, ibTag := orOld (xiuTag d) (ibTag ib), ibProtocol := orOld (xiuProtocol d) (ibProtocol ib),
     ibListen := orOld (xiuListen d) (ibListen ib),
     ibPort := (case xiuPort d of None \<Rightarrow> ibPort ib | Some p \<Rightarrow> p),
     ibSettingsJson := orOld (xiuSettingsJson d) (ibSettingsJson ib),
     ibStreamSettingsJson := orOld (xiuStreamSettingsJson d) (ibStreamSettingsJson ib),
     ibSniffingJson := orOld (xiuSniffingJson d) (ibSniffingJson ib), ibRemark := orOld (xiuRemark d) (ibRemark ib),
     ibCustomEntry := (case xiuCustomEntry d of None \<Rightarrow> ibCustomEntry ib | Some x \<Rightarrow> x)\<rparr>"

text \<open>\<open>DB.Save\<close> writes every column of the row.\<close>

definition saveInbound :: "xrayInbound \<Rightarrow> unit prog" where
  "saveInbound ib = updateInboundRow (ibID ib) (\<lambda>_. ib)"

definition reloadInbound :: "xrayInbound \<Rightarrow> panel \<Rightarrow> xrayInbound" where
  "reloadInbound ib s = (case firstInbound s (ibID ib) of None \<Rightarrow> ib | Some x \<Rightarrow> x)"

text \<open>The new inbound is refused: the old one is added again and saved, in the form it was sent.\<close>

definition rollbackInbound :: "env \<Rightarrow> xrayInbound \<Rightarrow> string \<Rightarrow> unit R prog" where
  "rollbackInbound E oldInbound msg = do {
     s \<leftarrow> gets (\<lambda>s. s);
     (case withClients E s oldInbound of
        None \<Rightarrow> return (Err EPanic)
      | Some merged \<Rightarrow> do {
          XrayAddInbound E (ibNodeId merged) merged;
          saveInbound merged;
          return (Err (EPrefixGost ''add inbound'' msg)) }) }"

definition replaceInbound :: "env \<Rightarrow> xrayInbound \<Rightarrow> xrayInbound \<Rightarrow> unit R prog" where
  "replaceInbound E oldInbound existing = do {
     r \<leftarrow> XrayRemoveInbound E (ibNodeId existing) (ibTag oldInbound);
     if respMsg r \<noteq> ''OK'' then do {
       saveInbound oldInbound;
       return (Err (EPrefixGost ''remove inbound'' (respMsg r))) }
     else do {
       s \<leftarrow> gets (\<lambda>s. s);
       (case withClients E s existing of
          None \<Rightarrow> return (Err EPanic)
        | Some merged \<Rightarrow> do {
            a \<leftarrow> XrayAddInbound E (ibNodeId merged) merged;
            if respMsg a \<noteq> ''OK'' then rollbackInbound E oldInbound (respMsg a)
            else return (Ok ()) }) } }"

definition portConflict :: "panel \<Rightarrow> xrayInboundUpdateDto \<Rightarrow> xrayInbound \<Rightarrow> bool" where
  "portConflict s d existing =
     (case xiuPort d of None \<Rightarrow> False
      | Some p \<Rightarrow> p \<noteq> ibPort existing \<and> portTaken s (ibNodeId existing) p (Some (xiuID d)))"

definition updateOwned :: "env \<Rightarrow> xrayInboundUpdateDto \<Rightarrow> xrayInbound \<Rightarrow> unit R prog" where
  "updateOwned E d existing = do {
     s \<leftarrow> gets (\<lambda>s. s);
     if portConflict s d existing then return (Err EInboundPortTaken)
     else do {
       updateInboundRow (ibID existing) (writeInbound E d);
       updated \<leftarrow> gets (reloadInbound existing);
       if ibEnable existing = 0 then return (Ok ())
       else replaceInbound E existing updated } }"

text \<open>A handler that goes on with the inbound of the request once the caller may change it.\<close>

definition onOwned :: "int \<Rightarrow> int \<Rightarrow> int \<Rightarrow> (xrayInbound \<Rightarrow> 'a R prog) \<Rightarrow> 'a R prog" where
  "onOwned i userId roleId h = do {
     s \<leftarrow> gets (\<lambda>s. s);
     (case ownedInbound s i userId roleId of Inl e \<Rightarrow> return (Err e) | Inr ib \<Rightarrow> h ib) }"

definition UpdateXrayInbound :: "env \<Rightarrow> xrayInboundUpdateDto \<Rightarrow> int \<Rightarrow> int \<Rightarrow> unit R prog" where
  "UpdateXrayInbound E d userId roleId = onOwned (xiuID d) userId roleId (updateOwned E d)"

section \<open>Delete, enable, disable\<close>

definition stopIfIdle :: "env \<Rightarrow> int \<Rightarrow> unit prog" where
  "stopIfIdle E nodeId = do {
     remaining \<leftarrow> gets (\<lambda>s. filter (\<lambda>ib. ibNodeId ib = nodeId \<and> ibEnable ib = 1) (dbInbounds s));
     if remaining = [] then do { XrayStop E nodeId; return () } else return () }"

definition deleteOwned :: "env \<Rightarrow> int \<Rightarrow> xrayInbound \<Rightarrow> unit R prog" where
  "deleteOwned E i ib = do {
     online \<leftarrow> IsNodeOnline E (ibNodeId ib);
     msg \<leftarrow> (if online then do { r \<leftarrow> XrayRemoveInbound E (ibNodeId ib) (ibTag ib); return (respMsg r) }
            else return ''OK'');
     if msg \<noteq> ''OK'' then return (Err (EPrefixGost ''remove inbound'' msg))
     else do {
       modify (\<lambda>s. s\<lparr>dbClients := deleteRows (\<lambda>c. xcInboundId c = i) (dbClients s)\<rparr>);
       modify (\<lambda>s. s\<lparr>dbInbounds := deleteRows (\<lambda>x. ibID x = ibID ib) (dbInbounds s)\<rparr>);
       stopIfIdle E (ibNodeId ib);
       return (Ok ()) } }"

definition DeleteXrayInbound :: "env \<Rightarrow> int \<Rightarrow> int \<Rightarrow> int \<Rightarrow> unit R prog" where
  "DeleteXrayInbound E i userId roleId = onOwned i userId roleId (deleteOwned E i)"

definition enableOwned :: "env \<Rightarrow> xrayInbound \<Rightarrow> unit R prog" where
  "enableOwned E ib = do {
     updateInboundRow (ibID ib) (\<lambda>x. x\<lparr>ibEnable := 1, ibUpdatedTime := now E\<rparr>);
     s \<leftarrow> gets (\<lambda>s. s);
     (case withClients E s (reloadInbound ib s) of
        None \<Rightarrow> return (Err EPanic)
      | Some merged \<Rightarrow> do {
          r \<leftarrow> XrayAddInbound E (ibNodeId merged) merged;
          if respMsg r \<noteq> ''OK'' then do {
            updateInboundRow (ibID merged) (\<lambda>x. x\<lparr>ibEnable := 0, ibUpdatedTime := now E\<rparr>);
            return (Err (EPrefixGost ''add inbound'' (respMsg r))) }
          else return (Ok ()) }) }"

definition EnableXrayInbound :: "env \<Rightarrow> int \<Rightarrow> int \<Rightarrow> int \<Rightarrow> unit R prog" where
  "EnableXrayInbound E i userId roleId = onOwned i userId roleId (enableOwned E)"

definition disableOwned :: "env \<Rightarrow> xrayInbound \<Rightarrow> unit R prog" where
  "disableOwned E ib = do {
     r \<leftarrow> XrayRemoveInbound E (ibNodeId ib) (ibTag ib);
     if respMsg r \<noteq> ''OK'' then return (Err (EPrefixGost ''remove inbound'' (respMsg r)))
     else do {
       updateInboundRow (ibID ib) (\<lambda>x. x\<lparr>ibEnable := 0, ibUpdatedTime := now E\<rparr>);
       stopIfIdle E (ibNodeId ib);
       return (Ok ()) } }"

definition DisableXrayInbound :: "env \<Rightarrow> int \<Rightarrow> int \<Rightarrow> int \<Rightarrow> unit R prog" where
  "DisableXrayInbound E i userId roleId = onOwned i userId roleId (disableOwned E)"

end
