(* ===== verification/XrayClients.thy ===== *)
theory XrayClients
  imports XrayInbounds Encoding
begin

text \<open>
  Clients of the Xray inbounds and their subscription links: \<open>service/xray_client.go\<close>. As for the
  inbounds the row is written first and the change then sent to the running core. The link
  generators are pure; JSON and its structure types are decoded by parameters of \<open>env\<close>, base64 and
  query escaping are those of \<open>Encoding\<close>.
\<close>

section \<open>Rows\<close>

definition firstClient :: "panel \<Rightarrow> int \<Rightarrow> xrayClient option" where
  "firstClient s i = rowById xcID i (dbClients s)"

definition updateClientRow :: "int \<Rightarrow> (xrayClient \<Rightarrow> xrayClient) \<Rightarrow> unit prog" where
  "updateClientRow i f = modify (\<lambda>s. s\<lparr>dbClients := updateRows (\<lambda>c. xcID c = i) f (dbClients s)\<rparr>)"

definition insertClient :: "xrayClient \<Rightarrow> unit prog" where
  "insertClient c = modify (\<lambda>s. s\<lparr>dbClients := dbClients s @ [c],
     dbAutoInc := (dbAutoInc s)(''xray_client'' := xcID c + 1)\<rparr>)"

definition deleteClientRow :: "int \<Rightarrow> unit prog" where
  "deleteClientRow i = modify (\<lambda>s. s\<lparr>dbClients := deleteRows (\<lambda>c. xcID c = i) (dbClients s)\<rparr>)"

definition saveClient :: "xrayClient \<Rightarrow> unit prog" where
  "saveClient c = updateClientRow (xcID c) (\<lambda>_. c)"

text \<open>Adding a client to the running core.\<close>

definition hotAddClient :: "env \<Rightarrow> xrayInbound \<Rightarrow> xrayClient \<Rightarrow> gostResponse prog" where
  "hotAddClient E ib c =
     XrayAddClient E (ibNodeId ib) (ibTag ib) (xcEmail c) (xcUuidOrPassword c) (xcFlow c) (xcAlterId c) (ibProtocol ib)"

section \<open>Create\<close>

definition intOr :: "int option \<Rightarrow> int \<Rightarrow> int" where
  "intOr v d = (case v of None \<Rightarrow> d | Some x \<Rightarrow> x)"

definition clientSecret :: "env \<Rightarrow> xrayInbound \<Rightarrow> xrayClientDto \<Rightarrow> string" where
  "clientSecret E ib d =
     (if xcdUuidOrPassword d \<noteq> [] then xcdUuidOrPassword d
      else if ibProtocol ib = ''shadowsocks'' then freshRandom E 16 else freshUuid E)"

definition clientEmail :: "env \<Rightarrow> int \<Rightarrow> string" where
  "clientEmail E owner = itoa owner @ ''_'' @ itoa (now E) @ ''@flux''"

definition newClient :: "env \<Rightarrow> panel \<Rightarrow> xrayInbound \<Rightarrow> xrayClientDto \<Rightarrow> int \<Rightarrow> xrayClient" where
  "newClient E s ib d owner = zeroClient\<lparr>xcID := dbAutoInc s ''xray_client'', xcInboundId := xcdInboundId d,
     xcUserId := owner, xcFlow := xcdFlow d, xcEnable := 1, xcRemark := xcdRemark d,
     xcCreatedTime := now E, xcUpdatedTime := now E, xcAlterId := intOr (xcdAlterId d) 0,
     xcTotalTraffic := intOr (xcdTotalTraffic d) 0, xcExpTime := xcdExpTime d, xcLimitIp := intOr (xcdLimitIp d) 0,
     xcReset := intOr (xcdReset d) 0, xcUuidOrPassword := clientSecret E ib d, xcEmail := clientEmail E owner\<rparr>"

definition CreateXrayClient :: "env \<Rightarrow> xrayClientDto \<Rightarrow> int \<Rightarrow> int \<Rightarrow> xrayClient R prog" where
  "CreateXrayClient E d userId roleId = do {
     s \<leftarrow> gets (\<lambda>s. s);
     (case checkXrayPermission s userId roleId of
        Some e \<Rightarrow> return (Err e)
      | None \<Rightarrow> (case firstInbound s (xcdInboundId d) of
          None \<Rightarrow> return (Err EInboundNotFound)
        | Some ib \<Rightarrow> (case checkXrayNodeAccess s userId roleId (ibNodeId ib) of
            Some e \<Rightarrow> return (Err e)
          | None \<Rightarrow> do {
              let owner = (if roleId \<noteq> 0 then userId else xcdUserId d);
              if 0 < owner \<and> firstUser s owner = None then return (Err EUserNotFound)
              else if \<not> createOk E ''xray_client'' then return (Err ECreateClient)
              else do {
                let c = newClient E s ib d owner;
                insertClient c;
                r \<leftarrow> hotAddClient E ib c;
                if respMsg r \<noteq> ''OK'' then do {
                  deleteClientRow (xcID c);
                  return (Err (EPrefixGost ''add client'' (respMsg r))) }
                else return (Ok c) } }))) }"

section \<open>List\<close>

definition ListXrayClients :: "panel \<Rightarrow> int option \<Rightarrow> int option \<Rightarrow> int \<Rightarrow> int \<Rightarrow> xrayClient list R" where
  "ListXrayClients s inboundId userIdFilter userId roleId =
     (case checkXrayPermission s userId roleId of
        Some e \<Rightarrow> Err e
      | None \<Rightarrow> Ok (filter (\<lambda>c.
          (if roleId \<noteq> 0 then xcUserId c = userId \<and>
             xcInboundId c \<in> set (map ibID (filter (\<lambda>ib. ibNodeId ib \<in> set (getUserAccessibleXrayNodeIds s userId)) (dbInbounds s)))
           else (case userIdFilter of None \<Rightarrow> True | Some u \<Rightarrow> xcUserId c = u)) \<and>
          (case inboundId of None \<Rightarrow> True | Some i \<Rightarrow> xcInboundId c = i))
        (sort_key (\<lambda>c. - xcCreatedTime c) (dbClients s))))"

section \<open>Update\<close>

text \<open>The client of the request, which a user must own.\<close>

definition ownedClient :: "panel \<Rightarrow> int \<Rightarrow> int \<Rightarrow> int \<Rightarrow> err + xrayClient" where
  "ownedClient s i userId roleId =
     (case checkXrayPermission s userId roleId of
        Some e \<Rightarrow> Inl e
      | None \<Rightarrow> (case firstClient s i of
          None \<Rightarrow> Inl EClientNotFound
        | Some c \<Rightarrow> if roleId \<noteq> 0 \<and> xcUserId c \<noteq> userId then Inl ENotOwner else Inr c))"

text \<open>The check on the node of the client's inbound, when the inbound still exists.\<close>

definition clientNodeError :: "panel \<Rightarrow> xrayClient \<Rightarrow> int \<Rightarrow> int \<Rightarrow> err option" where
  "clientNodeError s c userId roleId =
     (case firstInbound s (xcInboundId c) of
        None \<Rightarrow> None
      | Some ib \<Rightarrow> checkXrayNodeAccess s userId roleId (ibNodeId ib))"

definition writeClient :: "env \<Rightarrow> xrayClientUpdateDto \<Rightarrow> xrayClient \<Rightarrow> xrayClient" where
  "writeClient E d c = c\<lparr>
     xcUpdatedTime := now E, xcEmail := orOld (xcuEmail d) (xcEmail c),
     xcUuidOrPassword := orOld (xcuUuidOrPassword d) (xcUuidOrPassword c), xcFlow := orOld (xcuFlow d) (xcFlow c),
     xcAlterId := intOr (xcuAlterId d) (xcAlterId c), xcTotalTraffic := intOr (xcuTotalTraffic d) (xcTotalTraffic c),
     xcExpTime := (case xcuExpTime d of None \<Rightarrow> xcExpTime c | Some t \<Rightarrow> Some t),
     xcLimitIp := intOr (xcuLimitIp d) (xcLimitIp c), xcReset := intOr (xcuReset d) (xcReset c),
     xcEnable := intOr (xcuEnable d) (xcEnable c), xcRemark := orOld (xcuRemark d) (xcRemark c)\<rparr>"

definition reloadClient :: "xrayClient \<Rightarrow> panel \<Rightarrow> xrayClient" where
  "reloadClient c s = (case firstClient s (xcID c) of None \<Rightarrow> c | Some x \<Rightarrow> x)"

definition addUpdatedClient :: "env \<Rightarrow> xrayInbound \<Rightarrow> xrayClient \<Rightarrow> unit R prog" where
  "addUpdatedClient E ib oldClient = do {
     existing \<leftarrow> gets (reloadClient oldClient);
     if xcEnable existing = 1 then do {
       r \<leftarrow> hotAddClient E ib existing;
       if respMsg r \<noteq> ''OK'' then do {
         saveClient oldClient;
         (if xcEnable oldClient = 1 then do { hotAddClient E ib oldClient; return () } else return ());
         return (Err (EPrefixGost ''add client'' (respMsg r))) }
       else return (Ok ()) }
     else return (Ok ()) }"

definition onOwnedClient :: "int \<Rightarrow> int \<Rightarrow> int \<Rightarrow> (xrayClient \<Rightarrow> 'a R prog) \<Rightarrow> 'a R prog" where
  "onOwnedClient i userId roleId h = do {
     s \<leftarrow> gets (\<lambda>s. s);
     (case ownedClient s i userId roleId of Inl e \<Rightarrow> return (Err e) | Inr c \<Rightarrow> h c) }"

text \<open>The running core is told only when the inbound still exists.\<close>

definition applyClient :: "env \<Rightarrow> xrayClient \<Rightarrow> xrayInbound option \<Rightarrow> unit R prog" where
  "applyClient E oldClient inb =
     (case inb of
        None \<Rightarrow> return (Ok ())
      | Some ib \<Rightarrow>
          if ibID ib \<le> 0 then return (Ok ())
          else do {
            msg \<leftarrow> (if xcEnable oldClient = 1
              then do { r \<leftarrow> XrayRemoveClient E (ibNodeId ib) (ibTag ib) (xcEmail oldClient); return (respMsg r) }
              else return ''OK'');
            if msg \<noteq> ''OK'' then do {
              saveClient oldClient;
              return (Err (EPrefixGost ''remove client'' msg)) }
            else addUpdatedClient E ib oldClient })"

definition updateOwnedClient :: "env \<Rightarrow> xrayClientUpdateDto \<Rightarrow> int \<Rightarrow> int \<Rightarrow> xrayClient \<Rightarrow> unit R prog" where
  "updateOwnedClient E d userId roleId oldClient = do {
     s \<leftarrow> gets (\<lambda>s. s);
     (case clientNodeError s oldClient userId roleId of
        Some e \<Rightarrow> return (Err e)
      | None \<Rightarrow> do {
          updateClientRow (xcID oldClient) (writeClient E d);
          applyClient E oldClient (firstInbound s (xcInboundId oldClient)) }) }"

definition UpdateXrayClient :: "env \<Rightarrow> xrayClientUpdateDto \<Rightarrow> int \<Rightarrow> int \<Rightarrow> unit R prog" where
  "UpdateXrayClient E d userId roleId = onOwnedClient (xcuID d) userId roleId (updateOwnedClient E d userId roleId)"

section \<open>Delete and reset\<close>

definition deleteOwnedClient :: "env \<Rightarrow> int \<Rightarrow> int \<Rightarrow> xrayClient \<Rightarrow> unit R prog" where
  "deleteOwnedClient E userId roleId c = do {
     s \<leftarrow> gets (\<lambda>s. s);
     let ib = (case firstInbound s (xcInboundId c) of None \<Rightarrow> zeroInbound | Some x \<Rightarrow> x);
     (case (if 0 < ibID ib then checkXrayNodeAccess s userId roleId (ibNodeId ib) else None) of
        Some e \<Rightarrow> return (Err e)
      | None \<Rightarrow> do {
          online \<leftarrow> IsNodeOnline E (ibNodeId ib);
          msg \<leftarrow> (if 0 < ibID ib \<and> online
            then do { r \<leftarrow> XrayRemoveClient E (ibNodeId ib) (ibTag ib) (xcEmail c); return (respMsg r) }
            else return ''OK'');
          if msg \<noteq> ''OK'' then return (Err (EPrefixGost ''remove client'' msg))
          else do { deleteClientRow (xcID c); return (Ok ()) } }) }"

definition DeleteXrayClient :: "env \<Rightarrow> int \<Rightarrow> int \<Rightarrow> int \<Rightarrow> unit R prog" where
  "DeleteXrayClient E i userId roleId = onOwnedClient i userId roleId (deleteOwnedClient E userId roleId)"

definition resetOwnedClient :: "env \<Rightarrow> xrayClient \<Rightarrow> unit R prog" where
  "resetOwnedClient E c = do {
     updateClientRow (xcID c) (\<lambda>x. x\<lparr>xcUpTraffic := 0, xcDownTraffic := 0, xcUpdatedTime := now E\<rparr>);
     (if xcEnable c = 0 \<and> 0 < xcTotalTraffic c then do {
        updateClientRow (xcID c) (\<lambda>x. x\<lparr>xcEnable := 1\<rparr>);
        inb \<leftarrow> gets (\<lambda>s. firstInbound s (xcInboundId c));
        (case inb of
           None \<Rightarrow> return ()
         | Some ib \<Rightarrow> do { hotAddClient E ib c; return () }) }
      else return ());
     return (Ok ()) }"

definition ResetXrayClientTraffic :: "env \<Rightarrow> int \<Rightarrow> int \<Rightarrow> int \<Rightarrow> unit R prog" where
  "ResetXrayClientTraffic E i userId roleId = onOwnedClient i userId roleId (resetOwnedClient E)"

section \<open>Links\<close>

text \<open>Decoding errors and an empty text both leave the zero values.\<close>

definition parseStreamSettings :: "env \<Rightarrow> string \<Rightarrow> streamSettings" where
  "parseStreamSettings E j =
     (if j = [] then zeroStream else case jsonStream E j of None \<Rightarrow> zeroStream | Some ss \<Rightarrow> ss)"

definition parseInboundSettings :: "env \<Rightarrow> string \<Rightarrow> string" where
  "parseInboundSettings E j = (if j = [] then [] else case jsonMethod E j of None \<Rightarrow> [] | Some m \<Rightarrow> m)"

definition headOr :: "string list \<Rightarrow> string" where
  "headOr xs = (case xs of [] \<Rightarrow> [] | x # _ \<Rightarrow> x)"

definition isKcp :: "streamSettings \<Rightarrow> bool" where
  "isKcp ss = (ssNetwork ss = ''kcp'' \<or> ssNetwork ss = ''mkcp'')"

definition isXhttp :: "streamSettings \<Rightarrow> bool" where
  "isXhttp ss = (ssNetwork ss = ''xhttp'' \<or> ssNetwork ss = ''splithttp'')"

definition streamPath :: "streamSettings \<Rightarrow> string" where
  "streamPath ss =
     (if ssNetwork ss = ''ws'' then ssWsPath ss
      else if ssNetwork ss = ''grpc'' then ssGrpcServiceName ss
      else if ssNetwork ss = ''httpupgrade'' then ssHttpupgradePath ss
      else if isXhttp ss then ssXhttpPath ss
      else if ssNetwork ss = ''tcp'' then headOr (ssTcpRequestPath ss)
      else if isKcp ss then ssKcpSeed ss
      else [])"

definition streamHost :: "streamSettings \<Rightarrow> string" where
  "streamHost ss =
     (if ssNetwork ss = ''ws'' then (case map_of (ssWsHeaders ss) ''Host'' of None \<Rightarrow> [] | Some h \<Rightarrow> h)
      else if ssNetwork ss = ''httpupgrade'' then ssHttpupgradeHost ss
      else if isXhttp ss then ssXhttpHost ss
      else if ssNetwork ss = ''tcp'' then (case map_of (ssTcpRequestHeaders ss) ''Host'' of None \<Rightarrow> [] | Some hs \<Rightarrow> headOr hs)
      else [])"

definition streamHeaderType :: "streamSettings \<Rightarrow> string" where
  "streamHeaderType ss =
     (if ssNetwork ss = ''tcp'' then ssTcpHeaderType ss else if isKcp ss then ssKcpHeaderType ss else [])"

text \<open>\<open>strings.Join\<close> with a comma.\<close>

definition networkOr :: "streamSettings \<Rightarrow> string" where
  "networkOr ss = (if ssNetwork ss = [] then ''tcp'' else ssNetwork ss)"

definition vmessConfig :: "xrayClient \<Rightarrow> string \<Rightarrow> int \<Rightarrow> string \<Rightarrow> streamSettings \<Rightarrow> json" where
  "vmessConfig c host port remark ss =
     (let tls = (ssSecurity ss = ''tls'')
      in JObj [(''v'', JStr ''2''), (''ps'', JStr remark), (''add'', JStr host), (''port'', JNum (of_int port)),
        (''id'', JStr (xcUuidOrPassword c)), (''aid'', JNum (of_int (xcAlterId c))), (''scy'', JStr ''auto''),
        (''net'', JStr (networkOr ss)),
        (''type'', JStr (if streamHeaderType ss = [] then ''none'' else streamHeaderType ss)),
        (''host'', JStr (streamHost ss)), (''path'', JStr (streamPath ss)),
        (''tls'', JStr (if tls then ''tls'' else [])), (''sni'', JStr (if tls then ssTlsServerName ss else [])),
        (''fp'', JStr (if tls then ssTlsFingerprint ss else [])),
        (''alpn'', JStr (if tls then joinWith CHR '','' (ssTlsAlpn ss) else []))])"

definition generateVmessLink :: "env \<Rightarrow> xrayClient \<Rightarrow> string \<Rightarrow> int \<Rightarrow> string \<Rightarrow> streamSettings \<Rightarrow> string" where
  "generateVmessLink E c host port remark ss =
     ''vmess://'' @ base64Std (jsonPrint E (vmessConfig c host port remark ss))"

definition setIf :: "bool \<Rightarrow> string \<Rightarrow> string \<Rightarrow> urlValues \<Rightarrow> urlValues" where
  "setIf b k v ps = (if b then setParam k v ps else ps)"

definition tlsParams :: "streamSettings \<Rightarrow> urlValues \<Rightarrow> urlValues" where
  "tlsParams ss ps =
     (let p1 = setIf (ssTlsServerName ss \<noteq> []) ''sni'' (ssTlsServerName ss) ps;
          p2 = setIf (ssTlsFingerprint ss \<noteq> []) ''fp'' (ssTlsFingerprint ss) p1
      in setIf (ssTlsAlpn ss \<noteq> []) ''alpn'' (joinWith CHR '','' (ssTlsAlpn ss)) p2)"

definition realityParams :: "streamSettings \<Rightarrow> urlValues \<Rightarrow> urlValues" where
  "realityParams ss ps =
     (let p1 = setIf (ssRealityServerNames ss \<noteq> []) ''sni'' (headOr (ssRealityServerNames ss)) ps;
          p2 = setIf (ssRealityPublicKey ss \<noteq> []) ''pbk'' (ssRealityPublicKey ss) p1;
          p3 = setIf (ssRealityShortIds ss \<noteq> []) ''sid'' (headOr (ssRealityShortIds ss)) p2;
          p4 = setIf (ssRealitySpiderX ss \<noteq> []) ''spx'' (ssRealitySpiderX ss) p3
      in setIf (ssRealityFingerprint ss \<noteq> []) ''fp'' (ssRealityFingerprint ss) p4)"

definition addTransportParams :: "urlValues \<Rightarrow> streamSettings \<Rightarrow> urlValues" where
  "addTransportParams ps ss =
     (let p1 = setParam ''type'' (networkOr ss) ps;
          p2 = setIf (streamPath ss \<noteq> []) ''path'' (streamPath ss) p1;
          p3 = setIf (streamHost ss \<noteq> []) ''host'' (streamHost ss) p2;
          p4 = setIf (streamHeaderType ss \<noteq> [] \<and> streamHeaderType ss \<noteq> ''none'') ''headerType'' (streamHeaderType ss) p3;
          p5 = setIf (ssNetwork ss = ''grpc'') ''serviceName'' (ssGrpcServiceName ss) p4;
          p6 = setIf (isKcp ss \<and> ssKcpSeed ss \<noteq> []) ''seed'' (ssKcpSeed ss) p5;
          p7 = setParam ''security'' (if ssSecurity ss = [] then ''none'' else ssSecurity ss) p6;
          p8 = (if ssSecurity ss = ''tls'' then tlsParams ss p7 else p7)
      in if ssSecurity ss = ''reality'' then realityParams ss p8 else p8)"

definition endpoint :: "string \<Rightarrow> string \<Rightarrow> int \<Rightarrow> string" where
  "endpoint secret host port = secret @ ''@'' @ host @ '':'' @ itoa port"

definition vlessParams :: "xrayClient \<Rightarrow> streamSettings \<Rightarrow> urlValues" where
  "vlessParams c ss = addTransportParams (setIf (xcFlow c \<noteq> []) ''flow'' (xcFlow c) (setParam ''encryption'' ''none'' [])) ss"

definition generateVlessLink :: "xrayClient \<Rightarrow> string \<Rightarrow> int \<Rightarrow> string \<Rightarrow> streamSettings \<Rightarrow> string" where
  "generateVlessLink c host port remark ss =
     ''vless://'' @ endpoint (xcUuidOrPassword c) host port @ ''?'' @ EncodeValues (vlessParams c ss) @ ''#'' @ QueryEscape remark"

definition generateTrojanLink :: "xrayClient \<Rightarrow> string \<Rightarrow> int \<Rightarrow> string \<Rightarrow> streamSettings \<Rightarrow> string" where
  "generateTrojanLink c host port remark ss =
     ''trojan://'' @ endpoint (xcUuidOrPassword c) host port @ ''?'' @ EncodeValues (addTransportParams [] ss) @
     ''#'' @ QueryEscape remark"

definition generateShadowsocksLink :: "xrayClient \<Rightarrow> string \<Rightarrow> int \<Rightarrow> string \<Rightarrow> string \<Rightarrow> string" where
  "generateShadowsocksLink c host port remark settingsMethod =
     (let ssMethod = (if settingsMethod = [] then ''aes-256-gcm'' else settingsMethod)
      in ''ss://'' @ endpoint (base64Std (ssMethod @ '':'' @ xcUuidOrPassword c)) host port @ ''#'' @ QueryEscape remark)"

definition linkRemark :: "xrayClient \<Rightarrow> xrayInbound \<Rightarrow> string" where
  "linkRemark c ib = orOld (xcRemark c) (orOld (ibRemark ib) (ibTag ib))"

definition linkHost :: "xrayInbound \<Rightarrow> node \<Rightarrow> string" where
  "linkHost ib n = orOld (ibCustomEntry ib) (nodeServerIp n)"

definition generateProtocolLink :: "env \<Rightarrow> xrayClient \<Rightarrow> xrayInbound \<Rightarrow> node \<Rightarrow> string" where
  "generateProtocolLink E c ib n =
     (let host = linkHost ib n; port = ibPort ib; remark = linkRemark c ib;
          ss = parseStreamSettings E (ibStreamSettingsJson ib)
      in if ibProtocol ib = ''vmess'' then generateVmessLink E c host port remark ss
         else if ibProtocol ib = ''vless'' then generateVlessLink c host port remark ss
         else if ibProtocol ib = ''trojan'' then generateTrojanLink c host port remark ss
         else if ibProtocol ib = ''shadowsocks''
         then generateShadowsocksLink c host port remark (parseInboundSettings E (ibSettingsJson ib))
         else [])"

section \<open>Subscriptions\<close>

record linkItem =
  liLink :: string
  liProtocol :: string
  liRemark :: string
  liNodeName :: string

definition subscribedClients :: "panel \<Rightarrow> user \<Rightarrow> string \<Rightarrow> xrayClient list" where
  "subscribedClients s user scope =
     (if userRoleId user = 0 then
        (if scope = ''mine'' then filter (\<lambda>c. xcEnable c = 1 \<and>
             xcInboundId c \<in> set (map ibID (filter (\<lambda>ib. ibUserId ib = 0) (dbInbounds s)))) (dbClients s)
         else filter (\<lambda>c. xcEnable c = 1) (dbClients s))
      else filter (\<lambda>c. xcUserId c = userID user \<and> xcEnable c = 1) (dbClients s))"

definition clientLink :: "env \<Rightarrow> panel \<Rightarrow> user \<Rightarrow> xrayClient \<Rightarrow> linkItem option" where
  "clientLink E s user c =
     (case firstInbound s (xcInboundId c) of
        None \<Rightarrow> None
      | Some ib \<Rightarrow>
          if ibEnable ib \<noteq> 1 then None
          else (case GetNodeById s (ibNodeId ib) of
            None \<Rightarrow> None
          | Some n \<Rightarrow>
              if userRoleId user \<noteq> 0 \<and> \<not> UserHasNodeAccess s (userID user) (nodeID n) then None
              else if generateProtocolLink E c ib n \<noteq> [] then
                Some \<lparr>liLink = generateProtocolLink E c ib n, liProtocol = ibProtocol ib,
                      liRemark = linkRemark c ib, liNodeName = nodeName n\<rparr>
              else None))"

definition GetSubscriptionLinks :: "env \<Rightarrow> panel \<Rightarrow> int \<Rightarrow> string \<Rightarrow> linkItem list R" where
  "GetSubscriptionLinks E s userId scope =
     (case firstUser s userId of
        None \<Rightarrow> Err EUserNotFound
      | Some user \<Rightarrow>
          if userRoleId user \<noteq> 0 \<and> userXrayEnabled user \<noteq> 1 then Ok []
          else Ok (List.map_filter (clientLink E s user) (subscribedClients s user scope)))"

definition GetClientLink :: "env \<Rightarrow> panel \<Rightarrow> int \<Rightarrow> int \<Rightarrow> int \<Rightarrow> linkItem R" where
  "GetClientLink E s clientId userId roleId =
     (case ownedClient s clientId userId roleId of
        Inl e \<Rightarrow> Err e
      | Inr c \<Rightarrow> (case firstInbound s (xcInboundId c) of
          None \<Rightarrow> Err EInboundNotFound
        | Some ib \<Rightarrow> (case checkXrayNodeAccess s userId roleId (ibNodeId ib) of
            Some e \<Rightarrow> Err e
          | None \<Rightarrow> (case GetNodeById s (ibNodeId ib) of
              None \<Rightarrow> Err ENodeNotFound
            | Some n \<Rightarrow>
                if generateProtocolLink E c ib n = [] then Err EUnsupportedProtocol
                else Ok \<lparr>liLink = generateProtocolLink E c ib n, liProtocol = ibProtocol ib,
                          liRemark = linkRemark c ib, liNodeName = []\<rparr>))))"

end
