(* ===== verification/XrayProps.thy ===== *)
theory XrayProps
  imports XrayClients FlowLimits
begin

text \<open>
  Properties of the Xray handlers: no two inbounds of a node share a port, a user's requests touch no
  inbound and no client of another user, what a refused update leaves behind, and how the limits of
  a client can be passed by.
\<close>

section \<open>One inbound per port\<close>

definition inboundInv :: "panel \<Rightarrow> bool" where
  "inboundInv s = (distinct (map ibID (dbInbounds s)) \<and>
     (\<forall>ib \<in> set (dbInbounds s). ibID ib < dbAutoInc s ''xray_inbound'') \<and>
     (\<forall>x \<in> set (dbInbounds s). \<forall>y \<in> set (dbInbounds s).
        ibNodeId x = ibNodeId y \<longrightarrow> ibPort x = ibPort y \<longrightarrow> ibID x = ibID y))"

lemma inboundInvD:
  assumes "inboundInv s"
  shows "distinct (map ibID (dbInbounds s))" "x \<in> set (dbInbounds s) \<Longrightarrow> ibID x < dbAutoInc s ''xray_inbound''"
    "x \<in> set (dbInbounds s) \<Longrightarrow> y \<in> set (dbInbounds s) \<Longrightarrow> ibNodeId x = ibNodeId y \<Longrightarrow> ibPort x = ibPort y \<Longrightarrow> ibID x = ibID y"
    "x \<in> set (dbInbounds s) \<Longrightarrow> y \<in> set (dbInbounds s) \<Longrightarrow> ibID x = ibID y \<Longrightarrow> x = y"
  using assms unfolding inboundInv_def by (blast, blast, blast, metis distinct_map inj_onD)

text \<open>An inbound would not collide with another row.\<close>

definition fitsPort :: "xrayInbound \<Rightarrow> panel \<Rightarrow> bool" where
  "fitsPort ib s = (\<forall>x \<in> set (dbInbounds s). ibNodeId x = ibNodeId ib \<longrightarrow> ibPort x = ibPort ib \<longrightarrow> ibID x = ibID ib)"

lemma ignoresSent_inboundInv [simp]: "ignoresSent inboundInv" "ignoresSent (fitsPort ib)"
  by (simp_all add: ignoresSent_def inboundInv_def fitsPort_def)

lemma ignoresSent_conj [simp]: "ignoresSent I \<Longrightarrow> ignoresSent J \<Longrightarrow> ignoresSent (\<lambda>s. I s \<and> J s)"
  by (simp add: ignoresSent_def)

lemma map_ids_updateRows:
  "(\<And>x. x \<in> set rows \<Longrightarrow> P x \<Longrightarrow> k (g x) = k x) \<Longrightarrow> map k (updateRows P g rows) = map k rows"
  by (simp add: updateRows_def)

lemma inboundInv_map:
  assumes "inboundInv s" "\<And>x. x \<in> set (dbInbounds s) \<Longrightarrow> ibID (h x) = ibID x"
    and "\<And>x y. x \<in> set (dbInbounds s) \<Longrightarrow> y \<in> set (dbInbounds s) \<Longrightarrow>
      ibNodeId (h x) = ibNodeId (h y) \<Longrightarrow> ibPort (h x) = ibPort (h y) \<Longrightarrow> ibID x = ibID y"
  shows "inboundInv (s\<lparr>dbInbounds := map h (dbInbounds s)\<rparr>)"
proof -
  let ?rows = "dbInbounds s" and ?s = "s\<lparr>dbInbounds := map h (dbInbounds s)\<rparr>"
  have old: "distinct (map ibID ?rows)" "\<forall>x \<in> set ?rows. ibID x < dbAutoInc s ''xray_inbound''"
    using inboundInvD(1,2) [OF assms(1)] by blast+
  have "map ibID (map h ?rows) = map ibID ?rows" using assms(2) by simp
  then have 1: "distinct (map ibID (map h ?rows))" by (simp only: old(1))
  have 2: "ibID y < dbAutoInc s ''xray_inbound''" if y: "y \<in> set (map h ?rows)" for y
  proof -
    obtain x where "x \<in> set ?rows" "y = h x" using y by auto
    with old(2) assms(2) [of x] show ?thesis by simp
  qed
  have 3: "ibID y = ibID z" if yz: "y \<in> set (map h ?rows)" "z \<in> set (map h ?rows)" "ibNodeId y = ibNodeId z" "ibPort y = ibPort z" for y z
  proof -
    obtain x x' where x: "x \<in> set ?rows" "y = h x" "x' \<in> set ?rows" "z = h x'" using yz(1,2) by auto
    with yz(3,4) assms(3) [of x x'] have "ibID x = ibID x'" by simp
    with x assms(2) [of x] assms(2) [of x'] show ?thesis by simp
  qed
  have s: "dbInbounds ?s = map h ?rows" "dbAutoInc ?s = dbAutoInc s" by simp_all
  show ?thesis unfolding inboundInv_def s using 1 2 3 by blast
qed

lemma inboundInv_update:
  assumes "inboundInv s"
    and "\<And>x. x \<in> set (dbInbounds s) \<Longrightarrow> ibID x = i \<Longrightarrow> ibID (g x) = i \<and> fitsPort (g x) s"
  shows "inboundInv (s\<lparr>dbInbounds := updateRows (\<lambda>x. ibID x = i) g (dbInbounds s)\<rparr>)"
  unfolding updateRows_def
proof (rule inboundInv_map [OF assms(1)])
  let ?h = "\<lambda>x. if ibID x = i then g x else x"
  show id: "ibID (?h x) = ibID x" if "x \<in> set (dbInbounds s)" for x using assms(2) that by simp
  fix x y assume xy: "x \<in> set (dbInbounds s)" "y \<in> set (dbInbounds s)" "ibNodeId (?h x) = ibNodeId (?h y)" "ibPort (?h x) = ibPort (?h y)"
  consider "ibID x = i" "ibID y = i" | "ibID x = i" "ibID y \<noteq> i" | "ibID x \<noteq> i" "ibID y = i" | "ibID x \<noteq> i" "ibID y \<noteq> i"
    by blast
  then show "ibID x = ibID y"
  proof cases
    case 1
    then show ?thesis by simp
  next
    case 2
    with xy assms(2) [of x] show ?thesis by (simp add: fitsPort_def)
  next
    case 3
    with xy assms(2) [of y] show ?thesis by (simp add: fitsPort_def)
  next
    case 4
    with xy have "ibNodeId x = ibNodeId y" "ibPort x = ibPort y" by simp_all
    with inboundInvD(3) [OF assms(1) xy(1,2)] show ?thesis by blast
  qed
qed

text \<open>Writing what is neither the key, the node nor the port.\<close>

definition sameSocket :: "xrayInbound \<Rightarrow> xrayInbound \<Rightarrow> bool" where
  "sameSocket x y = (ibID x = ibID y \<and> ibNodeId x = ibNodeId y \<and> ibPort x = ibPort y)"

lemma keeps_inboundInv_update [keeps_intro]:
  assumes "\<And>x. sameSocket (g x) x"
  shows "keeps inboundInv (updateInboundRow i g)"
  unfolding updateInboundRow_def
proof (rule keeps_modify, rule inboundInv_update)
  fix s x assume s: "inboundInv s" and x: "x \<in> set (dbInbounds s)" "ibID x = i"
  have g: "ibID (g x) = ibID x" "ibNodeId (g x) = ibNodeId x" "ibPort (g x) = ibPort x"
    using assms [of x] by (simp_all add: sameSocket_def)
  have "fitsPort (g x) s" unfolding fitsPort_def g using inboundInvD(3) [OF s _ x(1)] by blast
  with g x show "ibID (g x) = i \<and> fitsPort (g x) s" by simp
qed

lemma keeps_inboundInv_save:
  assumes "sameSocket ib old"
  shows "keeps (\<lambda>s. inboundInv s \<and> fitsPort old s) (saveInbound ib)"
proof (rule keepsI)
  fix s assume s: "inboundInv s \<and> fitsPort old s"
  have f: "fitsPort ib s" using s assms by (simp add: fitsPort_def sameSocket_def)
  have "inboundInv (exec (saveInbound ib) s)"
    unfolding saveInbound_def updateInboundRow_def exec_simps using s f by (intro inboundInv_update) simp_all
  moreover have "fitsPort old (exec (saveInbound ib) s)"
    using s f assms by (auto simp: saveInbound_def updateInboundRow_def fitsPort_def sameSocket_def set_updateRows)
  ultimately show "inboundInv (exec (saveInbound ib) s) \<and> fitsPort old (exec (saveInbound ib) s)" ..
qed

lemma withClients_Some: "withClients E s ib = Some m \<Longrightarrow> sameSocket m ib \<and> ibUserId m = ibUserId ib"
  by (auto simp: withClients_def sameSocket_def)

lemma keeps_deployInbound: "keeps inboundInv (deployInbound E n ib)"
  unfolding deployInbound_def by (intro keeps_intro; simp add: sameSocket_def)

lemma portTaken_False: "\<not> portTaken s n p e \<longleftrightarrow> (\<forall>x \<in> set (dbInbounds s). ibNodeId x = n \<longrightarrow> ibPort x = p \<longrightarrow> Some (ibID x) = e)"
  by (auto simp: portTaken_def filter_empty_conv)

lemma inboundInv_insert:
  assumes "inboundInv s" "\<not> portTaken s (xidNodeId d) (xidPort d) None"
  shows "inboundInv (exec (insertInbound (newInbound E s d u r)) s)"
proof -
  let ?ib = "newInbound E s d u r"
  have new: "ibID ?ib = dbAutoInc s ''xray_inbound''" "ibNodeId ?ib = xidNodeId d" "ibPort ?ib = xidPort d"
    by (simp_all add: newInbound_def)
  have free: "\<forall>x \<in> set (dbInbounds s). \<not> (ibNodeId x = xidNodeId d \<and> ibPort x = xidPort d)"
    using assms(2) by (auto simp: portTaken_False)
  have ids: "\<forall>x \<in> set (dbInbounds s). ibID x < dbAutoInc s ''xray_inbound''" using inboundInvD(2) [OF assms(1)] by blast
  have ins: "dbInbounds (exec (insertInbound ?ib) s) = dbInbounds s @ [?ib]"
    "dbAutoInc (exec (insertInbound ?ib) s) ''xray_inbound'' = dbAutoInc s ''xray_inbound'' + 1"
    by (simp_all add: insertInbound_def new(1))
  have "distinct (map ibID (dbInbounds s @ [?ib]))"
    using inboundInvD(1) [OF assms(1)] ids by (force simp: new)
  moreover have "\<forall>x \<in> set (dbInbounds s @ [?ib]). ibID x < dbAutoInc s ''xray_inbound'' + 1"
    using ids by (force simp: new)
  moreover have "ibID x = ibID y" if "x \<in> set (dbInbounds s @ [?ib])" "y \<in> set (dbInbounds s @ [?ib])"
      "ibNodeId x = ibNodeId y" "ibPort x = ibPort y" for x y
  proof (cases "x = ?ib \<or> y = ?ib")
    case True
    then show ?thesis using that free new(2,3) by auto
  next
    case False
    with that have "x \<in> set (dbInbounds s)" "y \<in> set (dbInbounds s)" by auto
    with that inboundInvD(3) [OF assms(1)] show ?thesis by blast
  qed
  ultimately show ?thesis unfolding inboundInv_def ins by blast
qed

lemma keeps_inboundInv_tag: "keeps inboundInv (if ibTag ib = [] then updateInboundRow (ibID ib) autoTag else return ())"
  by (intro keeps_intro) (simp add: autoTag_def sameSocket_def)

lemma keeps_CreateXrayInbound: "keeps inboundInv (CreateXrayInbound E d u r)"
proof (rule keepsI)
  fix s assume s: "inboundInv s"
  let ?ib = "newInbound E s d u r"
  have "inboundInv (exec (deployInbound E n (autoTag ?ib))
      (exec (if ibTag ?ib = [] then updateInboundRow (ibID ?ib) autoTag else return ()) (exec (insertInbound ?ib) s)))"
    if "\<not> portTaken s (xidNodeId d) (xidPort d) None" for n
    by (rule keepsD [OF keeps_deployInbound keepsD [OF keeps_inboundInv_tag inboundInv_insert [OF s that]]])
  with s show "inboundInv (exec (CreateXrayInbound E d u r) s)"
    unfolding CreateXrayInbound_def by (simp add: Let_def split: option.split)
qed

lemma ownedInbound_Inr:
  assumes "ownedInbound s i u r = Inr ib"
  shows "ib \<in> set (dbInbounds s)" "ibID ib = i" "r \<noteq> 0 \<Longrightarrow> ibUserId ib = u" "firstInbound s i = Some ib"
  using assms rowById_in rowById_id
  by (fastforce simp: ownedInbound_def firstInbound_def split: option.splits if_splits)+

lemma keeps_replaceInbound:
  "keeps (\<lambda>s. inboundInv s \<and> fitsPort old s) (replaceInbound E old ib)"
  unfolding replaceInbound_def rollbackInbound_def
  by (intro keeps_intro keeps_inboundInv_save; (simp add: sameSocket_def; fail | blast dest: withClients_Some))

lemma exec_onOwned: "exec (onOwned i u r h) s = (case ownedInbound s i u r of Inl e \<Rightarrow> s | Inr ib \<Rightarrow> exec (h ib) s)"
  by (simp add: onOwned_def split: sum.split)

lemma keeps_onOwned [keeps_intro]: "(\<And>ib. keeps I (h ib)) \<Longrightarrow> keeps I (onOwned i u r h)"
  unfolding onOwned_def by (intro keeps_intro)

lemma inboundInv_updateOwned:
  assumes s: "inboundInv s" and old: "old \<in> set (dbInbounds s)" "ibID old = xiuID d"
  shows "inboundInv (exec (updateOwned E d old) s)"
proof (cases "portConflict s d old")
  case True
  with s show ?thesis by (simp add: updateOwned_def)
next
  case False
  let ?s = "exec (updateInboundRow (ibID old) (writeInbound E d)) s"
  note uniq = inboundInvD(4) [OF s _ old(1)]
  have "fitsPort (writeInbound E d old) s"
  proof (cases "xiuPort d = None \<or> xiuPort d = Some (ibPort old)")
    case True
    then have "sameSocket (writeInbound E d old) old" by (auto simp: writeInbound_def sameSocket_def)
    then show ?thesis unfolding fitsPort_def sameSocket_def using inboundInvD(3) [OF s _ old(1)] by metis
  next
    case p: False
    then show ?thesis
      using False old(2) by (auto simp: fitsPort_def writeInbound_def portConflict_def portTaken_False)
  qed
  then have inv: "inboundInv ?s"
    unfolding updateInboundRow_def exec_simps
    by (intro inboundInv_update [OF s]) (use uniq in \<open>auto simp: writeInbound_def\<close>)
  have "fitsPort old ?s"
    unfolding fitsPort_def updateInboundRow_def exec_simps
    using inboundInvD(3) [OF s _ old(1)] by (auto simp: set_updateRows writeInbound_def)
  with inv have "inboundInv (exec (replaceInbound E old ib) ?s)" for ib
    using keepsD [OF keeps_replaceInbound, of ?s old E ib] by simp
  with inv show ?thesis using False by (simp add: updateOwned_def run Let_def)
qed

lemma keeps_UpdateXrayInbound: "keeps inboundInv (UpdateXrayInbound E d u r)"
proof (rule keepsI)
  fix s assume s: "inboundInv s"
  show "inboundInv (exec (UpdateXrayInbound E d u r) s)"
    using s inboundInv_updateOwned [OF s] ownedInbound_Inr
    by (fastforce simp: UpdateXrayInbound_def exec_onOwned split: sum.split)
qed

lemma keeps_inboundInv_delete: "keeps inboundInv (modify (\<lambda>s. s\<lparr>dbInbounds := deleteRows P (dbInbounds s)\<rparr>))"
  by (rule keeps_modify) (auto simp: inboundInv_def distinct_deleteRows)

lemma inboundInv_clients [simp]: "inboundInv (s\<lparr>dbClients := x\<rparr>) = inboundInv s"
  by (simp add: inboundInv_def)

lemma keeps_stopIfIdle [keeps_intro]: "ignoresSent I \<Longrightarrow> keeps I (stopIfIdle E n)"
  unfolding stopIfIdle_def by (intro keeps_intro) assumption

lemma keeps_inbound_rest:
  "keeps inboundInv (DeleteXrayInbound E i u r)" "keeps inboundInv (EnableXrayInbound E i u r)"
  "keeps inboundInv (DisableXrayInbound E i u r)"
  unfolding DeleteXrayInbound_def EnableXrayInbound_def DisableXrayInbound_def
    deleteOwned_def enableOwned_def disableOwned_def
  by (intro keeps_intro keeps_inboundInv_delete keeps_modify; simp add: sameSocket_def)+

end
