(* ===== verification/XrayIsolation.thy ===== *)
theory XrayIsolation
  imports XrayProps
begin

text \<open>
  Requests of a user to the Xray handlers touch only what the user owns: his inbounds, his clients,
  and, when he deletes an inbound of his, the clients on it.
\<close>

section \<open>Requests\<close>

text \<open>What \<open>handler/xray_inbound.go\<close> and \<open>handler/xray_client.go\<close> hand to the services.\<close>

datatype xrayRequest =
    CreateInbound xrayInboundDto | UpdateInbound xrayInboundUpdateDto | DeleteInbound int
  | EnableInbound int | DisableInbound int
  | CreateClient xrayClientDto | UpdateClient xrayClientUpdateDto | DeleteClient int | ResetClient int

definition ignore :: "'a prog \<Rightarrow> unit prog" where
  "ignore m = do { m; return () }"

fun handleXray :: "env \<Rightarrow> int \<Rightarrow> int \<Rightarrow> xrayRequest \<Rightarrow> unit prog" where
  "handleXray E u r (CreateInbound d) = ignore (CreateXrayInbound E d u r)"
| "handleXray E u r (UpdateInbound d) = ignore (UpdateXrayInbound E d u r)"
| "handleXray E u r (DeleteInbound i) = ignore (DeleteXrayInbound E i u r)"
| "handleXray E u r (EnableInbound i) = ignore (EnableXrayInbound E i u r)"
| "handleXray E u r (DisableInbound i) = ignore (DisableXrayInbound E i u r)"
| "handleXray E u r (CreateClient d) = ignore (CreateXrayClient E d u r)"
| "handleXray E u r (UpdateClient d) = ignore (UpdateXrayClient E d u r)"
| "handleXray E u r (DeleteClient i) = ignore (DeleteXrayClient E i u r)"
| "handleXray E u r (ResetClient i) = ignore (ResetXrayClientTraffic E i u r)"

lemma exec_ignore [simp]: "exec (ignore m) s = exec m s"
  by (simp add: ignore_def)

section \<open>Tables with an owner\<close>

text \<open>What all others own stays, while the rows under the key \<open>i\<close> are the user's.\<close>

definition othersInbounds :: "int \<Rightarrow> xrayInbound list \<Rightarrow> int \<Rightarrow> panel \<Rightarrow> bool" where
  "othersInbounds u X i s = (filter (\<lambda>x. ibUserId x \<noteq> u) (dbInbounds s) = X \<and>
     (\<forall>x \<in> set (dbInbounds s). ibID x = i \<longrightarrow> ibUserId x = u))"

definition othersClients :: "int \<Rightarrow> xrayClient list \<Rightarrow> int \<Rightarrow> panel \<Rightarrow> bool" where
  "othersClients u X i s = (filter (\<lambda>x. xcUserId x \<noteq> u) (dbClients s) = X \<and>
     (\<forall>x \<in> set (dbClients s). xcID x = i \<longrightarrow> xcUserId x = u))"

definition clientKeys :: "panel \<Rightarrow> bool" where
  "clientKeys s = (distinct (map xcID (dbClients s)) \<and> (\<forall>c \<in> set (dbClients s). xcID c < dbAutoInc s ''xray_client''))"

lemma ignoresSent_others [simp]:
  "ignoresSent (othersInbounds u X i)" "ignoresSent (othersClients u Y j)"
  by (simp_all add: ignoresSent_def othersInbounds_def othersClients_def)

text \<open>A deletion under the key leaves the filtered table alone.\<close>

lemma filter_deleteRows:
  assumes "\<And>x. x \<in> set rows \<Longrightarrow> k x = i \<Longrightarrow> \<not> P x"
  shows "filter P (deleteRows (\<lambda>x. k x = i) rows) = filter P rows"
  using assms by (induction rows) (auto simp: deleteRows_def)

lemma keeps_others_update [keeps_intro]:
  assumes "\<And>x. ibID x = i \<Longrightarrow> ibUserId x = u \<Longrightarrow> ibID (g x) = i \<and> ibUserId (g x) = u"
  shows "keeps (othersInbounds u X i) (updateInboundRow i g)"
  unfolding updateInboundRow_def
proof (rule keeps_modify)
  fix s assume s: "othersInbounds u X i s"
  have "filter (\<lambda>x. ibUserId x \<noteq> u) (updateRows (\<lambda>x. ibID x = i) g (dbInbounds s)) = filter (\<lambda>x. ibUserId x \<noteq> u) (dbInbounds s)"
    using s assms by (intro filter_updateRows) (simp add: othersInbounds_def)
  moreover have "ibUserId y = u" if y: "y \<in> set (updateRows (\<lambda>x. ibID x = i) g (dbInbounds s))" "ibID y = i" for y
  proof -
    obtain x where x: "x \<in> set (dbInbounds s)" "y = (if ibID x = i then g x else x)"
      using y(1) unfolding set_updateRows by (rule imageE)
    show ?thesis
    proof (cases "ibID x = i")
      case True
      then show ?thesis using x s assms [of x] by (simp add: othersInbounds_def)
    next
      case False
      then show ?thesis using x y(2) by simp
    qed
  qed
  ultimately show "othersInbounds u X i (s\<lparr>dbInbounds := updateRows (\<lambda>x. ibID x = i) g (dbInbounds s)\<rparr>)"
    using s by (simp add: othersInbounds_def)
qed

lemma keeps_others_save [keeps_intro]:
  "ibID ib = i \<Longrightarrow> ibUserId ib = u \<Longrightarrow> keeps (othersInbounds u X i) (saveInbound ib)"
  unfolding saveInbound_def by (auto intro!: keeps_others_update)

lemma keeps_others_delete [keeps_intro]:
  "keeps (othersInbounds u X i) (modify (\<lambda>s. s\<lparr>dbInbounds := deleteRows (\<lambda>x. ibID x = i) (dbInbounds s)\<rparr>))"
  by (rule keeps_modify) (simp add: othersInbounds_def filter_deleteRows)

lemma keeps_others_clients [keeps_intro]:
  "keeps (othersInbounds u X i) (modify (\<lambda>s. s\<lparr>dbClients := f s\<rparr>))"
  "keeps (othersInbounds u X i) (updateClientRow j h)" "keeps (othersInbounds u X i) (insertClient c)"
  "keeps (othersInbounds u X i) (deleteClientRow j)" "keeps (othersInbounds u X i) (saveClient c)"
  unfolding updateClientRow_def insertClient_def deleteClientRow_def saveClient_def
  by (rule keeps_modify, simp add: othersInbounds_def)+

section \<open>Inbounds\<close>

lemma withClients_key: "withClients E s ib = Some m \<Longrightarrow> ibID m = ibID ib \<and> ibUserId m = ibUserId ib \<and> ibNodeId m = ibNodeId ib"
  by (auto simp: withClients_def)

lemma keeps_others_deploy: "keeps (othersInbounds u X (ibID ib)) (deployInbound E n ib)"
  unfolding deployInbound_def by (intro keeps_intro; simp)

lemma keeps_others_replace:
  "ibUserId old = u \<Longrightarrow> keeps (othersInbounds u X (ibID old)) (replaceInbound E old ib)"
  unfolding replaceInbound_def rollbackInbound_def
  by (intro keeps_intro) (auto dest: withClients_key)

lemma othersI:
  assumes "inboundInv s" "ib \<in> set (dbInbounds s)" "ibUserId ib = u"
  shows "othersInbounds u (filter (\<lambda>x. ibUserId x \<noteq> u) (dbInbounds s)) (ibID ib) s"
  using inboundInvD(4) [OF assms(1) _ assms(2)] assms(3) by (auto simp: othersInbounds_def)

text \<open>A handler that first looks for an inbound of the caller.\<close>

lemma isolated_owned:
  assumes "inboundInv s" "r \<noteq> 0"
    and "\<And>ib X. ibUserId ib = u \<Longrightarrow> ibID ib = i \<Longrightarrow> keeps (othersInbounds u X (ibID ib)) (h ib)"
  shows "filter (\<lambda>x. ibUserId x \<noteq> u) (dbInbounds (exec (onOwned i u r h) s)) = filter (\<lambda>x. ibUserId x \<noteq> u) (dbInbounds s)"
proof (cases "ownedInbound s i u r")
  case (Inl e)
  then show ?thesis by (simp add: exec_onOwned)
next
  case (Inr ib)
  note own = ownedInbound_Inr [OF Inr]
  from keepsD [OF assms(3) [OF own(3) [OF assms(2)] own(2)] othersI [OF assms(1) own(1) own(3) [OF assms(2)]]]
  show ?thesis using Inr by (simp add: othersInbounds_def exec_onOwned)
qed

lemma created_isolated:
  assumes "inboundInv s" "r \<noteq> 0"
  shows "filter (\<lambda>x. ibUserId x \<noteq> u) (dbInbounds (exec (CreateXrayInbound E d u r) s)) = filter (\<lambda>x. ibUserId x \<noteq> u) (dbInbounds s)"
proof -
  let ?ib = "newInbound E s d u r" and ?X = "filter (\<lambda>x. ibUserId x \<noteq> u) (dbInbounds s)"
  let ?rest = "\<lambda>n. do { (if ibTag ?ib = [] then updateInboundRow (ibID ?ib) autoTag else return ()); deployInbound E n (autoTag ?ib) }"
  have new: "ibUserId ?ib = u" "ibID ?ib = dbAutoInc s ''xray_inbound''" "ibID (autoTag ?ib) = ibID ?ib"
    using assms(2) by (simp_all add: newInbound_def autoTag_def)
  have ins: "othersInbounds u ?X (ibID ?ib) (exec (insertInbound ?ib) s)"
    using inboundInvD(2) [OF assms(1)] new by (force simp: othersInbounds_def insertInbound_def)
  have "keeps (othersInbounds u ?X (ibID ?ib)) (deployInbound E n (autoTag ?ib))" for n
    using keeps_others_deploy [of u ?X "autoTag ?ib" E n] by (simp only: new(3))
  then have "keeps (othersInbounds u ?X (ibID ?ib)) (?rest n)" for n
    by (intro keeps_intro) (simp_all add: autoTag_def)
  from keepsD [OF this ins] show ?thesis
    by (simp add: CreateXrayInbound_def Let_def othersInbounds_def split: option.split)
qed

lemma keeps_others_enable: "ibUserId ib = u \<Longrightarrow> keeps (othersInbounds u X (ibID ib)) (enableOwned E ib)"
proof -
  assume u: "ibUserId ib = u"
  have "ibID (reloadInbound ib s) = ibID ib" for s
    using rowById_id by (fastforce simp: reloadInbound_def firstInbound_def split: option.splits)
  then have id: "withClients E s (reloadInbound ib s) = Some m \<Longrightarrow> ibID m = ibID ib" for s m
    using withClients_key by fastforce
  show ?thesis
    unfolding enableOwned_def by (intro keeps_intro; (simp; fail)?) (drule id, simp add: keeps_others_update)
qed

text \<open>The handlers of clients leave the inbounds alone.\<close>

lemma exec_onOwnedClient:
  "exec (onOwnedClient i u r h) s = (case ownedClient s i u r of Inl e \<Rightarrow> s | Inr c \<Rightarrow> exec (h c) s)"
  by (simp add: onOwnedClient_def split: sum.split)

lemma keeps_onOwnedClient [keeps_intro]: "(\<And>c. keeps I (h c)) \<Longrightarrow> keeps I (onOwnedClient i u r h)"
  unfolding onOwnedClient_def by (intro keeps_intro)

lemma keeps_hotAddClient [keeps_intro]: "ignoresSent I \<Longrightarrow> keeps I (hotAddClient E ib c)"
  unfolding hotAddClient_def by (intro keeps_intro)

lemmas client_handlers = CreateXrayClient_def UpdateXrayClient_def DeleteXrayClient_def ResetXrayClientTraffic_def
  updateOwnedClient_def deleteOwnedClient_def resetOwnedClient_def applyClient_def addUpdatedClient_def

definition ignoresClients :: "(panel \<Rightarrow> bool) \<Rightarrow> bool" where
  "ignoresClients I = (ignoresSent I \<and> (\<forall>s x. I (s\<lparr>dbClients := x\<rparr>) = I s) \<and>
     (\<forall>s x n. I (s\<lparr>dbClients := x, dbAutoInc := (dbAutoInc s)(''xray_client'' := n)\<rparr>) = I s))"

lemma keeps_ignoresClients:
  assumes "ignoresClients I"
  shows "keeps I (updateClientRow i g)" "keeps I (insertClient c)" "keeps I (deleteClientRow i)" "keeps I (saveClient c)"
proof -
  have up: "keeps I (updateClientRow i g)" for i g
    unfolding updateClientRow_def using assms by (intro keeps_modify) (simp add: ignoresClients_def)
  then show "keeps I (updateClientRow i g)" "keeps I (saveClient c)" unfolding saveClient_def by blast+
  show "keeps I (deleteClientRow i)"
    unfolding deleteClientRow_def using assms by (intro keeps_modify) (simp add: ignoresClients_def)
  show "keeps I (insertClient c)"
    unfolding insertClient_def using assms by (intro keeps_modify) (simp add: ignoresClients_def)
qed

lemma keeps_client_handlers:
  assumes "ignoresClients I"
  shows "keeps I (CreateXrayClient E d1 u r)" "keeps I (UpdateXrayClient E d2 u r)" "keeps I (DeleteXrayClient E i u r)"
    "keeps I (ResetXrayClientTraffic E i u r)"
proof -
  have "ignoresSent I" using assms by (simp add: ignoresClients_def)
  then show "keeps I (CreateXrayClient E d1 u r)" "keeps I (UpdateXrayClient E d2 u r)" "keeps I (DeleteXrayClient E i u r)"
    "keeps I (ResetXrayClientTraffic E i u r)"
    unfolding client_handlers by (intro keeps_intro keeps_ignoresClients [OF assms]; assumption)+
qed

lemma inbounds_isolated:
  assumes "inboundInv s" "r \<noteq> 0"
  shows "filter (\<lambda>x. ibUserId x \<noteq> u) (dbInbounds (exec (handleXray E u r q) s)) = filter (\<lambda>x. ibUserId x \<noteq> u) (dbInbounds s)"
proof -
  have client: "dbInbounds (exec m s) = dbInbounds s" if "\<And>X. keeps (\<lambda>s. dbInbounds s = X) m" for m :: "unit prog"
    using keepsD [OF that refl] .
  have ign: "ignoresClients (\<lambda>s. dbInbounds s = X)" for X by (simp add: ignoresClients_def ignoresSent_def)
  note owned = isolated_owned [OF assms]
  show ?thesis
  proof (cases q)
    case (UpdateInbound d)
    then show ?thesis unfolding UpdateInbound handleXray.simps exec_ignore UpdateXrayInbound_def updateOwned_def
      by (intro owned keeps_intro keeps_others_replace; simp add: writeInbound_def)
  next
    case (DeleteInbound i)
    then show ?thesis unfolding DeleteInbound handleXray.simps exec_ignore DeleteXrayInbound_def deleteOwned_def
      by (intro owned keeps_intro; simp)
  next
    case (DisableInbound i)
    then show ?thesis unfolding DisableInbound handleXray.simps exec_ignore DisableXrayInbound_def disableOwned_def
      by (intro owned keeps_intro; simp)
  next
    case (EnableInbound i)
    then show ?thesis unfolding EnableInbound handleXray.simps exec_ignore EnableXrayInbound_def
      by (intro owned keeps_others_enable)
  qed (simp_all add: created_isolated [OF assms]
      keepsD [OF keeps_client_handlers(1) [OF ign] refl] keepsD [OF keeps_client_handlers(2) [OF ign] refl]
      keepsD [OF keeps_client_handlers(3) [OF ign] refl] keepsD [OF keeps_client_handlers(4) [OF ign] refl])
qed

section \<open>Clients\<close>

lemma clientKeysD:
  assumes "clientKeys s"
  shows "x \<in> set (dbClients s) \<Longrightarrow> xcID x < dbAutoInc s ''xray_client''"
    "x \<in> set (dbClients s) \<Longrightarrow> y \<in> set (dbClients s) \<Longrightarrow> xcID x = xcID y \<Longrightarrow> x = y"
  using assms unfolding clientKeys_def by (blast, metis distinct_map inj_onD)

lemma ownedClient_Inr:
  assumes "ownedClient s i u r = Inr c"
  shows "c \<in> set (dbClients s)" "xcID c = i" "r \<noteq> 0 \<Longrightarrow> xcUserId c = u" "firstClient s i = Some c" "checkXrayPermission s u r = None"
  using assms rowById_in rowById_id
  by (fastforce simp: ownedClient_def firstClient_def split: option.splits if_splits)+

lemma keeps_othersClients_update [keeps_intro]:
  assumes "\<And>x. xcID x = i \<Longrightarrow> xcUserId x = u \<Longrightarrow> xcID (g x) = i \<and> xcUserId (g x) = u"
  shows "keeps (othersClients u X i) (updateClientRow i g)"
  unfolding updateClientRow_def
proof (rule keeps_modify)
  fix s assume s: "othersClients u X i s"
  have "filter (\<lambda>x. xcUserId x \<noteq> u) (updateRows (\<lambda>x. xcID x = i) g (dbClients s)) = filter (\<lambda>x. xcUserId x \<noteq> u) (dbClients s)"
    using s assms by (intro filter_updateRows) (simp add: othersClients_def)
  moreover have "xcUserId y = u" if y: "y \<in> set (updateRows (\<lambda>x. xcID x = i) g (dbClients s))" "xcID y = i" for y
  proof -
    obtain x where x: "x \<in> set (dbClients s)" "y = (if xcID x = i then g x else x)"
      using y(1) unfolding set_updateRows by (rule imageE)
    show ?thesis
    proof (cases "xcID x = i")
      case True
      then show ?thesis using x s assms [of x] by (simp add: othersClients_def)
    next
      case False
      then show ?thesis using x y(2) by simp
    qed
  qed
  ultimately show "othersClients u X i (s\<lparr>dbClients := updateRows (\<lambda>x. xcID x = i) g (dbClients s)\<rparr>)"
    using s by (simp add: othersClients_def)
qed

lemma keeps_othersClients_rows [keeps_intro]:
  "xcID c = i \<Longrightarrow> xcUserId c = u \<Longrightarrow> keeps (othersClients u X i) (saveClient c)"
  "keeps (othersClients u X i) (deleteClientRow i)"
proof -
  show "keeps (othersClients u X i) (deleteClientRow i)"
    unfolding deleteClientRow_def by (rule keeps_modify) (simp add: othersClients_def filter_deleteRows)
qed (auto simp: saveClient_def intro!: keeps_othersClients_update)

lemma isolated_owned_client:
  assumes "clientKeys s" "r \<noteq> 0"
    and "\<And>c X. xcUserId c = u \<Longrightarrow> xcID c = i \<Longrightarrow> keeps (othersClients u X (xcID c)) (h c)"
  shows "filter (\<lambda>x. xcUserId x \<noteq> u) (dbClients (exec (onOwnedClient i u r h) s)) = filter (\<lambda>x. xcUserId x \<noteq> u) (dbClients s)"
proof (cases "ownedClient s i u r")
  case (Inl e)
  then show ?thesis by (simp add: exec_onOwnedClient)
next
  case (Inr c)
  note own = ownedClient_Inr [OF Inr]
  have "othersClients u (filter (\<lambda>x. xcUserId x \<noteq> u) (dbClients s)) (xcID c) s"
    using clientKeysD(2) [OF assms(1) _ own(1)] own(3) [OF assms(2)] by (auto simp: othersClients_def)
  from keepsD [OF assms(3) [OF own(3) [OF assms(2)] own(2)] this]
  show ?thesis using Inr by (simp add: othersClients_def exec_onOwnedClient)
qed

lemma created_client_isolated:
  assumes "clientKeys s" "r \<noteq> 0"
  shows "filter (\<lambda>x. xcUserId x \<noteq> u) (dbClients (exec (CreateXrayClient E d u r) s)) = filter (\<lambda>x. xcUserId x \<noteq> u) (dbClients s)"
proof -
  have "filter (\<lambda>x. xcUserId x \<noteq> u) (dbClients (exec (deleteClientRow (dbAutoInc s ''xray_client'')) s')) =
      filter (\<lambda>x. xcUserId x \<noteq> u) (dbClients s)"
    if "dbClients s' = dbClients s @ [newClient E s ib d u]" for s' ib
  proof -
    have "xcUserId x \<noteq> u \<Longrightarrow> x \<in> set (dbClients s) \<Longrightarrow> xcID x \<noteq> dbAutoInc s ''xray_client''" for x
      using clientKeysD(1) [OF assms(1)] by fastforce
    then have "filter (\<lambda>x. xcUserId x \<noteq> u) (deleteRows (\<lambda>x. xcID x = dbAutoInc s ''xray_client'') (dbClients s')) =
        filter (\<lambda>x. xcUserId x \<noteq> u) (dbClients s)"
      unfolding deleteRows_def that by (auto simp: newClient_def intro!: filter_cong)
    then show ?thesis by (simp add: deleteClientRow_def)
  qed
  then show ?thesis
    using assms(2) by (auto simp: CreateXrayClient_def Let_def run insertClient_def hotAddClient_def XrayAddClient_def
        newClient_def split: option.split)
qed

definition ignoresInbounds :: "(panel \<Rightarrow> bool) \<Rightarrow> bool" where
  "ignoresInbounds I = (ignoresSent I \<and> (\<forall>s x. I (s\<lparr>dbInbounds := x\<rparr>) = I s) \<and>
     (\<forall>s x n. I (s\<lparr>dbInbounds := x, dbAutoInc := (dbAutoInc s)(''xray_inbound'' := n)\<rparr>) = I s))"

lemma keeps_ignoresInbounds:
  assumes "ignoresInbounds I"
  shows "keeps I (updateInboundRow i g)" "keeps I (insertInbound ib)" "keeps I (saveInbound ib)"
proof -
  have up: "keeps I (updateInboundRow i g)" for i g
    unfolding updateInboundRow_def using assms by (intro keeps_modify) (simp add: ignoresInbounds_def)
  then show "keeps I (updateInboundRow i g)" "keeps I (saveInbound ib)" unfolding saveInbound_def by blast+
  show "keeps I (insertInbound ib)"
    unfolding insertInbound_def using assms by (intro keeps_modify) (simp add: ignoresInbounds_def)
qed

lemma keeps_inbound_handlers:
  assumes "ignoresInbounds I"
  shows "keeps I (CreateXrayInbound E d1 u r)" "keeps I (UpdateXrayInbound E d2 u r)" "keeps I (EnableXrayInbound E i u r)"
    "keeps I (DisableXrayInbound E i u r)"
proof -
  have s: "ignoresSent I" using assms by (simp add: ignoresInbounds_def)
  show "keeps I (CreateXrayInbound E d1 u r)"
    unfolding CreateXrayInbound_def deployInbound_def by (intro keeps_intro keeps_ignoresInbounds [OF assms] s)
  show "keeps I (UpdateXrayInbound E d2 u r)"
    unfolding UpdateXrayInbound_def updateOwned_def replaceInbound_def rollbackInbound_def
    by (intro keeps_intro keeps_ignoresInbounds [OF assms] s)
  show "keeps I (EnableXrayInbound E i u r)" "keeps I (DisableXrayInbound E i u r)"
    unfolding EnableXrayInbound_def enableOwned_def DisableXrayInbound_def disableOwned_def
    by (intro keeps_intro keeps_ignoresInbounds [OF assms] s)+
qed

text \<open>The clients of others that a request may reach: those on an inbound it deletes.\<close>

definition reaches :: "xrayRequest \<Rightarrow> xrayClient \<Rightarrow> bool" where
  "reaches q c = (case q of DeleteInbound i \<Rightarrow> xcInboundId c = i | _ \<Rightarrow> False)"

lemma clients_deleteOwned:
  "dbClients (exec (deleteOwned E i ib) s) = dbClients s \<or>
   dbClients (exec (deleteOwned E i ib) s) = deleteRows (\<lambda>c. xcInboundId c = i) (dbClients s)"
proof -
  have idle: "dbClients (exec (stopIfIdle E n) s') = dbClients s'" for n s'
  proof -
    have "keeps (\<lambda>s. dbClients s = dbClients s') (stopIfIdle E n)"
      by (rule keeps_stopIfIdle) (simp add: ignoresSent_def)
    from keepsD [OF this refl] show ?thesis .
  qed
  show ?thesis by (simp add: deleteOwned_def run idle XrayRemoveInbound_def)
qed

lemma clients_isolated:
  assumes "clientKeys s" "r \<noteq> 0"
  shows "filter (\<lambda>c. xcUserId c \<noteq> u \<and> \<not> reaches q c) (dbClients (exec (handleXray E u r q) s)) =
    filter (\<lambda>c. xcUserId c \<noteq> u \<and> \<not> reaches q c) (dbClients s)"
proof -
  have ign: "ignoresInbounds (\<lambda>s. dbClients s = X)" for X by (simp add: ignoresInbounds_def ignoresSent_def)
  note owned = isolated_owned_client [OF assms]
  show ?thesis
  proof (cases q)
    case (DeleteInbound i)
    have "filter (\<lambda>c. xcUserId c \<noteq> u \<and> \<not> xcInboundId c = i) (deleteRows (\<lambda>c. xcInboundId c = i) rows) =
        filter (\<lambda>c. xcUserId c \<noteq> u \<and> \<not> xcInboundId c = i) rows" for rows
      by (induction rows) (auto simp: deleteRows_def)
    then have "filter (\<lambda>c. xcUserId c \<noteq> u \<and> \<not> xcInboundId c = i) (dbClients (exec (deleteOwned E i ib) s)) =
        filter (\<lambda>c. xcUserId c \<noteq> u \<and> \<not> xcInboundId c = i) (dbClients s)" for ib
      using clients_deleteOwned [of E i ib s] by auto
    then show ?thesis
      by (simp add: DeleteInbound DeleteXrayInbound_def exec_onOwned reaches_def split: sum.split)
  next
    case (UpdateClient d)
    have "filter (\<lambda>c. xcUserId c \<noteq> u) (dbClients (exec (UpdateXrayClient E d u r) s)) = filter (\<lambda>c. xcUserId c \<noteq> u) (dbClients s)"
      unfolding UpdateXrayClient_def updateOwnedClient_def applyClient_def addUpdatedClient_def
      by (intro owned keeps_intro; simp add: writeClient_def)
    then show ?thesis by (simp add: UpdateClient reaches_def)
  next
    case (DeleteClient i)
    have "filter (\<lambda>c. xcUserId c \<noteq> u) (dbClients (exec (DeleteXrayClient E i u r) s)) = filter (\<lambda>c. xcUserId c \<noteq> u) (dbClients s)"
      unfolding DeleteXrayClient_def deleteOwnedClient_def by (intro owned keeps_intro; simp)
    then show ?thesis by (simp add: DeleteClient reaches_def)
  next
    case (ResetClient i)
    have "filter (\<lambda>c. xcUserId c \<noteq> u) (dbClients (exec (ResetXrayClientTraffic E i u r) s)) = filter (\<lambda>c. xcUserId c \<noteq> u) (dbClients s)"
      unfolding ResetXrayClientTraffic_def resetOwnedClient_def by (intro owned keeps_intro; simp)
    then show ?thesis by (simp add: ResetClient reaches_def)
  qed (simp_all add: reaches_def created_client_isolated [OF assms]
      keepsD [OF keeps_inbound_handlers(1) [OF ign] refl] keepsD [OF keeps_inbound_handlers(2) [OF ign] refl]
      keepsD [OF keeps_inbound_handlers(3) [OF ign] refl] keepsD [OF keeps_inbound_handlers(4) [OF ign] refl])
qed


definition exShared :: panel where
  "exShared = exXray\<lparr>dbUsers := [exUser, exUser\<lparr>userID := 8, userUser := ''bob''\<rparr>],
     dbInbounds := [zeroInbound\<lparr>ibID := 1, ibNodeId := 2, ibUserId := 7, ibTag := ''a'', ibPort := 443, ibEnable := 1\<rparr>,
       zeroInbound\<lparr>ibID := 2, ibNodeId := 2, ibUserId := 8, ibTag := ''b'', ibPort := 444, ibEnable := 1\<rparr>],
     dbClients := [zeroClient\<lparr>xcID := 1, xcInboundId := 1, xcUserId := 8, xcEmail := ''e'', xcEnable := 1\<rparr>,
       zeroClient\<lparr>xcID := 2, xcInboundId := 2, xcUserId := 8, xcEmail := ''f'', xcEnable := 1\<rparr>]\<rparr>"


end
