(* ===== verification/XrayBehaviour.thy ===== *)
theory XrayBehaviour
  imports XrayIsolation
begin

text \<open>
  What the Xray handlers do on their less travelled paths: the settings a refused update leaves in
  the table.
\<close>

section \<open>A refused update\<close>

lemma rowById_save:
  "rid m = i \<Longrightarrow> rowById rid i (updateRows (\<lambda>r. rid r = i) (\<lambda>_. m) rows) = map_option (\<lambda>_. m) (rowById rid i rows)"
  by (induction rows) (auto simp: updateRows_def rowById_Cons)

lemma rowById_update:
  "(\<And>r. rid r = i \<Longrightarrow> rid (f r) = i) \<Longrightarrow>
   rowById rid i (updateRows (\<lambda>r. rid r = i) f rows) = map_option f (rowById rid i rows)"
  by (induction rows) (auto simp: updateRows_def rowById_Cons)

lemma mergeClients_cong:
  assumes "dbClients s' = dbClients s"
  shows "mergeClientsIntoSettings E s' ib = mergeClientsIntoSettings E s ib"
  by (simp only: mergeClientsIntoSettings_def clientsOf_def assms)

lemma withClients_cong: "dbClients s' = dbClients s \<Longrightarrow> withClients E s' ib = withClients E s ib"
  using mergeClients_cong [of s' s E ib] by (simp add: withClients_def)

lemma tables_xray [simp]:
  "dbClients (exec (XrayAddInbound E n ib) s) = dbClients s" "dbInbounds (exec (XrayAddInbound E n ib) s) = dbInbounds s"
  "dbClients (exec (XrayRemoveInbound E n t) s) = dbClients s" "dbInbounds (exec (XrayRemoveInbound E n t) s) = dbInbounds s"
  "dbClients (exec (XrayRemoveClient E n t em) s) = dbClients s" "dbInbounds (exec (XrayRemoveClient E n t em) s) = dbInbounds s"
  "dbClients (exec (hotAddClient E ib c) s) = dbClients s" "dbInbounds (exec (hotAddClient E ib c) s) = dbInbounds s"
  by (simp_all add: XrayAddInbound_def XrayRemoveInbound_def XrayRemoveClient_def hotAddClient_def XrayAddClient_def)

lemma tables_updateInboundRow [simp]:
  "dbClients (exec (updateInboundRow i g) s) = dbClients s"
  "dbInbounds (exec (updateInboundRow i g) s) = updateRows (\<lambda>x. ibID x = i) g (dbInbounds s)"
  by (simp_all add: updateInboundRow_def)

lemma saved_after_rollback:
  assumes "result (rollbackInbound E old msg) s \<noteq> Err EPanic" "firstInbound s (ibID old) \<noteq> None"
  shows "\<exists>j. mergeClientsIntoSettings E s old = Some j \<and>
    firstInbound (exec (rollbackInbound E old msg) s) (ibID old) = Some (old\<lparr>ibSettingsJson := j\<rparr>)"
proof (cases "mergeClientsIntoSettings E s old")
  case None
  with assms(1) show ?thesis by (simp add: rollbackInbound_def withClients_def)
next
  case (Some j)
  then have "exec (rollbackInbound E old msg) s =
      exec (saveInbound (old\<lparr>ibSettingsJson := j\<rparr>)) (exec (XrayAddInbound E (ibNodeId old) (old\<lparr>ibSettingsJson := j\<rparr>)) s)"
    by (simp add: rollbackInbound_def withClients_def)
  with Some assms(2) show ?thesis
    by (auto simp: saveInbound_def firstInbound_def rowById_save)
qed

text \<open>C33: A refused update publishes credentials. When the node refuses the changed inbound,
  \<open>UpdateXrayInbound\<close> reports that it went back to the old state, but the row it saves is not the old
  one: its settings are the merged settings, with the secrets of all enabled clients of the inbound,
  which \<open>ListXrayInbounds\<close> shows to every user who has a client there.\<close>

theorem refused_update_stores_clients:
  assumes "ownedInbound s (xiuID d) u r = Inr old" "\<not> portConflict s d old" "ibEnable old \<noteq> 0"
    and "result (UpdateXrayInbound E d u r) s = Err (EPrefixGost ''add inbound'' msg)"
  shows "\<exists>j. mergeClientsIntoSettings E s old = Some j \<and>
    firstInbound (exec (UpdateXrayInbound E d u r) s) (ibID old) = Some (old\<lparr>ibSettingsJson := j\<rparr>)"
proof -
  let ?s1 = "exec (updateInboundRow (ibID old) (writeInbound E d)) s"
  let ?upd = "reloadInbound old ?s1"
  let ?s2 = "exec (XrayRemoveInbound E (ibNodeId ?upd) (ibTag old)) ?s1"
  have run: "result (UpdateXrayInbound E d u r) s = result (replaceInbound E old ?upd) ?s1"
    "exec (UpdateXrayInbound E d u r) s = exec (replaceInbound E old ?upd) ?s1"
    using assms(1-3) by (simp_all add: UpdateXrayInbound_def onOwned_def updateOwned_def)
  with assms(4) obtain merged where m: "withClients E ?s2 ?upd = Some merged"
    and refused: "result (replaceInbound E old ?upd) ?s1 =
        result (rollbackInbound E old (respMsg (result (XrayAddInbound E (ibNodeId merged) merged) ?s2)))
          (exec (XrayAddInbound E (ibNodeId merged) merged) ?s2)"
    and ex: "exec (replaceInbound E old ?upd) ?s1 =
        exec (rollbackInbound E old (respMsg (result (XrayAddInbound E (ibNodeId merged) merged) ?s2)))
          (exec (XrayAddInbound E (ibNodeId merged) merged) ?s2)"
    by (auto simp: replaceInbound_def Let_def split: if_splits option.splits)
  let ?s3 = "exec (XrayAddInbound E (ibNodeId merged) merged) ?s2"
  have "firstInbound s (ibID old) = Some old" using ownedInbound_Inr [OF assms(1)] by simp
  then have "firstInbound ?s3 (ibID old) \<noteq> None"
    by (simp add: firstInbound_def rowById_update writeInbound_def)
  from saved_after_rollback [OF _ this, of E "respMsg (result (XrayAddInbound E (ibNodeId merged) merged) ?s2)"]
  have "\<exists>j. mergeClientsIntoSettings E ?s3 old = Some j \<and>
      firstInbound (exec (UpdateXrayInbound E d u r) s) (ibID old) = Some (old\<lparr>ibSettingsJson := j\<rparr>)"
    using assms(4) run refused ex by simp
  moreover have "mergeClientsIntoSettings E ?s3 old = mergeClientsIntoSettings E s old"
    by (rule mergeClients_cong) simp
  ultimately show ?thesis by simp
qed

text \<open>A node that accepts every command but the second addition.\<close>

definition exRefusing :: env where
  "exRefusing = exEnv\<lparr>nodeReply := (\<lambda>sent c. \<lparr>respMsg = (if cmdType c = ''VAddInbound'' then ''bad port'' else ''OK''), respData = None\<rparr>),
     jsonPrint := (\<lambda>j. ''{clients}'')\<rparr>"

definition exMove :: xrayInboundUpdateDto where
  "exMove = \<lparr>xiuID = 2, xiuTag = [], xiuProtocol = [], xiuListen = [], xiuPort = Some 445, xiuSettingsJson = [],
     xiuStreamSettingsJson = [], xiuSniffingJson = [], xiuRemark = [], xiuCustomEntry = None\<rparr>"

theorem refused_update_stores_clients_witness:
  "map ibSettingsJson (filter (\<lambda>x. ibID x = 2) (dbInbounds exShared)) = [[]] \<and>
   (\<exists>ib. firstInbound (exec (UpdateXrayInbound exRefusing exMove 8 1) exShared) 2 = Some ib \<and> ibSettingsJson ib = ''{clients}'')"
proof -
  obtain old where old: "ownedInbound exShared 2 8 1 = Inr old" "ibID old = 2" "ibEnable old \<noteq> 0" "\<not> portConflict exShared exMove old"
  proof -
    have "(case ownedInbound exShared 2 8 1 of Inl _ \<Rightarrow> False
      | Inr x \<Rightarrow> ibID x = 2 \<and> ibEnable x \<noteq> 0 \<and> \<not> portConflict exShared exMove x)" by code_simp
    then show thesis using that by (auto split: sum.splits)
  qed
  have id: "xiuID exMove = 2" by (simp add: exMove_def)
  have err: "result (UpdateXrayInbound exRefusing exMove 8 1) exShared = Err (EPrefixGost ''add inbound'' ''bad port'')" by code_simp
  obtain j where j: "mergeClientsIntoSettings exRefusing exShared old = Some j"
    "firstInbound (exec (UpdateXrayInbound exRefusing exMove 8 1) exShared) 2 = Some (old\<lparr>ibSettingsJson := j\<rparr>)"
    using refused_update_stores_clients [of exShared exMove 8 1 old exRefusing, OF _ old(4,3) err] old(1,2) id by auto
  have "j = ''{clients}''"
    using j(1) by (auto simp: mergeClientsIntoSettings_def exRefusing_def split: option.splits)
  moreover have "map ibSettingsJson (filter (\<lambda>x. ibID x = 2) (dbInbounds exShared)) = [[]]" by code_simp
  ultimately show ?thesis using j(2) by auto
qed

end
