(* ===== verification/Reconcile.thy ===== *)
theory Reconcile
  imports XrayInbounds GostServices UserTunnels
begin

text \<open>
  The reconciliation of a node with the tables, \<open>service/reconcile.go\<close>: limiters, forwards, inbounds,
  certificates, and then the deletion of what the node runs but the tables do not know. The run holds
  the lock of its node; \<open>locked\<close> says that another run holds it. The duration the code measures is left out
  of the summary. Joining clients into the settings of an inbound may panic, so the phases after
  the forwards answer an option; the run that panics stops where it is, and what it wrote and sent
  stays. Where Go iterates over a map in an order of its own, the model takes the order in which
  the keys came up.
\<close>

record reconcileResult =
  rcNodeId :: int
  rcLimiters :: int
  rcForwards :: int
  rcInbounds :: int
  rcCerts :: int
  rcOrphansCleaned :: int
  rcErrors :: "err list"

definition emptyResult :: "int \<Rightarrow> reconcileResult" where
  "emptyResult nodeId = \<lparr>rcNodeId = nodeId, rcLimiters = 0, rcForwards = 0, rcInbounds = 0, rcCerts = 0,
     rcOrphansCleaned = 0, rcErrors = []\<rparr>"

definition addError :: "string \<Rightarrow> string \<Rightarrow> reconcileResult \<Rightarrow> reconcileResult" where
  "addError what msg res = res\<lparr>rcErrors := rcErrors res @ [EPrefixGost what msg]\<rparr>"

definition onNode :: "int \<Rightarrow> tunnel \<Rightarrow> bool" where
  "onNode nodeId t = (tunInNodeId t = nodeId \<or> tunOutNodeId t = nodeId)"

section \<open>Phase 1: limiters\<close>

definition reconcileLimiter ::
  "env \<Rightarrow> int \<Rightarrow> userTunnel \<Rightarrow> int list \<times> reconcileResult \<Rightarrow> (int list \<times> reconcileResult) prog" where
  "reconcileLimiter E nodeId ut acc =
     (case acc of (seen, res) \<Rightarrow>
       (case utSpeedId ut of
          None \<Rightarrow> return (seen, res)
        | Some sp \<Rightarrow>
            if sp \<le> 0 \<or> sp \<in> set seen then return (seen, res)
            else do {
              limit \<leftarrow> gets (\<lambda>s. rowById slID sp (dbSpeedLimits s));
              (case limit of
                 None \<Rightarrow> return (sp # seen, res)
               | Some speedLimit \<Rightarrow> do {
                   r \<leftarrow> AddLimiters E nodeId sp (itoa (slSpeed speedLimit));
                   return (sp # seen,
                     (if respMsg r \<noteq> ''OK'' then addError (''limiter '' @ itoa sp) (respMsg r) res else res)
                       \<lparr>rcLimiters := rcLimiters res + 1\<rparr>) }) }))"

definition reconcileLimiters :: "env \<Rightarrow> int \<Rightarrow> reconcileResult \<Rightarrow> reconcileResult prog" where
  "reconcileLimiters E nodeId res = do {
     tunnels \<leftarrow> gets (\<lambda>s. filter (\<lambda>t. tunInNodeId t = nodeId) (dbTunnels s));
     acc \<leftarrow> foldM (\<lambda>t acc. do {
         uts \<leftarrow> gets (\<lambda>s. filter (\<lambda>ut. utTunnelId ut = tunID t) (dbUserTunnels s));
         foldM (reconcileLimiter E nodeId) uts acc }) tunnels ([], res);
     return (snd acc) }"

section \<open>Phase 2: forwards\<close>

text \<open>Adding first: what the node already has is updated in place, so its connections survive.\<close>

definition alreadyExists :: "gostResponse \<Rightarrow> bool" where
  "alreadyExists r = strContains (respMsg r) ''already exists''"

definition gentleMain :: "env \<Rightarrow> forward \<Rightarrow> tunnel \<Rightarrow> int option \<Rightarrow> node \<Rightarrow> string \<Rightarrow> string prog" where
  "gentleMain E f tunnel limiter inNode serviceName = do {
     let interfaceName = (if tunType tunnel \<noteq> tunnelTypeTunnelForward then fwdInterfaceName f else []);
     r \<leftarrow> AddService E (nodeID inNode) serviceName (fwdInPort f) limiter (fwdRemoteAddr f)
       (tunType tunnel) tunnel (fwdStrategy f) interfaceName;
     if isGostSuccess r then return []
     else if alreadyExists r then
       if tunType tunnel = tunnelTypePortForward then do {
         r' \<leftarrow> UpdateForwarder E (nodeID inNode) serviceName (fwdRemoteAddr f) (fwdStrategy f);
         return (if respMsg r' \<noteq> gostSuccessMsg then respMsg r' else []) }
       else return []
     else return (respMsg r) }"

definition gentleRemote :: "env \<Rightarrow> forward \<Rightarrow> tunnel \<Rightarrow> node \<Rightarrow> string \<Rightarrow> string prog" where
  "gentleRemote E f tunnel outNode serviceName = do {
     r \<leftarrow> AddRemoteService E (nodeID outNode) serviceName (fwdOutPort f) (fwdRemoteAddr f)
       (tunProtocol tunnel) (fwdStrategy f) (fwdInterfaceName f);
     if isGostSuccess r then return []
     else if alreadyExists r then do {
       r' \<leftarrow> UpdateRemoteForwarder E (nodeID outNode) serviceName (fwdRemoteAddr f) (fwdStrategy f);
       return (if respMsg r' \<noteq> gostSuccessMsg then respMsg r' else []) }
     else return (respMsg r) }"

definition gentleSyncGostServices ::
  "env \<Rightarrow> forward \<Rightarrow> tunnel \<Rightarrow> int option \<Rightarrow> node \<Rightarrow> node option \<Rightarrow> string \<Rightarrow> string prog" where
  "gentleSyncGostServices E f tunnel limiter inNode outNode serviceName =
     (if tunType tunnel = tunnelTypeTunnelForward then do {
        r \<leftarrow> AddChains E (nodeID inNode) serviceName (formatRemoteAddr (tunOutIp tunnel) (fwdOutPort f))
          (tunProtocol tunnel) (tunInterfaceName tunnel);
        if \<not> isGostSuccess r \<and> \<not> alreadyExists r then return (respMsg r)
        else (case outNode of
          None \<Rightarrow> return nilDeref
        | Some out \<Rightarrow> do {
            errStr \<leftarrow> gentleRemote E f tunnel out serviceName;
            if errStr \<noteq> [] then return errStr else gentleMain E f tunnel limiter inNode serviceName }) }
      else gentleMain E f tunnel limiter inNode serviceName)"

definition speedLimiter :: "userTunnel option \<Rightarrow> int option" where
  "speedLimiter ut =
     (case ut of None \<Rightarrow> None
      | Some u \<Rightarrow> (case utSpeedId u of None \<Rightarrow> None | Some sp \<Rightarrow> if 0 < sp then Some sp else None))"

definition keepPaused :: "env \<Rightarrow> int \<Rightarrow> tunnel \<Rightarrow> node option \<Rightarrow> forward \<Rightarrow> string \<Rightarrow> unit prog" where
  "keepPaused E nodeId tunnel outNode fwd serviceName =
     (if fwdStatus fwd = forwardStatusPaused then do {
        (if tunInNodeId tunnel = nodeId then
           (if fwdListenIp fwd \<noteq> [] \<and> strContains (fwdListenIp fwd) '',''
            then do { PauseServiceMultiIP E nodeId serviceName (fwdListenIp fwd); return () }
            else do { PauseService E nodeId serviceName; return () })
         else return ());
        (if tunType tunnel = tunnelTypeTunnelForward \<and> tunOutNodeId tunnel = nodeId \<and> outNode \<noteq> None
         then do { PauseRemoteService E nodeId serviceName; return () }
         else return ())
      } else return ())"

definition reconcileForward ::
  "env \<Rightarrow> int \<Rightarrow> tunnel \<Rightarrow> node \<Rightarrow> node option \<Rightarrow> forward \<Rightarrow> reconcileResult \<Rightarrow> reconcileResult prog" where
  "reconcileForward E nodeId tunnel inNode outNode fwd res = do {
     ut \<leftarrow> gets (\<lambda>s. getUserTunnel s (fwdUserId fwd) (fwdTunnelId fwd));
     let serviceName = buildServiceName (fwdID fwd) (fwdUserId fwd) ut;
     errStr \<leftarrow> gentleSyncGostServices E fwd (overrideListen tunnel (fwdListenIp fwd)) (speedLimiter ut)
       inNode outNode serviceName;
     (if errStr = [] \<and> fwdStatus fwd = forwardStatusError
      then updateForwardRow (fwdID fwd) (\<lambda>f. f\<lparr>fwdStatus := forwardStatusActive\<rparr>) else return ());
     keepPaused E nodeId tunnel outNode fwd serviceName;
     return ((if errStr \<noteq> [] then addError (''forward '' @ itoa (fwdID fwd)) errStr res else res)
       \<lparr>rcForwards := rcForwards res + 1\<rparr>) }"

definition reconcileTunnel :: "env \<Rightarrow> int \<Rightarrow> tunnel \<Rightarrow> reconcileResult \<Rightarrow> reconcileResult prog" where
  "reconcileTunnel E nodeId tunnel res = do {
     forwards \<leftarrow> gets (\<lambda>s. filter (\<lambda>f. fwdTunnelId f = tunID tunnel) (dbForwards s));
     required \<leftarrow> gets (\<lambda>s. getRequiredNodes s tunnel);
     (case required of
        Inl e \<Rightarrow> return (res\<lparr>rcErrors := rcErrors res @ [e]\<rparr>)
      | Inr (inNode, outNode) \<Rightarrow> foldM (reconcileForward E nodeId tunnel inNode outNode) forwards res) }"

definition reconcileForwards :: "env \<Rightarrow> int \<Rightarrow> reconcileResult \<Rightarrow> reconcileResult prog" where
  "reconcileForwards E nodeId res = do {
     tunnels \<leftarrow> gets (\<lambda>s. filter (onNode nodeId) (dbTunnels s));
     foldM (reconcileTunnel E nodeId) tunnels res }"

section \<open>Phase 3: inbounds\<close>

definition xrayNotRunning :: "string \<Rightarrow> bool" where
  "xrayNotRunning msg = (strContains msg ''not running'' \<or> strContains msg ''connection refused'' \<or>
     (strContains msg ''dial'' \<and> strContains msg ''10085''))"

definition inboundsOf :: "panel \<Rightarrow> int \<Rightarrow> xrayInbound list" where
  "inboundsOf s nodeId = filter (\<lambda>ib. ibNodeId ib = nodeId \<and> ibEnable ib \<in> {1, -1}) (dbInbounds s)"

definition recoverInbounds :: "int \<Rightarrow> unit prog" where
  "recoverInbounds nodeId = modify (\<lambda>s. s\<lparr>dbInbounds :=
     updateRows (\<lambda>ib. ibNodeId ib = nodeId \<and> ibEnable ib = -1) (\<lambda>ib. ib\<lparr>ibEnable := 1\<rparr>) (dbInbounds s)\<rparr>)"

definition startXray :: "env \<Rightarrow> int \<Rightarrow> xrayInbound list \<Rightarrow> reconcileResult \<Rightarrow> reconcileResult prog" where
  "startXray E nodeId inbounds res = do {
     r \<leftarrow> XrayApplyConfig E nodeId inbounds;
     (if respMsg r \<noteq> gostSuccessMsg then return () else recoverInbounds nodeId);
     return ((if respMsg r \<noteq> gostSuccessMsg then addError ''Xray ApplyConfig'' (respMsg r) res else res)
       \<lparr>rcInbounds := int (List.length inbounds)\<rparr>) }"

definition reconcileXrayInbounds :: "env \<Rightarrow> int \<Rightarrow> reconcileResult \<Rightarrow> reconcileResult option prog" where
  "reconcileXrayInbounds E nodeId res = do {
     s \<leftarrow> gets (\<lambda>s. s);
     (case inboundsOf s nodeId of
        [] \<Rightarrow> do { XrayStop E nodeId; return (Some res) }
      | ib # ibs \<Rightarrow>
         (case those (map (withClients E s) (ib # ibs)) of
            Some (m # ms) \<Rightarrow> do {
              first \<leftarrow> XrayAddInbound E nodeId m;
              if xrayNotRunning (respMsg first) then do {
                res' \<leftarrow> startXray E nodeId (m # ms) res;
                return (Some res') }
              else do {
                forEach (\<lambda>x. do { XrayAddInbound E nodeId x; return () }) ms;
                recoverInbounds nodeId;
                return (Some (res\<lparr>rcInbounds := rcInbounds res + 1 + int (List.length ms)\<rparr>)) } }
          | _ \<Rightarrow> return None)) }"

section \<open>Phase 4: certificates\<close>

definition reconcileCert :: "env \<Rightarrow> int \<Rightarrow> xrayTlsCert \<Rightarrow> reconcileResult \<Rightarrow> reconcileResult prog" where
  "reconcileCert E nodeId cert res =
     (if certPublicKey cert = [] \<or> certPrivateKey cert = [] then return res
      else do {
        r \<leftarrow> XrayDeployCert E nodeId (certDomain cert) (certPublicKey cert) (certPrivateKey cert);
        return ((if respMsg r \<noteq> ''OK'' then addError (''certificate '' @ certDomain cert) (respMsg r) res else res)
          \<lparr>rcCerts := rcCerts res + 1\<rparr>) })"

definition reconcileXrayCerts :: "env \<Rightarrow> int \<Rightarrow> reconcileResult \<Rightarrow> reconcileResult prog" where
  "reconcileXrayCerts E nodeId res = do {
     certs \<leftarrow> gets (\<lambda>s. filter (\<lambda>c. certNodeId c = nodeId) (dbCerts s));
     foldM (reconcileCert E nodeId) certs res }"

section \<open>Phase 5: what the tables do not know\<close>

text \<open>The forward a service name belongs to; names the panel does not write have none.\<close>

definition forwardOfName :: "string \<Rightarrow> int option" where
  "forwardOfName name = (let parts = splitOn CHR ''_'' name in if List.length parts < 3 then None else parseInt (hd parts))"

definition forwardsOnNode :: "panel \<Rightarrow> int \<Rightarrow> int list" where
  "forwardsOnNode s nodeId =
     map fwdID (filter (\<lambda>f. list_ex (\<lambda>t. tunID t = fwdTunnelId f \<and> onNode nodeId t) (dbTunnels s)) (dbForwards s))"

definition orphanForwards :: "panel \<Rightarrow> int \<Rightarrow> string list \<Rightarrow> int list" where
  "orphanForwards s nodeId names =
     filter (\<lambda>i. i \<notin> set (forwardsOnNode s nodeId)) (remdups (List.map_filter forwardOfName names))"

definition namesOfForward :: "string list \<Rightarrow> int \<Rightarrow> string list" where
  "namesOfForward names i = filter (\<lambda>n. forwardOfName n = Some i) names"

definition cleanupOrphanServices :: "env \<Rightarrow> int \<Rightarrow> reconcileResult \<Rightarrow> reconcileResult prog" where
  "cleanupOrphanServices E nodeId res = do {
     resp \<leftarrow> GetServiceNames E nodeId;
     if respMsg resp \<noteq> gostSuccessMsg then return res
     else (case respData resp of
       Some (RServices names) \<Rightarrow> do {
         orphans \<leftarrow> gets (\<lambda>s. orphanForwards s nodeId names);
         if orphans = [] then return res
         else do {
           r \<leftarrow> SendMsg E nodeId (DNames (concat (map (namesOfForward names) orphans))) ''DeleteService'';
           return (if respMsg r = gostSuccessMsg
             then res\<lparr>rcOrphansCleaned := rcOrphansCleaned res + int (List.length orphans)\<rparr> else res) } }
     | _ \<Rightarrow> return res) }"

definition inboundOfTag :: "string \<Rightarrow> int option" where
  "inboundOfTag tag = (if hasPrefix tag ''inbound-'' then parseInt (trimPrefix tag ''inbound-'') else None)"

definition orphanTags :: "panel \<Rightarrow> int \<Rightarrow> string list \<Rightarrow> string list" where
  "orphanTags s nodeId tags = filter (\<lambda>tag. case inboundOfTag tag of None \<Rightarrow> False
     | Some i \<Rightarrow> \<not> list_ex (\<lambda>ib. ibID ib = i \<and> ibNodeId ib = nodeId) (dbInbounds s)) tags"

definition removeOrphanTag :: "env \<Rightarrow> int \<Rightarrow> string \<Rightarrow> reconcileResult \<Rightarrow> reconcileResult prog" where
  "removeOrphanTag E nodeId tag res = do {
     r \<leftarrow> XrayRemoveInbound E nodeId tag;
     return (if respMsg r = gostSuccessMsg then res\<lparr>rcOrphansCleaned := rcOrphansCleaned res + 1\<rparr> else res) }"

definition cleanupOrphanXrayInbounds :: "env \<Rightarrow> int \<Rightarrow> reconcileResult \<Rightarrow> reconcileResult prog" where
  "cleanupOrphanXrayInbounds E nodeId res = do {
     resp \<leftarrow> XrayGetInboundTags E nodeId;
     if respMsg resp \<noteq> gostSuccessMsg then return res
     else (case respData resp of
       Some (RTags tags) \<Rightarrow> do {
         orphans \<leftarrow> gets (\<lambda>s. orphanTags s nodeId tags);
         foldM (removeOrphanTag E nodeId) orphans res }
     | _ \<Rightarrow> return res) }"

section \<open>A run\<close>

definition hasForwards :: "panel \<Rightarrow> int \<Rightarrow> bool" where
  "hasForwards s nodeId = (forwardsOnNode s nodeId \<noteq> [])"

definition reconcileGost :: "env \<Rightarrow> int \<Rightarrow> reconcileResult \<Rightarrow> reconcileResult prog" where
  "reconcileGost E nodeId res = do {
     any \<leftarrow> gets (\<lambda>s. hasForwards s nodeId);
     if any then do { res1 \<leftarrow> reconcileLimiters E nodeId res; reconcileForwards E nodeId res1 }
     else return res }"

definition reconcileRest :: "env \<Rightarrow> int \<Rightarrow> reconcileResult \<Rightarrow> reconcileResult prog" where
  "reconcileRest E nodeId res = do {
     res1 \<leftarrow> (if 0 < rcInbounds res then reconcileXrayCerts E nodeId res else return res);
     res2 \<leftarrow> cleanupOrphanServices E nodeId res1;
     cleanupOrphanXrayInbounds E nodeId res2 }"

definition ReconcileNode :: "env \<Rightarrow> bool \<Rightarrow> int \<Rightarrow> reconcileResult option prog" where
  "ReconcileNode E locked nodeId =
     (if locked then return (Some ((emptyResult nodeId)\<lparr>rcErrors := [EReconcileBusy]\<rparr>))
      else do {
        res1 \<leftarrow> reconcileGost E nodeId (emptyResult nodeId);
        res2 \<leftarrow> reconcileXrayInbounds E nodeId res1;
        (case res2 of
           None \<Rightarrow> return None
         | Some res3 \<Rightarrow> do { res4 \<leftarrow> reconcileRest E nodeId res3; return (Some res4) }) })"

definition ReconcileNodeAPI :: "env \<Rightarrow> bool \<Rightarrow> int \<Rightarrow> reconcileResult R prog" where
  "ReconcileNodeAPI E locked nodeId = do {
     node \<leftarrow> gets (\<lambda>s. GetNodeById s nodeId);
     (case node of
        None \<Rightarrow> return (Err ENodeNotFound)
      | Some _ \<Rightarrow> do {
          res \<leftarrow> ReconcileNode E locked nodeId;
          return (case res of None \<Rightarrow> Err EPanic | Some r \<Rightarrow> Ok r) }) }"

text \<open>A node that comes online is reconciled two seconds later on a goroutine of its own, which
  nothing recovers: a panic there ends the process (\<open>task/config_check.go\<close>).\<close>

datatype 'a process = Running 'a | Crashed

definition RunConfigCheck :: "env \<Rightarrow> bool \<Rightarrow> int \<Rightarrow> panel \<Rightarrow> panel process" where
  "RunConfigCheck E locked nodeId s =
     (case result (ReconcileNode E locked nodeId) s of
        None \<Rightarrow> Crashed
      | Some _ \<Rightarrow> Running (exec (ReconcileNode E locked nodeId) s))"

end
