(* ===== verification/ReconcileFrames.thy ===== *)
theory ReconcileFrames
  imports Reconcile NodeView
begin

text \<open>
  What a reconciliation run leaves alone. \<open>quiet_frame\<close> is the contract of a statement about the panel that
  survives sending anything but a deletion; \<open>gost_frame\<close> adds the return of a forward from the error state, so
  that the statement survives the first two phases, \<open>xray_frame\<close> the recovery of inbounds, and \<open>run_frame\<close> both,
  for the whole run up to the deletions.
\<close>

lemma keeps_respData [keeps_intro]:
  "(\<And>x. d = RServices x \<Longrightarrow> keeps I (f1 x)) \<Longrightarrow> (\<And>x. d = RTags x \<Longrightarrow> keeps I (f2 x)) \<Longrightarrow>
   (\<And>a b c e. d = RTcpPing a b c e \<Longrightarrow> keeps I (f3 a b c e)) \<Longrightarrow> (d = ROther \<Longrightarrow> keeps I f4) \<Longrightarrow>
   keeps I (case d of RServices x \<Rightarrow> f1 x | RTags x \<Rightarrow> f2 x | RTcpPing a b c e \<Rightarrow> f3 a b c e | ROther \<Rightarrow> f4)"
  by (cases d) simp_all

locale quiet_frame =
  fixes I :: "panel \<Rightarrow> bool"
  assumes quiet: "t \<noteq> ''DeleteService'' \<Longrightarrow> keeps I (SendMsg E n d t)"
begin

lemma keeps_calls [keeps_intro]:
  "keeps I (AddLimiters E a1 b1 c1)"
  "keeps I (AddService E a2 b2 c2 d2 e2 f2 g2 h2 k2)"
  "keeps I (UpdateForwarder E a3 b3 c3 d3)"
  "keeps I (UpdateRemoteForwarder E a4 b4 c4 d4)"
  "keeps I (AddRemoteService E a5 b5 c5 d5 e5 f5 g5)"
  "keeps I (AddChains E a6 b6 c6 d6 e6)"
  "keeps I (PauseService E a7 b7)"
  "keeps I (PauseServiceMultiIP E a8 b8 c8)"
  "keeps I (PauseRemoteService E a9 b9)"
  "keeps I (GetServiceNames E a10)"
  "keeps I (XrayStop E a11)"
  "keeps I (XrayAddInbound E a12 b12)"
  "keeps I (XrayRemoveInbound E a13 b13)"
  "keeps I (XrayApplyConfig E a14 b14)"
  "keeps I (XrayGetInboundTags E a15)"
  "keeps I (XrayDeployCert E a16 b16 c16 d16)"
  unfolding gost_api_defs by (rule quiet, simp)+

lemma keeps_reconcileLimiters: "keeps I (reconcileLimiters E n res)"
  unfolding reconcileLimiters_def reconcileLimiter_def by (intro keeps_intro)

lemma keeps_gentleSync [keeps_intro]: "keeps I (gentleSyncGostServices E f t l i outn n)"
  unfolding gentleSyncGostServices_def gentleMain_def gentleRemote_def by (intro keeps_intro)

lemma keeps_keepPaused [keeps_intro]: "keeps I (keepPaused E n t outn f k)"
  unfolding keepPaused_def by (intro keeps_intro)

lemma keeps_reconcileXrayCerts [keeps_intro]: "keeps I (reconcileXrayCerts E n res)"
  unfolding reconcileXrayCerts_def reconcileCert_def by (intro keeps_intro)

lemma keeps_cleanupInbounds [keeps_intro]: "keeps I (cleanupOrphanXrayInbounds E n res)"
  unfolding cleanupOrphanXrayInbounds_def removeOrphanTag_def by (intro keeps_calls keeps_intro)

end

locale gost_frame = quiet_frame +
  assumes revive: "keeps I (updateForwardRow i (\<lambda>f. f\<lparr>fwdStatus := forwardStatusActive\<rparr>))"
begin

lemma keeps_reconcileForward [keeps_intro]: "keeps I (reconcileForward E n t i outn f res)"
  unfolding reconcileForward_def by (intro keeps_intro revive)

lemma keeps_reconcileTunnel [keeps_intro]: "keeps I (reconcileTunnel E n t res)"
  unfolding reconcileTunnel_def by (intro keeps_intro)

lemma keeps_reconcileForwards: "keeps I (reconcileForwards E n res)"
  unfolding reconcileForwards_def by (intro keeps_intro)

lemma keeps_reconcileGost [keeps_intro]: "keeps I (reconcileGost E n res)"
  unfolding reconcileGost_def by (intro keeps_intro keeps_reconcileLimiters keeps_reconcileForwards)

end

locale xray_frame = quiet_frame +
  assumes recover: "keeps I (recoverInbounds n)"
begin

lemma keeps_reconcileXrayInbounds [keeps_intro]: "keeps I (reconcileXrayInbounds E n res)"
  unfolding reconcileXrayInbounds_def startXray_def by (intro keeps_intro recover)

end

locale run_frame = gost_frame + xray_frame

section \<open>Tables\<close>

interpretation inbounds: gost_frame "\<lambda>s. dbInbounds s = X \<and> dbClients s = Y"
  for X Y
proof (unfold_locales, goal_cases)
  case (1 t E m d)
  show ?case by (rule keeps_SendMsg) (simp add: ignoresSent_def)
next
  case (2 i)
  show ?case by (rule keepsI) (simp add: updateForwardRow_def)
qed

interpretation forwards: xray_frame "\<lambda>s. dbForwards s = X"
  for X
proof (unfold_locales, goal_cases)
  case (1 t E m d)
  show ?case by (rule keeps_SendMsg) (simp add: ignoresSent_def)
next
  case (2 m)
  show ?case unfolding recoverInbounds_def by (rule keeps_modify) simp
qed

interpretation nodes: gost_frame "\<lambda>s. dbNodes s = X \<and> dbTunnels s = Y"
  for X Y
proof (unfold_locales, goal_cases)
  case (1 t E m d)
  show ?case by (rule keeps_SendMsg) (simp add: ignoresSent_def)
next
  case (2 i)
  show ?case by (rule keepsI) (simp add: updateForwardRow_def)
qed

lemma map_filter_updateRows:
  assumes "\<And>x. k (g x) = k x" "\<And>x. P (g x) = P x"
  shows "map k (filter P (updateRows Q g rows)) = map k (filter P rows)"
proof -
  let ?h = "\<lambda>x. if Q x then g x else x"
  have "P \<circ> ?h = P" "k \<circ> ?h = k" using assms by (auto simp: fun_eq_iff)
  then show ?thesis by (simp only: updateRows_def filter_map map_map)
qed

lemma forwardsOnNode_revive [simp]:
  "forwardsOnNode (exec (updateForwardRow i (\<lambda>f. f\<lparr>fwdStatus := st\<rparr>)) s) n = forwardsOnNode s n"
proof -
  have "map fwdID (filter P (updateRows Q (\<lambda>f. f\<lparr>fwdStatus := st\<rparr>) fs)) = map fwdID (filter P fs)"
    if "\<And>f. P (f\<lparr>fwdStatus := st\<rparr>) = P f" for P Q fs
    by (rule map_filter_updateRows) (simp, rule that)
  from this [of "\<lambda>f. list_ex (\<lambda>t. tunID t = fwdTunnelId f \<and> onNode n t) (dbTunnels s)"]
  show ?thesis by (simp add: forwardsOnNode_def updateForwardRow_def)
qed

interpretation placed: run_frame "\<lambda>s. forwardsOnNode s n = F"
  for n F
proof (unfold_locales, goal_cases)
  case (1 t E m d)
  show ?case by (rule keeps_SendMsg) (simp add: ignoresSent_def forwardsOnNode_def)
next
  case (2 i)
  show ?case by (rule keepsI) simp
next
  case (3 m)
  show ?case unfolding recoverInbounds_def by (rule keeps_modify) (simp add: forwardsOnNode_def)
qed

section \<open>Commands\<close>

text \<open>\<open>sendsOnly P l s\<close>: since the log was \<open>l\<close>, only commands with \<open>P\<close> went out.\<close>

definition sendsOnly :: "(cmd \<Rightarrow> bool) \<Rightarrow> cmd list \<Rightarrow> panel \<Rightarrow> bool" where
  "sendsOnly P l s = (\<exists>out. dbSent s = l @ out \<and> list_all P out)"

lemma keeps_sendsOnly: "P (Cmd n t d) \<Longrightarrow> keeps (sendsOnly P l) (SendMsg E n d t)"
  by (rule keepsI) (auto simp: sendsOnly_def dbSent_SendMsg)

lemma sendsOnly_refl [simp]: "sendsOnly P (dbSent s) s"
  by (simp add: sendsOnly_def)

text \<open>A deletion that touches no service of the forwards in \<open>F\<close>.\<close>

definition sparesForwards :: "int list \<Rightarrow> cmd \<Rightarrow> bool" where
  "sparesForwards F c =
     (cmdType c = ''DeleteService'' \<longrightarrow>
      (case cmdData c of DNames ns \<Rightarrow> list_all (\<lambda>name. case forwardOfName name of None \<Rightarrow> False | Some i \<Rightarrow> i \<notin> set F) ns
       | _ \<Rightarrow> False))"

interpretation spared: run_frame "sendsOnly (sparesForwards F) l"
  for F l
proof (unfold_locales, goal_cases)
  case (1 t E m d)
  then show ?case by (intro keeps_sendsOnly) (simp add: sparesForwards_def)
next
  case (2 i)
  show ?case by (rule keepsI) (simp add: updateForwardRow_def sendsOnly_def)
next
  case (3 m)
  show ?case unfolding recoverInbounds_def by (rule keeps_modify) (simp add: sendsOnly_def)
qed

lemma keeps_cleanupOrphanServices: "ignoresSent I \<Longrightarrow> keeps I (cleanupOrphanServices E n res)"
  unfolding cleanupOrphanServices_def by (intro keeps_intro keeps_SendMsg)

end
