(* ===== verification/ReconcileProps.thy ===== *)
theory ReconcileProps
  imports ReconcileFrames XrayProps
begin

text \<open>
  What a reconciliation run does for the services of existing forwards and for forwards in the error state,
  and what it does wrong: inbounds with a chosen tag, inbounds the node refused, and settings that are \<open>null\<close>.
\<close>

section \<open>Live services are spared\<close>

definition sentBy :: "'a prog \<Rightarrow> panel \<Rightarrow> cmd list" where
  "sentBy m s = drop (List.length (dbSent s)) (dbSent (exec m s))"

lemma sentBy_sendsOnly: "sendsOnly P (dbSent s) (exec m s) \<Longrightarrow> c \<in> set (sentBy m s) \<Longrightarrow> P c"
  by (auto simp: sendsOnly_def sentBy_def list_all_iff)

lemma forwardOfName_built:
  assumes "minInt64 \<le> i" "i \<le> maxInt64"
  shows "forwardOfName (buildServiceName i u ut @ CHR ''_'' # suf) = Some i"
proof -
  have "splitOn CHR ''_'' (buildServiceName i u ut @ CHR ''_'' # suf) =
      itoa i # itoa u # itoa (case ut of None \<Rightarrow> 0 | Some t \<Rightarrow> utID t) # splitOn CHR ''_'' suf"
    by (simp add: buildServiceName_def go_string)
  with assms show ?thesis by (simp add: forwardOfName_def)
qed

lemma orphan_names_spare:
  "sparesForwards (forwardsOnNode s n) (Cmd n ''DeleteService'' (DNames (concat (map (namesOfForward names) (orphanForwards s n names)))))"
  by (auto simp: sparesForwards_def list_all_iff namesOfForward_def orphanForwards_def)

lemma cleanup_spares:
  assumes "sendsOnly (sparesForwards F) l s" "forwardsOnNode s n = F"
  shows "sendsOnly (sparesForwards F) l (exec (cleanupOrphanServices E n res) s)"
proof -
  let ?s = "exec (GetServiceNames E n) s"
  have s: "sendsOnly (sparesForwards F) l ?s" "forwardsOnNode ?s n = F"
    using keepsD [OF spared.keeps_calls(10) assms(1)] keepsD [OF placed.keeps_calls(10) assms(2)] by blast+
  have "sendsOnly (sparesForwards F) l (exec (SendMsg E n (DNames (concat (map (namesOfForward names)
      (orphanForwards ?s n names)))) ''DeleteService'') ?s)" for names
    using orphan_names_spare [of ?s n names] s by (intro keepsD [OF keeps_sendsOnly]) simp_all
  with s show ?thesis
    by (simp add: cleanupOrphanServices_def run split: option.split respData.split)
qed

text \<open>C34: A run spares live services. Whatever the node reports and answers, no deletion that a
  reconciliation of node \<open>n\<close> sends names a service of a forward whose tunnel uses the node: not its listeners
  (with or without an address number), not its relay, under no user and permission.\<close>

theorem reconcile_spares_live:
  assumes "f \<in> set (dbForwards s)" "t \<in> set (dbTunnels s)" "fwdTunnelId f = tunID t" "onNode n t"
    and "minInt64 \<le> fwdID f" "fwdID f \<le> maxInt64"
    and "Cmd m ''DeleteService'' (DNames names) \<in> set (sentBy (ReconcileNode E locked n) s)"
  shows "buildServiceName (fwdID f) u ut @ CHR ''_'' # suf \<notin> set names"
proof -
  let ?F = "forwardsOnNode s n" and ?l = "dbSent s"
  let ?I = "\<lambda>s. sendsOnly (sparesForwards ?F) ?l s \<and> forwardsOnNode s n = ?F"
  note gost = keeps_conj [OF spared.keeps_reconcileGost placed.keeps_reconcileGost]
    and xray = keeps_conj [OF spared.keeps_reconcileXrayInbounds placed.keeps_reconcileXrayInbounds]
    and certs = keeps_conj [OF spared.keeps_reconcileXrayCerts placed.keeps_reconcileXrayCerts]
  have clean: "keeps ?I (cleanupOrphanServices E n res)" for res
  proof (rule keepsI)
    fix s' assume s': "?I s'"
    have "forwardsOnNode (exec (cleanupOrphanServices E n res) s') n = ?F"
      using s' by (simp add: cleanupOrphanServices_def run gost_api_defs exec_SendMsg forwardsOnNode_def split: option.split respData.split)
    with s' cleanup_spares show "?I (exec (cleanupOrphanServices E n res) s')" by blast
  qed
  have rest: "keeps ?I (reconcileRest E n res)" for res
    unfolding reconcileRest_def
    by (intro keeps_intro clean keeps_conj [OF spared.keeps_cleanupInbounds placed.keeps_cleanupInbounds] certs)
  have "keeps ?I (ReconcileNode E locked n)"
    unfolding ReconcileNode_def by (intro keeps_intro gost xray rest)
  then have "sendsOnly (sparesForwards ?F) ?l (exec (ReconcileNode E locked n) s)"
    by (auto dest: keepsD [where s = s])
  from sentBy_sendsOnly [OF this assms(7)] have "list_all (\<lambda>name. case forwardOfName name of None \<Rightarrow> False | Some i \<Rightarrow> i \<notin> set ?F) names"
    by (simp add: sparesForwards_def)
  moreover have "fwdID f \<in> set ?F" using assms(1-4) by (force simp: forwardsOnNode_def list_ex_iff)
  ultimately show ?thesis using forwardOfName_built [OF assms(5,6), of u ut suf] by (auto simp: list_all_iff)
qed

text \<open>Node 1 still runs the services of a forward 9 that was deleted while it was offline.\<close>

definition exStale :: env where
  "exStale = exEnv\<lparr>nodeReply := (\<lambda>sent c. \<lparr>respMsg = ''OK'', respData =
     (if cmdType c = ''GetServiceNames''
      then Some (RServices [''1_7_3_tcp'', ''1_7_3_udp'', ''9_7_3_tcp'', ''9_7_3_udp'', ''web'']) else None)\<rparr>)\<rparr>"

theorem reconcile_spares_live_witness:
  "filter (\<lambda>c. cmdType c = ''DeleteService'') (sentBy (ReconcileNode exStale False 1) exPanel) =
     [Cmd 1 ''DeleteService'' (DNames [''9_7_3_tcp'', ''9_7_3_udp''])] \<and>
   buildServiceName 1 7 (Some exUserTunnel1) @ ''_tcp'' \<notin> set [''9_7_3_tcp'', ''9_7_3_udp'']"
proof
  show sent: "filter (\<lambda>c. cmdType c = ''DeleteService'') (sentBy (ReconcileNode exStale False 1) exPanel) =
     [Cmd 1 ''DeleteService'' (DNames [''9_7_3_tcp'', ''9_7_3_udp''])]" by code_simp
  have "Cmd 1 ''DeleteService'' (DNames [''9_7_3_tcp'', ''9_7_3_udp'']) \<in>
      set (filter (\<lambda>c. cmdType c = ''DeleteService'') (sentBy (ReconcileNode exStale False 1) exPanel))"
    unfolding sent by simp
  then have c: "Cmd 1 ''DeleteService'' (DNames [''9_7_3_tcp'', ''9_7_3_udp'']) \<in> set (sentBy (ReconcileNode exStale False 1) exPanel)"
    unfolding set_filter by blast
  have "exForward1 \<in> set (dbForwards exPanel)" "exTunnel1 \<in> set (dbTunnels exPanel)"
    "fwdTunnelId exForward1 = tunID exTunnel1" "onNode 1 exTunnel1" "minInt64 \<le> fwdID exForward1" "fwdID exForward1 \<le> maxInt64"
    by (simp_all add: exPanel_def exForward1_def exTunnel1_def onNode_def minInt64_def maxInt64_def)
  from reconcile_spares_live [OF this c, of 7 "Some exUserTunnel1" "''tcp''"]
  show "buildServiceName 1 7 (Some exUserTunnel1) @ ''_tcp'' \<notin> set [''9_7_3_tcp'', ''9_7_3_udp'']"
    by (simp add: exForward1_def)
qed

section \<open>Settings that are null\<close>

lemma those_None: "those xs = None \<longleftrightarrow> None \<in> set xs"
  by (induction xs) (auto split: option.split)

lemma withClients_None: "withClients E s ib = None \<longleftrightarrow> settingsMap E (ibSettingsJson ib) = None"
  by (simp add: withClients_def mergeClientsIntoSettings_def split: option.split)

lemma reconcileXrayInbounds_panics:
  assumes "ib \<in> set (inboundsOf s n)" "settingsMap E (ibSettingsJson ib) = None"
  shows "result (reconcileXrayInbounds E n res) s = None"
proof (cases "inboundsOf s n")
  case Nil
  with assms(1) show ?thesis by simp
next
  case (Cons a as)
  have "withClients E s ib = None" using assms(2) by (simp add: withClients_None)
  then have "those (map (withClients E s) (a # as)) = None"
    using assms(1) unfolding those_None Cons by (metis image_eqI set_map)
  with Cons show ?thesis by (simp add: reconcileXrayInbounds_def del: list.map those.simps)
qed

lemma reconcile_panics:
  assumes "ib \<in> set (inboundsOf s n)" "settingsMap E (ibSettingsJson ib) = None"
  shows "result (ReconcileNode E False n) s = None"
proof -
  let ?s = "exec (reconcileGost E n (emptyResult n)) s"
  have "dbInbounds ?s = dbInbounds s \<and> dbClients ?s = dbClients s"
    by (rule keepsD [OF inbounds.keeps_reconcileGost]) simp
  then have "ib \<in> set (inboundsOf ?s n)" using assms(1) by (simp add: inboundsOf_def)
  from reconcileXrayInbounds_panics [OF this assms(2)] show ?thesis by (simp add: ReconcileNode_def)
qed


definition exNull :: env where
  "exNull = exEnv\<lparr>jsonParse := (\<lambda>t. if t = ''null'' then Some JNull else None)\<rparr>"

definition exNullInbound :: xrayInboundDto where
  "exNullInbound = \<lparr>xidNodeId = 1, xidTag = [], xidProtocol = ''vless'', xidListen = [], xidPort = 443, xidSettingsJson = ''null'',
     xidStreamSettingsJson = [], xidSniffingJson = [], xidRemark = [], xidCustomEntry = []\<rparr>"


end
