(* ===== verification/ReconcileRows.thy ===== *)
theory ReconcileRows
  imports ReconcileProps
begin

text \<open>
  What a run does to the rows: it takes forwards out of the error state when the nodes accept them, and inbounds
  whatever the node answers. Which inbounds the cleanup removes.
\<close>

section \<open>Forwards\<close>

definition revived :: "forward \<Rightarrow> forward" where
  "revived f = f\<lparr>fwdStatus := forwardStatusActive\<rparr>"

definition inError :: "forward \<Rightarrow> bool" where
  "inError f = (fwdStatus f = forwardStatusError)"

definition accepting :: "env \<Rightarrow> bool" where
  "accepting E = ((\<forall>l n. nodeOnline E l n) \<and> (\<forall>l c. respMsg (nodeReply E l c) = ''OK''))"

lemma accepted:
  assumes "accepting E"
  shows "isGostSuccess (result (SendMsg E n d t) s)"
  using assms by (simp add: accepting_def result_SendMsg isGostSuccess_def gostSuccessMsg_def)

lemma gentleSync_accepted:
  assumes "accepting E" "tunType t = tunnelTypeTunnelForward \<longrightarrow> outn \<noteq> None"
  shows "result (gentleSyncGostServices E f t l i outn n) s = []"
  using assms(2) accepted [OF assms(1)]
  by (auto simp: gentleSyncGostServices_def gentleMain_def gentleRemote_def gost_api_defs run)

lemma updateRows_either:
  assumes "\<And>r. a (a r) = a r"
  shows "updateRows P a (updateRows Q a rows) = updateRows (\<lambda>r. Q r \<or> P r) a rows"
  using assms by (simp add: updateRows_def)

lemma updateRows_cong: "(\<And>r. r \<in> set rows \<Longrightarrow> P r = Q r) \<Longrightarrow> updateRows P a rows = updateRows Q a rows"
  by (simp add: updateRows_def)

lemma revived_simps [simp]: "revived (revived f) = revived f" "fwdID (revived f) = fwdID f" "\<not> inError (revived f)"
  by (simp_all add: revived_def inError_def forwardStatusActive_def forwardStatusError_def)

lemma forwards_reconcileForward:
  assumes "accepting E" "tunType t = tunnelTypeTunnelForward \<longrightarrow> outn \<noteq> None"
  shows "dbForwards (exec (reconcileForward E n t i outn f res) s) =
    updateRows (\<lambda>g. inError f \<and> fwdID g = fwdID f) revived (dbForwards s)"
proof -
  let ?k = "buildServiceName (fwdID f) (fwdUserId f) (getUserTunnel s (fwdUserId f) (fwdTunnelId f))"
  let ?sync = "gentleSyncGostServices E f (overrideListen t (fwdListenIp f)) (speedLimiter (getUserTunnel s (fwdUserId f) (fwdTunnelId f))) i outn ?k"
  let ?w = "if inError f then updateForwardRow (fwdID f) revived else return ()"
  have ok: "result ?sync s = []" by (rule gentleSync_accepted) (use assms in simp_all)
  have sync: "dbForwards (exec ?sync s) = dbForwards s" by (rule keepsD [OF forwards.keeps_gentleSync]) simp
  have mark: "dbForwards (exec ?w s') = updateRows (\<lambda>g. inError f \<and> fwdID g = fwdID f) revived (dbForwards s')" for s'
    by (simp add: updateForwardRow_def updateRows_def)
  have pause: "dbForwards (exec (keepPaused E n t outn f ?k) s') = dbForwards s'" for s'
    by (rule keepsD [OF forwards.keeps_keepPaused]) simp
  have "exec (reconcileForward E n t i outn f res) s = exec (keepPaused E n t outn f ?k) (exec ?w (exec ?sync s))"
    by (simp add: reconcileForward_def Let_def ok inError_def revived_def [abs_def])
  then show ?thesis by (simp only: pause mark sync)
qed

lemma forwards_foldForwards:
  assumes "accepting E" "tunType t = tunnelTypeTunnelForward \<longrightarrow> outn \<noteq> None"
  shows "dbForwards (exec (foldM (reconcileForward E n t i outn) fs res) s) =
    updateRows (\<lambda>g. \<exists>f \<in> set fs. inError f \<and> fwdID g = fwdID f) revived (dbForwards s)"
proof (induction fs arbitrary: res s)
  case Nil
  then show ?case by (simp add: updateRows_def)
next
  case (Cons f fs)
  then show ?case by (simp add: forwards_reconcileForward [OF assms] updateRows_either)
qed

lemma same_row: "distinct (map k rows) \<Longrightarrow> x \<in> set rows \<Longrightarrow> y \<in> set rows \<Longrightarrow> k x = k y \<Longrightarrow> x = y"
  by (metis distinct_map inj_onD)

definition nodesKnown :: "panel \<Rightarrow> tunnel \<Rightarrow> bool" where
  "nodesKnown s t = (case getRequiredNodes s t of Inl _ \<Rightarrow> False | Inr _ \<Rightarrow> True)"

lemma nodesKnown_cong:
  assumes "dbNodes s' = dbNodes s"
  shows "nodesKnown s' = nodesKnown s"
proof -
  have g: "GetNodeById s' = GetNodeById s" using assms by (simp add: GetNodeById_def fun_eq_iff)
  show ?thesis unfolding nodesKnown_def getRequiredNodes_def g by (rule refl)
qed

lemma forwards_reconcileTunnel:
  assumes "accepting E" "nodesKnown s t" "distinct (map fwdID (dbForwards s))"
  shows "dbForwards (exec (reconcileTunnel E n t res) s) =
    updateRows (\<lambda>g. inError g \<and> fwdTunnelId g = tunID t) revived (dbForwards s)"
proof -
  obtain i outn where nodes: "getRequiredNodes s t = Inr (i, outn)"
    using assms(2) by (auto simp: nodesKnown_def split: sum.splits)
  then have out: "tunType t = tunnelTypeTunnelForward \<longrightarrow> outn \<noteq> None"
    by (intro impI notI; cases "GetNodeById s (tunInNodeId t)"; cases "GetNodeById s (tunOutNodeId t)") (simp_all add: getRequiredNodes_def)
  let ?fs = "filter (\<lambda>f. fwdTunnelId f = tunID t) (dbForwards s)"
  have "exec (reconcileTunnel E n t res) s = exec (foldM (reconcileForward E n t i outn) ?fs res) s"
    by (simp add: reconcileTunnel_def nodes)
  then have "dbForwards (exec (reconcileTunnel E n t res) s) =
      updateRows (\<lambda>g. \<exists>f \<in> set ?fs. inError f \<and> fwdID g = fwdID f) revived (dbForwards s)"
    using forwards_foldForwards [OF assms(1) out, of n i ?fs res s] by simp
  also have "\<dots> = updateRows (\<lambda>g. inError g \<and> fwdTunnelId g = tunID t) revived (dbForwards s)"
    using same_row [OF assms(3)] by (intro updateRows_cong) auto
  finally show ?thesis .
qed

lemma forwards_foldTunnels:
  assumes "accepting E" "\<forall>t \<in> set ts. nodesKnown s t" "distinct (map fwdID (dbForwards s))"
  shows "dbForwards (exec (foldM (reconcileTunnel E n) ts res) s) =
    updateRows (\<lambda>g. inError g \<and> fwdTunnelId g \<in> tunID ` set ts) revived (dbForwards s)"
  using assms(2,3)
proof (induction ts arbitrary: res s)
  case Nil
  then show ?case by (simp add: updateRows_def)
next
  case (Cons t ts)
  let ?s = "exec (reconcileTunnel E n t res) s"
  have step: "dbForwards ?s = updateRows (\<lambda>g. inError g \<and> fwdTunnelId g = tunID t) revived (dbForwards s)"
    using Cons.prems by (intro forwards_reconcileTunnel [OF assms(1)]) simp_all
  have "dbNodes ?s = dbNodes s \<and> dbTunnels ?s = dbTunnels s"
    by (rule keepsD [OF nodes.keeps_reconcileTunnel]) simp
  then have "nodesKnown ?s = nodesKnown s" by (intro nodesKnown_cong) simp
  moreover have "distinct (map fwdID (dbForwards ?s))"
    unfolding step using Cons.prems(2) map_updateRows [of _ fwdID revived "dbForwards s"] by simp
  ultimately have "dbForwards (exec (foldM (reconcileTunnel E n) ts (result (reconcileTunnel E n t res) s)) ?s) =
      updateRows (\<lambda>g. inError g \<and> fwdTunnelId g \<in> tunID ` set ts) revived (dbForwards ?s)"
    using Cons.prems by (intro Cons.IH) simp_all
  also have "\<dots> = updateRows (\<lambda>g. inError g \<and> fwdTunnelId g \<in> tunID ` set (t # ts)) revived (dbForwards s)"
    unfolding step by (subst updateRows_either) (auto intro: updateRows_cong)
  finally show ?case by simp
qed

definition onReconciled :: "panel \<Rightarrow> int \<Rightarrow> forward \<Rightarrow> bool" where
  "onReconciled s n f = list_ex (\<lambda>t. tunID t = fwdTunnelId f \<and> onNode n t) (dbTunnels s)"

lemma forwards_reconcileGost:
  assumes "accepting E" "\<forall>t \<in> set (dbTunnels s). onNode n t \<longrightarrow> nodesKnown s t" "distinct (map fwdID (dbForwards s))"
  shows "dbForwards (exec (reconcileGost E n res) s) = updateRows (\<lambda>f. inError f \<and> onReconciled s n f) revived (dbForwards s)"
proof (cases "hasForwards s n")
  case False
  then have "\<not> onReconciled s n f" if "f \<in> set (dbForwards s)" for f
    using that by (auto simp: hasForwards_def forwardsOnNode_def onReconciled_def filter_empty_conv)
  then have "updateRows (\<lambda>f. inError f \<and> onReconciled s n f) revived (dbForwards s) = dbForwards s"
    by (intro updateRows_none) blast
  with False show ?thesis by (simp add: reconcileGost_def)
next
  case True
  let ?s = "exec (reconcileLimiters E n res) s" and ?ts = "filter (onNode n) (dbTunnels s)"
  have tabs: "dbNodes ?s = dbNodes s \<and> dbTunnels ?s = dbTunnels s" "dbForwards ?s = dbForwards s"
    by (rule keepsD [OF nodes.keeps_reconcileLimiters], simp, rule keepsD [OF forwards.keeps_reconcileLimiters], simp)
  then have "nodesKnown ?s = nodesKnown s" by (intro nodesKnown_cong) simp
  then have "dbForwards (exec (foldM (reconcileTunnel E n) ?ts (result (reconcileLimiters E n res) s)) ?s) =
      updateRows (\<lambda>g. inError g \<and> fwdTunnelId g \<in> tunID ` set ?ts) revived (dbForwards s)"
    using assms(2,3) tabs(2) forwards_foldTunnels [OF assms(1), of ?ts ?s n] by simp
  also have "\<dots> = updateRows (\<lambda>f. inError f \<and> onReconciled s n f) revived (dbForwards s)"
    by (rule updateRows_cong) (auto simp: onReconciled_def list_ex_iff image_iff)
  finally show ?thesis using True tabs(1) by (simp add: reconcileGost_def reconcileForwards_def)
qed

lemma forwards_afterGost:
  "dbForwards (exec (ReconcileNode E False n) s) = dbForwards (exec (reconcileGost E n (emptyResult n)) s)"
proof -
  let ?I = "\<lambda>X s. dbForwards s = X"
  have clean: "keeps (?I X) (cleanupOrphanServices E n r)" for X r
    by (rule keeps_cleanupOrphanServices) (simp add: ignoresSent_def)
  have rest: "keeps (?I X) (reconcileRest E n r)" for X r
    unfolding reconcileRest_def by (intro keeps_intro clean forwards.keeps_cleanupInbounds forwards.keeps_reconcileXrayCerts)
  have "keeps (?I X) (do { res2 \<leftarrow> reconcileXrayInbounds E n res1;
        (case res2 of None \<Rightarrow> return None | Some res3 \<Rightarrow> do { res4 \<leftarrow> reconcileRest E n res3; return (Some res4) }) })" for X res1
    by (intro keeps_intro rest forwards.keeps_reconcileXrayInbounds)
  from keepsD [OF this, of "exec (reconcileGost E n (emptyResult n)) s"] show ?thesis by (simp add: ReconcileNode_def)
qed

text \<open>C35: Errors do not last. When the nodes are connected and accept what they are sent, a reconciliation of a node
  takes every forward of its tunnels out of the error state, and changes no other forward and nothing else of them.\<close>

theorem reconcile_revives_errors:
  assumes "accepting E" "\<forall>t \<in> set (dbTunnels s). onNode n t \<longrightarrow> nodesKnown s t" "distinct (map fwdID (dbForwards s))"
  shows "dbForwards (exec (ReconcileNode E False n) s) =
    map (\<lambda>f. if fwdStatus f = forwardStatusError \<and> onReconciled s n f then f\<lparr>fwdStatus := forwardStatusActive\<rparr> else f) (dbForwards s)"
  using forwards_reconcileGost [OF assms]
  by (simp add: forwards_afterGost updateRows_def inError_def revived_def)

definition exBroken :: panel where
  "exBroken = exPanel\<lparr>dbForwards := [exForward1\<lparr>fwdStatus := -1\<rparr>, exForward2\<lparr>fwdStatus := -1\<rparr>]\<rparr>"

theorem reconcile_revives_errors_witness:
  "map fwdStatus (dbForwards (exec (ReconcileNode exEnv False 2) exBroken)) = [-1, 1]"
proof -
  have "accepting exEnv" by (simp add: accepting_def exEnv_def)
  moreover have "list_all (\<lambda>t. onNode 2 t \<longrightarrow> nodesKnown exBroken t) (dbTunnels exBroken)" by code_simp
  moreover have "distinct (map fwdID (dbForwards exBroken))" by code_simp
  ultimately have "dbForwards (exec (ReconcileNode exEnv False 2) exBroken) =
      map (\<lambda>f. if fwdStatus f = forwardStatusError \<and> onReconciled exBroken 2 f then f\<lparr>fwdStatus := forwardStatusActive\<rparr> else f) (dbForwards exBroken)"
    by (intro reconcile_revives_errors) (simp_all add: list_all_iff)
  moreover have "map fwdStatus (map (\<lambda>f. if fwdStatus f = forwardStatusError \<and> onReconciled exBroken 2 f then f\<lparr>fwdStatus := forwardStatusActive\<rparr> else f)
      (dbForwards exBroken)) = [-1, 1]" by code_simp
  ultimately show ?thesis by simp
qed

end
