(* ===== verification/ReconcileInbounds.thy ===== *)
theory ReconcileInbounds
  imports ReconcileRows
begin

text \<open>
  What a reconciliation run does to inbounds: the recovery of rows in the error state, and the removal of tags
  the tables do not explain.
\<close>

section \<open>Recovery\<close>

definition recovered :: "int \<Rightarrow> xrayInbound list \<Rightarrow> xrayInbound list" where
  "recovered n = updateRows (\<lambda>ib. ibNodeId ib = n \<and> ibEnable ib = -1) (\<lambda>ib. ib\<lparr>ibEnable := 1\<rparr>)"

lemma recovered_none: "inboundsOf s n = [] \<Longrightarrow> recovered n (dbInbounds s) = dbInbounds s"
  unfolding recovered_def by (rule updateRows_none) (auto simp: inboundsOf_def filter_empty_conv)

lemma exec_recoverInbounds: "dbInbounds (exec (recoverInbounds n) s) = recovered n (dbInbounds s)"
  by (simp add: recoverInbounds_def recovered_def)

definition admitsRunning :: "env \<Rightarrow> bool" where
  "admitsRunning E = (\<forall>l c. \<not> xrayNotRunning (respMsg (nodeReply E l c)))"

lemma offline_admits: "\<not> xrayNotRunning msgNodeOffline"
  by code_simp

lemma first_admits: "admitsRunning E \<Longrightarrow> \<not> xrayNotRunning (respMsg (result (XrayAddInbound E n m) s))"
  using offline_admits by (simp add: admitsRunning_def XrayAddInbound_def result_SendMsg)

lemma keeps_inbounds_add: "keeps (\<lambda>s. dbInbounds s = X \<and> dbClients s = Y) (forEach (\<lambda>x. do { XrayAddInbound E n x; return () }) ms)"
  by (intro keeps_intro inbounds.keeps_calls)

lemma inbounds_reconcileXray:
  assumes "admitsRunning E" "result (reconcileXrayInbounds E n res) s \<noteq> None"
  shows "dbInbounds (exec (reconcileXrayInbounds E n res) s) = recovered n (dbInbounds s)"
proof (cases "inboundsOf s n")
  case Nil
  have "dbInbounds (exec (XrayStop E n) s) = dbInbounds s \<and> dbClients (exec (XrayStop E n) s) = dbClients s"
    by (rule keepsD [OF inbounds.keeps_calls(11)]) simp
  with Nil show ?thesis by (simp add: reconcileXrayInbounds_def recovered_none)
next
  case (Cons a as)
  obtain m ms where merged: "those (map (withClients E s) (a # as)) = Some (m # ms)"
    using assms(2) Cons
    by (cases "those (map (withClients E s) (a # as))") (auto simp: reconcileXrayInbounds_def simp del: those.simps list.map split: list.splits)
  let ?s = "exec (XrayAddInbound E n m) s"
  let ?t = "exec (forEach (\<lambda>x. do { XrayAddInbound E n x; return () }) ms) ?s"
  have "dbInbounds ?s = dbInbounds s \<and> dbClients ?s = dbClients s"
    by (rule keepsD [OF inbounds.keeps_calls(12)]) simp
  then have "dbInbounds ?t = dbInbounds s \<and> dbClients ?t = dbClients s" by (rule keepsD [OF keeps_inbounds_add])
  moreover have "exec (reconcileXrayInbounds E n res) s = exec (recoverInbounds n) ?t"
    using Cons merged first_admits [OF assms(1), of n m s]
    by (simp add: reconcileXrayInbounds_def run del: those.simps list.map)
  ultimately show ?thesis by (simp add: exec_recoverInbounds)
qed

text \<open>Refused inbounds come back enabled. As long as the node does not say that Xray is not running, a
  reconciliation that ends takes every inbound of the node out of the error state, also when the node refuses each of
  them, or is not connected at all.\<close>

theorem refused_inbounds_recovered:
  assumes "admitsRunning E" "result (ReconcileNode E False n) s \<noteq> None"
  shows "dbInbounds (exec (ReconcileNode E False n) s) =
    map (\<lambda>ib. if ibNodeId ib = n \<and> ibEnable ib = -1 then ib\<lparr>ibEnable := 1\<rparr> else ib) (dbInbounds s)"
proof -
  let ?s = "exec (reconcileGost E n (emptyResult n)) s" and ?r = "result (reconcileGost E n (emptyResult n)) s"
  have gost: "dbInbounds ?s = dbInbounds s \<and> dbClients ?s = dbClients s"
    by (rule keepsD [OF inbounds.keeps_reconcileGost]) simp
  obtain r3 where r3: "result (reconcileXrayInbounds E n ?r) ?s = Some r3"
    using assms(2) by (cases "result (reconcileXrayInbounds E n ?r) ?s") (simp_all add: ReconcileNode_def)
  let ?I = "\<lambda>X Y s. dbInbounds s = X \<and> dbClients s = Y"
  have "keeps (?I X Y) (cleanupOrphanServices E n r)" for X Y r
    by (rule keeps_cleanupOrphanServices) (simp add: ignoresSent_def)
  then have "keeps (?I X Y) (reconcileRest E n r)" for X Y r
    unfolding reconcileRest_def by (intro keeps_intro inbounds.keeps_cleanupInbounds inbounds.keeps_reconcileXrayCerts)
  from keepsD [OF this, of "exec (reconcileXrayInbounds E n ?r) ?s"]
  have "dbInbounds (exec (ReconcileNode E False n) s) = dbInbounds (exec (reconcileXrayInbounds E n ?r) ?s)"
    by (simp add: ReconcileNode_def r3)
  also have "\<dots> = recovered n (dbInbounds s)"
    using inbounds_reconcileXray [OF assms(1), of n ?r ?s] r3 gost by simp
  finally show ?thesis by (simp add: recovered_def updateRows_def)
qed

definition exBadPort :: env where
  "exBadPort = exEnv\<lparr>nodeReply := (\<lambda>_ _. \<lparr>respMsg = ''bad port'', respData = None\<rparr>)\<rparr>"

definition exFailed :: panel where
  "exFailed = exPanel\<lparr>dbInbounds := [zeroInbound\<lparr>ibID := 5, ibNodeId := 1, ibPort := 443, ibEnable := -1\<rparr>]\<rparr>"

theorem refused_inbounds_recovered_witness:
  "map ibEnable (dbInbounds (exec (ReconcileNode exBadPort False 1) exFailed)) = [1]"
proof -
  have "\<not> xrayNotRunning ''bad port''" by code_simp
  then have "admitsRunning exBadPort" by (simp add: admitsRunning_def exBadPort_def)
  moreover have "(case result (ReconcileNode exBadPort False 1) exFailed of None \<Rightarrow> False | Some _ \<Rightarrow> True)" by code_simp
  then have "result (ReconcileNode exBadPort False 1) exFailed \<noteq> None" by (auto split: option.splits)
  ultimately have "dbInbounds (exec (ReconcileNode exBadPort False 1) exFailed) =
      map (\<lambda>ib. if ibNodeId ib = 1 \<and> ibEnable ib = -1 then ib\<lparr>ibEnable := 1\<rparr> else ib) (dbInbounds exFailed)"
    by (rule refused_inbounds_recovered)
  moreover have "map ibEnable (map (\<lambda>ib. if ibNodeId ib = 1 \<and> ibEnable ib = -1 then ib\<lparr>ibEnable := 1\<rparr> else ib) (dbInbounds exFailed)) = [1]"
    by code_simp
  ultimately show ?thesis by simp
qed

section \<open>Tags\<close>

lemma removals_extend:
  "staysOnline E n \<Longrightarrow>
   dbSent (exec (foldM (removeOrphanTag E n) tags res) s) = dbSent s @ map (\<lambda>t. Cmd n ''VRemoveInbound'' (DTag t)) tags"
  by (induction tags arbitrary: res s) (simp_all add: removeOrphanTag_def XrayRemoveInbound_def dbSent_SendMsg)

lemma orphanTags_sent [simp]: "orphanTags (s\<lparr>dbSent := l\<rparr>) n tags = orphanTags s n tags"
  unfolding orphanTags_def by (simp cong: option.case_cong)

lemma sent_cleanupInbounds:
  assumes "staysOnline E n" "nodeReply E (dbSent s) (Cmd n ''VGetInboundTags'' DNil) = \<lparr>respMsg = ''OK'', respData = Some (RTags tags)\<rparr>"
  shows "sentBy (cleanupOrphanXrayInbounds E n res) s =
    Cmd n ''VGetInboundTags'' DNil # map (\<lambda>t. Cmd n ''VRemoveInbound'' (DTag t)) (orphanTags s n tags)"
proof -
  let ?s = "exec (XrayGetInboundTags E n) s"
  have r: "result (XrayGetInboundTags E n) s = \<lparr>respMsg = ''OK'', respData = Some (RTags tags)\<rparr>"
    using assms by (simp add: XrayGetInboundTags_def result_SendMsg)
  have s: "dbSent ?s = dbSent s @ [Cmd n ''VGetInboundTags'' DNil]" "orphanTags ?s n tags = orphanTags s n tags"
    using assms(1) by (simp_all add: XrayGetInboundTags_def exec_SendMsg)
  have "dbSent (exec (cleanupOrphanXrayInbounds E n res) s) =
      dbSent ?s @ map (\<lambda>t. Cmd n ''VRemoveInbound'' (DTag t)) (orphanTags s n tags)"
    using removals_extend [OF assms(1)] by (simp add: cleanupOrphanXrayInbounds_def r s(2) gostSuccessMsg_def)
  with s(1) show ?thesis by (simp add: sentBy_def)
qed

lemma inboundOfTag_number: "minInt64 \<le> k \<Longrightarrow> k \<le> maxInt64 \<Longrightarrow> inboundOfTag (''inbound-'' @ itoa k) = Some k"
  unfolding inboundOfTag_def trimPrefix_def by simp

text \<open>The cleanup goes by the number in the tag, not by the tag. Of a live inbound of the node that the node
  reports, a tag that reads \<open>inbound-k\<close> is removed exactly when no inbound of the node has the id \<open>k\<close>: a tag the panel
  made up itself is safe, and one a user chose with the number of another inbound is taken down, although the
  same run has just deployed it.\<close>

theorem tag_number_decides:
  assumes "staysOnline E n" "nodeReply E (dbSent s) (Cmd n ''VGetInboundTags'' DNil) = \<lparr>respMsg = ''OK'', respData = Some (RTags tags)\<rparr>"
    and "ibTag ib = ''inbound-'' @ itoa k" "minInt64 \<le> k" "k \<le> maxInt64" "ibTag ib \<in> set tags"
  shows "Cmd n ''VRemoveInbound'' (DTag (ibTag ib)) \<in> set (sentBy (cleanupOrphanXrayInbounds E n res) s) \<longleftrightarrow>
    k \<notin> ibID ` set (filter (\<lambda>x. ibNodeId x = n) (dbInbounds s))"
proof -
  have "inboundOfTag (ibTag ib) = Some k" unfolding assms(3) by (rule inboundOfTag_number [OF assms(4,5)])
  then have "ibTag ib \<in> set (orphanTags s n tags) \<longleftrightarrow> k \<notin> ibID ` set (filter (\<lambda>x. ibNodeId x = n) (dbInbounds s))"
    using assms(6) by (auto simp: orphanTags_def list_ex_iff)
  then show ?thesis unfolding sent_cleanupInbounds [OF assms(1,2)] by auto
qed

definition exTagged :: panel where
  "exTagged = exPanel\<lparr>dbInbounds := [zeroInbound\<lparr>ibID := 5, ibNodeId := 1, ibTag := ''inbound-5'', ibPort := 443, ibEnable := 1\<rparr>,
     zeroInbound\<lparr>ibID := 6, ibNodeId := 1, ibTag := ''inbound-9'', ibPort := 444, ibEnable := 1\<rparr>]\<rparr>"

definition exTags :: env where
  "exTags = exEnv\<lparr>nodeReply := (\<lambda>_ c. \<lparr>respMsg = ''OK'', respData =
     (if cmdType c = ''VGetInboundTags'' then Some (RTags [''api'', ''inbound-5'', ''inbound-9'']) else None)\<rparr>)\<rparr>"

theorem tag_number_decides_witness:
  "Cmd 1 ''VRemoveInbound'' (DTag ''inbound-9'') \<in> set (sentBy (cleanupOrphanXrayInbounds exTags 1 (emptyResult 1)) exTagged) \<and>
   Cmd 1 ''VRemoveInbound'' (DTag ''inbound-5'') \<notin> set (sentBy (cleanupOrphanXrayInbounds exTags 1 (emptyResult 1)) exTagged)"
proof -
  have on: "staysOnline exTags 1" by (simp add: staysOnline_def exTags_def exEnv_def)
  have reply: "nodeReply exTags (dbSent exTagged) (Cmd 1 ''VGetInboundTags'' DNil) =
      \<lparr>respMsg = ''OK'', respData = Some (RTags [''api'', ''inbound-5'', ''inbound-9''])\<rparr>"
    by (simp add: exTags_def)
  have ids: "map ibID (filter (\<lambda>x. ibNodeId x = 1) (dbInbounds exTagged)) = [5, 6]" by code_simp
  have tags: "''inbound-9'' = ''inbound-'' @ itoa 9" "''inbound-5'' = ''inbound-'' @ itoa 5" by code_simp+
  have ids': "ibID ` set (filter (\<lambda>x. ibNodeId x = 1) (dbInbounds exTagged)) = {5, 6}"
    using arg_cong [OF ids, of set] by (simp only: set_map list.set)
  note decide = tag_number_decides [OF on reply, where res = "emptyResult 1", unfolded ids']
  show ?thesis
    using decide [of "zeroInbound\<lparr>ibTag := ''inbound-9''\<rparr>" 9] decide [of "zeroInbound\<lparr>ibTag := ''inbound-5''\<rparr>" 5] tags
    by (simp add: minInt64_def maxInt64_def)
qed

end
