(* ===== verification/XrayCerts.thy ===== *)
theory XrayCerts
  imports XrayInbounds
begin

text \<open>
  TLS certificates of the nodes: the handlers of \<open>service/xray_cert.go\<close> and the issuing of
  \<open>service/acme.go\<close>. The ACME server and the DNS provider are reached through the lego library, which is not part
  of the repository: \<open>acme\<close> holds what it answers, an error or a certificate with its key and its
  expiry in milliseconds (0 where the certificate cannot be parsed).
\<close>

record acme =
  acmeRegister :: "string \<Rightarrow> string option"
  acmeProvider :: "string \<Rightarrow> string option"
  acmeObtain :: "string \<Rightarrow> string + string \<times> string \<times> int"

record xrayTlsCertDto =
  tcdNodeId :: int
  tcdDomain :: string
  tcdPublicKey :: string
  tcdPrivateKey :: string
  tcdAutoRenew :: "int option"
  tcdAcmeEnabled :: "int option"
  tcdAcmeEmail :: string
  tcdChallengeType :: string
  tcdDnsProvider :: string
  tcdDnsConfig :: string
  tcdExpireTime :: "int option"

abbreviation ECreateCert :: err where "ECreateCert \<equiv> EMsg ''create certificate''"

abbreviation ECertNotFound :: err where "ECertNotFound \<equiv> EMsg ''certificate not found''"

abbreviation EAcmeOff :: err where "EAcmeOff \<equiv> EMsg ''acme off''"

section \<open>Rows\<close>

definition firstCert :: "panel \<Rightarrow> int \<Rightarrow> xrayTlsCert option" where
  "firstCert s i = rowById certID i (dbCerts s)"

definition updateCertRow :: "int \<Rightarrow> (xrayTlsCert \<Rightarrow> xrayTlsCert) \<Rightarrow> unit prog" where
  "updateCertRow i f = modify (\<lambda>s. s\<lparr>dbCerts := updateRows (\<lambda>c. certID c = i) f (dbCerts s)\<rparr>)"

definition insertCert :: "xrayTlsCert \<Rightarrow> unit prog" where
  "insertCert c = modify (\<lambda>s. s\<lparr>dbCerts := dbCerts s @ [c],
     dbAutoInc := (dbAutoInc s)(''xray_tls_cert'' := certID c + 1)\<rparr>)"

definition newCert :: "env \<Rightarrow> panel \<Rightarrow> xrayTlsCertDto \<Rightarrow> xrayTlsCert" where
  "newCert E s d =
     \<lparr>certID = dbAutoInc s ''xray_tls_cert'', certNodeId = tcdNodeId d, certDomain = tcdDomain d,
      certPublicKey = tcdPublicKey d, certPrivateKey = tcdPrivateKey d,
      certAutoRenew = (case tcdAutoRenew d of None \<Rightarrow> 0 | Some v \<Rightarrow> v),
      certAcmeEnabled = (case tcdAcmeEnabled d of None \<Rightarrow> 0 | Some v \<Rightarrow> v),
      certAcmeEmail = tcdAcmeEmail d, certChallengeType = tcdChallengeType d,
      certDnsProvider = tcdDnsProvider d, certDnsConfig = tcdDnsConfig d, certLastRenewTime = None,
      certRenewError = [], certExpireTime = tcdExpireTime d, certCreatedTime = now E, certUpdatedTime = now E\<rparr>"

section \<open>The handlers\<close>

definition xrayAccess :: "panel \<Rightarrow> int \<Rightarrow> int \<Rightarrow> int \<Rightarrow> err option" where
  "xrayAccess s userId roleId nodeId =
     (case checkXrayPermission s userId roleId of
        Some e \<Rightarrow> Some e | None \<Rightarrow> checkXrayNodeAccess s userId roleId nodeId)"

definition deployCert :: "env \<Rightarrow> int \<Rightarrow> xrayTlsCert \<Rightarrow> unit prog" where
  "deployCert E nodeId cert =
     (if certPublicKey cert \<noteq> [] \<and> certPrivateKey cert \<noteq> []
      then do { XrayDeployCert E nodeId (certDomain cert) (certPublicKey cert) (certPrivateKey cert); return () }
      else return ())"

definition CreateXrayTlsCert :: "env \<Rightarrow> xrayTlsCertDto \<Rightarrow> int \<Rightarrow> int \<Rightarrow> xrayTlsCert R prog" where
  "CreateXrayTlsCert E d userId roleId = do {
     s \<leftarrow> gets (\<lambda>s. s);
     (case xrayAccess s userId roleId (tcdNodeId d) of
        Some e \<Rightarrow> return (Err e)
      | None \<Rightarrow> (case GetNodeById s (tcdNodeId d) of
          None \<Rightarrow> return (Err ENodeNotFound)
        | Some node \<Rightarrow>
            if \<not> createOk E ''xray_tls_cert'' then return (Err ECreateCert)
            else do {
              let cert = newCert E s d;
              insertCert cert;
              deployCert E (nodeID node) cert;
              return (Ok cert) })) }"

definition stripKeys :: "xrayTlsCert \<Rightarrow> xrayTlsCert" where
  "stripKeys c = c\<lparr>certPrivateKey := [], certDnsConfig := []\<rparr>"

definition ListXrayTlsCerts :: "panel \<Rightarrow> int option \<Rightarrow> int \<Rightarrow> int \<Rightarrow> xrayTlsCert list R" where
  "ListXrayTlsCerts s nodeId userId roleId =
     (case checkXrayPermission s userId roleId of
        Some e \<Rightarrow> Err e
      | None \<Rightarrow>
          let listed = (\<lambda>P. Ok (map stripKeys (filter P (sort_key (\<lambda>c. - certCreatedTime c) (dbCerts s)))))
          in (case nodeId of
            Some n \<Rightarrow> (case checkXrayNodeAccess s userId roleId n of
                Some e \<Rightarrow> Err e
              | None \<Rightarrow> listed (\<lambda>c. certNodeId c = n))
          | None \<Rightarrow>
              if roleId \<noteq> 0 then listed (\<lambda>c. certNodeId c \<in> set (getUserAccessibleXrayNodeIds s userId))
              else listed (\<lambda>_. True)))"

definition accessibleCert :: "panel \<Rightarrow> int \<Rightarrow> int \<Rightarrow> int \<Rightarrow> err + xrayTlsCert" where
  "accessibleCert s i userId roleId =
     (case checkXrayPermission s userId roleId of
        Some e \<Rightarrow> Inl e
      | None \<Rightarrow> (case firstCert s i of
          None \<Rightarrow> Inl ECertNotFound
        | Some cert \<Rightarrow> (case checkXrayNodeAccess s userId roleId (certNodeId cert) of
            Some e \<Rightarrow> Inl e | None \<Rightarrow> Inr cert)))"

definition DeleteXrayTlsCert :: "int \<Rightarrow> int \<Rightarrow> int \<Rightarrow> unit R prog" where
  "DeleteXrayTlsCert i userId roleId = do {
     cert \<leftarrow> gets (\<lambda>s. accessibleCert s i userId roleId);
     (case cert of
        Inl e \<Rightarrow> return (Err e)
      | Inr c \<Rightarrow> do {
          modify (\<lambda>s. s\<lparr>dbCerts := deleteRows (\<lambda>x. certID x = certID c) (dbCerts s)\<rparr>);
          return (Ok ()) }) }"

section \<open>Issuing\<close>

text \<open>The configuration of the DNS provider is decoded into a map of strings; \<open>null\<close> is the empty map.\<close>

fun jsonStringValue :: "json \<Rightarrow> string option" where
  "jsonStringValue (JStr x) = Some x"
| "jsonStringValue JNull = Some []"
| "jsonStringValue _ = None"

definition apiToken :: "env \<Rightarrow> string \<Rightarrow> string option" where
  "apiToken E dnsConfig =
     (case jsonParse E dnsConfig of
        Some JNull \<Rightarrow> Some []
      | Some (JObj kvs) \<Rightarrow>
          if list_all (\<lambda>p. jsonStringValue (snd p) \<noteq> None) kvs
          then Some (case map_of kvs ''apiToken'' of None \<Rightarrow> [] | Some v \<Rightarrow> the (jsonStringValue v))
          else None
      | _ \<Rightarrow> None)"

definition configureCloudflare :: "env \<Rightarrow> acme \<Rightarrow> xrayTlsCert \<Rightarrow> string option" where
  "configureCloudflare E A cert =
     (case apiToken E (certDnsConfig cert) of
        None \<Rightarrow> Some ''dns config''
      | Some token \<Rightarrow> if token = [] then Some ''no token'' else acmeProvider A token)"

definition configureDnsChallenge :: "env \<Rightarrow> acme \<Rightarrow> xrayTlsCert \<Rightarrow> string option" where
  "configureDnsChallenge E A cert =
     (if certDnsProvider cert = ''cloudflare'' then configureCloudflare E A cert
      else Some (''unsupported provider '' @ certDnsProvider cert))"

definition obtainCert :: "env \<Rightarrow> acme \<Rightarrow> xrayTlsCert \<Rightarrow> string + string \<times> string \<times> int" where
  "obtainCert E A cert =
     (if certAcmeEmail cert = [] then Inl ''no acme email''
      else (case acmeRegister A (certAcmeEmail cert) of
        Some e \<Rightarrow> Inl e
      | None \<Rightarrow>
          if certChallengeType cert = ''dns01'' then
            (case configureDnsChallenge E A cert of
               Some e \<Rightarrow> Inl e
             | None \<Rightarrow> acmeObtain A (certDomain cert))
          else Inl (''unsupported challenge '' @ certChallengeType cert)))"

definition storeIssued :: "env \<Rightarrow> string \<Rightarrow> string \<Rightarrow> int \<Rightarrow> xrayTlsCert \<Rightarrow> xrayTlsCert" where
  "storeIssued E pem key expires c =
     c\<lparr>certPublicKey := pem, certPrivateKey := key, certExpireTime := Some expires,
       certLastRenewTime := Some (now E), certRenewError := [], certAutoRenew := 1, certUpdatedTime := now E\<rparr>"

definition issueCertViaAcme :: "env \<Rightarrow> acme \<Rightarrow> xrayTlsCert \<Rightarrow> string option prog" where
  "issueCertViaAcme E A cert =
     (case obtainCert E A cert of
        Inl e \<Rightarrow> return (Some e)
      | Inr (pem, key, expires) \<Rightarrow> do {
          updateCertRow (certID cert) (storeIssued E pem key expires);
          node \<leftarrow> gets (\<lambda>s. GetNodeById s (certNodeId cert));
          (case node of
             None \<Rightarrow> return ()
           | Some n \<Rightarrow> do { XrayDeployCert E (nodeID n) (certDomain cert) pem key; return () });
          return None })"

definition noteRenewError :: "env \<Rightarrow> xrayTlsCert \<Rightarrow> string \<Rightarrow> unit prog" where
  "noteRenewError E cert e = updateCertRow (certID cert) (\<lambda>c. c\<lparr>certRenewError := e, certUpdatedTime := now E\<rparr>)"

definition issueOwn :: "env \<Rightarrow> acme \<Rightarrow> string \<Rightarrow> int \<Rightarrow> int \<Rightarrow> int \<Rightarrow> unit R prog" where
  "issueOwn E A what i userId roleId = do {
     found \<leftarrow> gets (\<lambda>s. accessibleCert s i userId roleId);
     (case found of
        Inl e \<Rightarrow> return (Err e)
      | Inr cert \<Rightarrow>
          if certAcmeEnabled cert \<noteq> 1 then return (Err EAcmeOff)
          else do {
            err \<leftarrow> issueCertViaAcme E A cert;
            (case err of
               None \<Rightarrow> return (Ok ())
             | Some e \<Rightarrow> do {
                 noteRenewError E cert e;
                 return (Err (EPrefixGost what e)) }) }) }"

definition IssueCertificate :: "env \<Rightarrow> acme \<Rightarrow> int \<Rightarrow> int \<Rightarrow> int \<Rightarrow> unit R prog" where
  "IssueCertificate E A = issueOwn E A ''issue''"

definition RenewCertificate :: "env \<Rightarrow> acme \<Rightarrow> int \<Rightarrow> int \<Rightarrow> int \<Rightarrow> unit R prog" where
  "RenewCertificate E A = issueOwn E A ''renew''"

definition renewOne :: "env \<Rightarrow> acme \<Rightarrow> xrayTlsCert \<Rightarrow> unit prog" where
  "renewOne E A cert = do {
     err \<leftarrow> issueCertViaAcme E A cert;
     (case err of None \<Rightarrow> return () | Some e \<Rightarrow> noteRenewError E cert e) }"

definition expiringSoon :: "env \<Rightarrow> xrayTlsCert \<Rightarrow> bool" where
  "expiringSoon E c = (certAcmeEnabled c = 1 \<and>
     (case certExpireTime c of None \<Rightarrow> False
      | Some t \<Rightarrow> 0 < t \<and> t < now E + 30 * 24 * 60 * 60 * 1000 \<and> now E < t))"

definition RenewExpiringSoon :: "env \<Rightarrow> acme \<Rightarrow> unit prog" where
  "RenewExpiringSoon E A = do {
     certs \<leftarrow> gets (\<lambda>s. filter (expiringSoon E) (dbCerts s));
     forEach (renewOne E A) certs }"

end
