(* ===== verification/XrayScheduler.thy ===== *)
theory XrayScheduler
  imports XrayClients
begin

text \<open>
  The hourly reset of client counters, \<open>checkClientTrafficReset\<close> of \<open>service/xray_scheduler.go\<close>. The
  \<open>reset\<close> of a client is the length of its cycle in days, counted from its creation. Nothing records when
  a client was last reset: the code takes the time of its last update for it.
\<close>

definition resetMs :: "xrayClient \<Rightarrow> int" where
  "resetMs c = mulI64 (xcReset c) (24 * 60 * 60 * 1000)"

definition nextResetTime :: "int \<Rightarrow> xrayClient \<Rightarrow> int" where
  "nextResetTime t c =
     addI64 (xcCreatedTime c) (mulI64 (subI64 t (xcCreatedTime c) div resetMs c) (resetMs c))"

definition resetDue :: "int \<Rightarrow> xrayClient \<Rightarrow> bool" where
  "resetDue t c = (0 < resetMs c \<and> 0 < subI64 t (xcCreatedTime c) \<and> xcUpdatedTime c < nextResetTime t c)"

definition resetClient :: "env \<Rightarrow> xrayClient \<Rightarrow> unit prog" where
  "resetClient E c =
     (if resetDue (now E) c then do { resetOwnedClient E c; return () } else return ())"

definition checkClientTrafficReset :: "env \<Rightarrow> unit prog" where
  "checkClientTrafficReset E = do {
     clients \<leftarrow> gets (\<lambda>s. filter (\<lambda>c. 0 < xcReset c) (dbClients s));
     forEach (resetClient E) clients }"

end
