(* ===== verification/XrayScheduleProps.thy ===== *)
theory XrayScheduleProps
  imports XrayScheduler XrayBehaviour
begin

text \<open>
  The hourly reset: which counters it clears, and how an edit of a client makes it miss a cycle.
\<close>

section \<open>Loops over the rows of a query\<close>

lemma forEach_own_rows:
  assumes step: "\<And>c s. tab (exec (f c) s) = updateRows (\<lambda>x. k x = k c) (g c) (tab s)"
    and id: "\<And>c x. k (g c x) = k x" and cs: "distinct (map k cs)"
  shows "tab (exec (forEach f cs) s) = map (\<lambda>x. case find (\<lambda>c. k c = k x) cs of None \<Rightarrow> x | Some c \<Rightarrow> g c x) (tab s)"
  using cs
proof (induction cs arbitrary: s)
  case Nil
  then show ?case by simp
next
  case (Cons c cs)
  let ?h = "\<lambda>x. case find (\<lambda>c. k c = k x) cs of None \<Rightarrow> x | Some c \<Rightarrow> g c x"
  have none: "find (\<lambda>c. k c = k x) cs = None" if "k x = k c" for x
    using Cons.prems that by (simp add: find_None_iff) (metis image_eqI)
  have point: "?h (if k x = k c then g c x else x) = (case find (\<lambda>c. k c = k x) (c # cs) of None \<Rightarrow> x | Some c \<Rightarrow> g c x)" for x
    using none [of x] by (simp add: id eq_commute [of "k c"])
  have "tab (exec (forEach f (c # cs)) s) = map ?h (updateRows (\<lambda>x. k x = k c) (g c) (tab s))"
    using Cons.prems by (simp add: Cons.IH step)
  also have "\<dots> = map (\<lambda>x. ?h (if k x = k c then g c x else x)) (tab s)"
    by (simp add: updateRows_def)
  finally show ?case by (simp only: point)
qed

lemma find_own_row:
  assumes "distinct (map k rows)" "x \<in> set rows"
  shows "find (\<lambda>c. k c = k x) (filter P rows) = (if P x then Some x else None)"
  using assms
proof (induction rows)
  case (Cons r rows)
  show ?case
  proof (cases "x = r")
    case True
    have "find (\<lambda>c. k c = k r) (filter P rows) = None"
      using Cons.prems(1) by (simp add: find_None_iff) (metis image_eqI)
    with True show ?thesis by simp
  next
    case False
    then have "x \<in> set rows" using Cons.prems(2) by simp
    moreover from this have "k r \<noteq> k x" using Cons.prems(1) by (metis distinct.simps(2) image_eqI list.simps(9) list.set_map)
    ultimately show ?thesis using Cons by simp
  qed
qed simp

section \<open>Cycles\<close>

definition cycleMs :: "xrayClient \<Rightarrow> int" where
  "cycleMs c = xcReset c * (24 * 60 * 60 * 1000)"

definition lastBoundary :: "int \<Rightarrow> xrayClient \<Rightarrow> int" where
  "lastBoundary t c = xcCreatedTime c + (t - xcCreatedTime c) div cycleMs c * cycleMs c"

text \<open>Times and cycles of a century, far from the end of 64 bits.\<close>

definition ordinary :: "int \<Rightarrow> xrayClient \<Rightarrow> bool" where
  "ordinary t c = (0 < xcReset c \<and> xcReset c \<le> 36500 \<and> 0 \<le> xcCreatedTime c \<and> xcCreatedTime c \<le> t \<and> t \<le> 2 ^ 61 \<and>
     xcCreatedTime c \<le> xcUpdatedTime c)"

lemma lastBoundary_bounds:
  assumes "ordinary t c"
  shows "xcCreatedTime c \<le> lastBoundary t c" "lastBoundary t c \<le> t"
proof -
  have T: "0 < cycleMs c" using assms by (simp add: ordinary_def cycleMs_def)
  have "0 \<le> t - xcCreatedTime c" using assms by (simp add: ordinary_def)
  then have "0 \<le> (t - xcCreatedTime c) div cycleMs c * cycleMs c" using T by (simp add: pos_imp_zdiv_nonneg_iff)
  moreover have "(t - xcCreatedTime c) div cycleMs c * cycleMs c \<le> t - xcCreatedTime c"
    using T by (metis div_mult_mod_eq le_add_same_cancel1 pos_mod_sign)
  ultimately show "xcCreatedTime c \<le> lastBoundary t c" "lastBoundary t c \<le> t"
    by (simp_all add: lastBoundary_def)
qed

lemma resetDue_iff:
  assumes "ordinary t c"
  shows "resetDue t c \<longleftrightarrow> xcUpdatedTime c < lastBoundary t c"
proof -
  note b = lastBoundary_bounds [OF assms]
  have r: "0 < xcReset c" "xcReset c \<le> 36500" "0 \<le> xcCreatedTime c" "xcCreatedTime c \<le> t" "t \<le> 2 ^ 61" "xcCreatedTime c \<le> xcUpdatedTime c"
    using assms by (simp_all add: ordinary_def)
  have ms: "resetMs c = cycleMs c"
    unfolding resetMs_def mulI64_def cycleMs_def using r by (intro wrapI64_id) (simp_all add: minInt64_def maxInt64_def)
  have el: "subI64 t (xcCreatedTime c) = t - xcCreatedTime c"
    unfolding subI64_def using r by (intro wrapI64_id) (simp_all add: minInt64_def maxInt64_def)
  have mul: "mulI64 ((t - xcCreatedTime c) div cycleMs c) (cycleMs c) = lastBoundary t c - xcCreatedTime c"
    unfolding mulI64_def using r b by (subst wrapI64_id) (simp_all add: lastBoundary_def minInt64_def maxInt64_def)
  have "nextResetTime t c = lastBoundary t c"
    unfolding nextResetTime_def el ms mul addI64_def using r b by (subst wrapI64_id) (simp_all add: minInt64_def maxInt64_def)
  moreover have "0 < cycleMs c" using r by (simp add: cycleMs_def)
  ultimately show ?thesis using r b by (auto simp: resetDue_def ms el)
qed

section \<open>The rows after a run\<close>

definition cleared :: "env \<Rightarrow> xrayClient \<Rightarrow> xrayClient \<Rightarrow> xrayClient" where
  "cleared E c x = x\<lparr>xcUpTraffic := 0, xcDownTraffic := 0, xcUpdatedTime := now E,
     xcEnable := (if xcEnable c = 0 \<and> 0 < xcTotalTraffic c then 1 else xcEnable x)\<rparr>"

lemma updateRows_seq:
  "(\<And>x. k (g x) = k x) \<Longrightarrow> updateRows (\<lambda>x. k x = i) h (updateRows (\<lambda>x. k x = i) g rows) = updateRows (\<lambda>x. k x = i) (\<lambda>x. h (g x)) rows"
  by (simp add: updateRows_def)

lemma clients_resetOwned:
  "dbClients (exec (resetOwnedClient E c) s) = updateRows (\<lambda>x. xcID x = xcID c) (cleared E c) (dbClients s)"
proof -
  have hot: "dbClients (exec (case inb of None \<Rightarrow> return () | Some ib \<Rightarrow> do { hotAddClient E ib c; return () }) s') = dbClients s'" for inb s'
    by (simp split: option.split)
  show ?thesis
  proof (cases "xcEnable c = 0 \<and> 0 < xcTotalTraffic c")
    case True
    then show ?thesis
      by (simp add: resetOwnedClient_def hot updateClientRow_def updateRows_seq cleared_def [abs_def])
  next
    case False
    then have off: "(xcEnable c = 0 \<and> 0 < xcTotalTraffic c) = False" by blast
    have "cleared E c = (\<lambda>x. x\<lparr>xcUpTraffic := 0, xcDownTraffic := 0, xcUpdatedTime := now E\<rparr>)"
      unfolding cleared_def [abs_def] off if_False by (simp add: fun_eq_iff)
    then show ?thesis unfolding resetOwnedClient_def off if_False by (simp add: updateClientRow_def)
  qed
qed

lemma clients_resetClient:
  "dbClients (exec (resetClient E c) s) =
     updateRows (\<lambda>x. xcID x = xcID c) (if resetDue (now E) c then cleared E c else id) (dbClients s)"
proof (cases "resetDue (now E) c")
  case True
  then show ?thesis by (simp add: resetClient_def clients_resetOwned)
next
  case False
  have "updateRows (\<lambda>x. xcID x = xcID c) id rows = rows" for rows :: "xrayClient list" by (simp add: updateRows_def map_idI)
  with False show ?thesis by (simp add: resetClient_def)
qed

lemma rows_after_reset:
  assumes "distinct (map xcID (dbClients s))"
  shows "dbClients (exec (checkClientTrafficReset E) s) =
    map (\<lambda>c. if 0 < xcReset c \<and> resetDue (now E) c then cleared E c c else c) (dbClients s)"
proof -
  let ?cs = "filter (\<lambda>c. 0 < xcReset c) (dbClients s)"
  have "distinct (map xcID ?cs)" using assms by (rule distinct_map_filter)
  then have "dbClients (exec (forEach (resetClient E) ?cs) s) =
      map (\<lambda>x. case find (\<lambda>c. xcID c = xcID x) ?cs of None \<Rightarrow> x | Some c \<Rightarrow> (if resetDue (now E) c then cleared E c else id) x) (dbClients s)"
    by (intro forEach_own_rows clients_resetClient) (simp add: cleared_def)
  also have "\<dots> = map (\<lambda>c. if 0 < xcReset c \<and> resetDue (now E) c then cleared E c c else c) (dbClients s)"
    using assms by (intro map_cong) (simp_all add: find_own_row)
  finally show ?thesis by (simp add: checkClientTrafficReset_def)
qed

text \<open>C40: Each cycle clears once. For clocks and cycles within the bounds, the hourly task clears exactly the
  clients whose last update lies before the last boundary of their cycle (and enables those that were off with a
  limit); run again at any later time before the next boundary, it leaves every one of them alone.\<close>

theorem reset_once_per_cycle:
  assumes "distinct (map xcID (dbClients s))"
    and "\<forall>c \<in> set (dbClients s). 0 < xcReset c \<longrightarrow> ordinary (now E) c \<and> ordinary (now E') c \<and> lastBoundary (now E') c = lastBoundary (now E) c"
  shows "dbClients (exec (checkClientTrafficReset E) s) =
      map (\<lambda>c. if 0 < xcReset c \<and> xcUpdatedTime c < lastBoundary (now E) c then cleared E c c else c) (dbClients s) \<and>
    dbClients (exec (checkClientTrafficReset E') (exec (checkClientTrafficReset E) s)) = dbClients (exec (checkClientTrafficReset E) s)"
proof
  let ?s = "exec (checkClientTrafficReset E) s"
  have rows: "dbClients ?s = map (\<lambda>c. if 0 < xcReset c \<and> xcUpdatedTime c < lastBoundary (now E) c then cleared E c c else c) (dbClients s)"
    unfolding rows_after_reset [OF assms(1)] using assms(2) by (intro map_cong) (auto simp: resetDue_iff)
  then show "dbClients ?s = map (\<lambda>c. if 0 < xcReset c \<and> xcUpdatedTime c < lastBoundary (now E) c then cleared E c c else c) (dbClients s)" .
  have "map xcID (dbClients ?s) = map xcID (dbClients s)" unfolding rows by (simp add: cleared_def)
  with assms(1) have ids: "distinct (map xcID (dbClients ?s))" by simp
  have "\<not> resetDue (now E') c'" if c': "c' \<in> set (dbClients ?s)" "0 < xcReset c'" for c'
  proof -
    obtain c where c: "c \<in> set (dbClients s)"
      "c' = (if 0 < xcReset c \<and> xcUpdatedTime c < lastBoundary (now E) c then cleared E c c else c)"
      using c'(1) unfolding rows by auto
    have same: "xcReset c' = xcReset c" "xcCreatedTime c' = xcCreatedTime c" using c(2) by (simp_all add: cleared_def)
    then have o: "ordinary (now E) c" "ordinary (now E') c'" "lastBoundary (now E') c' = lastBoundary (now E) c"
      using assms(2) c c'(2) by (auto simp: ordinary_def lastBoundary_def cycleMs_def cleared_def)
    have "lastBoundary (now E) c \<le> xcUpdatedTime c'"
      using c(2) c'(2) same lastBoundary_bounds(2) [OF o(1)] by (auto simp: cleared_def split: if_splits)
    then show ?thesis using o(3) resetDue_iff [OF o(2)] by simp
  qed
  then have "map (\<lambda>c. if 0 < xcReset c \<and> resetDue (now E') c then cleared E' c c else c) (dbClients ?s) = dbClients ?s"
    by (intro map_idI) auto
  then show "dbClients (exec (checkClientTrafficReset E') ?s) = dbClients ?s"
    unfolding rows_after_reset [OF ids] .
qed

text \<open>Client 1 has a cycle of one day and was created at time 0; client 2 has no cycle.\<close>

definition exCycles :: panel where
  "exCycles = exPanel\<lparr>dbClients := [zeroClient\<lparr>xcID := 1, xcUserId := 7, xcInboundId := 2, xcUpTraffic := 30, xcTotalTraffic := 20, xcReset := 1,
       xcEnable := 0, xcCreatedTime := 0, xcUpdatedTime := 0\<rparr>,
     zeroClient\<lparr>xcID := 2, xcUpTraffic := 40, xcEnable := 1\<rparr>]\<rparr>"

definition exAt :: "int \<Rightarrow> env" where
  "exAt t = exEnv\<lparr>now := t\<rparr>"

theorem reset_once_per_cycle_witness:
  "map xcUpTraffic (dbClients (exec (checkClientTrafficReset (exAt 86400000)) exCycles)) = [0, 40] \<and>
   dbClients (exec (checkClientTrafficReset (exAt 90000000)) (exec (checkClientTrafficReset (exAt 86400000)) exCycles)) =
     dbClients (exec (checkClientTrafficReset (exAt 86400000)) exCycles)"
proof -
  have ids: "distinct (map xcID (dbClients exCycles))" by code_simp
  have "list_all (\<lambda>c. 0 < xcReset c \<longrightarrow> ordinary (now (exAt 86400000)) c \<and> ordinary (now (exAt 90000000)) c \<and>
      lastBoundary (now (exAt 90000000)) c = lastBoundary (now (exAt 86400000)) c) (dbClients exCycles)" by code_simp
  then have "\<forall>c \<in> set (dbClients exCycles). 0 < xcReset c \<longrightarrow> ordinary (now (exAt 86400000)) c \<and> ordinary (now (exAt 90000000)) c \<and>
      lastBoundary (now (exAt 90000000)) c = lastBoundary (now (exAt 86400000)) c" by (simp only: list_all_iff)
  note once = reset_once_per_cycle [OF ids this]
  have "map xcUpTraffic (map (\<lambda>c. if 0 < xcReset c \<and> xcUpdatedTime c < lastBoundary (now (exAt 86400000)) c then cleared (exAt 86400000) c c else c)
      (dbClients exCycles)) = [0, 40]" by code_simp
  with once show ?thesis by simp
qed

section \<open>An edit makes a client miss its cycle\<close>

lemma UpdateXrayClient_rows:
  assumes "result (UpdateXrayClient E d u r) s = Ok ()"
  shows "\<exists>c. ownedClient s (xcuID d) u r = Inr c \<and>
    dbClients (exec (UpdateXrayClient E d u r) s) = updateRows (\<lambda>x. xcID x = xcID c) (writeClient E d) (dbClients s)"
proof -
  obtain c where c: "ownedClient s (xcuID d) u r = Inr c"
    using assms by (auto simp: UpdateXrayClient_def onOwnedClient_def split: sum.splits)
  let ?s = "exec (updateClientRow (xcID c) (writeClient E d)) s"
  let ?apply = "applyClient E c (firstInbound s (xcInboundId c))"
  have node: "clientNodeError s c u r = None"
    using assms c by (auto simp: UpdateXrayClient_def onOwnedClient_def updateOwnedClient_def split: option.splits)
  then have run: "result (UpdateXrayClient E d u r) s = result ?apply ?s" "exec (UpdateXrayClient E d u r) s = exec ?apply ?s"
    using c by (simp_all add: UpdateXrayClient_def onOwnedClient_def updateOwnedClient_def)
  have add: "dbClients (exec (addUpdatedClient E ib c) s') = dbClients s'" if "result (addUpdatedClient E ib c) s' = Ok ()" for ib s'
    using that by (auto simp: addUpdatedClient_def run split: if_splits)
  have "dbClients (exec ?apply ?s) = dbClients ?s"
    using assms run(1) add by (auto simp: applyClient_def run split: option.splits if_splits)
  with c run(2) show ?thesis by (auto simp: updateClientRow_def)
qed

text \<open>An edit makes a client miss its cycle. A user (or the administrator) changes anything of a client after a
  boundary of its cycle and before the hourly task has seen it, such as its remark: at every later time of the
  cycle the task leaves the client's counters as they were, so the traffic of the old cycle counts in the new one.\<close>

theorem edit_skips_reset:
  assumes "result (UpdateXrayClient E d u r) s = Ok ()" "distinct (map xcID (dbClients s))"
    and "firstClient s (xcuID d) = Some c" "ordinary (now E) (writeClient E d c)" "ordinary (now E') (writeClient E d c)"
    and "lastBoundary (now E') (writeClient E d c) = lastBoundary (now E) (writeClient E d c)"
  shows "firstClient (exec (checkClientTrafficReset E') (exec (UpdateXrayClient E d u r) s)) (xcuID d) = Some (writeClient E d c)"
proof -
  let ?s = "exec (UpdateXrayClient E d u r) s" and ?c = "writeClient E d c"
  obtain c' where own: "ownedClient s (xcuID d) u r = Inr c'"
    and rows: "dbClients ?s = updateRows (\<lambda>x. xcID x = xcID c') (writeClient E d) (dbClients s)"
    using UpdateXrayClient_rows [OF assms(1)] by blast
  have c: "c' = c" "xcID c = xcuID d" using ownedClient_Inr(2,4) [OF own] assms(3) by simp_all
  have "map xcID (dbClients ?s) = map xcID (dbClients s)"
    unfolding rows by (rule map_updateRows) (simp add: writeClient_def)
  then have ids: "distinct (map xcID (dbClients ?s))" using assms(2) by simp
  have "firstClient ?s (xcuID d) = Some ?c"
    unfolding firstClient_def rows c using assms(3) by (subst rowById_update) (simp_all add: firstClient_def writeClient_def)
  moreover have "\<not> resetDue (now E') ?c"
    using resetDue_iff [OF assms(5)] assms(6) lastBoundary_bounds(2) [OF assms(4)] by (simp add: writeClient_def)
  moreover have "rowById xcID i (map (\<lambda>x. if 0 < xcReset x \<and> resetDue (now E') x then cleared E' x x else x) xs) =
      map_option (\<lambda>x. if 0 < xcReset x \<and> resetDue (now E') x then cleared E' x x else x) (rowById xcID i xs)" for i xs
    by (induction xs) (simp_all add: rowById_Cons cleared_def)
  ultimately show ?thesis by (simp add: firstClient_def rows_after_reset [OF ids])
qed

definition exRemark :: xrayClientUpdateDto where
  "exRemark = \<lparr>xcuID = 1, xcuEmail = [], xcuUuidOrPassword = [], xcuFlow = [], xcuAlterId = None, xcuTotalTraffic = None,
     xcuExpTime = None, xcuLimitIp = None, xcuReset = None, xcuEnable = None, xcuRemark = ''phone''\<rparr>"

theorem edit_skips_reset_witness:
  "\<exists>c. firstClient (exec (checkClientTrafficReset (exAt 90000000)) (exec (UpdateXrayClient (exAt 86400001) exRemark 7 1) exCycles)) 1 = Some c \<and>
     xcUpTraffic c = 30"
proof -
  have ok: "result (UpdateXrayClient (exAt 86400001) exRemark 7 1) exCycles = Ok ()" by code_simp
  have ids: "distinct (map xcID (dbClients exCycles))" by code_simp
  have "(case firstClient exCycles (xcuID exRemark) of None \<Rightarrow> False | Some c \<Rightarrow> xcUpTraffic c = 30 \<and>
      ordinary (now (exAt 86400001)) (writeClient (exAt 86400001) exRemark c) \<and> ordinary (now (exAt 90000000)) (writeClient (exAt 86400001) exRemark c) \<and>
      lastBoundary (now (exAt 90000000)) (writeClient (exAt 86400001) exRemark c) = lastBoundary (now (exAt 86400001)) (writeClient (exAt 86400001) exRemark c))"
    by code_simp
  then obtain c where c: "firstClient exCycles (xcuID exRemark) = Some c" "xcUpTraffic c = 30"
    "ordinary (now (exAt 86400001)) (writeClient (exAt 86400001) exRemark c)" "ordinary (now (exAt 90000000)) (writeClient (exAt 86400001) exRemark c)"
    "lastBoundary (now (exAt 90000000)) (writeClient (exAt 86400001) exRemark c) = lastBoundary (now (exAt 86400001)) (writeClient (exAt 86400001) exRemark c)"
    by (auto split: option.splits)
  have "xcuID exRemark = 1" by (simp add: exRemark_def)
  with edit_skips_reset [OF ok ids c(1,3,4,5)] c(2) show ?thesis by (auto simp: writeClient_def)
qed

end
