(* ===== verification/Shape.thy ===== *)
theory Shape
  imports FlowLimits ResetProps UserTunnelProps Tunnels Nodes UserProps StatisticsProps
    ReconcileInbounds XrayCerts XrayScheduleProps
begin

text \<open>
  The shape of the database: the keys, ports, nodes and names the invariant of the whole panel speaks
  about. Most operations leave it alone, whatever else they write and send; this theory says so of each of them.
\<close>

definition place :: "forward \<Rightarrow> int \<times> int \<times> int \<times> int" where
  "place f = (fwdID f, fwdTunnelId f, fwdInPort f, fwdOutPort f)"

definition ends :: "tunnel \<Rightarrow> int \<times> int \<times> int" where
  "ends t = (tunID t, tunInNodeId t, tunOutNodeId t)"

definition account :: "user \<Rightarrow> int \<times> string" where
  "account u = (userID u, userUser u)"

definition socket :: "xrayInbound \<Rightarrow> int \<times> int \<times> int" where
  "socket ib = (ibID ib, ibNodeId ib, ibPort ib)"

definition forwardShape :: "panel \<Rightarrow> (int \<times> int \<times> int \<times> int) list \<times> int" where
  "forwardShape s = (map place (dbForwards s), dbAutoInc s ''forward'')"

definition netShape :: "panel \<Rightarrow> (int \<times> int \<times> int) list \<times> int list \<times> int \<times> int" where
  "netShape s = (map ends (dbTunnels s), map nodeID (dbNodes s), dbAutoInc s ''tunnel'', dbAutoInc s ''node'')"

definition userShape :: "panel \<Rightarrow> (int \<times> string) list \<times> int" where
  "userShape s = (map account (dbUsers s), dbAutoInc s ''user'')"

definition inboundShape :: "panel \<Rightarrow> (int \<times> int \<times> int) list \<times> int" where
  "inboundShape s = (map socket (dbInbounds s), dbAutoInc s ''xray_inbound'')"

lemmas shape_defs = forwardShape_def netShape_def userShape_def inboundShape_def

definition shaped where
  "shaped F N U I s = (forwardShape s = F \<and> netShape s = N \<and> userShape s = U \<and> inboundShape s = I)"

lemma ignoresSent_shaped [simp]: "ignoresSent (shaped F N U I)"
  by (simp add: ignoresSent_def shaped_def shape_defs)

section \<open>Writes\<close>

lemma place_simps [simp]:
  "place (f\<lparr>fwdStatus := a\<rparr>) = place f" "place (f\<lparr>fwdInx := b\<rparr>) = place f"
  "place (f\<lparr>fwdStatus := a, fwdUpdatedTime := c\<rparr>) = place f" "place (addForwardFlow d u f) = place f"
  by (simp_all add: place_def addForwardFlow_def)

lemma ends_simps [simp]: "ends (t\<lparr>tunInx := a\<rparr>) = ends t" "ends (t\<lparr>tunInIp := b\<rparr>) = ends t" "ends (t\<lparr>tunOutIp := b\<rparr>) = ends t"
  by (simp_all add: ends_def)

lemma account_simps [simp]:
  "account (zeroUserFlow u) = account u" "account (addUserFlow d v u) = account u" "account (addUserXrayFlow d v u) = account u"
  "account (u\<lparr>userStatus := a\<rparr>) = account u" "account (u\<lparr>userPwd := p\<rparr>) = account u"
  "account (u\<lparr>userGostEnabled := a, userXrayEnabled := b\<rparr>) = account u"
  by (simp_all add: account_def zeroUserFlow_def addUserFlow_def addUserXrayFlow_def)

lemma keeps_shaped_rows [keeps_intro]:
  "(\<And>f. place (g1 f) = place f) \<Longrightarrow> keeps (shaped F N U I) (updateForwardRow i1 g1)"
  "(\<And>u. account (g2 u) = account u) \<Longrightarrow> keeps (shaped F N U I) (updateUserRow i2 g2)"
  "(\<And>t. ends (g3 t) = ends t) \<Longrightarrow> keeps (shaped F N U I) (updateTunnelRow i3 g3)"
  "(\<And>n. nodeID (g4 n) = nodeID n) \<Longrightarrow> keeps (shaped F N U I) (updateNodeRow i4 g4)"
  "(\<And>b. socket (g5 b) = socket b) \<Longrightarrow> keeps (shaped F N U I) (updateInboundRow i5 g5)"
  "keeps (shaped F N U I) (updateUserTunnelRow i6 g6)"
  "keeps (shaped F N U I) (updateClientRow i7 g7)"
  "keeps (shaped F N U I) (updateCertRow i8 g8)"
  unfolding updateForwardRow_def updateUserRow_def updateTunnelRow_def updateNodeRow_def updateInboundRow_def
    updateUserTunnelRow_def updateClientRow_def updateCertRow_def
  by (rule keeps_modify; simp add: shaped_def shape_defs map_updateRows)+

lemma keeps_shaped_tables [keeps_intro]:
  "keeps (shaped F N U I) (modify (\<lambda>s. s\<lparr>dbUserTunnels := a s\<rparr>))"
  "keeps (shaped F N U I) (modify (\<lambda>s. s\<lparr>dbUserNodes := b s\<rparr>))"
  "keeps (shaped F N U I) (modify (\<lambda>s. s\<lparr>dbSpeedLimits := c s\<rparr>))"
  "keeps (shaped F N U I) (modify (\<lambda>s. s\<lparr>dbClients := d s\<rparr>))"
  "keeps (shaped F N U I) (modify (\<lambda>s. s\<lparr>dbCerts := e s\<rparr>))"
  "keeps (shaped F N U I) (modify (\<lambda>s. s\<lparr>dbStatFlows := f s\<rparr>))"
  by (rule keeps_modify; simp add: shaped_def shape_defs)+

lemma keeps_shaped_inserts [keeps_intro]:
  "keeps (shaped F N U I) (insertUserTunnel ut)" "keeps (shaped F N U I) (insertUserNode a b c d)"
  "keeps (shaped F N U I) (insertClient cl)" "keeps (shaped F N U I) (insertCert ce)"
  "keeps (shaped F N U I) (modify (\<lambda>s. s\<lparr>dbSpeedLimits := e s, dbAutoInc := (dbAutoInc s)(''speed_limit'' := f)\<rparr>))"
  unfolding insertUserTunnel_def insertUserNode_def insertClient_def insertCert_def
  by (rule keeps_modify; simp add: shaped_def shape_defs)+

lemma keeps_shaped_bills [keeps_intro]:
  "keeps (shaped F N U I) (billForward E a d u)" "keeps (shaped F N U I) (billUser E a d u)" "keeps (shaped F N U I) (billUserTunnel E a d u)"
  "keeps (shaped F N U I) (modify (\<lambda>s. s\<lparr>dbUsers := updateRows P (addUserXrayFlow d u) (dbUsers s)\<rparr>))"
  unfolding billForward_def billUser_def billUserTunnel_def
  by (rule keeps_modify; simp add: shaped_def shape_defs map_updateRows)+

lemma keeps_shaped_error [keeps_intro]: "keeps (shaped F N U I) (updateForwardStatusToError i)"
  unfolding updateForwardStatusToError_def by (rule keeps_modify) (simp add: shaped_def shape_defs map_updateRows)

section \<open>Operations\<close>

lemma keeps_shaped_forwards [keeps_intro]:
  "keeps (shaped F N U I) (setForwardStatus E i st)"
  "keeps (shaped F N U I) (PauseForward E i u r)" "keeps (shaped F N U I) (ResumeForward E i u r)"
  "keeps (shaped F N U I) (UpdateForwardOrder items u r)"
  unfolding setForwardStatus_def PauseForward_def ResumeForward_def UpdateForwardOrder_def Let_def
  by (intro keeps_intro keeps_shaped_rows; simp)+

lemma keeps_shaped_limits [keeps_intro]:
  "keeps (shaped F N U I) (AddSpeedLimiter E n sp)" "ignoresSent J \<Longrightarrow> keeps J (updateForwardWithNewSpeed E t ut f)"
  "keeps (shaped F N U I) (pauseForwardForDisable E f t ut)"
  unfolding AddSpeedLimiter_def updateForwardWithNewSpeed_def pauseForwardForDisable_def Let_def
  by (intro keeps_intro keeps_shaped_rows; simp)+

lemma keeps_shaped_permissions [keeps_intro]:
  "keeps (shaped F N U I) (applyNewSpeed E ut sp)" "keeps (shaped F N U I) (AssignUserTunnel E d)" "keeps (shaped F N U I) (UpdateUserTunnel E d')"
  unfolding applyNewSpeed_def AssignUserTunnel_def UpdateUserTunnel_def Let_def by (intro keeps_intro; simp)+

lemma keeps_shaped_tunnels [keeps_intro]:
  "keeps (shaped F N U I) (UpdateTunnelOrder items)" "keeps (shaped F N U I) (UpdateTunnel E d)"
  unfolding UpdateTunnelOrder_def UpdateTunnel_def Let_def
  by (intro keeps_intro keeps_shaped_rows; simp add: ends_def)+

lemma keeps_onEntryNode [keeps_intro]: "(\<And>n. keeps J (f n)) \<Longrightarrow> keeps J (onEntryNode s t f)"
  unfolding onEntryNode_def by (intro keeps_intro)

lemma keeps_shaped_speed [keeps_intro]:
  "keeps (shaped F N U I) (CreateSpeedLimit E d)" "keeps (shaped F N U I) (UpdateSpeedLimit E d')" "keeps (shaped F N U I) (DeleteSpeedLimit E i)"
  unfolding CreateSpeedLimit_def UpdateSpeedLimit_def DeleteSpeedLimit_def Let_def
  by (intro keeps_intro keeps_shaped_tables keeps_shaped_inserts; simp)+

lemma keeps_shaped_retarget [keeps_intro]: "keeps (shaped F N U I) (retargetTunnels n ip)"
  unfolding retargetTunnels_def by (intro keeps_intro keeps_modify; simp add: shaped_def shape_defs map_updateRows)

lemma keeps_shaped_nodes [keeps_intro]:
  "keeps (shaped F N U I) (UpdateNode E d)" "keeps (shaped F N U I) (SetNodeProtocol E p)"
  "keeps (shaped F N U I) (UpdateNodeOrder items)" "keeps (shaped F N U I) (GenerateDockerInstallCommand E v port i addr)"
  unfolding UpdateNode_def SetNodeProtocol_def UpdateNodeOrder_def GenerateDockerInstallCommand_def Let_def
  by (intro keeps_intro keeps_shaped_rows keeps_SendMsg; simp add: writeNode_def backfillNames_def)+

lemma keeps_shaped_derive [keeps_intro]: "keeps (shaped F N U I) (deriveUserPermissions i)"
  unfolding deriveUserPermissions_def Let_def by (intro keeps_intro keeps_shaped_rows; simp)

lemma keeps_shaped_users [keeps_intro]:
  "keeps (shaped F N U I) (Login E mac d)" "keeps (shaped F N U I) (resetFlowOf rd ty)"
  unfolding Login_def migratePassword_def resetFlowOf_def Let_def by (intro keeps_intro keeps_shaped_rows; simp)+

lemma keeps_shaped_clients [keeps_intro]:
  "keeps (shaped F N U I) (CreateXrayClient E d u r)" "keeps (shaped F N U I) (UpdateXrayClient E d' u r)"
  "keeps (shaped F N U I) (DeleteXrayClient E i u r)" "keeps (shaped F N U I) (ResetXrayClientTraffic E i u r)"
  "keeps (shaped F N U I) (resetOwnedClient E c)"
  unfolding CreateXrayClient_def UpdateXrayClient_def DeleteXrayClient_def ResetXrayClientTraffic_def resetOwnedClient_def
    updateOwnedClient_def deleteOwnedClient_def applyClient_def addUpdatedClient_def saveClient_def deleteClientRow_def hotAddClient_def Let_def
  by (intro keeps_intro keeps_onOwnedClient keeps_shaped_tables; simp)+

lemma keeps_shaped_enable [keeps_intro]:
  "keeps (shaped F N U I) (EnableXrayInbound E i u r)" "keeps (shaped F N U I) (DisableXrayInbound E i u r)"
  unfolding EnableXrayInbound_def DisableXrayInbound_def enableOwned_def disableOwned_def Let_def
  by (intro keeps_intro keeps_shaped_rows; simp add: socket_def)+

lemma keeps_shaped_certs [keeps_intro]:
  "keeps (shaped F N U I) (CreateXrayTlsCert E d u r)" "keeps (shaped F N U I) (DeleteXrayTlsCert i u r)"
  "keeps (shaped F N U I) (IssueCertificate E A i u r)" "keeps (shaped F N U I) (RenewCertificate E A i u r)"
  "keeps (shaped F N U I) (RenewExpiringSoon E A)"
  unfolding CreateXrayTlsCert_def DeleteXrayTlsCert_def IssueCertificate_def RenewCertificate_def issueOwn_def issueCertViaAcme_def
    noteRenewError_def RenewExpiringSoon_def renewOne_def deployCert_def Let_def
  by (intro keeps_intro keeps_shaped_tables; simp)+

lemma keeps_shaped_pauses [keeps_intro]:
  "keeps (shaped F N U I) (pauseForwardServices E fs)" "keeps (shaped F N U I) (pauseAllUserServices E u)"
  "keeps (shaped F N U I) (pauseSpecificForward E t u)" "keeps (shaped F N U I) (pauseSingleForward E f)"
  "keeps (shaped F N U I) (pauseUserForward E ui f)"
  unfolding pauseForwardServices_def pauseAllUserServices_def pauseSpecificForward_def pauseOne_def pauseSingleForward_def
    pauseUserForward_def Let_def
  by (intro keeps_intro keeps_shaped_rows; simp)+

lemma keeps_shaped_checks [keeps_intro]:
  "keeps (shaped F N U I) (checkUserLimits E u)" "keeps (shaped F N U I) (checkUserTunnelLimits E ut u)"
  unfolding checkUserLimits_def checkUserTunnelLimits_def by (intro keeps_intro; simp)+

lemma keeps_shaped_process [keeps_intro]: "keeps (shaped F N U I) (processFlowData E d)"
  unfolding processFlowData_def Let_def by (intro keeps_intro)

lemma keeps_shaped_cutOff [keeps_intro]: "keeps (shaped F N U I) (cutOffClient E c i e)"
  unfolding cutOffClient_def by (intro keeps_intro keeps_shaped_tables; simp)

lemma keeps_shaped_xray [keeps_intro]: "keeps (shaped F N U I) (checkUserXrayLimits E u)" "keeps (shaped F N U I) (processXrayClient E rep)"
  unfolding processXrayClient_def checkUserXrayLimits_def Let_def by (intro keeps_intro keeps_shaped_tables keeps_shaped_bills)+

lemma keeps_shaped_reports [keeps_intro]:
  "keeps (shaped F N U I) (ProcessFlowUpload E C raw secret)" "keeps (shaped F N U I) (ProcessXrayFlowUpload E C raw secret)"
  unfolding ProcessFlowUpload_def ProcessXrayFlowUpload_def by (intro keeps_intro)+

lemma keeps_shaped_night [keeps_intro]: "keeps (shaped F N U I) (resetFlow E)"
  unfolding resetFlow_def resetUsers_def resetUserTunnels_def disableExpiredUsers_def disableExpiredUserTunnels_def
    pauseUserForwards_def pauseUserTunnelForwards_def Let_def
  by (intro keeps_intro keeps_shaped_rows; simp)

lemma keeps_shaped_hour [keeps_intro]: "keeps (shaped F N U I) (RecordHourlyStatistics E)"
  unfolding RecordHourlyStatistics_def RecordForwardFlowSnapshots_def RecordXrayFlowSnapshots_def RecordUserFlowSnapshots_def
    CleanOldMonitorData_def recordUserHour_def recordForward_def recordInbound_def recordUserFlow_def
  by (intro keeps_intro keeps_modify; simp add: shaped_def shape_defs useId_def Let_def)

lemma keeps_shaped_scheduler [keeps_intro]: "keeps (shaped F N U I) (checkClientTrafficReset E)"
  unfolding checkClientTrafficReset_def resetClient_def by (intro keeps_intro)

interpretation shaped: run_frame "shaped F N U I"
  for F N U I
proof (unfold_locales, goal_cases)
  case (1 t E m d)
  show ?case by (rule keeps_SendMsg) simp
next
  case (2 i)
  show ?case by (rule keeps_shaped_rows) simp
next
  case (3 m)
  show ?case unfolding recoverInbounds_def
    by (rule keeps_modify) (simp add: shaped_def shape_defs map_updateRows socket_def)
qed

lemma keeps_shaped_reconcile [keeps_intro]: "keeps (shaped F N U I) (ReconcileNode E locked n)"
  unfolding ReconcileNode_def reconcileRest_def
  by (intro keeps_intro shaped.keeps_reconcileGost shaped.keeps_reconcileXrayInbounds shaped.keeps_reconcileXrayCerts
      shaped.keeps_cleanupInbounds keeps_cleanupOrphanServices ignoresSent_shaped)

end
