(* ===== verification/SystemInv.thy ===== *)
theory SystemInv
  imports Shape
begin

text \<open>
  The invariant of the whole database. Each of its parts reads only some of the shapes, so that an operation which
  keeps a shape keeps the part; the operations that change a shape are taken one by one.
\<close>

definition forwardRefs :: "panel \<Rightarrow> bool" where
  "forwardRefs s = (\<forall>f \<in> set (dbForwards s). fwdTunnelId f \<in> tunID ` set (dbTunnels s))"

definition netInv :: "panel \<Rightarrow> bool" where
  "netInv s = ((\<forall>t \<in> set (dbTunnels s). tunID t < dbAutoInc s ''tunnel'' \<and>
       tunInNodeId t \<in> nodeID ` set (dbNodes s) \<and> tunOutNodeId t \<in> nodeID ` set (dbNodes s)) \<and>
     distinct (map nodeID (dbNodes s)) \<and> (\<forall>n \<in> set (dbNodes s). nodeID n < dbAutoInc s ''node''))"

definition userInv :: "panel \<Rightarrow> bool" where
  "userInv s = (distinct (map userID (dbUsers s)) \<and> distinct (map userUser (dbUsers s)) \<and>
     (\<forall>u \<in> set (dbUsers s). userID u < dbAutoInc s ''user''))"

definition panelInv :: "panel \<Rightarrow> bool" where
  "panelInv s = (forwardInv s \<and> forwardRefs s \<and> netInv s \<and> userInv s \<and> inboundInv s)"

section \<open>Invariants of shapes\<close>

definition occ :: "(int \<times> int \<times> int) list \<Rightarrow> int \<times> int \<times> int \<times> int \<Rightarrow> int \<Rightarrow> int \<Rightarrow> bool" where
  "occ es = (\<lambda>(i, t, a, b) n p. p \<noteq> 0 \<and> list_ex (\<lambda>(k, x, y). k = t \<and> (x = n \<and> a = p \<or> y = n \<and> b = p)) es)"

definition okForwards :: "(int \<times> int \<times> int \<times> int) list \<times> int \<Rightarrow> (int \<times> int \<times> int) list \<Rightarrow> bool" where
  "okForwards F es = (distinct (map fst es) \<and> distinct (map fst (fst F)) \<and> (\<forall>x \<in> set (fst F). fst x < snd F) \<and>
     (\<forall>x \<in> set (fst F). \<forall>y \<in> set (fst F). fst x \<noteq> fst y \<longrightarrow> (\<forall>n p. \<not> (occ es x n p \<and> occ es y n p))))"

lemma occ_places: "occ (map ends (dbTunnels s)) (place f) = occupies s f"
  by (intro ext) (simp add: occ_def place_def occupies_def list_ex_iff ends_def)

lemma map_fst_shapes:
  "map fst (map ends ts) = map tunID ts" "map fst (map place fs) = map fwdID fs"
  "map fst (map socket ibs) = map ibID ibs" "map fst (map account us) = map userID us" "map snd (map account us) = map userUser us"
  by (simp_all add: ends_def place_def socket_def account_def)

lemma forwardInv_shape: "forwardInv s = okForwards (forwardShape s) (fst (netShape s))"
proof -
  have ids: "distinct (map fst (fst (forwardShape s))) = distinct (map fwdID (dbForwards s))"
    "distinct (map fst (fst (netShape s))) = distinct (map tunID (dbTunnels s))"
    by (simp_all only: shape_defs fst_conv map_fst_shapes)
  show ?thesis
    unfolding okForwards_def ids forwardInv_def forwardKeys_def portsDistinct_def
    by (simp add: shape_defs occ_places) (simp add: place_def conj_commute conj_left_commute)
qed

lemma forwardRefs_shape:
  "forwardRefs s = (\<forall>x \<in> set (fst (forwardShape s)). fst (snd x) \<in> fst ` set (fst (netShape s)))"
  by (simp add: forwardRefs_def shape_defs place_def ends_def image_image)

lemma netInv_shape:
  "netInv s = (case netShape s of (es, ns, ti, ni) \<Rightarrow>
     (\<forall>e \<in> set es. fst e < ti \<and> fst (snd e) \<in> set ns \<and> snd (snd e) \<in> set ns) \<and> distinct ns \<and> (\<forall>n \<in> set ns. n < ni))"
  by (simp add: netInv_def shape_defs ends_def)

lemma userInv_shape:
  "userInv s = (distinct (map fst (fst (userShape s))) \<and> distinct (map snd (fst (userShape s))) \<and>
     (\<forall>x \<in> set (fst (userShape s)). fst x < snd (userShape s)))"
  unfolding userInv_def userShape_def fst_conv snd_conv map_fst_shapes by (simp add: account_def)

lemma inboundInv_shape:
  "inboundInv s = (distinct (map fst (fst (inboundShape s))) \<and> (\<forall>x \<in> set (fst (inboundShape s)). fst x < snd (inboundShape s)) \<and>
     (\<forall>x \<in> set (fst (inboundShape s)). \<forall>y \<in> set (fst (inboundShape s)). snd x = snd y \<longrightarrow> fst x = fst y))"
  unfolding inboundInv_def inboundShape_def fst_conv snd_conv map_fst_shapes by (simp add: socket_def imp_conjL)

lemma panelInv_cong:
  "forwardShape s' = forwardShape s \<Longrightarrow> netShape s' = netShape s \<Longrightarrow> userShape s' = userShape s \<Longrightarrow> inboundShape s' = inboundShape s \<Longrightarrow>
   panelInv s' = panelInv s"
  unfolding panelInv_def forwardInv_shape forwardRefs_shape netInv_shape userInv_shape inboundInv_shape by simp

lemma keeps_by_shape:
  assumes "\<And>F N U I. keeps (shaped F N U I) m"
  shows "keeps panelInv m"
proof (rule keepsI)
  fix s assume s: "panelInv s"
  have "shaped (forwardShape s) (netShape s) (userShape s) (inboundShape s) (exec m s)"
    by (rule keepsD [OF assms]) (simp add: shaped_def)
  with s show "panelInv (exec m s)" using panelInv_cong [of "exec m s" s] by (simp add: shaped_def)
qed

section \<open>Operations on forwards\<close>

definition flat where
  "flat N U I s = (netShape s = N \<and> userShape s = U \<and> inboundShape s = I)"

definition inTunnels :: "int set \<Rightarrow> panel \<Rightarrow> bool" where
  "inTunnels K s = (\<forall>f \<in> set (dbForwards s). fwdTunnelId f \<in> K)"

lemma ignoresSent_flat [simp]: "ignoresSent (flat N U I)" "ignoresSent (inTunnels K)"
  by (simp_all add: ignoresSent_def flat_def inTunnels_def shape_defs)

lemma panelInv_forwards:
  assumes "panelInv s" "flat (netShape s) (userShape s) (inboundShape s) s'" "forwardInv s'" "inTunnels (tunID ` set (dbTunnels s)) s'"
  shows "panelInv s'"
proof -
  have same: "netShape s' = netShape s" "userShape s' = userShape s" "inboundShape s' = inboundShape s"
    using assms(2) by (simp_all add: flat_def)
  have "map fst (map ends (dbTunnels s')) = map fst (map ends (dbTunnels s))" using same(1) by (simp add: netShape_def)
  then have "set (map tunID (dbTunnels s')) = set (map tunID (dbTunnels s))" by (simp only: map_fst_shapes)
  then have "forwardRefs s'" using assms(4) by (simp add: forwardRefs_def inTunnels_def)
  moreover have "netInv s' = netInv s" "userInv s' = userInv s" "inboundInv s' = inboundInv s"
    by (simp_all only: netInv_shape userInv_shape inboundInv_shape same)
  ultimately show ?thesis using assms(1,3) by (simp add: panelInv_def)
qed

lemma keeps_flat_writes [keeps_intro]:
  "keeps (flat N U I) (updateForwardRow i g)" "keeps (flat N U I) (updateForwardStatusToError i)" "keeps (flat N U I) (removeForward i)"
  "keeps (flat N U I) (insertForward f)" "keeps (flat N U I) (modify (\<lambda>s. s\<lparr>dbForwards := h s\<rparr>))"
  unfolding updateForwardRow_def updateForwardStatusToError_def removeForward_def insertForward_def
  by (rule keeps_modify; simp add: flat_def shape_defs)+

lemma keeps_inTunnels_row:
  assumes "\<And>f. fwdTunnelId (g f) = fwdTunnelId f \<or> fwdTunnelId (g f) \<in> K"
  shows "keeps (inTunnels K) (updateForwardRow i g)"
proof (rule keepsI)
  fix s assume s: "inTunnels K s"
  have K: "fwdTunnelId (if fwdID f = i then g f else f) \<in> K" if "f \<in> set (dbForwards s)" for f
  proof -
    have "fwdTunnelId f \<in> K" using s that by (simp add: inTunnels_def)
    with assms [of f] show ?thesis by (cases "fwdID f = i") auto
  qed
  have rows: "dbForwards (exec (updateForwardRow i g) s) = map (\<lambda>f. if fwdID f = i then g f else f) (dbForwards s)"
    by (simp add: updateForwardRow_def updateRows_def)
  show "inTunnels K (exec (updateForwardRow i g) s)"
    unfolding inTunnels_def rows set_map by (intro ballI, elim imageE) (simp only: K)
qed

lemma keeps_inTunnels_writes [keeps_intro]:
  "keeps (inTunnels K) (updateForwardStatusToError i)" "keeps (inTunnels K) (removeForward i)"
  "fwdTunnelId f \<in> K \<Longrightarrow> keeps (inTunnels K) (insertForward f)"
proof -
  have "updateForwardStatusToError i = updateForwardRow i (\<lambda>f. f\<lparr>fwdStatus := forwardStatusError\<rparr>)"
    by (simp add: updateForwardStatusToError_def updateForwardRow_def)
  then show "keeps (inTunnels K) (updateForwardStatusToError i)" by (simp add: keeps_inTunnels_row)
  show "keeps (inTunnels K) (removeForward i)"
    unfolding removeForward_def by (rule keeps_modify) (simp add: inTunnels_def)
  show "fwdTunnelId f \<in> K \<Longrightarrow> keeps (inTunnels K) (insertForward f)"
    unfolding insertForward_def by (rule keeps_modify) (simp add: inTunnels_def)
qed

lemma keeps_deploy [keeps_intro]: "keeps (flat N U I) (deployForward E s f t l ut)" "keeps (inTunnels K) (deployForward E s f t l ut)"
  unfolding deployForward_def by (intro keeps_intro; simp)+

lemma keeps_save [keeps_intro]:
  "keeps (flat N U I) (saveForward E upd)" "fwdTunnelId upd \<in> K \<Longrightarrow> keeps (inTunnels K) (saveForward E upd)"
  unfolding saveForward_def by (intro keeps_intro keeps_inTunnels_row; simp add: writeForward_def)+

lemma keeps_inPlace [keeps_intro]:
  "keeps (flat N U I) (updateInPlace E ex upd t l i outn n)"
  "fwdTunnelId upd \<in> K \<Longrightarrow> keeps (inTunnels K) (updateInPlace E ex upd t l i outn n)"
  unfolding updateInPlace_def fullUpdate_def Let_def by (intro keeps_intro keeps_save; simp)+

lemma keeps_flat_forwards [keeps_intro]:
  "keeps (flat N U I) (CreateForward E d u r nm)" "keeps (flat N U I) (UpdateForward E d' u r)"
  "keeps (flat N U I) (DeleteForward E i u r)" "keeps (flat N U I) (ForceDeleteForward E i)" "keeps (flat N U I) (RemoveUserTunnel E i)"
  unfolding CreateForward_def UpdateForward_def DeleteForward_def ForceDeleteForward_def eraseForward_def RemoveUserTunnel_def
    removeForwardOf_def cleanupForwardOf_def deleteListeners_def removeUserTunnelRow_def Let_def
  by (intro keeps_intro keeps_flat_writes keeps_modify; simp add: flat_def shape_defs)+

lemma keeps_inTunnels_deletes [keeps_intro]:
  "keeps (inTunnels K) (DeleteForward E i u r)" "keeps (inTunnels K) (ForceDeleteForward E i)" "keeps (inTunnels K) (RemoveUserTunnel E i)"
  unfolding DeleteForward_def ForceDeleteForward_def eraseForward_def RemoveUserTunnel_def
    removeForwardOf_def cleanupForwardOf_def deleteListeners_def removeUserTunnelRow_def Let_def
  by (intro keeps_intro keeps_inTunnels_writes keeps_modify; simp add: inTunnels_def)+

lemma inTunnels_CreateForward:
  assumes "inTunnels (tunID ` set (dbTunnels s)) s"
  shows "inTunnels (tunID ` set (dbTunnels s)) (exec (CreateForward E d u r nm) s)"
proof (cases "createForwardChecks E s d u r")
  case (Inl e)
  with assms show ?thesis by (simp add: CreateForward_def)
next
  case (Inr x)
  then obtain t l ut i outp where x: "createForwardChecks E s d u r = Inr (t, l, ut, i, outp)"
    by (cases x) auto
  have "fdTunnelId d \<in> tunID ` set (dbTunnels s)"
    using createForwardChecks_Inr(1) [OF x] firstTunnel_in firstTunnel_id by (metis image_eqI)
  then have "keeps (inTunnels (tunID ` set (dbTunnels s))) (do {
      insertForward (newForward E s d u nm i outp); deployForward E s (newForward E s d u nm i outp) t l ut })"
    by (intro keeps_intro keeps_inTunnels_writes) simp
  from keepsD [OF this assms] assms show ?thesis by (simp add: CreateForward_def x run Let_def)
qed

lemma inTunnels_UpdateForward:
  assumes "inTunnels (tunID ` set (dbTunnels s)) s"
  shows "inTunnels (tunID ` set (dbTunnels s)) (exec (UpdateForward E d u r) s)"
proof (cases "updateForwardChecks E s d u r")
  case (Inl e)
  with assms show ?thesis by (simp add: UpdateForward_def)
next
  case (Inr x)
  then obtain exist t l ut upd where x: "updateForwardChecks E s d u r = Inr (exist, t, l, ut, upd)"
    by (cases x) auto
  note c = updateForwardChecks_Inr [OF x]
  let ?K = "tunID ` set (dbTunnels s)"
  have K: "fwdTunnelId upd \<in> ?K" using c(2,8) firstTunnel_in firstTunnel_id by (metis image_eqI)
  show ?thesis
    unfolding UpdateForward_def exec_bind result_simps exec_simps x sum.case prod.case Let_def
    by (rule keepsD [where I = "inTunnels (tunID ` set (dbTunnels s))", OF _ assms]) (intro keeps_intro keeps_save keeps_inPlace keeps_inTunnels_row; simp add: K)
qed

end
