(* ===== verification/SystemOps.thy ===== *)
theory SystemOps
  imports SystemInv
begin

text \<open>
  The operations that change a key, a port, a node or a name keep the invariant of the database, each for a
  reason of its own: a check it makes first, or a key it draws from the table's counter.
\<close>

section \<open>Forwards\<close>

lemma forwardInv_RemoveUserTunnel: "keeps forwardInv (RemoveUserTunnel E i)"
  unfolding RemoveUserTunnel_def removeForwardOf_def cleanupForwardOf_def deleteListeners_def removeUserTunnelRow_def Let_def
  by (intro keeps_intro keeps_modify; simp add: forwardInv_def forwardKeys_def portsDistinct_def occupies_def)

lemma panelInv_refs: "panelInv s \<Longrightarrow> inTunnels (tunID ` set (dbTunnels s)) s"
  by (simp add: panelInv_def forwardRefs_def inTunnels_def)

lemma keeps_forward_op:
  assumes "keeps forwardInv m" "\<And>N U I. keeps (flat N U I) m"
    and "\<And>s. inTunnels (tunID ` set (dbTunnels s)) s \<Longrightarrow> inTunnels (tunID ` set (dbTunnels s)) (exec m s)"
  shows "keeps panelInv m"
proof (rule keepsI)
  fix s assume s: "panelInv s"
  have "forwardInv (exec m s)" by (rule keepsD [OF assms(1)]) (use s in \<open>simp add: panelInv_def\<close>)
  moreover have "flat (netShape s) (userShape s) (inboundShape s) (exec m s)"
    by (rule keepsD [OF assms(2)]) (simp add: flat_def)
  ultimately show "panelInv (exec m s)"
    using panelInv_forwards [OF s] assms(3) [OF panelInv_refs [OF s]] by blast
qed

lemma panel_forwards:
  "keeps panelInv (CreateForward E d u r nm)" "keeps panelInv (UpdateForward E d' u r)"
  "keeps panelInv (DeleteForward E i u r)" "keeps panelInv (ForceDeleteForward E i)" "keeps panelInv (RemoveUserTunnel E i)"
  by (rule keeps_forward_op, rule keeps_CreateForward, rule keeps_flat_forwards, erule inTunnels_CreateForward)
     (rule keeps_forward_op, rule keeps_UpdateForward, rule keeps_flat_forwards, erule inTunnels_UpdateForward,
      (rule keeps_forward_op, (rule keeps_DeleteForward keeps_ForceDeleteForward forwardInv_RemoveUserTunnel),
        rule keeps_flat_forwards, erule keepsD [OF keeps_inTunnels_deletes(1)] keepsD [OF keeps_inTunnels_deletes(2)] keepsD [OF keeps_inTunnels_deletes(3)])+)

section \<open>Tunnels and nodes\<close>

lemma occupies_more:
  assumes "fwdTunnelId f \<noteq> tunID t" "dbTunnels s' = dbTunnels s @ [t]"
  shows "occupies s' f = occupies s f"
  using assms by (intro ext) (simp add: occupies_def eq_commute)

lemma occupies_fewer:
  assumes "dbTunnels s' = deleteRows P (dbTunnels s)" "occupies s' f n p"
  shows "occupies s f n p"
  using assms by (auto simp: occupies_def list_ex_iff)

lemma panelInv_insertTunnel:
  assumes s: "panelInv s" and t: "tunID t = dbAutoInc s ''tunnel''" "tunInNodeId t \<in> nodeID ` set (dbNodes s)" "tunOutNodeId t \<in> nodeID ` set (dbNodes s)"
  shows "panelInv (exec (insertTunnel t) s)"
proof -
  let ?s = "exec (insertTunnel t) s"
  have F: "forwardInv s" "forwardRefs s" "netInv s" using s by (simp_all add: panelInv_def)
  have tabs: "dbTunnels ?s = dbTunnels s @ [t]" "dbForwards ?s = dbForwards s" "dbNodes ?s = dbNodes s"
    "dbAutoInc ?s ''forward'' = dbAutoInc s ''forward''" "dbAutoInc ?s ''node'' = dbAutoInc s ''node''"
    "dbAutoInc ?s ''tunnel'' = dbAutoInc s ''tunnel'' + 1" "userShape ?s = userShape s" "inboundShape ?s = inboundShape s"
    by (simp_all add: insertTunnel_def t(1) shape_defs)
  have less: "tunID x < tunID t" if "x \<in> set (dbTunnels s)" for x using F(3) that t(1) by (simp add: netInv_def)
  then have new: "fwdTunnelId f \<noteq> tunID t" if "f \<in> set (dbForwards s)" for f
    using F(2) that by (fastforce simp: forwardRefs_def)
  have occ: "occupies ?s f = occupies s f" if "f \<in> set (dbForwards s)" for f
    by (rule occupies_more [OF new [OF that] tabs(1)])
  have "portsDistinct s" using F(1) by (simp add: forwardInv_def)
  then have "portsDistinct ?s" by (simp add: portsDistinct_def tabs(2) occ)
  moreover have "distinct (map tunID (dbTunnels ?s))" using F(1) less by (force simp: forwardInv_def tabs(1))
  ultimately have "forwardInv ?s" using F(1) by (simp add: forwardInv_def forwardKeys_def tabs)
  moreover have "forwardRefs ?s" using F(2) by (simp add: forwardRefs_def tabs)
  moreover have "netInv ?s" using F(3) t less by (auto simp: netInv_def tabs)
  moreover have "userInv ?s = userInv s" "inboundInv ?s = inboundInv s"
    by (simp_all only: userInv_shape inboundInv_shape tabs(7,8))
  ultimately show ?thesis using s by (simp add: panelInv_def)
qed

lemma panel_CreateTunnel: "keeps panelInv (CreateTunnel E d)"
proof (rule keepsI)
  fix s assume s: "panelInv s"
  show "panelInv (exec (CreateTunnel E d) s)"
  proof (cases "\<exists>inNode outId outIp. GetNodeById s (tdInNodeId d) = Some inNode \<and> exitOf s d inNode = Inr (outId, outIp)")
    case False
    have "exec (CreateTunnel E d) s = s"
    proof (cases "GetNodeById s (tdInNodeId d)")
      case None
      then show ?thesis by (simp add: CreateTunnel_def run)
    next
      case (Some inNode)
      with False obtain e where "exitOf s d inNode = Inl e" by (cases "exitOf s d inNode") auto
      with Some show ?thesis by (simp add: CreateTunnel_def run)
    qed
    with s show ?thesis by simp
  next
    case True
    then obtain inNode outId outIp where n: "GetNodeById s (tdInNodeId d) = Some inNode" and x: "exitOf s d inNode = Inr (outId, outIp)" by blast
    have inn: "tdInNodeId d \<in> nodeID ` set (dbNodes s)"
      using n rowById_in rowById_id unfolding GetNodeById_def by (metis image_eqI)
    have "outId \<in> nodeID ` set (dbNodes s)"
    proof (cases "tdType d = 2")
      case True
      then obtain o' where "tdOutNodeId d = Some outId" "GetNodeById s outId = Some o'"
        using x by (auto simp: exitOf_def split: option.splits if_splits)
      then show ?thesis using rowById_in rowById_id unfolding GetNodeById_def by (metis image_eqI)
    next
      case False
      with x inn show ?thesis by (simp add: exitOf_def)
    qed
    with inn s show ?thesis
      by (simp add: CreateTunnel_def run Let_def n x panelInv_insertTunnel)
  qed
qed

lemma panelInv_deleteTunnel:
  assumes s: "panelInv s" and none: "\<forall>f \<in> set (dbForwards s). fwdTunnelId f \<noteq> i"
  shows "panelInv (s\<lparr>dbUserTunnels := x, dbTunnels := deleteRows (\<lambda>t. tunID t = i) (dbTunnels s)\<rparr>)" (is "panelInv ?s")
proof -
  have F: "forwardInv s" "forwardRefs s" "netInv s" using s by (simp_all add: panelInv_def)
  have "portsDistinct s" using F(1) by (simp add: forwardInv_def)
  note D = portsDistinctD [OF this]
  have "portsDistinct ?s"
  proof (rule portsDistinctI)
    fix f g n p assume "f \<in> set (dbForwards ?s)" "g \<in> set (dbForwards ?s)" "fwdID f \<noteq> fwdID g" "occupies ?s f n p" "occupies ?s g n p"
    moreover have "occupies ?s h n p \<Longrightarrow> occupies s h n p" for h by (rule occupies_fewer) simp_all
    ultimately show False using D [of f g n p] by simp
  qed
  then have "forwardInv ?s" using F(1) by (simp add: forwardInv_def forwardKeys_def distinct_deleteRows)
  moreover have "forwardRefs ?s"
  proof -
    have "fwdTunnelId f \<in> tunID ` {t \<in> set (dbTunnels s). tunID t \<noteq> i}" if f: "f \<in> set (dbForwards s)" for f
    proof -
      obtain t where "t \<in> set (dbTunnels s)" "fwdTunnelId f = tunID t" using F(2) f unfolding forwardRefs_def by blast
      moreover have "fwdTunnelId f \<noteq> i" using none f by blast
      ultimately show ?thesis by auto
    qed
    then show ?thesis by (simp add: forwardRefs_def)
  qed
  moreover have "netInv ?s" using F(3) by (simp add: netInv_def)
  moreover have "userInv ?s = userInv s" "inboundInv ?s = inboundInv s"
    by (simp_all add: userInv_def inboundInv_def)
  ultimately show ?thesis using s by (simp add: panelInv_def)
qed

lemma panel_DeleteTunnel: "keeps panelInv (DeleteTunnel i)"
proof (rule keepsI)
  fix s assume s: "panelInv s"
  show "panelInv (exec (DeleteTunnel i) s)"
  proof (cases "firstTunnel s i = None \<or> filter (\<lambda>f. fwdTunnelId f = i) (dbForwards s) \<noteq> []")
    case True
    then have "exec (DeleteTunnel i) s = s" by (auto simp: DeleteTunnel_def run split: option.splits)
    with s show ?thesis by simp
  next
    case False
    then obtain t where t: "firstTunnel s i = Some t" and none: "filter (\<lambda>f. fwdTunnelId f = i) (dbForwards s) = []" by auto
    have "tunID t = i" by (rule firstTunnel_id [OF t])
    with s none show ?thesis
      by (simp add: DeleteTunnel_def run t panelInv_deleteTunnel filter_empty_conv)
  qed
qed


lemma panelInv_nodes:
  assumes "panelInv s" "netInv s'" "fst (netShape s') = fst (netShape s)" "forwardShape s' = forwardShape s"
    "userShape s' = userShape s" "inboundShape s' = inboundShape s"
  shows "panelInv s'"
  using assms by (simp only: panelInv_def forwardInv_shape forwardRefs_shape userInv_shape inboundInv_shape) blast

lemma panelInv_insertNode:
  assumes "panelInv s" "nodeID n = dbAutoInc s ''node''"
  shows "panelInv (exec (insertNode n) s)" (is "panelInv ?s")
proof (rule panelInv_nodes [OF assms(1)])
  have net: "netInv s" using assms(1) by (simp add: panelInv_def)
  have rows: "dbNodes ?s = dbNodes s @ [n]" "dbTunnels ?s = dbTunnels s" "dbAutoInc ?s ''node'' = nodeID n + 1"
    "dbAutoInc ?s ''tunnel'' = dbAutoInc s ''tunnel''"
    by (simp_all add: insertNode_def)
  have "nodeID x < nodeID n" if "x \<in> set (dbNodes s)" for x using net that by (simp add: netInv_def assms(2))
  then have new: "nodeID n \<notin> nodeID ` set (dbNodes s)" and less: "\<forall>x \<in> set (dbNodes s). nodeID x < nodeID n + 1" by force+
  show "netInv ?s" using net new less unfolding netInv_def rows by simp
qed (simp_all add: insertNode_def shape_defs)

lemma panel_CreateNode: "keeps panelInv (CreateNode E d)"
proof (rule keepsI)
  fix s assume "panelInv s"
  then show "panelInv (exec (CreateNode E d) s)"
    by (cases "pickDisguiseNames E") (simp add: CreateNode_def Let_def panelInv_insertNode)
qed

definition noTunnelAt :: "int \<Rightarrow> panel \<Rightarrow> bool" where
  "noTunnelAt i s = (\<forall>t \<in> set (dbTunnels s). tunInNodeId t \<noteq> i \<and> tunOutNodeId t \<noteq> i)"

lemma ignoresSent_panelInv [simp]: "ignoresSent panelInv" "ignoresSent (\<lambda>s. panelInv s \<and> noTunnelAt i s)"
  by (simp_all add: ignoresSent_def noTunnelAt_def panelInv_def forwardInv_def forwardKeys_def portsDistinct_def occupies_def
      forwardRefs_def netInv_def userInv_def inboundInv_def)

lemma panelInv_frame:
  "panelInv (s\<lparr>dbClients := c\<rparr>) = panelInv s" "panelInv (s\<lparr>dbCerts := e\<rparr>) = panelInv s" "panelInv (s\<lparr>dbUserNodes := u\<rparr>) = panelInv s"
  by (rule panelInv_cong; simp add: shape_defs)+

lemma panelInv_inbounds:
  assumes "panelInv s" "inboundInv s'" "forwardShape s' = forwardShape s" "netShape s' = netShape s" "userShape s' = userShape s"
  shows "panelInv s'"
  using assms by (simp only: panelInv_def forwardInv_shape forwardRefs_shape userInv_shape netInv_shape) blast

lemma panelInv_deleteInbounds: "panelInv s \<Longrightarrow> panelInv (s\<lparr>dbInbounds := deleteRows P (dbInbounds s)\<rparr>)"
proof (rule panelInv_inbounds)
  assume "panelInv s"
  then show "inboundInv (s\<lparr>dbInbounds := deleteRows P (dbInbounds s)\<rparr>)"
    using keepsD [OF keeps_inboundInv_delete, of s P] by (simp add: panelInv_def)
qed (simp_all add: shape_defs)

lemma panelInv_deleteNode:
  assumes "panelInv s" "noTunnelAt i s"
  shows "panelInv (s\<lparr>dbNodes := deleteRows (\<lambda>r. nodeID r = i) (dbNodes s)\<rparr>)" (is "panelInv ?s")
proof (rule panelInv_nodes [OF assms(1)])
  have s: "netInv s" using assms(1) by (simp add: panelInv_def)
  have "nodeID ` set (dbNodes ?s) = nodeID ` set (dbNodes s) - {i}" by auto
  with s assms(2) show "netInv ?s"
    unfolding netInv_def noTunnelAt_def by (simp add: distinct_deleteRows)
qed (simp_all add: shape_defs)

lemma keeps_removeInboundOf: "keeps (\<lambda>s. panelInv s \<and> noTunnelAt i s) (removeInboundOf E j ib)"
  unfolding removeInboundOf_def
  by (intro keeps_intro keeps_modify ignoresSent_panelInv) (simp add: panelInv_frame noTunnelAt_def)

definition dropNodeRows :: "int \<Rightarrow> unit prog" where
  "dropNodeRows i = do {
     modify (\<lambda>s. s\<lparr>dbInbounds := deleteRows (\<lambda>ib. ibNodeId ib = i) (dbInbounds s)\<rparr>);
     modify (\<lambda>s. s\<lparr>dbCerts := deleteRows (\<lambda>c. certNodeId c = i) (dbCerts s)\<rparr>);
     modify (\<lambda>s. s\<lparr>dbUserNodes := deleteRows (\<lambda>u. unNodeId u = i) (dbUserNodes s)\<rparr>);
     modify (\<lambda>s. s\<lparr>dbNodes := deleteRows (\<lambda>r. nodeID r = i) (dbNodes s)\<rparr>) }"

lemma panelInv_dropNodeRows:
  assumes "panelInv s" "noTunnelAt i s"
  shows "panelInv (exec (dropNodeRows i) s)"
proof -
  let ?c = "deleteRows (\<lambda>c. certNodeId c = i) (dbCerts s)"
  let ?u = "deleteRows (\<lambda>u. unNodeId u = i) (dbUserNodes s)"
  let ?s = "s\<lparr>dbInbounds := deleteRows (\<lambda>ib. ibNodeId ib = i) (dbInbounds s), dbCerts := ?c, dbUserNodes := ?u\<rparr>"
  have "panelInv ?s" using panelInv_deleteInbounds [OF assms(1)] by (simp only: panelInv_frame)
  moreover have "noTunnelAt i ?s" using assms(2) by (simp add: noTunnelAt_def)
  ultimately have "panelInv (?s\<lparr>dbNodes := deleteRows (\<lambda>r. nodeID r = i) (dbNodes ?s)\<rparr>)" by (rule panelInv_deleteNode)
  then show ?thesis by (simp add: dropNodeRows_def run)
qed

lemma panel_DeleteNode: "keeps panelInv (DeleteNode E i)"
proof (rule keepsI)
  fix s assume s: "panelInv s"
  show "panelInv (exec (DeleteNode E i) s)"
  proof (cases "GetNodeById s i = None \<or> \<not> noTunnelAt i s")
    case True
    then have "exec (DeleteNode E i) s = s"
      by (auto simp: DeleteNode_def run noTunnelAt_def filter_empty_conv split: option.split)
    with s show ?thesis by simp
  next
    case False
    then obtain n where n: "GetNodeById s i = Some n" and none: "noTunnelAt i s" by auto
    have id: "nodeID n = i" using n rowById_id unfolding GetNodeById_def by metis
    let ?s = "exec (forEach (removeInboundOf E i) (filter (\<lambda>ib. ibNodeId ib = i) (dbInbounds s))) s"
    have "panelInv ?s \<and> noTunnelAt i ?s"
      by (rule keepsD [where I = "\<lambda>s. panelInv s \<and> noTunnelAt i s", OF keeps_forEach [OF keeps_removeInboundOf]]) (rule conjI [OF s none])
    then have "panelInv (exec (dropNodeRows i) ?s)" using panelInv_dropNodeRows by blast
    moreover have "filter (\<lambda>t. tunInNodeId t = i \<or> tunOutNodeId t = i) (dbTunnels s) = []"
      using none by (simp add: noTunnelAt_def filter_empty_conv)
    ultimately show ?thesis by (simp add: DeleteNode_def run n id dropNodeRows_def)
  qed
qed

section \<open>Users\<close>

lemma panelInv_users:
  assumes "panelInv s" "userInv s'" "forwardShape s' = forwardShape s" "netShape s' = netShape s" "inboundShape s' = inboundShape s"
  shows "panelInv s'"
  using assms by (simp only: panelInv_def forwardInv_shape forwardRefs_shape inboundInv_shape netInv_shape) blast

lemma panelInv_insertUser:
  assumes "panelInv s" "userID u = dbAutoInc s ''user''" "userUser u \<notin> userUser ` set (dbUsers s)"
  shows "panelInv (exec (insertUser u) s)" (is "panelInv ?s")
proof (rule panelInv_users [OF assms(1)])
  have inv: "userInv s" using assms(1) by (simp add: panelInv_def)
  have rows: "dbUsers ?s = dbUsers s @ [u]" "dbAutoInc ?s ''user'' = userID u + 1" by (simp_all add: insertUser_def)
  have "userID x < userID u" if "x \<in> set (dbUsers s)" for x using inv that by (simp add: userInv_def assms(2))
  then have new: "userID u \<notin> userID ` set (dbUsers s)" and less: "\<forall>x \<in> set (dbUsers s). userID x < userID u + 1" by force+
  show "userInv ?s" using inv new less assms(3) unfolding userInv_def rows by simp
qed (simp_all add: insertUser_def shape_defs)

lemma keeps_panelInv_nodes: "keeps panelInv (insertPermission i np)" "keeps panelInv (insertUserNode i n x g)" "keeps panelInv (deriveUserPermissions i)"
  unfolding insertPermission_def by (rule keeps_by_shape, intro keeps_intro keeps_shaped_inserts)+

lemma panel_CreateUser: "keeps panelInv (CreateUser E d)"
proof (rule keepsI)
  fix s assume s: "panelInv s"
  show "panelInv (exec (CreateUser E d) s)"
  proof (cases "length (udPwd d) < 8 \<or> filter (\<lambda>u. userUser u = udUser d) (dbUsers s) \<noteq> [] \<or> \<not> createOk E ''user''")
    case True
    then have "exec (CreateUser E d) s = s" by (elim disjE) (simp_all add: CreateUser_def run Let_def)
    with s show ?thesis by simp
  next
    case False
    let ?u = "newUser E s d"
    have "userUser ?u \<notin> userUser ` set (dbUsers s)" using False by (auto simp: newUser_def filter_empty_conv)
    then have i: "panelInv (exec (insertUser ?u) s)" by (intro panelInv_insertUser [OF s]) (simp_all add: newUser_def)
    have "keeps panelInv (do {
            (if orEmpty (udNodePermissions d) \<noteq> []
             then forEach (insertPermission (userID ?u)) (orEmpty (udNodePermissions d))
             else forEach (\<lambda>nodeId. insertUserNode (userID ?u) nodeId 1 1) (orEmpty (udNodeIds d)));
            deriveUserPermissions (userID ?u) })"
      by (intro keeps_bind keeps_if keeps_forEach keeps_panelInv_nodes)
    from keepsD [OF this i] show ?thesis using False by (simp add: CreateUser_def run Let_def)
  qed
qed

text \<open>Renaming one account to a name nobody else has.\<close>

definition nameFree :: "string \<Rightarrow> int \<Rightarrow> panel \<Rightarrow> bool" where
  "nameFree w i s = (\<forall>x \<in> set (fst (userShape s)). snd x = w \<longrightarrow> fst x = i)"

lemma nameFree_users: "nameFree w i s = (\<forall>u \<in> set (dbUsers s). userUser u = w \<longrightarrow> userID u = i)"
  by (simp add: nameFree_def userShape_def account_def)

lemma keeps_by_userShape:
  assumes "\<And>F N U I. keeps (shaped F N U I) m"
  shows "keeps (\<lambda>s. panelInv s \<and> nameFree w i s) m"
proof (rule keepsI)
  fix s assume s: "panelInv s \<and> nameFree w i s"
  have "shaped (forwardShape s) (netShape s) (userShape s) (inboundShape s) (exec m s)"
    by (rule keepsD [OF assms]) (simp add: shaped_def)
  then have "userShape (exec m s) = userShape s" by (simp add: shaped_def)
  moreover have "panelInv (exec m s)" using keepsD [OF keeps_by_shape [OF assms]] s by blast
  ultimately show "panelInv (exec m s) \<and> nameFree w i (exec m s)" using s by (simp add: nameFree_def)
qed

lemma distinct_rename:
  assumes "distinct (map k rows)" "\<And>x. x \<in> set rows \<Longrightarrow> k x = w \<Longrightarrow> j x = i" "distinct (map j rows)"
    "\<And>x. j x = i \<Longrightarrow> k (g x) = w"
  shows "distinct (map k (updateRows (\<lambda>x. j x = i) g rows))"
  using assms(1,2,3)
proof (induction rows)
  case (Cons x xs)
  have IH: "distinct (map k (updateRows (\<lambda>x. j x = i) g xs))"
    by (rule Cons.IH) (use Cons.prems in auto)
  have "k (if j x = i then g x else x) \<noteq> k (if j y = i then g y else y)" if y: "y \<in> set xs" for y
  proof -
    have "j x \<noteq> j y" using Cons.prems(3) y by force
    moreover have "k x \<noteq> k y" using Cons.prems(1) y by force
    moreover have "k x = w \<Longrightarrow> j x = i" "k y = w \<Longrightarrow> j y = i" using Cons.prems(2) [of x] Cons.prems(2) [of y] y by simp_all
    ultimately show ?thesis using assms(4) [of x] assms(4) [of y] by (cases "j x = i"; cases "j y = i") (simp; metis)+
  qed
  then have "k (if j x = i then g x else x) \<notin> (\<lambda>y. k (if j y = i then g y else y)) ` set xs" by blast
  with IH show ?case by (simp add: updateRows_def image_image)
qed (simp add: updateRows_def)

lemma panelInv_renameUser:
  assumes s: "panelInv s" and free: "nameFree w i s" and g: "\<And>u. userID (g u) = userID u" "\<And>u. userUser (g u) = w"
  shows "panelInv (exec (updateUserRow i g) s)" (is "panelInv ?s")
proof (rule panelInv_users [OF s])
  have inv: "userInv s" using s by (simp add: panelInv_def)
  have rows: "dbUsers ?s = updateRows (\<lambda>u. userID u = i) g (dbUsers s)" "dbAutoInc ?s = dbAutoInc s"
    by (simp_all add: updateUserRow_def)
  have ids: "map userID (dbUsers ?s) = map userID (dbUsers s)" by (simp add: rows map_updateRows g(1))
  have "distinct (map userUser (dbUsers ?s))"
    unfolding rows(1) by (rule distinct_rename [where w = w]) (use inv free g in \<open>simp_all add: userInv_def nameFree_users\<close>)
  moreover have "\<forall>x \<in> userID ` set (dbUsers s). x < dbAutoInc s ''user''" using inv by (simp add: userInv_def)
  moreover have "userID ` set (dbUsers ?s) = userID ` set (dbUsers s)" using ids by (metis set_map)
  ultimately show "userInv ?s" using inv unfolding userInv_def ids rows(2) by (metis image_eqI)
qed (simp_all add: updateUserRow_def shape_defs)

end
