(* ===== verification/SystemUsers.thy ===== *)
theory SystemUsers
  imports SystemOps
begin

text \<open>The operations on accounts and Xray inbounds that write names and sockets keep the invariant of the database.\<close>

lemma panel_UpdatePassword: "keeps panelInv (UpdatePassword E i d)"
proof (rule keepsI)
  fix s assume s: "panelInv s"
  show "panelInv (exec (UpdatePassword E i d) s)"
  proof (cases "firstUser s i")
    case None
    with s show ?thesis by (simp add: UpdatePassword_def run)
  next
    case (Some u)
    let ?w = "if upNewUsername d \<noteq> [] then upNewUsername d else userUser u"
    show ?thesis
    proof (cases "\<not> CheckPassword E (upOldPassword d) (userPwd u) \<or> length (upNewPassword d) < 8 \<or>
        (upNewUsername d \<noteq> [] \<and> upNewUsername d \<noteq> userUser u \<and>
          filter (\<lambda>x. userUser x = upNewUsername d \<and> userID x \<noteq> userID u) (dbUsers s) \<noteq> []) \<or> \<not> updateOk E ''user''")
      case True
      then have "exec (UpdatePassword E i d) s = s" by (elim disjE) (simp_all add: UpdatePassword_def run Some)
      with s show ?thesis by simp
    next
      case False
      have u: "u \<in> set (dbUsers s)" using Some rowById_in unfolding firstUser_def by metis
      have "inj_on userUser (set (dbUsers s))" using s by (simp add: panelInv_def userInv_def distinct_map)
      then have own: "userID x = userID u" if "x \<in> set (dbUsers s)" "userUser x = userUser u" for x
        using that u by (metis inj_onD)
      have "nameFree ?w (userID u) s"
        unfolding nameFree_users using False own by (auto simp: filter_empty_conv)
      then have "panelInv (exec (updateUserRow (userID u) (\<lambda>x. x\<lparr>userUser := ?w, userPwd := hashPassword E (upNewPassword d),
          userUpdatedTime := now E\<rparr>)) s)"
        by (rule panelInv_renameUser [OF s]) simp_all
      moreover have "\<not> (upNewUsername d \<noteq> [] \<and> upNewUsername d \<noteq> userUser u \<and>
          filter (\<lambda>x. userUser x = upNewUsername d \<and> userID x \<noteq> userID u) (dbUsers s) \<noteq> [])" using False by blast
      ultimately show ?thesis using False unfolding UpdatePassword_def exec_bind result_simps exec_simps Some option.case
        by (simp only: if_False exec_bind exec_simps) simp
    qed
  qed
qed

lemma keeps_shaped_disable [keeps_intro]:
  "keeps (shaped F N U I) (pauseAllUserForwards E i)" "keeps (shaped F N U I) (disableAllUserXrayClients E i)"
  "keeps (shaped F N U I) (disableUserXrayClientsOnNodes E i ns)" "keeps (shaped F N U I) (updateUserNodes E d)"
  unfolding pauseAllUserForwards_def disableAllUserXrayClients_def disableUserXrayClientsOnNodes_def updateUserNodes_def
    pauseUserForward_def hotRemoveClient_def setClientEnable_def clearUserNodes_def insertPermission_def Let_def
  by (intro keeps_intro keeps_shaped_tables keeps_shaped_rows keeps_shaped_inserts; simp)+

lemma panel_UpdateUser: "keeps panelInv (UpdateUser E d)"
proof (rule keepsI)
  fix s assume s: "panelInv s"
  show "panelInv (exec (UpdateUser E d) s)"
  proof (cases "firstUser s (uuID d)")
    case None
    with s show ?thesis by (simp add: UpdateUser_def run)
  next
    case (Some u)
    show ?thesis
    proof (cases "userRoleId u = adminRoleId \<or> filter (\<lambda>x. userUser x = uuUser d \<and> userID x \<noteq> uuID d) (dbUsers s) \<noteq> [] \<or>
        (uuPwd d \<noteq> [] \<and> length (uuPwd d) < 8)")
      case True
      then have "exec (UpdateUser E d) s = s" by (elim disjE) (simp_all add: UpdateUser_def run Some)
      with s show ?thesis by simp
    next
      case False
      let ?J = "\<lambda>s. panelInv s \<and> nameFree (uuUser d) (uuID d) s"
      let ?pause = "if uuStatus d = Some 0 \<and> userStatus u = 1 then do {
               pauseAllUserForwards E (uuID d);
               disableAllUserXrayClients E (uuID d) }
             else return ()"
      let ?s = "exec ?pause s"
      have "nameFree (uuUser d) (uuID d) s" unfolding nameFree_users using False by (auto simp: filter_empty_conv)
      moreover have "keeps ?J ?pause"
        by (rule keeps_by_userShape) (intro keeps_bind keeps_if keeps_return keeps_shaped_disable)
      ultimately have J: "?J ?s" using keepsD s by blast
      then have "panelInv (exec (updateUserRow (uuID d) (writeUser E d)) ?s)"
        by (elim conjE, intro panelInv_renameUser) (simp_all add: writeUser_def)
      moreover have "keeps panelInv (do { updateUserNodes E d; deriveUserPermissions (uuID d) })"
        by (rule keeps_by_shape) (intro keeps_bind keeps_shaped_disable keeps_shaped_derive)
      ultimately have "panelInv (exec (do { updateUserNodes E d; deriveUserPermissions (uuID d) })
          (exec (updateUserRow (uuID d) (writeUser E d)) ?s))" by (rule keepsD [rotated])
      moreover have "userRoleId u \<noteq> adminRoleId" "filter (\<lambda>x. userUser x = uuUser d \<and> userID x \<noteq> uuID d) (dbUsers s) = []"
        "\<not> (uuPwd d \<noteq> [] \<and> length (uuPwd d) < 8)" using False by blast+
      ultimately show ?thesis using J unfolding UpdateUser_def exec_bind result_simps exec_simps Some option.case
        by (cases "updateOk E ''user''") (simp_all only: if_False if_True exec_bind exec_simps simp_thms)
    qed
  qed
qed

section \<open>Deleting an account\<close>

lemma keeps_deleteForwardOf: "keeps panelInv (deleteForwardOf E i f)"
proof (rule keeps_forward_op)
  show "keeps forwardInv (deleteForwardOf E i f)"
    unfolding deleteForwardOf_def deleteGostServicesForForward_def deleteListeners_def Let_def removeForward_def [symmetric]
    by (intro keeps_intro; simp)
  show "keeps (flat N U I) (deleteForwardOf E i f)" for N U I
    unfolding deleteForwardOf_def deleteGostServicesForForward_def deleteListeners_def Let_def
    by (intro keeps_intro keeps_flat_writes keeps_modify; simp add: flat_def shape_defs)
  have "keeps (inTunnels K) (deleteForwardOf E i f)" for K
    unfolding deleteForwardOf_def deleteGostServicesForForward_def deleteListeners_def Let_def
    by (intro keeps_intro keeps_modify; simp add: inTunnels_def)
  then show "inTunnels (tunID ` set (dbTunnels s)) s \<Longrightarrow> inTunnels (tunID ` set (dbTunnels s)) (exec (deleteForwardOf E i f) s)" for s
    by (rule keepsD)
qed

lemma keeps_panelInv_dropUser:
  "keeps panelInv (hotRemoveClient E c)" "keeps panelInv (modify (eraseUserRows i))"
  "keeps panelInv (modify (\<lambda>s. s\<lparr>dbUsers := deleteRows P (dbUsers s)\<rparr>))"
proof -
  show "keeps panelInv (hotRemoveClient E c)" unfolding hotRemoveClient_def by (intro keeps_intro ignoresSent_panelInv)
  show "keeps panelInv (modify (eraseUserRows i))"
    by (rule keeps_by_shape, rule keeps_modify) (simp add: eraseUserRows_def shaped_def shape_defs)
  show "keeps panelInv (modify (\<lambda>s. s\<lparr>dbUsers := deleteRows P (dbUsers s)\<rparr>))"
  proof (rule keeps_modify)
    fix s assume s: "panelInv s"
    then have "userInv s" by (simp add: panelInv_def)
    then have "userInv (s\<lparr>dbUsers := deleteRows P (dbUsers s)\<rparr>)" by (simp add: userInv_def distinct_deleteRows)
    then show "panelInv (s\<lparr>dbUsers := deleteRows P (dbUsers s)\<rparr>)" by (rule panelInv_users [OF s]) (simp_all add: shape_defs)
  qed
qed

lemma panel_DeleteUser: "keeps panelInv (DeleteUser E i)"
  unfolding DeleteUser_def
  by (intro keeps_intro keeps_deleteForwardOf keeps_panelInv_dropUser ignoresSent_panelInv)

section \<open>Xray inbounds\<close>

definition rest where
  "rest F N U s = (forwardShape s = F \<and> netShape s = N \<and> userShape s = U)"

lemma ignoresSent_rest [simp]: "ignoresSent (rest F N U)"
  by (simp add: ignoresSent_def rest_def shape_defs)

lemma keeps_inbound_op:
  assumes "keeps inboundInv m" "\<And>F N U. keeps (rest F N U) m"
  shows "keeps panelInv m"
proof (rule keepsI)
  fix s assume s: "panelInv s"
  have "inboundInv (exec m s)" by (rule keepsD [OF assms(1)]) (use s in \<open>simp add: panelInv_def\<close>)
  moreover have "rest (forwardShape s) (netShape s) (userShape s) (exec m s)" by (rule keepsD [OF assms(2)]) (simp add: rest_def)
  ultimately show "panelInv (exec m s)" using panelInv_inbounds [OF s] by (simp add: rest_def)
qed

lemma keeps_rest_writes [keeps_intro]:
  "keeps (rest F N U) (updateInboundRow i g)" "keeps (rest F N U) (insertInbound ib)"
  "keeps (rest F N U) (modify (\<lambda>s. s\<lparr>dbInbounds := a s\<rparr>))" "keeps (rest F N U) (modify (\<lambda>s. s\<lparr>dbClients := b s\<rparr>))"
  unfolding updateInboundRow_def insertInbound_def by (rule keeps_modify; simp add: rest_def shape_defs)+

lemma keeps_rest_deploys [keeps_intro]: "keeps (rest F N U) (deployInbound E n ib)" "keeps (rest F N U) (replaceInbound E ib ib')"
  unfolding deployInbound_def replaceInbound_def rollbackInbound_def saveInbound_def Let_def
  by (intro keeps_intro keeps_rest_writes; simp)+

lemma panel_inbounds:
  "keeps panelInv (CreateXrayInbound E d u r)" "keeps panelInv (UpdateXrayInbound E d' u r)" "keeps panelInv (DeleteXrayInbound E i u r)"
  unfolding atomize_conj
  by (intro conjI keeps_inbound_op keeps_CreateXrayInbound keeps_UpdateXrayInbound keeps_inbound_rest;
      unfold CreateXrayInbound_def UpdateXrayInbound_def DeleteXrayInbound_def updateOwned_def deleteOwned_def Let_def;
      intro keeps_intro keeps_rest_writes; simp)

end
