(* ===== verification/Settings.thy ===== *)
theory Settings
  imports Sessions
begin

text \<open>
  The panel's settings, a table of names and values: \<open>service/vite_config.go\<close>, \<open>handler/config.go\<close> and the
  defaults \<open>main.go\<close> puts in at start-up. Reading is open to everybody, for the names on a white list. The
  bodies of updates are Go maps, which the code ranges over in any order: here a list, in the order of the range.
\<close>

section \<open>Reading\<close>

definition publicConfigKeys :: "string list" where
  "publicConfigKeys = [''captcha_enabled'', ''app_name'', ''site_name'', ''site_desc'']"

definition GetConfigs :: "panel \<Rightarrow> (string \<rightharpoonup> string) R" where
  "GetConfigs s = Ok (fold (\<lambda>c m. m(vcName c \<mapsto> vcValue c)) (dbViteConfigs s) Map.empty)"

definition GetPublicConfigs :: "panel \<Rightarrow> (string \<rightharpoonup> string) R" where
  "GetPublicConfigs s =
     Ok (fold (\<lambda>c m. if vcName c \<in> set publicConfigKeys then m(vcName c \<mapsto> vcValue c) else m) (dbViteConfigs s) Map.empty)"

abbreviation EConfigName :: err where "EConfigName \<equiv> EMsg ''config name''"

abbreviation EConfigNotFound :: err where "EConfigNotFound \<equiv> EMsg ''config not found''"

definition configRow :: "panel \<Rightarrow> string \<Rightarrow> viteConfig option" where
  "configRow s name = find (\<lambda>c. vcName c = name) (dbViteConfigs s)"

definition GetConfigByName :: "panel \<Rightarrow> string \<Rightarrow> viteConfig R" where
  "GetConfigByName s name =
     (if name = [] then Err EConfigName
      else (case configRow s name of None \<Rightarrow> Err EConfigNotFound | Some cfg \<Rightarrow> Ok cfg))"

definition GetPublicConfigByName :: "panel \<Rightarrow> string \<Rightarrow> viteConfig R" where
  "GetPublicConfigByName s name =
     (if name = [] then Err EConfigName
      else if name \<notin> set publicConfigKeys then Err EConfigNotFound
      else (case configRow s name of None \<Rightarrow> Err EConfigNotFound | Some cfg \<Rightarrow> Ok cfg))"

section \<open>Writing\<close>

definition insertConfig :: "env \<Rightarrow> string \<Rightarrow> string \<Rightarrow> unit prog" where
  "insertConfig E name v = modify (\<lambda>s. s\<lparr>
     dbViteConfigs := dbViteConfigs s @ [\<lparr>vcID = dbAutoInc s ''vite_config'', vcName = name, vcValue = v, vcTime = now E\<rparr>],
     dbAutoInc := (dbAutoInc s)(''vite_config'' := dbAutoInc s ''vite_config'' + 1)\<rparr>)"

text \<open>The answer says whether the database took the row.\<close>

definition updateOrCreateConfig :: "env \<Rightarrow> string \<Rightarrow> string \<Rightarrow> bool prog" where
  "updateOrCreateConfig E name v = do {
     s \<leftarrow> gets (\<lambda>s. s);
     (case configRow s name of
        Some cfg \<Rightarrow>
          if \<not> updateOk E ''vite_config'' then return False
          else do {
            modify (\<lambda>s. s\<lparr>dbViteConfigs := updateRows (\<lambda>c. vcID c = vcID cfg)
              (\<lambda>_. cfg\<lparr>vcValue := v, vcTime := now E\<rparr>) (dbViteConfigs s)\<rparr>);
            return True }
      | None \<Rightarrow>
          if \<not> createOk E ''vite_config'' then return False
          else do { insertConfig E name v; return True }) }"

definition UpdateConfigs :: "env \<Rightarrow> (string \<times> string) list \<Rightarrow> unit R prog" where
  "UpdateConfigs E items =
     (if items = [] then return (Err (EMsg ''config empty''))
      else do {
        failed \<leftarrow> foldM (\<lambda>(name, v) failed.
          if name = [] then return failed
          else do { ok \<leftarrow> updateOrCreateConfig E name v; return (if ok then failed else failed @ [name]) }) items [];
        return (if failed = [] then Ok () else Err (EPrefixGost ''config failed'' (concat failed))) })"

definition UpdateSingleConfig :: "env \<Rightarrow> string \<Rightarrow> string \<Rightarrow> unit R prog" where
  "UpdateSingleConfig E name v =
     (if name = [] then return (Err EConfigName)
      else if v = [] then return (Err (EMsg ''config value''))
      else do {
        ok \<leftarrow> updateOrCreateConfig E name v;
        return (if ok then Ok () else Err (EMsg ''config failed'')) })"

section \<open>Requests\<close>

text \<open>The open routes look at the token themselves; other than the middleware they do not take a token
  whose role they cannot read for an administrator's.\<close>

definition isAdminRequest :: "env \<Rightarrow> (string \<Rightarrow> string) \<Rightarrow> string \<Rightarrow> bool" where
  "isAdminRequest E mac token =
     (if token = [] \<or> \<not> ValidateToken E mac token then False
      else (case GetRoleIdFromToken E token of None \<Rightarrow> False | Some roleId \<Rightarrow> roleId = 0))"

definition ConfigList :: "env \<Rightarrow> (string \<Rightarrow> string) \<Rightarrow> string \<Rightarrow> panel \<Rightarrow> (string \<rightharpoonup> string) R" where
  "ConfigList E mac token s = (if isAdminRequest E mac token then GetConfigs s else GetPublicConfigs s)"

definition ConfigGet :: "env \<Rightarrow> (string \<Rightarrow> string) \<Rightarrow> string \<Rightarrow> string \<Rightarrow> panel \<Rightarrow> viteConfig R" where
  "ConfigGet E mac token name s =
     (if isAdminRequest E mac token then GetConfigByName s name else GetPublicConfigByName s name)"

section \<open>Defaults\<close>

definition knownKeys :: "string list" where
  "knownKeys = [''app_name'', ''site_name'', ''site_desc'', ''panel_addr'', ''captcha_enabled'',
     ''monitor_interval'', ''monitor_retention_days'']"

definition monitorDefaults :: "(string \<times> string) list" where
  "monitorDefaults = [(''monitor_interval'', ''60''), (''monitor_retention_days'', ''7'')]"

definition ensureConfig :: "env \<Rightarrow> string \<times> string \<Rightarrow> unit prog" where
  "ensureConfig E = (\<lambda>(name, v). do {
     s \<leftarrow> gets (\<lambda>s. s);
     if filter (\<lambda>c. vcName c = name) (dbViteConfigs s) = [] then insertConfig E name v else return () })"

definition ensureDefaultConfig :: "env \<Rightarrow> unit prog" where
  "ensureDefaultConfig E = do {
     ensureConfig E (''app_name'', ''flux'');
     forEach (ensureConfig E) monitorDefaults;
     modify (\<lambda>s. s\<lparr>dbViteConfigs := deleteRows (\<lambda>c. vcName c \<notin> set knownKeys) (dbViteConfigs s)\<rparr>) }"

section \<open>Facts\<close>

lemma fold_configs:
  "fold (\<lambda>c m. if P c then m(k c \<mapsto> v c) else m) rows m0 x = Some y \<Longrightarrow> m0 x \<noteq> None \<or> (\<exists>c \<in> set rows. P c \<and> k c = x)"
proof (induction rows arbitrary: m0)
  case (Cons c rows)
  define m where "m = (if P c then m0(k c \<mapsto> v c) else m0)"
  have "m x \<noteq> None \<or> (\<exists>c \<in> set rows. P c \<and> k c = x)" by (rule Cons.IH) (use Cons.prems in \<open>simp add: m_def\<close>)
  then show ?case by (auto simp: m_def split: if_splits)
qed simp

text \<open>What an open request shows is on the white list, whatever the table holds.\<close>

lemma public_config:
  assumes "\<not> isAdminRequest E mac token"
  shows "ConfigList E mac token s = Ok m \<Longrightarrow> dom m \<subseteq> set publicConfigKeys"
    "ConfigGet E mac token name s = Ok c \<Longrightarrow> vcName c \<in> set publicConfigKeys"
proof -
  assume "ConfigList E mac token s = Ok m"
  then show "dom m \<subseteq> set publicConfigKeys"
    using assms by (auto simp: ConfigList_def GetPublicConfigs_def dest!: fold_configs)
next
  assume "ConfigGet E mac token name s = Ok c"
  then show "vcName c \<in> set publicConfigKeys"
    using assms by (auto simp: ConfigGet_def GetPublicConfigByName_def configRow_def find_Some_iff split: if_splits option.splits)
qed

end
