(* ===== verification/Startup.thy ===== *)
theory Startup
  imports Settings XrayClients Nodes
begin

text \<open>
  Start-up and the callbacks of the node sessions: \<open>main.go\<close>. The administrator's account is looked for under
  the name \<open>admin_user\<close>; the column of a node's switches is an integer, which the database reads off the
  text the node sent (\<open>sqlInt\<close>, undefined where it refuses the text and with it the whole update).
\<close>

section \<open>The administrator\<close>

definition defaultAdmin :: "env \<Rightarrow> panel \<Rightarrow> string \<Rightarrow> user" where
  "defaultAdmin E s hash = zeroUser\<lparr>userID := dbAutoInc s ''user'', userUser := ''admin_user'', userPwd := hash, userRoleId := 0,
     userExpTime := 2727251700000, userFlow := 99999, userNum := 99999, userFlowResetTime := 1, userStatus := 1,
     userCreatedTime := 0, userUpdatedTime := 0\<rparr>"

definition ensureAdminUser :: "env \<Rightarrow> unit prog" where
  "ensureAdminUser E = do {
     s \<leftarrow> gets (\<lambda>s. s);
     let newHash = hashPassword E (freshRandom E 12);
     (case find (\<lambda>u. userUser u = ''admin_user'' \<and> userRoleId u = 0) (dbUsers s) of
        None \<Rightarrow>
          if newHash = [] then return ()
          else if \<not> createOk E ''user'' then return ()
          else insertUser (defaultAdmin E s newHash)
      | Some admin \<Rightarrow>
          if \<not> CheckPassword E ''admin_user'' (userPwd admin) then return ()
          else if newHash = [] then return ()
          else if \<not> updateOk E ''user'' then return ()
          else updateUserRow (userID admin) (\<lambda>u. u\<lparr>userPwd := newHash\<rparr>)) }"

definition startup :: "env \<Rightarrow> unit prog" where
  "startup E = do { ensureDefaultConfig E; ensureAdminUser E }"

section \<open>Node sessions\<close>

text \<open>The node a secret stands for, 0 for none.\<close>

definition ValidateNodeSecret :: "panel \<Rightarrow> int \<Rightarrow> string \<Rightarrow> int" where
  "ValidateNodeSecret s nodeId secret =
     (if 0 < nodeId then
        (case GetNodeById s nodeId of
           None \<Rightarrow> 0
         | Some node \<Rightarrow> if nodeSecret node \<noteq> secret then 0 else nodeID node)
      else (case find (\<lambda>n. nodeSecret n = secret) (dbNodes s) of None \<Rightarrow> 0 | Some node \<Rightarrow> nodeID node))"

definition optionalInt :: "(string \<Rightarrow> int option) \<Rightarrow> string \<Rightarrow> int \<Rightarrow> int option" where
  "optionalInt sqlInt txt old = (if txt \<noteq> [] then sqlInt txt else Some old)"

definition OnNodeOnline :: "(string \<Rightarrow> int option) \<Rightarrow> int \<Rightarrow> string \<Rightarrow> string \<Rightarrow> string \<Rightarrow> string \<Rightarrow> unit prog" where
  "OnNodeOnline sqlInt nodeId version http tls socks =
     (case (optionalInt sqlInt http 0, optionalInt sqlInt tls 0, optionalInt sqlInt socks 0) of
        (Some h, Some t, Some k) \<Rightarrow> updateNodeRow nodeId (\<lambda>n. n\<lparr>nodeStatus := 1,
          nodeVersion := (if version \<noteq> [] then version else nodeVersion n),
          nodeHttp := (if http \<noteq> [] then h else nodeHttp n),
          nodeTls := (if tls \<noteq> [] then t else nodeTls n),
          nodeSocks := (if socks \<noteq> [] then k else nodeSocks n)\<rparr>)
      | _ \<Rightarrow> return ())"

definition OnNodeOffline :: "int \<Rightarrow> unit prog" where
  "OnNodeOffline nodeId = updateNodeRow nodeId (\<lambda>n. n\<lparr>nodeStatus := 0, nodeXrayStatus := 0\<rparr>)"

section \<open>Subscriptions\<close>

text \<open>\<open>handler/xray_subscription.go\<close>: a user's token, and the document it opens to whoever holds it.\<close>

definition saveSubToken :: "user \<Rightarrow> string \<Rightarrow> unit prog" where
  "saveSubToken user token = updateUserRow (userID user) (\<lambda>_. user\<lparr>userSubToken := token\<rparr>)"

definition XraySubToken :: "env \<Rightarrow> int \<Rightarrow> int \<Rightarrow> string R prog" where
  "XraySubToken E userId roleId =
     (if userId = 0 then return (Err (EMsg ''not logged in''))
      else do {
        s \<leftarrow> gets (\<lambda>s. s);
        (case firstUser s userId of
           None \<Rightarrow> return (Err EUserNotFound)
         | Some user \<Rightarrow>
             if roleId \<noteq> 0 \<and> userXrayEnabled user \<noteq> 1 then return (Err ENoXray)
             else if userSubToken user = [] then
               if \<not> updateOk E ''user'' then return (Err (EMsg ''save token''))
               else do { saveSubToken user (freshRandom E 32); return (Ok (freshRandom E 32)) }
             else return (Ok (userSubToken user))) })"

definition XraySubReset :: "env \<Rightarrow> int \<Rightarrow> string R prog" where
  "XraySubReset E userId =
     (if userId = 0 then return (Err (EMsg ''not logged in''))
      else do {
        s \<leftarrow> gets (\<lambda>s. s);
        (case firstUser s userId of
           None \<Rightarrow> return (Err EUserNotFound)
         | Some user \<Rightarrow>
             if \<not> updateOk E ''user'' then return (Err (EMsg ''save token''))
             else do { saveSubToken user (freshRandom E 32); return (Ok (freshRandom E 32)) }) })"

definition httpStatus :: "nat \<Rightarrow> string \<Rightarrow> nat \<times> string" where
  "httpStatus code body = (code, body)"

definition XraySubscription :: "env \<Rightarrow> panel \<Rightarrow> string \<Rightarrow> string \<Rightarrow> nat \<times> string" where
  "XraySubscription E s token scope =
     (if token = [] then httpStatus 400 ''invalid token''
      else (case find (\<lambda>u. userSubToken u = token) (dbUsers s) of
        None \<Rightarrow> httpStatus 401 ''invalid or expired token''
      | Some user \<Rightarrow> (case GetSubscriptionLinks E s (userID user) scope of
          Ok links \<Rightarrow>
            if links = [] then httpStatus 200 []
            else httpStatus 200 (base64Std (joinWith CHR 0x0A (map liLink links)))
        | _ \<Rightarrow> httpStatus 500 [])))"

end
