(* ===== verification/ConfigCheck.thy ===== *)
theory ConfigCheck
  imports ForwardCleanup FlowService UserTunnels
begin

text \<open>
  The answer to a node's report of its configuration: \<open>service/config_check.go\<close> and \<open>ProcessFlowConfig\<close>. Every ten
  minutes a node posts the names of its services, chains and limiters; the panel computes which of them its
  tables account for and deletes the others.
\<close>

section \<open>Names the tables account for\<close>

definition permissionOf :: "panel \<Rightarrow> forward \<Rightarrow> userTunnel option" where
  "permissionOf s fwd = getUserTunnel s (fwdUserId fwd) (fwdTunnelId fwd)"

definition reportName :: "panel \<Rightarrow> forward \<Rightarrow> string" where
  "reportName s fwd = tripleName (fwdID fwd) (fwdUserId fwd) (case permissionOf s fwd of None \<Rightarrow> 0 | Some ut \<Rightarrow> utID ut)"

definition pairNames :: "string \<Rightarrow> string list" where
  "pairNames n = [n @ ''_tcp'', n @ ''_udp'']"

definition validListeners :: "forward \<Rightarrow> string \<Rightarrow> string list" where
  "validListeners fwd n =
     (if fwdListenIp fwd \<noteq> [] \<and> strContains (fwdListenIp fwd) '',''
      then concat (map (\<lambda>i. pairNames (suffixedName n i)) [0..<List.length (splitOn CHR '','' (fwdListenIp fwd))])
      else pairNames n)"

definition validServicesOf :: "panel \<Rightarrow> int \<Rightarrow> tunnel \<Rightarrow> forward \<Rightarrow> string list" where
  "validServicesOf s nodeId tunnel fwd =
     (if tunInNodeId tunnel = nodeId then validListeners fwd (reportName s fwd) else []) @
     (if tunOutNodeId tunnel = nodeId \<and> tunType tunnel = 2 then [reportName s fwd @ ''_tls''] else [])"

definition validChainsOf :: "panel \<Rightarrow> int \<Rightarrow> tunnel \<Rightarrow> forward \<Rightarrow> string list" where
  "validChainsOf s nodeId tunnel fwd =
     (if tunInNodeId tunnel = nodeId \<and> tunType tunnel = 2 then [reportName s fwd @ ''_chains''] else [])"

definition validLimitersOf :: "panel \<Rightarrow> forward \<Rightarrow> string list" where
  "validLimitersOf s fwd =
     (case permissionOf s fwd of
        None \<Rightarrow> []
      | Some ut \<Rightarrow> (case utSpeedId ut of None \<Rightarrow> [] | Some sp \<Rightarrow> if 0 < sp then [itoa sp] else []))"

definition overForwards :: "panel \<Rightarrow> int \<Rightarrow> (tunnel \<Rightarrow> forward \<Rightarrow> string list) \<Rightarrow> string list" where
  "overForwards s nodeId f =
     concat (map (\<lambda>tunnel. concat (map (f tunnel) (filter (\<lambda>fwd. fwdTunnelId fwd = tunID tunnel) (dbForwards s))))
       (filter (\<lambda>t. tunInNodeId t = nodeId \<or> tunOutNodeId t = nodeId) (dbTunnels s)))"

section \<open>Deletions\<close>

definition cleanService :: "env \<Rightarrow> int \<Rightarrow> string list \<Rightarrow> string \<Rightarrow> unit prog" where
  "cleanService E nodeId valid name =
     (if name \<in> set valid then return ()
      else if hasSuffix name ''_tls'' then do { DeleteRemoteService E nodeId (trimSuffix name ''_tls''); return () }
      else if hasSuffix name ''_tcp'' \<or> hasSuffix name ''_udp''
      then do { DeleteService E nodeId (take (List.length name - 4) name); return () }
      else return ())"

definition cleanChain :: "env \<Rightarrow> int \<Rightarrow> string list \<Rightarrow> string \<Rightarrow> unit prog" where
  "cleanChain E nodeId valid name =
     (if name \<in> set valid then return ()
      else do { DeleteChains E nodeId (trimSuffix name ''_chains''); return () })"

definition cleanLimiter :: "env \<Rightarrow> int \<Rightarrow> string list \<Rightarrow> string \<Rightarrow> unit prog" where
  "cleanLimiter E nodeId valid name =
     (if name \<in> set valid then return ()
      else (case parseInt name of None \<Rightarrow> return () | Some i \<Rightarrow> do { DeleteLimiters E nodeId i; return () }))"

definition CleanNodeConfigs :: "env \<Rightarrow> string \<Rightarrow> configDto \<Rightarrow> unit prog" where
  "CleanNodeConfigs E nodeIdStr conf =
     (case parseInt nodeIdStr of
        None \<Rightarrow> return ()
      | Some nodeId \<Rightarrow> do {
          s \<leftarrow> gets (\<lambda>s. s);
          forEach (cleanService E nodeId (overForwards s nodeId (validServicesOf s nodeId))) (confServices conf);
          forEach (cleanChain E nodeId (overForwards s nodeId (validChainsOf s nodeId))) (confChains conf);
          forEach (cleanLimiter E nodeId (overForwards s nodeId (\<lambda>_. validLimitersOf s))) (confLimiters conf) })"

definition ProcessFlowConfig :: "env \<Rightarrow> codec \<Rightarrow> string \<Rightarrow> string \<Rightarrow> unit prog" where
  "ProcessFlowConfig E C rawData secret = do {
     s \<leftarrow> gets (\<lambda>s. s);
     (case find (\<lambda>n. nodeSecret n = secret) (dbNodes s) of
        None \<Rightarrow> return ()
      | Some node \<Rightarrow> (case codecConfig C (decryptIfNeeded C rawData secret) of
          None \<Rightarrow> return ()
        | Some gostConfig \<Rightarrow> CleanNodeConfigs E (itoa (nodeID node)) gostConfig)) }"

section \<open>What a report leaves alone\<close>

text \<open>A listen address the two ways of counting its parts agree on: the builder of services drops blank parts and
  looks at the tunnel's address when the forward has none; the report's check does neither.\<close>

definition tidyListen :: "forward \<Rightarrow> tunnel \<Rightarrow> bool" where
  "tidyListen f t =
     (if fwdListenIp f = [] then List.length (splitListenIPs (tunTcpListenAddr t)) \<le> 1
      else strContains (fwdListenIp f) '','' \<longrightarrow> (\<forall>p \<in> set (splitOn CHR '','' (fwdListenIp f)). trimSpace p \<noteq> []))"

lemma splitOn_comma: "CHR '','' \<in> set x \<Longrightarrow> 1 < List.length (splitOn CHR '','' x)"
proof (induction x)
  case (Cons c x)
  then show ?case by (cases "splitOn CHR '','' x") (auto split: list.split)
qed simp

lemma listenerNames_tidy:
  assumes "tidyListen f t"
  shows "listenerNames f t n = validListeners f n"
proof (cases "fwdListenIp f = [] \<or> CHR '','' \<notin> set (fwdListenIp f)")
  case True
  then show ?thesis
    using assms by (auto simp: listenerNames_def validListeners_def tidyListen_def strContains_char
        buildMultiIPServiceNames_def pairNames_def splitListenIPs_single)
next
  case False
  let ?ps = "splitOn CHR '','' (fwdListenIp f)"
  have "filter (\<lambda>p. p \<noteq> []) (map trimSpace ?ps) = map trimSpace ?ps"
    using assms False by (auto simp: tidyListen_def strContains_char filter_id_conv)
  then have "splitListenIPs (fwdListenIp f) = map trimSpace ?ps"
    using False by (simp add: splitListenIPs_def strContains_char)
  then show ?thesis
    using False splitOn_comma [of "fwdListenIp f"]
    by (auto simp: listenerNames_def validListeners_def strContains_char buildMultiIPServiceNames_def pairNames_def Let_def)
qed

lemma reportName_serviceNameOf: "fwdTunnelId f = tunID t \<Longrightarrow> reportName s f = serviceNameOf s f t"
  by (simp add: reportName_def permissionOf_def serviceNameOf_def tripleName_def buildServiceName_def)

lemma in_overForwards:
  "x \<in> set (overForwards s n g) \<longleftrightarrow>
     (\<exists>t \<in> set (dbTunnels s). \<exists>f \<in> set (dbForwards s). (tunInNodeId t = n \<or> tunOutNodeId t = n) \<and> fwdTunnelId f = tunID t \<and> x \<in> set (g t f))"
  by (auto simp: overForwards_def)

text \<open>Listeners are accounted for in pairs.\<close>

lemma tcp_iff_udp:
  "b @ ''_tcp'' \<in> set (overForwards s n (validServicesOf s n)) \<longleftrightarrow> b @ ''_udp'' \<in> set (overForwards s n (validServicesOf s n))"
proof -
  have "b @ ''_tcp'' \<in> set (validServicesOf s n t f) \<longleftrightarrow> b @ ''_udp'' \<in> set (validServicesOf s n t f)" for t f
    by (auto simp: validServicesOf_def validListeners_def pairNames_def)
  then show ?thesis unfolding in_overForwards by blast
qed

lemma deleted_listeners:
  assumes "\<not> hasSuffix name ''_tls''" "hasSuffix name ''_tcp'' \<or> hasSuffix name ''_udp''"
  obtains b where "take (List.length name - 4) name = b" "name = b @ ''_tcp'' \<or> name = b @ ''_udp''"
  using assms by (auto simp: hasSuffix_iff)

lemma keeps_holds_valid:
  assumes "v \<in> set (overForwards s n (validServicesOf s n))"
  shows "keeps (\<lambda>x. holdsService (dbSent x) m v = b) (cleanService E n (overForwards s n (validServicesOf s n)) name)"
proof (rule keepsI)
  let ?V = "overForwards s n (validServicesOf s n)"
  fix x :: panel assume x: "holdsService (dbSent x) m v = b"
  show "holdsService (dbSent (exec (cleanService E n ?V name) x)) m v = b"
  proof (cases "name \<in> set ?V")
    case True
    with x show ?thesis by (simp add: cleanService_def)
  next
    case False
    consider (relay) c where "name = c @ ''_tls''" | (listener) c where "\<not> hasSuffix name ''_tls''" "take (List.length name - 4) name = c" "name = c @ ''_tcp'' \<or> name = c @ ''_udp''"
      | (other) "\<not> hasSuffix name ''_tls''" "\<not> hasSuffix name ''_tcp''" "\<not> hasSuffix name ''_udp''"
      using deleted_listeners [of name] by (metis hasSuffix_iff)
    then show ?thesis
    proof cases
      case relay
      then have "v \<noteq> c @ ''_tls''" using False assms by blast
      with x False relay show ?thesis by (simp add: cleanService_def hasSuffix_iff DeleteRemoteService_def svcStep_def)
    next
      case listener
      then have "v \<noteq> c @ ''_tcp''" "v \<noteq> c @ ''_udp''" using False assms tcp_iff_udp by metis+
      with x False listener show ?thesis
        by (auto simp: cleanService_def hasSuffix_iff DeleteService_def svcStep_def)
    next
      case other
      with x False show ?thesis by (simp add: cleanService_def)
    qed
  qed
qed

end
