(* ===== verification/Api.thy ===== *)
theory Api
  imports Startup ConfigCheck Tunnels UserTunnels ForwardApi XrayIsolation XrayCerts XrayScheduler Reconcile Statistics ResetFlow
begin

text \<open>
  The panel as its callers see it: the routes of \<open>router/router.go\<close> behind the middleware of \<open>middleware/\<close>, with
  the handlers of \<open>handler/\<close>, the reports of the nodes and the tasks of the clock. A request is what is
  left of it after JSON decoding; the \<open>binding\<close> tags of its struct are checks of the handler. Answers and
  routes that only read are left out, since nothing here depends on them.
\<close>

section \<open>Surroundings\<close>

text \<open>Next to the environment of the services: the key of the tokens, the certificate authority, the decoders of
  reports, the database's reading of integers, the panel's port and version, and which nodes are being reconciled.\<close>

record world =
  wEnv :: env
  wMac :: "string \<Rightarrow> string"
  wAcme :: acme
  wCodec :: codec
  wSqlInt :: "string \<Rightarrow> int option"
  wPort :: int
  wVersion :: string
  wBusy :: "int \<Rightarrow> bool"

section \<open>Handlers\<close>

datatype userCall =
    UserCreate userDto | UserUpdate userUpdateDto | UserDelete int | UserUpdatePassword updatePasswordDto
  | UserReset int int

definition bound :: "bool \<Rightarrow> 'a prog \<Rightarrow> unit prog" where
  "bound ok m = (if ok then ignore m else return ())"

fun handleUser :: "world \<Rightarrow> int \<Rightarrow> int \<Rightarrow> userCall \<Rightarrow> unit prog" where
  "handleUser W u r (UserCreate d) = bound (udUser d \<noteq> [] \<and> udPwd d \<noteq> []) (CreateUser (wEnv W) d)"
| "handleUser W u r (UserUpdate d) = bound (uuID d \<noteq> 0 \<and> uuUser d \<noteq> []) (UpdateUser (wEnv W) d)"
| "handleUser W u r (UserDelete i) = bound (i \<noteq> 0) (DeleteUser (wEnv W) i)"
| "handleUser W u r (UserUpdatePassword d) = bound True (UpdatePassword (wEnv W) u d)"
| "handleUser W u r (UserReset i ty) = bound (i \<noteq> 0) (resetFlowOf \<lparr>rfID = i\<rparr> ty)"

datatype nodeCall =
    NodeCreate nodeDto | NodeUpdate nodeUpdateDto | NodeSetProtocol nodeProtocolDto | NodeDelete int
  | NodeInstallDocker int string | NodeUpdateOrder "orderItem list option" | NodeReconcile int

definition zeroOrOne :: "int \<Rightarrow> bool" where
  "zeroOrOne k = (k = 0 \<or> k = 1)"

fun handleNode :: "world \<Rightarrow> nodeCall \<Rightarrow> unit prog" where
  "handleNode W (NodeCreate d) = bound (ndName d \<noteq> [] \<and> ndServerIp d \<noteq> []) (CreateNode (wEnv W) d)"
| "handleNode W (NodeUpdate d) = bound (nuID d \<noteq> 0) (UpdateNode (wEnv W) d)"
| "handleNode W (NodeSetProtocol d) = bound (npID d \<noteq> 0 \<and> zeroOrOne (npHttp d) \<and> zeroOrOne (npTls d) \<and> zeroOrOne (npSocks d))
     (SetNodeProtocol (wEnv W) d)"
| "handleNode W (NodeDelete i) = bound (i \<noteq> 0) (DeleteNode (wEnv W) i)"
| "handleNode W (NodeInstallDocker i addr) = bound (i \<noteq> 0) (GenerateDockerInstallCommand (wEnv W) (wVersion W) (wPort W) i addr)"
| "handleNode W (NodeUpdateOrder items) = (case items of None \<Rightarrow> return () | Some its \<Rightarrow> ignore (UpdateNodeOrder its))"
| "handleNode W (NodeReconcile i) = bound (i \<noteq> 0) (ReconcileNodeAPI (wEnv W) (wBusy W i) i)"

datatype tunnelCall =
    TunnelCreate tunnelDto | TunnelUpdate tunnelUpdateDto | TunnelDelete int | TunnelUserAssign userTunnelDto
  | TunnelUserRemove int | TunnelUserUpdate userTunnelUpdateDto | TunnelUpdateOrder "orderItem list option" | TunnelDiagnose int

fun handleTunnel :: "world \<Rightarrow> tunnelCall \<Rightarrow> unit prog" where
  "handleTunnel W (TunnelCreate d) = bound (tdName d \<noteq> [] \<and> tdInNodeId d \<noteq> 0 \<and> tdType d \<noteq> 0) (CreateTunnel (wEnv W) d)"
| "handleTunnel W (TunnelUpdate d) = bound (tuID d \<noteq> 0 \<and> tuName d \<noteq> []) (UpdateTunnel (wEnv W) d)"
| "handleTunnel W (TunnelDelete i) = bound (i \<noteq> 0) (DeleteTunnel i)"
| "handleTunnel W (TunnelUserAssign d) = bound (utdUserId d \<noteq> 0 \<and> utdTunnelId d \<noteq> 0) (AssignUserTunnel (wEnv W) d)"
| "handleTunnel W (TunnelUserRemove i) = bound (i \<noteq> 0) (RemoveUserTunnel (wEnv W) i)"
| "handleTunnel W (TunnelUserUpdate d) = bound (utuID d \<noteq> 0) (UpdateUserTunnel (wEnv W) d)"
| "handleTunnel W (TunnelUpdateOrder items) = (case items of None \<Rightarrow> return () | Some its \<Rightarrow> ignore (UpdateTunnelOrder its))"
| "handleTunnel W (TunnelDiagnose i) = bound (i \<noteq> 0) (DiagnoseTunnel (wEnv W) i)"

datatype forwardCall =
    ForwardCreate forwardDto | ForwardUpdate forwardUpdateDto | ForwardDelete int | ForwardForceDelete int
  | ForwardPause int | ForwardResume int | ForwardUpdateOrder "orderItem list option"

fun handleForward :: "world \<Rightarrow> int \<Rightarrow> int \<Rightarrow> string \<Rightarrow> forwardCall \<Rightarrow> unit prog" where
  "handleForward W u r nm (ForwardCreate d) = bound (fdName d \<noteq> [] \<and> fdTunnelId d \<noteq> 0 \<and> fdRemoteAddr d \<noteq> [])
     (CreateForward (wEnv W) d u r nm)"
| "handleForward W u r nm (ForwardUpdate d) = bound (fuID d \<noteq> 0 \<and> fuName d \<noteq> [] \<and> fuTunnelId d \<noteq> 0 \<and> fuRemoteAddr d \<noteq> [])
     (UpdateForward (wEnv W) d u r)"
| "handleForward W u r nm (ForwardDelete i) = bound (i \<noteq> 0) (DeleteForward (wEnv W) i u r)"
| "handleForward W u r nm (ForwardForceDelete i) = bound (i \<noteq> 0) (ForceDeleteForward (wEnv W) i)"
| "handleForward W u r nm (ForwardPause i) = bound (i \<noteq> 0) (PauseForward (wEnv W) i u r)"
| "handleForward W u r nm (ForwardResume i) = bound (i \<noteq> 0) (ResumeForward (wEnv W) i u r)"
| "handleForward W u r nm (ForwardUpdateOrder items) = bound True (UpdateForwardOrder items u r)"

datatype speedCall = SpeedLimitCreate speedLimitDto | SpeedLimitUpdate speedLimitUpdateDto | SpeedLimitDelete int

fun handleSpeed :: "world \<Rightarrow> speedCall \<Rightarrow> unit prog" where
  "handleSpeed W (SpeedLimitCreate d) = bound (sdName d \<noteq> [] \<and> sdSpeed d \<noteq> 0 \<and> sdTunnelId d \<noteq> 0) (CreateSpeedLimit (wEnv W) d)"
| "handleSpeed W (SpeedLimitUpdate d) = bound (suuID d \<noteq> 0) (UpdateSpeedLimit (wEnv W) d)"
| "handleSpeed W (SpeedLimitDelete i) = bound (i \<noteq> 0) (DeleteSpeedLimit (wEnv W) i)"

datatype configCall = ConfigUpdate "(string \<times> string) list" | ConfigUpdateSingle string string

fun handleConfig :: "world \<Rightarrow> configCall \<Rightarrow> unit prog" where
  "handleConfig W (ConfigUpdate items) = bound True (UpdateConfigs (wEnv W) items)"
| "handleConfig W (ConfigUpdateSingle name v) = bound (name \<noteq> [] \<and> v \<noteq> []) (UpdateSingleConfig (wEnv W) name v)"

text \<open>The bodies of the Xray handlers (\<open>handler/xray_inbound.go\<close>, \<open>handler/xray_client.go\<close>) that pass their binding.\<close>

fun xrayBound :: "xrayRequest \<Rightarrow> bool" where
  "xrayBound (CreateInbound d) = (xidNodeId d \<noteq> 0 \<and> xidProtocol d \<noteq> [] \<and> xidPort d \<noteq> 0)"
| "xrayBound (UpdateInbound d) = (xiuID d \<noteq> 0)"
| "xrayBound (DeleteInbound i) = (i \<noteq> 0)"
| "xrayBound (EnableInbound i) = (i \<noteq> 0)"
| "xrayBound (DisableInbound i) = (i \<noteq> 0)"
| "xrayBound (CreateClient d) = (xcdInboundId d \<noteq> 0)"
| "xrayBound (UpdateClient d) = (xcuID d \<noteq> 0)"
| "xrayBound (DeleteClient i) = (i \<noteq> 0)"
| "xrayBound (ResetClient i) = (i \<noteq> 0)"

datatype certCall = CertCreate xrayTlsCertDto | CertDelete int | CertIssue int | CertRenew int

fun handleCert :: "world \<Rightarrow> int \<Rightarrow> int \<Rightarrow> certCall \<Rightarrow> unit prog" where
  "handleCert W u r (CertCreate d) = bound (tcdNodeId d \<noteq> 0 \<and> tcdDomain d \<noteq> []) (CreateXrayTlsCert (wEnv W) d u r)"
| "handleCert W u r (CertDelete i) = bound (i \<noteq> 0) (DeleteXrayTlsCert i u r)"
| "handleCert W u r (CertIssue i) = bound (i \<noteq> 0) (IssueCertificate (wEnv W) (wAcme W) i u r)"
| "handleCert W u r (CertRenew i) = bound (i \<noteq> 0) (RenewCertificate (wEnv W) (wAcme W) i u r)"

datatype subCall = SubToken | SubReset

fun handleSub :: "world \<Rightarrow> int \<Rightarrow> int \<Rightarrow> subCall \<Rightarrow> unit prog" where
  "handleSub W u r SubToken = ignore (XraySubToken (wEnv W) u r)"
| "handleSub W u r SubReset = ignore (XraySubReset (wEnv W) u)"

section \<open>Routes\<close>

datatype call =
    UserCall userCall | NodeCall nodeCall | TunnelCall tunnelCall | ForwardCall forwardCall | SpeedCall speedCall
  | ConfigCall configCall | XrayCall xrayRequest | CertCall certCall | SubCall subCall

text \<open>The routes with \<open>middleware.Admin()\<close> in front of their handler.\<close>

fun adminOnly :: "call \<Rightarrow> bool" where
  "adminOnly (UserCall (UserUpdatePassword d)) = False"
| "adminOnly (UserCall _) = True"
| "adminOnly (NodeCall _) = True"
| "adminOnly (TunnelCall _) = True"
| "adminOnly (ForwardCall (ForwardForceDelete i)) = True"
| "adminOnly (ForwardCall _) = False"
| "adminOnly (SpeedCall _) = True"
| "adminOnly (ConfigCall _) = True"
| "adminOnly (XrayCall _) = False"
| "adminOnly (CertCall _) = False"
| "adminOnly (SubCall _) = False"

fun dispatch :: "world \<Rightarrow> int \<Rightarrow> int \<Rightarrow> string \<Rightarrow> call \<Rightarrow> unit prog" where
  "dispatch W u r nm (UserCall c) = handleUser W u r c"
| "dispatch W u r nm (NodeCall c) = handleNode W c"
| "dispatch W u r nm (TunnelCall c) = handleTunnel W c"
| "dispatch W u r nm (ForwardCall c) = handleForward W u r nm c"
| "dispatch W u r nm (SpeedCall c) = handleSpeed W c"
| "dispatch W u r nm (ConfigCall c) = handleConfig W c"
| "dispatch W u r nm (XrayCall c) = bound (xrayBound c) (handleXray (wEnv W) u r c)"
| "dispatch W u r nm (CertCall c) = handleCert W u r c"
| "dispatch W u r nm (SubCall c) = handleSub W u r c"

definition api :: "world \<Rightarrow> string \<Rightarrow> call \<Rightarrow> unit prog" where
  "api W token c =
     (case JWT (wEnv W) (wMac W) token of
        Caller u r nm \<Rightarrow>
          if adminOnly c \<and> \<not> Admin (Caller u r nm) then return () else dispatch W u r nm c
      | _ \<Rightarrow> return ())"

section \<open>Reports of the nodes\<close>

definition maxFlowBodySize :: nat where
  "maxFlowBodySize = 10 * 2 ^ 20"

definition getNodeSecret :: "string \<Rightarrow> string \<Rightarrow> string" where
  "getNodeSecret header query = (if header \<noteq> [] then header else query)"

datatype report = FlowUpload | FlowConfig | FlowXrayUpload

definition handleReport :: "world \<Rightarrow> report \<Rightarrow> string \<Rightarrow> string \<Rightarrow> string \<Rightarrow> unit prog" where
  "handleReport W k header query body =
     (let secret = getNodeSecret header query in
      if maxFlowBodySize < List.length body then return ()
      else (case k of
          FlowUpload \<Rightarrow> ProcessFlowUpload (wEnv W) (wCodec W) body secret
        | FlowConfig \<Rightarrow> ProcessFlowConfig (wEnv W) (wCodec W) body secret
        | FlowXrayUpload \<Rightarrow> ProcessXrayFlowUpload (wEnv W) (wCodec W) body secret))"

section \<open>Everything that happens to the panel\<close>

datatype happening =
    ApiRequest string call
  | LoginRequest loginDto
  | NodeReport report string string string
  | NodeOnline int string string string string
  | NodeOffline int
  | ConfigCheck int
  | DailyReset
  | HourlyStatistics
  | HourlyClientReset
  | DailyRenewal

fun react :: "world \<Rightarrow> happening \<Rightarrow> unit prog" where
  "react W (ApiRequest token c) = api W token c"
| "react W (LoginRequest d) = bound (ldUsername d \<noteq> [] \<and> ldPassword d \<noteq> []) (Login (wEnv W) (wMac W) d)"
| "react W (NodeReport k header query body) = handleReport W k header query body"
| "react W (NodeOnline i version http tls socks) = OnNodeOnline (wSqlInt W) i version http tls socks"
| "react W (NodeOffline i) = OnNodeOffline i"
| "react W (ConfigCheck i) = ignore (ReconcileNode (wEnv W) (wBusy W i) i)"
| "react W DailyReset = resetFlow (wEnv W)"
| "react W HourlyStatistics = RecordHourlyStatistics (wEnv W)"
| "react W HourlyClientReset = checkClientTrafficReset (wEnv W)"
| "react W DailyRenewal = RenewExpiringSoon (wEnv W) (wAcme W)"

lemma exec_bound [simp]: "exec (bound ok m) s = (if ok then exec m s else s)"
  by (simp add: bound_def)

lemma keeps_bound [keeps_intro]: "(ok \<Longrightarrow> keeps I m) \<Longrightarrow> keeps I (bound ok m)"
  by (auto simp: bound_def keeps_def)

lemma keeps_ignore [keeps_intro]: "keeps I m \<Longrightarrow> keeps I (ignore m)"
  by (simp add: keeps_def)

end
