(* ===== verification/ConfigCheckProps.thy ===== *)
theory ConfigCheckProps
  imports ConfigCheck ForwardInv
begin

text \<open>What a configuration report does to the services of existing forwards.\<close>

lemma keeps_holds_elsewhere:
  assumes "m \<noteq> n"
  shows "keeps (\<lambda>x. holdsService (dbSent x) m v = b) (cleanService E n V name)"
  unfolding cleanService_def DeleteService_def DeleteRemoteService_def
  by (intro keeps_intro keepsI) (use assms in \<open>simp_all add: svcStep_def\<close>)

lemma keeps_holds_rest:
  "keeps (\<lambda>x. holdsService (dbSent x) m v = b) (cleanChain E n V name)" "keeps (\<lambda>x. holdsService (dbSent x) m v = b) (cleanLimiter E n V name)"
  unfolding cleanChain_def cleanLimiter_def DeleteChains_def DeleteLimiters_def
  by (intro keeps_intro keepsI; simp add: svcStep_def)+

lemma cleaned_chains: "holdsService (dbSent (exec (forEach (cleanChain E n V) names) s)) m v = holdsService (dbSent s) m v"
  by (rule keepsD [OF keeps_forEach [OF keeps_holds_rest(1)] refl])

lemma cleaned_limiters: "holdsService (dbSent (exec (forEach (cleanLimiter E n V) names) s)) m v = holdsService (dbSent s) m v"
  by (rule keepsD [OF keeps_forEach [OF keeps_holds_rest(2)] refl])

lemma parseInt_itoa_Some: "parseInt (itoa i) = Some j \<Longrightarrow> j = i"
  by (auto simp: parseInt_def split: if_splits)

lemma CleanNodeConfigs_spares:
  assumes "m = n \<Longrightarrow> v \<in> set (overForwards s n (validServicesOf s n))"
  shows "holdsService (dbSent (exec (CleanNodeConfigs E (itoa n) conf) s)) m v = holdsService (dbSent s) m v"
proof (cases "parseInt (itoa n)")
  case None
  then show ?thesis by (simp add: CleanNodeConfigs_def)
next
  case (Some k)
  then have k: "k = n" by (rule parseInt_itoa_Some)
  have "keeps (\<lambda>x. holdsService (dbSent x) m v = holdsService (dbSent s) m v) (do {
      forEach (cleanService E n (overForwards s n (validServicesOf s n))) (confServices conf);
      forEach (cleanChain E n (overForwards s n (validChainsOf s n))) (confChains conf);
      forEach (cleanLimiter E n (overForwards s n (\<lambda>_. validLimitersOf s))) (confLimiters conf) })"
    using keeps_holds_elsewhere keeps_holds_valid assms
    by (intro keeps_bind keeps_forEach keeps_holds_rest) (cases "m = n"; blast)
  from keepsD [OF this refl] show ?thesis by (simp add: CleanNodeConfigs_def Some k)
qed

text \<open>C36: A report spares the forwards whose listen address is tidy. Whatever a node reports, under whatever
  secret, a forward with one address, or with a list of its own without blank parts, keeps every listener on its
  entry node, and its relay on the exit node.\<close>

theorem report_spares_tidy:
  assumes "f \<in> set (dbForwards s)" "t \<in> set (dbTunnels s)" "fwdTunnelId f = tunID t"
    and "(m = tunInNodeId t \<and> tidyListen f t \<and> v \<in> set (listenerNames f t (serviceNameOf s f t))) \<or>
      (m = tunOutNodeId t \<and> tunType t = 2 \<and> v = serviceNameOf s f t @ ''_tls'')"
  shows "holdsService (dbSent (exec (ProcessFlowConfig E C raw secret) s)) m v = holdsService (dbSent s) m v"
proof -
  have "v \<in> set (validServicesOf s m t f)"
    using assms(4) listenerNames_tidy [of f t] by (auto simp: validServicesOf_def reportName_serviceNameOf [OF assms(3)])
  then have "v \<in> set (overForwards s m (validServicesOf s m))"
    unfolding in_overForwards using assms by blast
  then have "holdsService (dbSent (exec (CleanNodeConfigs E (itoa n) conf) s)) m v = holdsService (dbSent s) m v" for n conf
    by (intro CleanNodeConfigs_spares) simp
  then show ?thesis by (simp add: ProcessFlowConfig_def split: option.split)
qed

text \<open>Node 1 reports what it runs, the listeners of \<open>exForward2\<close> among them, and a service nobody knows.\<close>

definition exReport :: "string list \<Rightarrow> codec" where
  "exReport names = \<lparr>codecEnvelope = (\<lambda>_. None), codecCrypto = (\<lambda>_. None), codecFlow = (\<lambda>_. None), codecXray = (\<lambda>_. None),
     codecConfig = (\<lambda>_. Some \<lparr>confLimiters = [], confChains = [], confServices = names\<rparr>)\<rparr>"

definition exSecret :: "panel \<Rightarrow> panel" where
  "exSecret s = s\<lparr>dbNodes := [exNode1\<lparr>nodeSecret := ''s1''\<rparr>, exNode2\<lparr>nodeSecret := ''s2''\<rparr>]\<rparr>"

theorem report_spares_tidy_witness:
  "dbSent (exec (ProcessFlowConfig exEnv (exReport [''2_7_4_tcp'', ''9_7_4_tcp'', ''2_7_4_udp'']) [] ''s1'') (exSecret exDeployed)) =
     dbSent exDeployed @ [Cmd 1 ''DeleteService'' (DNames [''9_7_4_tcp'', ''9_7_4_udp''])] \<and>
   holdsService (dbSent (exec (ProcessFlowConfig exEnv (exReport [''2_7_4_tcp'', ''9_7_4_tcp'', ''2_7_4_udp'']) [] ''s1'')
     (exSecret exDeployed))) 1 ''2_7_4_tcp''"
proof
  show "dbSent (exec (ProcessFlowConfig exEnv (exReport [''2_7_4_tcp'', ''9_7_4_tcp'', ''2_7_4_udp'']) [] ''s1'') (exSecret exDeployed)) =
     dbSent exDeployed @ [Cmd 1 ''DeleteService'' (DNames [''9_7_4_tcp'', ''9_7_4_udp''])]" by code_simp
  have "exForward2 \<in> set (dbForwards (exSecret exDeployed))" "exTunnel2 \<in> set (dbTunnels (exSecret exDeployed))"
    "fwdTunnelId exForward2 = tunID exTunnel2"
    by (simp_all add: exSecret_def exDeployed_def exPanel_def exForward2_def exTunnel2_def)
  moreover have "1 = tunInNodeId exTunnel2 \<and> tidyListen exForward2 exTunnel2 \<and>
      ''2_7_4_tcp'' \<in> set (listenerNames exForward2 exTunnel2 (serviceNameOf (exSecret exDeployed) exForward2 exTunnel2))" by code_simp
  moreover have "holdsService (dbSent (exSecret exDeployed)) 1 ''2_7_4_tcp''" by code_simp
  ultimately show "holdsService (dbSent (exec (ProcessFlowConfig exEnv (exReport [''2_7_4_tcp'', ''9_7_4_tcp'', ''2_7_4_udp'']) [] ''s1'')
      (exSecret exDeployed))) 1 ''2_7_4_tcp''"
    using report_spares_tidy [of exForward2 "exSecret exDeployed" exTunnel2 1 "''2_7_4_tcp''"] by blast
qed

section \<open>Live listeners that a report deletes\<close>

lemma name_of_id:
  assumes "reportName s f @ CHR ''_'' # x = reportName s' g @ CHR ''_'' # y"
  shows "fwdID f = fwdID g"
proof -
  have "hd (splitOn CHR ''_'' (reportName s f @ CHR ''_'' # x)) = itoa (fwdID f)" for s f x
    by (simp add: reportName_def tripleName_def go_string)
  with assms show ?thesis by (metis itoa_inj)
qed

lemma validServicesOf_shape: "x \<in> set (validServicesOf s n t f) \<Longrightarrow> \<exists>y. x = reportName s f @ CHR ''_'' # y"
  by (auto simp: validServicesOf_def validListeners_def pairNames_def suffixedName_def split: if_splits)

lemma numbered_not_valid:
  assumes "forwardInv s" "f \<in> set (dbForwards s)" "fwdListenIp f = []"
    and "v = suffixedName (reportName s f) i @ ''_tcp'' \<or> v = suffixedName (reportName s f) i @ ''_udp''"
  shows "v \<notin> set (overForwards s n (validServicesOf s n))"
proof
  assume "v \<in> set (overForwards s n (validServicesOf s n))"
  then obtain t' g where g: "g \<in> set (dbForwards s)" "v \<in> set (validServicesOf s n t' g)"
    unfolding in_overForwards by blast
  obtain x where "v = reportName s f @ CHR ''_'' # x" using assms(4) by (auto simp: suffixedName_def)
  moreover obtain y where "v = reportName s g @ CHR ''_'' # y" using validServicesOf_shape [OF g(2)] by blast
  ultimately have "fwdID f = fwdID g" using name_of_id by metis
  then have "g = f" using assms(1,2) g(1) unfolding forwardInv_def forwardKeys_def distinct_map by (metis inj_onD)
  then have "v \<in> set (pairNames (reportName s f)) \<or> v = reportName s f @ ''_tls''"
    using g(2) assms(3) by (auto simp: validServicesOf_def validListeners_def split: if_splits)
  moreover have "last v = CHR ''p''" using assms(4) by (auto simp: last_append)
  then have "v \<noteq> reportName s f @ ''_tls''" by (auto simp: last_append)
  ultimately show False using assms(4) suffixed_tcp_not_plain [of "reportName s f" i] by (auto simp: pairNames_def)
qed

lemma keeps_unheld: "keeps (\<lambda>x. \<not> holdsService (dbSent x) m v) (cleanService E n V name)"
  unfolding cleanService_def DeleteService_def DeleteRemoteService_def
  by (intro keeps_intro keepsI) (simp_all add: svcStep_def)

lemma cleaned_away:
  assumes "v \<in> set names" "v \<notin> set V" "v = b @ ''_tcp'' \<or> v = b @ ''_udp''" "staysOnline E n"
  shows "\<not> holdsService (dbSent (exec (forEach (cleanService E n V) names) s)) n v"
proof -
  obtain xs ys where names: "names = xs @ v # ys" using assms(1) by (meson split_list)
  have "\<not> holdsService (dbSent (exec (cleanService E n V v) x)) n v" for x
    using assms(2-4) by (auto simp: cleanService_def hasSuffix_iff DeleteService_def svcStep_def)
  then show ?thesis
    unfolding names forEach_append exec_forEach_Cons
    by (intro keepsD [where I = "\<lambda>x. \<not> holdsService (dbSent x) n v", OF keeps_forEach [OF keeps_unheld]])
qed

text \<open>C37: A report of a healthy node stops live forwards. The entry node of a tunnel with several listen addresses runs
  one numbered pair of listeners per address for a forward without an address of its own. The report's check expects the
  unnumbered pair: as soon as the connected node reports the listeners it rightly runs, the panel
  deletes them, and the forward stays in the table as it was, active.\<close>

theorem report_stops_live:
  assumes "forwardInv s" "f \<in> set (dbForwards s)" "fwdTunnelId f = tunID t"
    and "fwdListenIp f = []" "1 < List.length (splitListenIPs (tunTcpListenAddr t))"
    and "v \<in> set (listenerNames f t (serviceNameOf s f t))"
    and "find (\<lambda>n. nodeSecret n = secret) (dbNodes s) = Some node" "minInt64 \<le> nodeID node" "nodeID node \<le> maxInt64"
    and "codecConfig C (decryptIfNeeded C raw secret) = Some conf" "v \<in> set (confServices conf)" "staysOnline E (nodeID node)"
  shows "\<not> holdsService (dbSent (exec (ProcessFlowConfig E C raw secret) s)) (nodeID node) v \<and>
    dbForwards (exec (ProcessFlowConfig E C raw secret) s) = dbForwards s"
proof
  let ?n = "nodeID node"
  obtain i where v: "v = suffixedName (reportName s f) i @ ''_tcp'' \<or> v = suffixedName (reportName s f) i @ ''_udp''"
    using assms(4-6) unfolding reportName_serviceNameOf [OF assms(3)]
    by (auto simp: listenerNames_def buildMultiIPServiceNames_def Let_def)
  let ?V = "overForwards s ?n (validServicesOf s ?n)"
  have "v \<notin> set ?V" by (rule numbered_not_valid [OF assms(1,2,4) v])
  from cleaned_away [OF assms(11) this v assms(12)]
  have "\<not> holdsService (dbSent (exec (forEach (cleanService E ?n ?V) (confServices conf)) s)) ?n v" .
  then have "\<not> holdsService (dbSent (exec (CleanNodeConfigs E (itoa ?n) conf) s)) ?n v"
    by (simp add: CleanNodeConfigs_def parseInt_itoa [OF assms(8,9)] cleaned_chains cleaned_limiters)
  then show "\<not> holdsService (dbSent (exec (ProcessFlowConfig E C raw secret) s)) ?n v"
    by (simp add: ProcessFlowConfig_def assms(7,10))
  have "keeps (\<lambda>x. dbForwards x = dbForwards s) (ProcessFlowConfig E C raw secret)"
    unfolding ProcessFlowConfig_def CleanNodeConfigs_def cleanService_def cleanChain_def cleanLimiter_def
      DeleteService_def DeleteRemoteService_def DeleteChains_def DeleteLimiters_def
    by (intro keeps_intro keeps_SendMsg) (simp_all add: ignoresSent_def)
  then show "dbForwards (exec (ProcessFlowConfig E C raw secret) s) = dbForwards s" by (rule keepsD) simp
qed

theorem report_stops_live_witness:
  "holdsService (dbSent (exSecret exLeak)) 1 ''1_7_3_0_tcp'' \<and>
   \<not> holdsService (dbSent (exec (ProcessFlowConfig exEnv (exReport [''1_7_3_0_tcp'', ''1_7_3_0_udp'']) [] ''s1'') (exSecret exLeak))) 1 ''1_7_3_0_tcp'' \<and>
   map fwdStatus (dbForwards (exSecret exLeak)) = [1, 1]"
proof (intro conjI)
  show "holdsService (dbSent (exSecret exLeak)) 1 ''1_7_3_0_tcp''" "map fwdStatus (dbForwards (exSecret exLeak)) = [1, 1]" by code_simp+
  let ?s = "exSecret exLeak" and ?node = "exNode1\<lparr>nodeSecret := ''s1''\<rparr>"
  have inv: "forwardInv ?s"
    by (simp add: forwardInv_def forwardKeys_def portsDistinct_def occupies_def exSecret_def exLeak_def exPanel_def exForward1_def exForward2_def
        exTwoAddresses_def exTunnel1_def)
  have f: "exForward1 \<in> set (dbForwards ?s)" "fwdTunnelId exForward1 = tunID exTwoAddresses" "fwdListenIp exForward1 = []"
    by (simp_all add: exSecret_def exLeak_def exPanel_def exForward1_def exTwoAddresses_def exTunnel1_def zeroForward_def)
  have names: "1 < List.length (splitListenIPs (tunTcpListenAddr exTwoAddresses))"
    "''1_7_3_0_tcp'' \<in> set (listenerNames exForward1 exTwoAddresses (serviceNameOf ?s exForward1 exTwoAddresses))" by code_simp+
  have node: "find (\<lambda>n. nodeSecret n = ''s1'') (dbNodes ?s) = Some ?node" "minInt64 \<le> nodeID ?node" "nodeID ?node \<le> maxInt64" "nodeID ?node = 1"
    by (simp_all add: exSecret_def exNode1_def minInt64_def maxInt64_def)
  have report: "codecConfig (exReport [''1_7_3_0_tcp'', ''1_7_3_0_udp'']) x =
      Some \<lparr>confLimiters = [], confChains = [], confServices = [''1_7_3_0_tcp'', ''1_7_3_0_udp'']\<rparr>" for x
    by (simp add: exReport_def)
  have "staysOnline exEnv (nodeID ?node)" by (simp add: staysOnline_def exEnv_def)
  from report_stops_live [OF inv f names node(1-3) report _ this]
  show "\<not> holdsService (dbSent (exec (ProcessFlowConfig exEnv (exReport [''1_7_3_0_tcp'', ''1_7_3_0_udp'']) [] ''s1'') ?s)) 1 ''1_7_3_0_tcp''"
    unfolding node(4) by simp
qed

section \<open>Limiters that a report deletes\<close>

text \<open>A permission gets its limiter when it is assigned, before its user has any forward. A report in between makes
  the panel delete the limiter, which no later creation of a forward adds again.\<close>

lemma sent_kept: "keeps (\<lambda>x. c \<in> set (dbSent x)) (cleanLimiter E n V name)"
  unfolding cleanLimiter_def DeleteLimiters_def by (intro keeps_intro keepsI) (simp_all add: dbSent_SendMsg)

lemma report_drops_limiter:
  assumes "\<forall>f \<in> set (dbForwards s). \<forall>ut. permissionOf s f = Some ut \<longrightarrow> utSpeedId ut \<noteq> Some sp"
    and "minInt64 \<le> sp" "sp \<le> maxInt64" "itoa sp \<in> set (confLimiters conf)"
    and "minInt64 \<le> n" "n \<le> maxInt64" "staysOnline E n"
  shows "Cmd n ''DeleteLimiters'' (DLimiterName (itoa sp)) \<in> set (dbSent (exec (CleanNodeConfigs E (itoa n) conf) s))"
proof -
  let ?V = "overForwards s n (\<lambda>_. validLimitersOf s)"
  have no: "itoa sp \<notin> set ?V"
  proof
    assume "itoa sp \<in> set ?V"
    then obtain f where f: "f \<in> set (dbForwards s)" "itoa sp \<in> set (validLimitersOf s f)" unfolding in_overForwards by blast
    then obtain ut where "permissionOf s f = Some ut" "utSpeedId ut = Some sp"
      by (cases "permissionOf s f") (auto simp: validLimitersOf_def itoa_inj split: option.splits if_splits)
    with assms(1) f(1) show False by blast
  qed
  obtain xs ys where names: "confLimiters conf = xs @ itoa sp # ys" using assms(4) by (meson split_list)
  have "Cmd n ''DeleteLimiters'' (DLimiterName (itoa sp)) \<in> set (dbSent (exec (cleanLimiter E n ?V (itoa sp)) x))" for x
    using no assms(7) by (simp add: cleanLimiter_def parseInt_itoa [OF assms(2,3)] DeleteLimiters_def dbSent_SendMsg)
  then have "Cmd n ''DeleteLimiters'' (DLimiterName (itoa sp)) \<in> set (dbSent (exec (forEach (cleanLimiter E n ?V) (confLimiters conf)) x))" for x
    unfolding names forEach_append exec_forEach_Cons
    by (intro keepsD [where I = "\<lambda>x. Cmd n ''DeleteLimiters'' (DLimiterName (itoa sp)) \<in> set (dbSent x)", OF keeps_forEach [OF sent_kept]])
  then show ?thesis by (simp add: CleanNodeConfigs_def parseInt_itoa [OF assms(5,6)])
qed

end
