(* ===== verification/System.thy ===== *)
theory System
  imports SystemUsers Api ConfigCheckProps
begin

text \<open>
  The panel as a transition system. Whatever its callers, nodes and clocks do to it, in any order and in any
  surroundings, the database stays sound: no two forwards share a port, every reference has its row.
\<close>

section \<open>The remaining operations\<close>

lemma keeps_pair:
  "(\<And>a b. keeps J (f a b)) \<Longrightarrow> keeps J (case p of (a, b) \<Rightarrow> f a b)"
  "(\<And>a b. keeps J (g a b x)) \<Longrightarrow> keeps J ((case p of (a, b) \<Rightarrow> g a b) x)"
  by (cases p; simp)+

lemma keeps_shaped_config:
  "keeps (shaped F N U I) (updateOrCreateConfig E name v)" "keeps (shaped F N U I) (ensureConfig E p)"
  unfolding updateOrCreateConfig_def ensureConfig_def insertConfig_def
  by (intro keeps_intro keeps_pair keeps_modify; simp add: shaped_def shape_defs)+

lemma keeps_shaped_settings [keeps_intro]:
  "keeps (shaped F N U I) (UpdateConfigs E items)" "keeps (shaped F N U I) (UpdateSingleConfig E name v)"
  "keeps (shaped F N U I) (ensureDefaultConfig E)"
  unfolding UpdateConfigs_def UpdateSingleConfig_def ensureDefaultConfig_def
  by (intro keeps_intro keeps_pair keeps_shaped_config keeps_modify; simp add: shaped_def shape_defs)+

lemma keeps_shaped_sessions [keeps_intro]:
  "keeps (shaped F N U I) (OnNodeOnline q i v h t k)" "keeps (shaped F N U I) (OnNodeOffline i)"
  unfolding OnNodeOnline_def OnNodeOffline_def
  by (intro keeps_intro keeps_shaped_rows; simp)+

lemma ignores_flowConfig: "ignoresSent J \<Longrightarrow> keeps J (ProcessFlowConfig E C raw secret)"
  unfolding ProcessFlowConfig_def CleanNodeConfigs_def cleanService_def cleanChain_def cleanLimiter_def
    DeleteService_def DeleteRemoteService_def DeleteChains_def DeleteLimiters_def
  by (intro keeps_intro keeps_SendMsg)

lemma ignores_diagnose: "ignoresSent J \<Longrightarrow> keeps J (DiagnoseTunnel E i)"
  unfolding DiagnoseTunnel_def TcpPingNode_def by (intro keeps_intro keeps_SendMsg)

lemma panelInv_replaceUser:
  assumes s: "panelInv s" and u: "firstUser s i = Some u"
  shows "panelInv (exec (updateUserRow (userID u) (\<lambda>_. u\<lparr>userSubToken := x\<rparr>)) s)"
proof -
  have inv: "userInv s" using s by (simp add: panelInv_def)
  have u_in: "u \<in> set (dbUsers s)" using u rowById_in unfolding firstUser_def by metis
  have "\<And>v. v \<in> set (dbUsers s) \<Longrightarrow> userID v = userID u \<Longrightarrow> v = u"
    using inv u_in unfolding userInv_def distinct_map by (meson inj_onD)
  then have "map account (updateRows (\<lambda>v. userID v = userID u) (\<lambda>_. u\<lparr>userSubToken := x\<rparr>) (dbUsers s)) = map account (dbUsers s)"
    by (auto simp: updateRows_def account_def)
  then show ?thesis
    using s panelInv_cong [of "exec (updateUserRow (userID u) (\<lambda>_. u\<lparr>userSubToken := x\<rparr>)) s" s]
    by (simp add: updateUserRow_def shape_defs)
qed

lemma panel_sub: "keeps panelInv (XraySubToken E u r)" "keeps panelInv (XraySubReset E u)"
  by (rule keepsI; simp add: XraySubToken_def XraySubReset_def saveSubToken_def run panelInv_replaceUser split: option.split)+

section \<open>Every happening\<close>

lemma panel_user: "keeps panelInv (handleUser W u r c)"
  by (cases c; simp only: handleUser.simps; intro keeps_bound panel_CreateUser panel_UpdateUser panel_DeleteUser panel_UpdatePassword
      keeps_by_shape keeps_shaped_users)

lemma panel_node: "keeps panelInv (handleNode W c)"
proof -
  have api: "keeps panelInv (ReconcileNodeAPI E b i)" for E b i
    unfolding ReconcileNodeAPI_def by (intro keeps_intro keeps_by_shape keeps_shaped_reconcile)
  show ?thesis
    by (cases c; simp only: handleNode.simps; intro keeps_intro keeps_bound keeps_ignore panel_CreateNode panel_DeleteNode api
        keeps_by_shape keeps_shaped_nodes)
qed

lemma panel_tunnel: "keeps panelInv (handleTunnel W c)"
  by (cases c; simp only: handleTunnel.simps; intro keeps_intro panel_CreateTunnel panel_DeleteTunnel panel_forwards
      ignores_diagnose ignoresSent_panelInv keeps_by_shape keeps_shaped_tunnels keeps_shaped_permissions)

lemma panel_forward: "keeps panelInv (handleForward W u r nm c)"
  by (cases c; simp only: handleForward.simps; intro keeps_bound panel_forwards keeps_by_shape keeps_shaped_forwards)

lemma panel_speed: "keeps panelInv (handleSpeed W c)"
  by (cases c; simp only: handleSpeed.simps; intro keeps_bound keeps_by_shape keeps_shaped_speed)

lemma panel_config: "keeps panelInv (handleConfig W c)"
  by (cases c; simp only: handleConfig.simps; intro keeps_bound keeps_by_shape keeps_shaped_settings)

lemma panel_xray: "keeps panelInv (handleXray E u r q)"
  by (cases q; simp only: handleXray.simps; intro keeps_ignore panel_inbounds keeps_by_shape keeps_shaped_clients keeps_shaped_enable)

lemma panel_cert: "keeps panelInv (handleCert W u r c)"
  by (cases c; simp only: handleCert.simps; intro keeps_bound keeps_by_shape keeps_shaped_certs)

lemma panel_dispatch: "keeps panelInv (dispatch W u r nm c)"
proof (cases c)
  case (SubCall x)
  then show ?thesis by (cases x) (simp_all only: dispatch.simps handleSub.simps, (intro keeps_ignore panel_sub)+)
qed (simp_all only: dispatch.simps panel_user panel_node panel_tunnel panel_forward panel_speed panel_config keeps_bound panel_xray panel_cert)

lemma panel_react: "keeps panelInv (react W h)"
proof (cases h)
  case (ApiRequest token c)
  show ?thesis unfolding ApiRequest react.simps api_def
    by (cases "JWT (wEnv W) (wMac W) token"; simp only: auth.case; intro keeps_intro panel_dispatch)
next
  case (NodeReport k header query body)
  then show ?thesis
    unfolding NodeReport react.simps handleReport_def Let_def
    by (cases k; simp only: report.case;
        intro keeps_if keeps_return ignores_flowConfig ignoresSent_panelInv keeps_by_shape keeps_shaped_reports)
qed (simp only: react.simps, intro keeps_bound keeps_ignore keeps_by_shape keeps_shaped_users keeps_shaped_sessions keeps_shaped_reconcile
    keeps_shaped_night keeps_shaped_hour keeps_shaped_scheduler keeps_shaped_certs)+

section \<open>Start-up\<close>

text \<open>Start-up looks for an administrator named \<open>admin_user\<close> and makes one when it finds none: with an ordinary
  account under that name the database then has the name twice.\<close>

definition adminNameFree :: "panel \<Rightarrow> bool" where
  "adminNameFree s = (\<forall>u \<in> set (dbUsers s). userUser u = ''admin_user'' \<longrightarrow> userRoleId u = 0)"

lemma users_defaultConfig: "dbUsers (exec (ensureDefaultConfig E) s) = dbUsers s"
proof -
  have "keeps (\<lambda>x. dbUsers x = dbUsers s) (ensureDefaultConfig E)"
    unfolding ensureDefaultConfig_def ensureConfig_def insertConfig_def
    by (intro keeps_intro keeps_pair keeps_modify; simp)
  then show ?thesis by (rule keepsD) simp
qed

lemma panelInv_startup:
  assumes "panelInv s" "adminNameFree s"
  shows "panelInv (exec (startup E) s)"
proof -
  let ?s = "exec (ensureDefaultConfig E) s"
  have inv: "panelInv ?s" by (rule keepsD [OF keeps_by_shape [OF keeps_shaped_settings(3)] assms(1)])
  note users = users_defaultConfig [of E s]
  show ?thesis
  proof (cases "find (\<lambda>u. userUser u = ''admin_user'' \<and> userRoleId u = 0) (dbUsers ?s)")
    case None
    then have "''admin_user'' \<notin> userUser ` set (dbUsers ?s)"
      using assms(2) unfolding users adminNameFree_def find_None_iff image_iff by metis
    then have "panelInv (exec (insertUser (defaultAdmin E ?s h)) ?s)" for h
      by (intro panelInv_insertUser [OF inv]) (simp_all add: defaultAdmin_def)
    then show ?thesis using None inv by (simp add: startup_def ensureAdminUser_def Let_def)
  next
    case (Some u)
    have "panelInv (exec (updateUserRow (userID u) (\<lambda>x. x\<lparr>userPwd := h\<rparr>)) ?s)" for h
      by (rule keepsD [OF keeps_by_shape inv]) (rule keeps_shaped_rows, simp)
    then show ?thesis using Some inv by (simp add: startup_def ensureAdminUser_def Let_def)
  qed
qed

text \<open>The restriction is needed. Once the administrator has renamed himself and given the name \<open>admin_user\<close> to an
  ordinary account, the next start adds an administrator of that name, whom no login reaches: it takes the older row.\<close>

lemma restart_duplicates_name:
  assumes "u \<in> set (dbUsers s)" "userUser u = ''admin_user''" "\<forall>v \<in> set (dbUsers s). userUser v = ''admin_user'' \<longrightarrow> userRoleId v \<noteq> 0"
    and "hashPassword E (freshRandom E 12) \<noteq> []" "createOk E ''user''"
  shows "\<not> distinct (map userUser (dbUsers (exec (startup E) s)))"
    "find (\<lambda>v. userUser v = ''admin_user'') (dbUsers (exec (startup E) s)) = find (\<lambda>v. userUser v = ''admin_user'') (dbUsers s)"
proof -
  let ?s = "exec (ensureDefaultConfig E) s"
  let ?new = "defaultAdmin E ?s (hashPassword E (freshRandom E 12))"
  have "find (\<lambda>u. userUser u = ''admin_user'' \<and> userRoleId u = 0) (dbUsers ?s) = None"
    using assms(3) by (auto simp: find_None_iff users_defaultConfig)
  then have rows: "dbUsers (exec (startup E) s) = dbUsers s @ [?new]"
    using assms(4,5) by (simp add: startup_def ensureAdminUser_def Let_def insertUser_def users_defaultConfig)
  show "\<not> distinct (map userUser (dbUsers (exec (startup E) s)))"
  proof -
    have "''admin_user'' \<in> userUser ` set (dbUsers s)" using assms(1,2) by (metis image_eqI)
    then show ?thesis unfolding rows by (simp add: defaultAdmin_def)
  qed
  have *: "find P (xs @ [x]) = find P xs" if "z \<in> set xs" "P z" for P :: "user \<Rightarrow> bool" and xs x z
    using that by (induction xs) auto
  show "find (\<lambda>v. userUser v = ''admin_user'') (dbUsers (exec (startup E) s)) = find (\<lambda>v. userUser v = ''admin_user'') (dbUsers s)"
    unfolding rows by (rule *) (rule assms(1,2))+
qed

section \<open>The transition system\<close>

inductive step :: "panel \<Rightarrow> panel \<Rightarrow> bool" where
  happens: "step s (exec (react W h) s)"
| restarts: "adminNameFree s \<Longrightarrow> step s (exec (startup E) s)"

inductive_cases step_cases: "step s s'"

inductive reachable :: "panel \<Rightarrow> bool" where
  fresh: "reachable (exec (startup E) emptyPanel)"
| next_state: "reachable s \<Longrightarrow> step s s' \<Longrightarrow> reachable s'"

lemma panelInv_empty: "panelInv emptyPanel"
  by (simp add: panelInv_def forwardInv_def forwardKeys_def portsDistinct_def forwardRefs_def netInv_def userInv_def inboundInv_def
      emptyPanel_def)

lemma step_keeps: "step s s' \<Longrightarrow> panelInv s \<Longrightarrow> panelInv s'"
  by (erule step_cases) (simp_all add: keepsD [OF panel_react] panelInv_startup)


lemma reachable_run: "reachable s \<Longrightarrow> reachable (foldl (\<lambda>s h. exec (react W h) s) s hs)"
  by (induction hs arbitrary: s) (simp_all add: next_state happens)

text \<open>The administrator adds a node with two ports, a tunnel and three forwards; the third finds no port.\<close>

definition exAdmin :: user where
  "exAdmin = zeroUser\<lparr>userID := 1, userUser := ''admin_user''\<rparr>"

definition exWorld :: world where
  "exWorld = \<lparr>wEnv = exEnv\<lparr>jsonPrint := (\<lambda>j. if j = tokenHeader then ''h'' else ''p''),
       jsonParse := (\<lambda>x. if x = ''p'' then Some (tokenPayload exEnv exAdmin) else None)\<rparr>,
     wMac = exMac, wAcme = \<lparr>acmeRegister = (\<lambda>_. None), acmeProvider = (\<lambda>_. None), acmeObtain = (\<lambda>_. Inl [])\<rparr>,
     wCodec = exReport [], wSqlInt = (\<lambda>_. None), wPort = 6365, wVersion = ''dev'', wBusy = (\<lambda>_. False)\<rparr>"

definition exRequests :: "call list" where
  "exRequests = [
     NodeCall (NodeCreate \<lparr>ndName = ''a'', ndIp = [], ndEntryIps = [], ndServerIp = ''192.0.2.1'', ndPortSta = 1000, ndPortEnd = 1001, ndGroupName = []\<rparr>),
     NodeCall (NodeUpdate \<lparr>nuID = 1, nuName = ''b'', nuIp = [], nuEntryIps = [], nuServerIp = [], nuPortSta = None, nuPortEnd = None, nuGroupName = None\<rparr>),
     TunnelCall (TunnelCreate \<lparr>tdName = ''t'', tdInNodeId = 1, tdOutNodeId = None, tdType = 1, tdFlow = 1, tdTrafficRatio = None, tdInterfaceName = [],
       tdProtocol = [], tdTcpListenAddr = [], tdUdpListenAddr = []\<rparr>),
     ForwardCall (ForwardCreate exDto), ForwardCall (ForwardCreate (exDto\<lparr>fdInPort := Some 1000\<rparr>)), ForwardCall (ForwardCreate exDto),
     ForwardCall (ForwardCreate exDto), NodeCall (NodeDelete 1), TunnelCall (TunnelDelete 1)]"

definition exRun :: panel where
  "exRun = foldl (\<lambda>s h. exec (react exWorld h) s) (exec (startup exEnv) emptyPanel)
     (map (ApiRequest (GenerateToken (wEnv exWorld) exMac exAdmin)) exRequests)"


end
