(* ===== verification/ApiIsolation.thy ===== *)
theory ApiIsolation
  imports System
begin

text \<open>
  What the whole API lets a user do who is not an administrator: through any route, with any token
  and any body, nothing of anybody else's. The isolation of the single components is put together here, behind the
  middleware.
\<close>

section \<open>Frames\<close>

text \<open>What no account owns.\<close>

definition shared :: "panel \<Rightarrow> panel" where
  "shared s = s\<lparr>dbForwards := [], dbInbounds := [], dbClients := [], dbUsers := [], dbCerts := [], dbAutoInc := (\<lambda>_. 0), dbSent := []\<rparr>"

definition besideForwards where "besideForwards s = (shared s, dbUsers s, dbInbounds s, dbClients s)"
definition besideXray where "besideXray s = (shared s, dbUsers s, dbForwards s)"
definition besideCerts where "besideCerts s = (shared s, dbUsers s, dbForwards s, dbInbounds s, dbClients s)"
definition besideUsers where "besideUsers s = (shared s, dbForwards s, dbInbounds s, dbClients s)"

lemmas beside_defs = besideForwards_def besideXray_def besideCerts_def besideUsers_def shared_def

lemma ignoresSent_beside [simp]:
  "ignoresSent (\<lambda>s. besideForwards s = X1)" "ignoresSent (\<lambda>s. besideXray s = X2)" "ignoresSent (\<lambda>s. besideCerts s = X3)"
  "ignoresSent (\<lambda>s. besideUsers s = X4)"
  by (simp_all add: ignoresSent_def beside_defs)

lemma keeps_besideForwards [keeps_intro]:
  "keeps (\<lambda>s. besideForwards s = X) (updateForwardRow i g)" "keeps (\<lambda>s. besideForwards s = X) (updateForwardStatusToError i)"
  "keeps (\<lambda>s. besideForwards s = X) (removeForward i)" "keeps (\<lambda>s. besideForwards s = X) (insertForward f)"
  unfolding updateForwardRow_def updateForwardStatusToError_def removeForward_def insertForward_def
  by (rule keeps_modify; simp add: beside_defs)+

lemma keeps_besideForwards_helpers [keeps_intro]:
  "keeps (\<lambda>s. besideForwards s = X) (saveForward E upd)" "keeps (\<lambda>s. besideForwards s = X) (deployForward E x f t l ut)"
  "keeps (\<lambda>s. besideForwards s = X) (setForwardStatus E i st)"
  unfolding saveForward_def deployForward_def setForwardStatus_def by (intro keeps_intro; simp)+

lemma beside_forward: "keeps (\<lambda>s. besideForwards s = X) (handleForward W u r nm c)"
proof -
  have "keeps (\<lambda>s. besideForwards s = X) (CreateForward E d u r nm)" "keeps (\<lambda>s. besideForwards s = X) (UpdateForward E d' u r)"
    "keeps (\<lambda>s. besideForwards s = X) (DeleteForward E i u r)" "keeps (\<lambda>s. besideForwards s = X) (ForceDeleteForward E i)"
    "keeps (\<lambda>s. besideForwards s = X) (PauseForward E i u r)" "keeps (\<lambda>s. besideForwards s = X) (ResumeForward E i u r)"
    "keeps (\<lambda>s. besideForwards s = X) (UpdateForwardOrder items u r)" for E d d' i items
    unfolding CreateForward_def UpdateForward_def DeleteForward_def ForceDeleteForward_def eraseForward_def PauseForward_def
      ResumeForward_def UpdateForwardOrder_def updateInPlace_def fullUpdate_def Let_def
    by (intro keeps_intro; simp)+
  then show ?thesis by (cases c) (simp_all only: handleForward.simps keeps_bound)
qed

lemma keeps_besideXray [keeps_intro]:
  "keeps (\<lambda>s. besideXray s = X) (updateInboundRow i g)" "keeps (\<lambda>s. besideXray s = X) (insertInbound ib)"
  "keeps (\<lambda>s. besideXray s = X) (updateClientRow i h)" "keeps (\<lambda>s. besideXray s = X) (insertClient cl)"
  "keeps (\<lambda>s. besideXray s = X) (deleteClientRow i)" "keeps (\<lambda>s. besideXray s = X) (saveClient cl)" "keeps (\<lambda>s. besideXray s = X) (saveInbound ib)"
  "keeps (\<lambda>s. besideXray s = X) (modify (\<lambda>s. s\<lparr>dbInbounds := a s\<rparr>))" "keeps (\<lambda>s. besideXray s = X) (modify (\<lambda>s. s\<lparr>dbClients := b s\<rparr>))"
  unfolding updateInboundRow_def insertInbound_def updateClientRow_def insertClient_def deleteClientRow_def saveClient_def saveInbound_def
  by (rule keeps_modify; simp add: beside_defs)+

lemma beside_xray: "keeps (\<lambda>s. besideXray s = X) (handleXray E u r q)"
proof -
  have "keeps (\<lambda>s. besideXray s = X) (CreateXrayInbound E d1 u r)" "keeps (\<lambda>s. besideXray s = X) (UpdateXrayInbound E d2 u r)"
    "keeps (\<lambda>s. besideXray s = X) (DeleteXrayInbound E i u r)" "keeps (\<lambda>s. besideXray s = X) (EnableXrayInbound E i u r)"
    "keeps (\<lambda>s. besideXray s = X) (DisableXrayInbound E i u r)" for d1 d2 i
    unfolding CreateXrayInbound_def UpdateXrayInbound_def DeleteXrayInbound_def EnableXrayInbound_def DisableXrayInbound_def
      updateOwned_def deleteOwned_def enableOwned_def disableOwned_def deployInbound_def replaceInbound_def rollbackInbound_def Let_def
    by (intro keeps_intro; simp)+
  moreover have "keeps (\<lambda>s. besideXray s = X) (CreateXrayClient E d3 u r)" "keeps (\<lambda>s. besideXray s = X) (UpdateXrayClient E d4 u r)"
    "keeps (\<lambda>s. besideXray s = X) (DeleteXrayClient E i u r)" "keeps (\<lambda>s. besideXray s = X) (ResetXrayClientTraffic E i u r)" for d3 d4 i
    unfolding client_handlers hotAddClient_def by (intro keeps_intro keeps_onOwnedClient; simp)+
  ultimately show ?thesis by (cases q) (simp_all only: handleXray.simps keeps_ignore)
qed

lemma keeps_besideCerts [keeps_intro]:
  "keeps (\<lambda>s. besideCerts s = X) (updateCertRow i g)" "keeps (\<lambda>s. besideCerts s = X) (insertCert ce)"
  "keeps (\<lambda>s. besideCerts s = X) (modify (\<lambda>s. s\<lparr>dbCerts := a s\<rparr>))"
  unfolding updateCertRow_def insertCert_def by (rule keeps_modify; simp add: beside_defs)+

lemma beside_cert: "keeps (\<lambda>s. besideCerts s = X) (handleCert W u r c)"
proof -
  have "keeps (\<lambda>s. besideCerts s = X) (CreateXrayTlsCert E d u r)" "keeps (\<lambda>s. besideCerts s = X) (DeleteXrayTlsCert i u r)"
    "keeps (\<lambda>s. besideCerts s = X) (IssueCertificate E A i u r)" "keeps (\<lambda>s. besideCerts s = X) (RenewCertificate E A i u r)" for E A d i
    unfolding CreateXrayTlsCert_def DeleteXrayTlsCert_def IssueCertificate_def RenewCertificate_def issueOwn_def issueCertViaAcme_def
      noteRenewError_def deployCert_def Let_def
    by (intro keeps_intro; simp)+
  then show ?thesis by (cases c) (simp_all only: handleCert.simps keeps_bound)
qed

section \<open>Accounts\<close>

definition otherUsers :: "int \<Rightarrow> panel \<Rightarrow> user list" where
  "otherUsers u s = filter (\<lambda>x. userID x \<noteq> u) (dbUsers s)"

lemma own_row:
  assumes "\<And>x. userID x = u \<Longrightarrow> userID (g x) = u"
  shows "otherUsers u (exec (updateUserRow u g) s) = otherUsers u s \<and> besideUsers (exec (updateUserRow u g) s) = besideUsers s"
proof -
  have "filter (\<lambda>x. userID x \<noteq> u) (updateRows (\<lambda>x. userID x = u) g rows) = filter (\<lambda>x. userID x \<noteq> u) rows" for rows
    using assms by (induction rows) (auto simp: updateRows_def)
  then show ?thesis by (simp add: otherUsers_def updateUserRow_def beside_defs)
qed

lemma firstUser_id: "firstUser s u = Some x \<Longrightarrow> userID x = u"
  unfolding firstUser_def by (rule rowById_id)

lemma own_account:
  "otherUsers u (exec (UpdatePassword E u d) s) = otherUsers u s \<and> besideUsers (exec (UpdatePassword E u d) s) = besideUsers s"
  "otherUsers u (exec (XraySubToken E u r) s) = otherUsers u s \<and> besideUsers (exec (XraySubToken E u r) s) = besideUsers s"
  "otherUsers u (exec (XraySubReset E u) s) = otherUsers u s \<and> besideUsers (exec (XraySubReset E u) s) = besideUsers s"
proof -
  have save: "otherUsers u (exec (saveSubToken x t) s) = otherUsers u s \<and> besideUsers (exec (saveSubToken x t) s) = besideUsers s"
    if "userID x = u" for x t
    using own_row [of u "\<lambda>_. x\<lparr>userSubToken := t\<rparr>" s] that by (simp add: saveSubToken_def)
  show "otherUsers u (exec (XraySubToken E u r) s) = otherUsers u s \<and> besideUsers (exec (XraySubToken E u r) s) = besideUsers s"
    "otherUsers u (exec (XraySubReset E u) s) = otherUsers u s \<and> besideUsers (exec (XraySubReset E u) s) = besideUsers s"
    using save firstUser_id by (simp_all add: XraySubToken_def XraySubReset_def run split: option.split)
  show "otherUsers u (exec (UpdatePassword E u d) s) = otherUsers u s \<and> besideUsers (exec (UpdatePassword E u d) s) = besideUsers s"
    using own_row firstUser_id by (simp add: UpdatePassword_def run split: option.split)
qed

section \<open>The API\<close>

fun removes :: "call \<Rightarrow> xrayClient \<Rightarrow> bool" where
  "removes (XrayCall q) x = reaches q x"
| "removes _ x = False"

text \<open>All that is not the caller's: what nobody owns, and the others' accounts, forwards, inbounds and clients, but for
  clients on an inbound of his that the call deletes.\<close>

definition foreign :: "int \<Rightarrow> call \<Rightarrow> panel \<Rightarrow> panel \<times> user list \<times> forward list \<times> xrayInbound list \<times> xrayClient list" where
  "foreign u c s = (shared s, otherUsers u s, othersForwards u s, filter (\<lambda>x. ibUserId x \<noteq> u) (dbInbounds s),
     filter (\<lambda>x. xcUserId x \<noteq> u \<and> \<not> removes c x) (dbClients s))"

lemma foreign_eqI:
  assumes "shared s' = shared s" "otherUsers u s' = otherUsers u s" "othersForwards u s' = othersForwards u s"
    "filter (\<lambda>x. ibUserId x \<noteq> u) (dbInbounds s') = filter (\<lambda>x. ibUserId x \<noteq> u) (dbInbounds s)"
    "filter (\<lambda>x. xcUserId x \<noteq> u \<and> \<not> removes c x) (dbClients s') = filter (\<lambda>x. xcUserId x \<noteq> u \<and> \<not> removes c x) (dbClients s)"
  shows "foreign u c s' = foreign u c s"
  unfolding foreign_def by (simp only: assms)

lemma foreign_forwards: "besideForwards s' = besideForwards s \<Longrightarrow> othersForwards u s' = othersForwards u s \<Longrightarrow> foreign u c s' = foreign u c s"
  by (rule foreign_eqI) (simp_all add: besideForwards_def otherUsers_def)

lemma foreign_certs: "besideCerts s' = besideCerts s \<Longrightarrow> foreign u c s' = foreign u c s"
  by (rule foreign_eqI) (simp_all add: besideCerts_def otherUsers_def othersForwards_def)

lemma foreign_users: "otherUsers u s' = otherUsers u s \<and> besideUsers s' = besideUsers s \<Longrightarrow> foreign u c s' = foreign u c s"
  by (rule foreign_eqI) (simp_all add: besideUsers_def othersForwards_def)

lemma foreign_xray:
  assumes "besideXray s' = besideXray s" "filter (\<lambda>x. ibUserId x \<noteq> u) (dbInbounds s') = filter (\<lambda>x. ibUserId x \<noteq> u) (dbInbounds s)"
    "filter (\<lambda>x. xcUserId x \<noteq> u \<and> \<not> removes c x) (dbClients s') = filter (\<lambda>x. xcUserId x \<noteq> u \<and> \<not> removes c x) (dbClients s)"
  shows "foreign u c s' = foreign u c s"
proof (rule foreign_eqI [OF _ _ _ assms(2,3)])
  show "shared s' = shared s" "otherUsers u s' = otherUsers u s" "othersForwards u s' = othersForwards u s"
    using assms(1) by (simp_all add: besideXray_def otherUsers_def othersForwards_def)
qed

lemma forwards_foreign:
  assumes "forwardKeys s" "r \<noteq> 0" "\<not> adminOnly (ForwardCall c)"
  shows "othersForwards u (exec (handleForward W u r nm c) s) = othersForwards u s"
proof -
  have "r \<noteq> adminRoleId" using assms(2) by (simp add: adminRoleId_def)
  note op = sparing_CreateForward sparing_UpdateForward sparing_DeleteForward sparing_PauseForward sparing_ResumeForward sparing_UpdateForwardOrder
  from \<open>r \<noteq> adminRoleId\<close> assms show ?thesis by (cases c) (simp_all add: op)
qed

lemma dispatch_foreign:
  assumes "panelInv s" "clientKeys s" "r \<noteq> 0" "\<not> adminOnly c"
  shows "foreign u c (exec (dispatch W u r nm c) s) = foreign u c s"
proof (cases c)
  case (ForwardCall x)
  have "forwardKeys s" using assms(1) by (simp add: panelInv_def forwardInv_def)
  from forwards_foreign [OF this assms(3)] assms(4) show ?thesis
    unfolding ForwardCall dispatch.simps by (intro foreign_forwards keepsD [OF beside_forward refl])
next
  case (XrayCall q)
  have "inboundInv s" using assms(1) by (simp add: panelInv_def)
  from inbounds_isolated [OF this assms(3)] clients_isolated [OF assms(2,3)]
  have "foreign u c (exec (handleXray (wEnv W) u r q) s) = foreign u c s"
    by (intro foreign_xray keepsD [OF beside_xray refl]) (simp_all add: XrayCall)
  then show ?thesis by (simp add: XrayCall)
next
  case (CertCall x)
  show ?thesis unfolding CertCall dispatch.simps by (intro foreign_certs keepsD [OF beside_cert refl])
next
  case (SubCall x)
  show ?thesis
    by (cases x; simp only: SubCall dispatch.simps handleSub.simps exec_ignore; intro foreign_users own_account)
next
  case (UserCall x)
  with assms(4) obtain d where "x = UserUpdatePassword d" by (cases x) simp_all
  then show ?thesis
    by (simp only: UserCall dispatch.simps handleUser.simps exec_bound if_True) (intro foreign_users own_account)
qed (use assms(4) in simp_all)


text \<open>Ann asks for the deletion of an inbound of her own, of one of Bob's, and of a node.\<close>

definition exTwoUsers :: panel where
  "exTwoUsers = exShared\<lparr>dbAutoInc := (\<lambda>_. 10)\<rparr>"

definition exAnnWorld :: world where
  "exAnnWorld = exWorld\<lparr>wEnv := exTokenEnv\<rparr>"


end
