(* ===== verification/SubProps.thy ===== *)
theory SubProps
  imports Startup
begin

text \<open>What a subscription token opens: the links of its account, and nothing after it was reset.\<close>

definition ownLinks :: "env \<Rightarrow> panel \<Rightarrow> user \<Rightarrow> linkItem list" where
  "ownLinks E s u = List.map_filter (clientLink E s u) (filter (\<lambda>c. xcUserId c = userID u \<and> xcEnable c = 1) (dbClients s))"

lemma clientLink_Some:
  assumes "userRoleId u \<noteq> 0"
  shows "clientLink E s u c = Some l \<longleftrightarrow> (\<exists>ib n. firstInbound s (xcInboundId c) = Some ib \<and> ibEnable ib = 1 \<and>
    GetNodeById s (ibNodeId ib) = Some n \<and> UserHasNodeAccess s (userID u) (nodeID n) \<and> generateProtocolLink E c ib n \<noteq> [] \<and>
    l = \<lparr>liLink = generateProtocolLink E c ib n, liProtocol = ibProtocol ib, liRemark = linkRemark c ib, liNodeName = nodeName n\<rparr>)"
  using assms by (auto simp: clientLink_def split: option.split)

lemma ownLinks_iff:
  assumes "userRoleId u \<noteq> 0"
  shows "link \<in> liLink ` set (ownLinks E s u) \<longleftrightarrow> link \<noteq> [] \<and>
    (\<exists>c \<in> set (dbClients s). \<exists>ib n. xcUserId c = userID u \<and> xcEnable c = 1 \<and> firstInbound s (xcInboundId c) = Some ib \<and>
      ibEnable ib = 1 \<and> GetNodeById s (ibNodeId ib) = Some n \<and> UserHasNodeAccess s (userID u) (nodeID n) \<and>
      link = generateProtocolLink E c ib n)" (is "?L \<longleftrightarrow> ?R")
proof
  assume ?L
  then obtain l c where l: "link = liLink l" "c \<in> set (dbClients s)" "xcUserId c = userID u" "xcEnable c = 1" "clientLink E s u c = Some l"
    by (auto simp: ownLinks_def List.map_filter_def)
  from l(5) show ?R unfolding clientLink_Some [OF assms] using l(1-4) by auto
next
  assume ?R
  then obtain c ib n where c: "link \<noteq> []" "c \<in> set (dbClients s)" "xcUserId c = userID u" "xcEnable c = 1"
      "firstInbound s (xcInboundId c) = Some ib" "ibEnable ib = 1" "GetNodeById s (ibNodeId ib) = Some n"
      "UserHasNodeAccess s (userID u) (nodeID n)" "link = generateProtocolLink E c ib n" by blast
  let ?l = "\<lparr>liLink = link, liProtocol = ibProtocol ib, liRemark = linkRemark c ib, liNodeName = nodeName n\<rparr>"
  have "clientLink E s u c = Some ?l" unfolding clientLink_Some [OF assms] using c by blast
  then have "?l \<in> set (ownLinks E s u)"
    using c(2-4) by (force simp: ownLinks_def List.map_filter_def)
  then show ?L by (force simp: image_iff)
qed


text \<open>Ann has two clients, one of them disabled, and Bob one.\<close>

definition exSubscribers :: panel where
  "exSubscribers = exPanel\<lparr>dbUsers := [exUser\<lparr>userSubToken := ''tok''\<rparr>, exUser\<lparr>userID := 8, userSubToken := ''tik''\<rparr>],
     dbInbounds := [zeroInbound\<lparr>ibID := 1, ibNodeId := 2, ibProtocol := ''shadowsocks'', ibPort := 443, ibEnable := 1\<rparr>],
     dbClients := [zeroClient\<lparr>xcID := 1, xcInboundId := 1, xcUserId := 7, xcUuidOrPassword := ''pw'', xcRemark := ''home'', xcEnable := 1\<rparr>,
       zeroClient\<lparr>xcID := 2, xcInboundId := 1, xcUserId := 7, xcUuidOrPassword := ''px'', xcEnable := 0\<rparr>,
       zeroClient\<lparr>xcID := 3, xcInboundId := 1, xcUserId := 8, xcUuidOrPassword := ''py'', xcEnable := 1\<rparr>]\<rparr>"


section \<open>Reset\<close>

text \<open>A reset ends the old token: unless the new one is the same, or another account has it, it opens nothing any more.\<close>

lemma reset_revokes:
  assumes "result (XraySubReset E i) s = Ok t" "firstUser s i = Some u" "token \<noteq> []"
    and "\<forall>v \<in> set (dbUsers s). userID v \<noteq> i \<longrightarrow> userSubToken v \<noteq> token" "t \<noteq> token"
  shows "XraySubscription E' (exec (XraySubReset E i) s) token scope = (401, ''invalid or expired token'')"
proof -
  have id: "userID u = i" using assms(2) rowById_id unfolding firstUser_def by metis
  have ex: "exec (XraySubReset E i) s = exec (saveSubToken u t) s"
    using assms(1,2) by (auto simp: XraySubReset_def run split: if_splits)
  have "\<forall>v \<in> set (dbUsers (exec (XraySubReset E i) s)). userSubToken v \<noteq> token"
    using assms(4,5) id unfolding ex by (auto simp: saveSubToken_def updateUserRow_def set_updateRows)
  then have "find (\<lambda>v. userSubToken v = token) (dbUsers (exec (XraySubReset E i) s)) = None" by (simp add: find_None_iff)
  with assms(3) show ?thesis by (simp add: XraySubscription_def httpStatus_def)
qed

end
