(* ===== verification/NodeRegistry.thy ===== *)
theory NodeRegistry
  imports GostConfig
begin

text \<open>
  The state of a node: the registry of named objects (\<open>go-node/x/registry/registry.go\<close>), the
  global configuration (\<open>go-node/x/config/config.go\<close>) and the parser of services
  (\<open>go-node/x/config/parsing/service/parse.go\<close>). A registered service owns the listening socket
  that the parser opened for it; the sockets of the process are part of the state, because a
  service that is dropped without being closed keeps its socket. Listeners, handlers, TLS and the
  operating system are the record \<open>lib\<close> of parameters.
\<close>

section \<open>The registry\<close>

text \<open>A \<open>sync.Map\<close> as an association list; \<open>None\<close> of \<open>register\<close> is \<open>ErrDup\<close>.\<close>

type_synonym 'a registry = "(string \<times> 'a) list"

definition isRegistered :: "string \<Rightarrow> 'a registry \<Rightarrow> bool" where
  "isRegistered name r = (map_of r name \<noteq> None)"

definition getObject :: "string \<Rightarrow> 'a registry \<Rightarrow> 'a option" where
  "getObject name r = (if name = [] then None else map_of r name)"

definition register :: "string \<Rightarrow> 'a \<Rightarrow> 'a registry \<Rightarrow> 'a registry option" where
  "register name v r =
     (if name = [] then Some r
      else if map_of r name \<noteq> None then None else Some (r @ [(name, v)]))"

definition unregister :: "string \<Rightarrow> 'a registry \<Rightarrow> 'a registry" where
  "unregister name r = filter (\<lambda>p. fst p \<noteq> name) r"

definition getAll :: "'a registry \<Rightarrow> string list" where
  "getAll r = map fst r"

lemma isRegistered_iff: "isRegistered name r \<longleftrightarrow> name \<in> fst ` set r"
  by (simp add: isRegistered_def map_of_eq_None_iff)

lemma map_of_unregister: "map_of (unregister n r) m = (if m = n then None else map_of r m)"
  by (induction r) (auto simp: unregister_def)

lemma isRegistered_unregister [simp]:
  "isRegistered m (unregister n r) \<longleftrightarrow> m \<noteq> n \<and> isRegistered m r"
  by (simp add: isRegistered_def map_of_unregister)

lemma unregister_fresh: "\<not> isRegistered n r \<Longrightarrow> unregister n r = r"
  by (induction r) (auto simp: unregister_def isRegistered_iff)

lemma unregister_append [simp]: "unregister n (r @ r') = unregister n r @ unregister n r'"
  by (simp add: unregister_def)

lemma distinct_unregister [simp]: "distinct (map fst r) \<Longrightarrow> distinct (map fst (unregister n r))"
  by (induction r) (auto simp: unregister_def)

lemma set_unregister: "set (unregister n r) = {p \<in> set r. fst p \<noteq> n}"
  by (auto simp: unregister_def)

lemma keys_unregister: "fst ` set (unregister n r) = fst ` set r - {n}"
  by (force simp: unregister_def)

lemma names_unregister: "map fst (unregister n r) = filter (\<lambda>m. m \<noteq> n) (map fst r)"
  by (induction r) (auto simp: unregister_def)

lemma register_Some:
  "n \<noteq> [] \<Longrightarrow> register n v r = Some r' \<longleftrightarrow> \<not> isRegistered n r \<and> r' = r @ [(n, v)]"
  by (auto simp: register_def isRegistered_def)

section \<open>Configurations\<close>

text \<open>Maps from strings to JSON values, the values as the text that encodes them; \<open>None\<close> is the nil map.\<close>

type_synonym metadata = "(string \<times> string) list option"

record gostListener =
  glType :: string
  glMetadata :: metadata
  glOther :: "(string \<times> string) list"

record gostHandler =
  ghType :: string
  ghChain :: string
  ghMetadata :: metadata
  ghOther :: "(string \<times> string) list"

record gostForwarder =
  gfName :: string
  gfHop :: string
  gfNodes :: "fwdNode list"
  gfStrategy :: string
  gfMaxFails :: int
  gfFailTimeout :: int

text \<open>\<open>gsOther\<close> holds the keys that none of the modelled functions looks at.\<close>

record gostService =
  gsName :: string
  gsAddr :: string
  gsLimiter :: string
  gsListener :: "gostListener option"
  gsHandler :: "gostHandler option"
  gsForwarder :: "gostForwarder option"
  gsMetadata :: metadata
  gsOther :: "(string \<times> string) list"

text \<open>The target of a service: the hop of its forwarder.\<close>

datatype hop = NamedHop string | ParsedHop gostForwarder

text \<open>A running service. \<open>siSocket\<close> is its listener, \<open>siForwards\<close> says that its handler
  implements \<open>handler.Forwarder\<close>.\<close>

record svcInst =
  siName :: string
  siSocket :: nat
  siForwards :: bool
  siHop :: "hop option"

record gostFile =
  fileServices :: "gostService list"
  fileChains :: "chainConfig list"
  fileLimiters :: "limiterConfig list"

record gostNode =
  nsServices :: "svcInst registry"
  nsChains :: "chainConfig registry"
  nsLimiters :: "limiterConfig registry"
  cfServices :: "gostService list"
  cfChains :: "chainConfig list"
  cfLimiters :: "limiterConfig list"
  nsSockets :: "(nat \<times> string \<times> string) list"
  nsNext :: nat
  nsTick :: nat
  nsDisk :: "gostFile option"
  nsBlocked :: "int \<times> int \<times> int"

text \<open>What the process relies on: the compiled-in listeners and handlers, the hops of the
  configuration, the operating system. \<open>libListen\<close> is the error of opening the listener of a
  service, given the time and the network and address of every socket that is open.\<close>

record lib =
  libSetup :: "gostService \<Rightarrow> string option"
  libListener :: "string \<Rightarrow> bool"
  libListen :: "nat \<Rightarrow> (string \<times> string) list \<Rightarrow> gostService \<Rightarrow> string option"
  libHandlerSetup :: "gostService \<Rightarrow> string option"
  libHandler :: "string \<Rightarrow> bool"
  libForwards :: "string \<Rightarrow> bool"
  libHops :: "string \<Rightarrow> bool"
  libHopErr :: "gostForwarder \<Rightarrow> string option"
  libHandlerInit :: "gostService \<Rightarrow> string option"
  libChainErr :: "chainConfig \<Rightarrow> string option"
  libDuration :: "string \<Rightarrow> int option"
  libParseError :: "cmd \<Rightarrow> string"
  libPing :: "string \<Rightarrow> int \<Rightarrow> int \<Rightarrow> int \<Rightarrow> string + (rat \<times> rat)"
  libIsIP :: "string \<Rightarrow> bool"
  libOther :: "cmd \<Rightarrow> gostResponse"

section \<open>Parsing a service\<close>

text \<open>The defaults that \<open>ParseService\<close> writes into the configuration it is given.\<close>

definition listenerOf :: "gostService \<Rightarrow> gostListener" where
  "listenerOf c = (case gsListener c of
      None \<Rightarrow> \<lparr>glType = ''tcp'', glMetadata = None, glOther = []\<rparr>
    | Some l \<Rightarrow> if trimSpace (glType l) = [] then l\<lparr>glType := ''tcp''\<rparr> else l)"

definition handlerOf :: "gostService \<Rightarrow> gostHandler" where
  "handlerOf c = (case gsHandler c of
      None \<Rightarrow> \<lparr>ghType = ''auto'', ghChain = [], ghMetadata = None, ghOther = []\<rparr>
    | Some h \<Rightarrow> if trimSpace (ghType h) = [] then h\<lparr>ghType := ''auto''\<rparr> else h)"

definition withDefaults :: "gostService \<Rightarrow> gostService" where
  "withDefaults c = c\<lparr>gsListener := Some (listenerOf c), gsHandler := Some (handlerOf c)\<rparr>"

definition madeMap :: "metadata \<Rightarrow> metadata" where
  "madeMap md = Some (case md of None \<Rightarrow> [] | Some xs \<Rightarrow> xs)"

definition listenerMetadata :: "gostService \<Rightarrow> gostService" where
  "listenerMetadata c = c\<lparr>gsListener := map_option (\<lambda>l. l\<lparr>glMetadata := madeMap (glMetadata l)\<rparr>) (gsListener c)\<rparr>"

definition handlerMetadata :: "gostService \<Rightarrow> gostService" where
  "handlerMetadata c = c\<lparr>gsHandler := map_option (\<lambda>h. h\<lparr>ghMetadata := madeMap (ghMetadata h)\<rparr>) (gsHandler c)\<rparr>"

definition parseForwarder :: "lib \<Rightarrow> gostForwarder option \<Rightarrow> string + hop option" where
  "parseForwarder L cfg = (case cfg of
      None \<Rightarrow> Inr None
    | Some f \<Rightarrow>
        (let hopName = (if gfHop f = [] then gfName f else gfHop f)
         in if hopName \<noteq> [] then Inr (if libHops L hopName then Some (NamedHop hopName) else None)
            else (case libHopErr L f of Some e \<Rightarrow> Inl e | None \<Rightarrow> Inr (Some (ParsedHop f)))))"

text \<open>The second half, after the listener has been opened: its errors leave the socket open.\<close>

definition parseHandler :: "lib \<Rightarrow> gostService \<Rightarrow> nat \<Rightarrow> (string + svcInst) \<times> gostService" where
  "parseHandler L c sock = (case libHandlerSetup L c of
      Some e \<Rightarrow> (Inl e, c)
    | None \<Rightarrow>
        (let htype = ghType (handlerOf c); fwds = libForwards L htype
         in if \<not> libHandler L htype then (Inl (''unknown handler: '' @ htype), c)
            else (case (if fwds then parseForwarder L (gsForwarder c) else Inr None) of
                Inl e \<Rightarrow> (Inl e, c)
              | Inr target \<Rightarrow>
                  (let c' = handlerMetadata c
                   in case libHandlerInit L c' of
                        Some e \<Rightarrow> (Inl e, c')
                      | None \<Rightarrow> (Inr \<lparr>siName = gsName c, siSocket = sock, siForwards = fwds,
                                      siHop = target\<rparr>, c')))))"

definition parseService :: "lib \<Rightarrow> gostService \<Rightarrow> gostNode \<Rightarrow> (string + svcInst) \<times> gostService \<times> gostNode" where
  "parseService L cfg n =
     (let c = withDefaults cfg; n = n\<lparr>nsTick := nsTick n + 1\<rparr>; ltype = glType (listenerOf cfg)
      in case libSetup L c of
           Some e \<Rightarrow> (Inl e, c, n)
         | None \<Rightarrow>
             if \<not> libListener L ltype then (Inl (''unknown listener: '' @ ltype), c, n)
             else (let c' = listenerMetadata c
                   in case libListen L (nsTick n) (map snd (nsSockets n)) c' of
                        Some e \<Rightarrow> (Inl e, c', n)
                      | None \<Rightarrow>
                          (let sock = nsNext n; (r, c'') = parseHandler L c' sock
                           in (r, c'', n\<lparr>nsSockets := nsSockets n @ [(sock, ltype, gsAddr cfg)],
                                        nsNext := nsNext n + 1\<rparr>))))"

text \<open>What a caller sees of a configuration that was parsed as a copy: the listener and the
  handler are shared pointers, so their defaults show, but only where they were given.\<close>

definition sharedDefaults :: "gostService \<Rightarrow> gostService" where
  "sharedDefaults c = c\<lparr>gsListener := (if gsListener c = None then None
                          else gsListener (listenerMetadata (withDefaults c))),
                        gsHandler := (if gsHandler c = None then None
                          else gsHandler (handlerMetadata (withDefaults c)))\<rparr>"

section \<open>Closing and the service registry\<close>

text \<open>\<open>Close\<close> closes the listener; a second call has no effect.\<close>

definition closeInst :: "svcInst \<Rightarrow> gostNode \<Rightarrow> gostNode" where
  "closeInst i n = n\<lparr>nsSockets := filter (\<lambda>x. fst x \<noteq> siSocket i) (nsSockets n)\<rparr>"

text \<open>\<open>Unregister\<close> closes the object if it can be closed, as every service can.\<close>

definition unregisterService :: "string \<Rightarrow> gostNode \<Rightarrow> gostNode" where
  "unregisterService name n = (case map_of (nsServices n) name of
      None \<Rightarrow> n
    | Some i \<Rightarrow> (closeInst i n)\<lparr>nsServices := unregister name (nsServices n)\<rparr>)"

definition registerService :: "string \<Rightarrow> svcInst \<Rightarrow> gostNode \<Rightarrow> gostNode option" where
  "registerService name i n = map_option (\<lambda>r. n\<lparr>nsServices := r\<rparr>) (register name i (nsServices n))"

definition getService :: "string \<Rightarrow> gostNode \<Rightarrow> svcInst option" where
  "getService name n = getObject name (nsServices n)"

definition running :: "gostNode \<Rightarrow> string \<Rightarrow> bool" where
  "running n name = (case map_of (nsServices n) name of None \<Rightarrow> False
     | Some i \<Rightarrow> siSocket i \<in> fst ` set (nsSockets n))"

text \<open>The first element with a property, replaced: the loops that \<open>break\<close> at the first match.\<close>

fun updateFirst :: "('a \<Rightarrow> bool) \<Rightarrow> ('a \<Rightarrow> 'a) \<Rightarrow> 'a list \<Rightarrow> 'a list" where
  "updateFirst p f [] = []"
| "updateFirst p f (x # xs) = (if p x then f x # xs else x # updateFirst p f xs)"

lemma updateFirst_id: "(\<And>x. x \<in> set xs \<Longrightarrow> \<not> p x) \<Longrightarrow> updateFirst p f xs = xs"
  by (induction xs) auto

lemma map_updateFirst: "(\<And>x. p x \<Longrightarrow> g (f x) = g x) \<Longrightarrow> map g (updateFirst p f xs) = map g xs"
  by (induction xs) auto

end
