(* ===== verification/NodeServices.thy ===== *)
theory NodeServices
  imports NodeRegistry
begin

text \<open>
  The service commands of a node, \<open>go-node/x/socket/service.go\<close>: each goes through the phases of
  the Go function on the state of the node. \<open>Failed\<close> is a returned error, \<open>Crashed\<close> a panic,
  which ends the process. \<open>config.OnUpdate\<close> returns the error of its callback, which none of the
  callbacks here has, so the branches for it do not appear.
\<close>

datatype outcome = Done | Failed string | Crashed

definition msgEmptyServices :: string where "msgEmptyServices = ''services list cannot be empty''"
definition msgServiceName :: string where "msgServiceName = ''service name is required''"

definition serviceExists :: "string \<Rightarrow> string" where
  "serviceExists name = ''service '' @ name @ '' already exists''"

definition serviceMissing :: "string \<Rightarrow> string" where
  "serviceMissing name = ''service '' @ name @ '' not found''"

definition configMissing :: "string \<Rightarrow> string" where
  "configMissing name = ''service '' @ name @ '' configuration not found''"

text \<open>The first phase of every command on existing services.\<close>

fun findServices :: "string list \<Rightarrow> gostNode \<Rightarrow> string + (string \<times> svcInst) list" where
  "findServices [] n = Inr []"
| "findServices (s # ss) n =
     (let name = trimSpace s
      in if name = [] then Inl msgServiceName
         else (case getService name n of
             None \<Rightarrow> Inl (serviceMissing name)
           | Some i \<Rightarrow> (case findServices ss n of Inl e \<Rightarrow> Inl e | Inr found \<Rightarrow> Inr ((name, i) # found))))"

section \<open>Creating\<close>

fun checkNew :: "lib \<Rightarrow> gostService list \<Rightarrow> gostNode \<Rightarrow> (string + (gostService \<times> svcInst) list) \<times> gostNode" where
  "checkNew L [] n = (Inr [], n)"
| "checkNew L (c # cs) n =
     (let name = trimSpace (gsName c)
      in if name = [] then (Inl msgServiceName, n)
         else if isRegistered name (nsServices n) then (Inl (serviceExists name), n)
         else (case parseService L (c\<lparr>gsName := name\<rparr>) n of
             (Inl e, c', n') \<Rightarrow> (Inl (''create service '' @ name @ '' failed: '' @ e), n')
           | (Inr i, c', n') \<Rightarrow>
               (case checkNew L cs n' of
                  (Inl e, n'') \<Rightarrow> (Inl e, n'')
                | (Inr ps, n'') \<Rightarrow> (Inr ((c', i) # ps), n''))))"

definition dropRegistered :: "string \<Rightarrow> gostNode \<Rightarrow> gostNode" where
  "dropRegistered name n =
     (case getService name n of None \<Rightarrow> n | Some i \<Rightarrow> closeInst i (unregisterService name n))"

fun registerNew :: "(gostService \<times> svcInst) list \<Rightarrow> string list \<Rightarrow> gostNode \<Rightarrow> outcome \<times> gostNode" where
  "registerNew [] registered n = (Done, n)"
| "registerNew ((c, i) # ps) registered n =
     (case registerService (gsName c) i n of
        None \<Rightarrow> (Failed (serviceExists (gsName c)), fold dropRegistered registered n)
      | Some n' \<Rightarrow> registerNew ps (registered @ [gsName c]) n')"

definition createServices :: "lib \<Rightarrow> gostService list \<Rightarrow> gostNode \<Rightarrow> outcome \<times> gostNode" where
  "createServices L reqs n =
     (if reqs = [] then (Failed msgEmptyServices, n)
      else (case checkNew L reqs n of
          (Inl e, n1) \<Rightarrow> (Failed e, n1)
        | (Inr ps, n1) \<Rightarrow>
            (case registerNew ps [] n1 of
               (Done, n2) \<Rightarrow> (Done, n2\<lparr>cfServices := cfServices n2 @ map fst ps\<rparr>)
             | r \<Rightarrow> r)))"

section \<open>Updating\<close>

text \<open>The old services are all closed and unregistered before the first new one is made. A name
  that occurs twice has no service the second time, and the call of \<open>Close\<close> panics.\<close>

fun stopOld :: "gostService list \<Rightarrow> gostNode \<Rightarrow> outcome \<times> gostNode" where
  "stopOld [] n = (Done, n)"
| "stopOld (c # cs) n =
     (let name = trimSpace (gsName c)
      in case getService name n of
           None \<Rightarrow> (Crashed, n)
         | Some i \<Rightarrow> stopOld cs (unregisterService name (closeInst i n)))"

definition addressInUse :: "string \<Rightarrow> bool" where
  "addressInUse e = strContains e ''address already in use''"

fun parseRetry :: "lib \<Rightarrow> nat \<Rightarrow> gostService \<Rightarrow> gostNode \<Rightarrow> (string + svcInst) \<times> gostService \<times> gostNode" where
  "parseRetry L 0 c n = parseService L c n"
| "parseRetry L (Suc k) c n =
     (case parseService L c n of
        (Inl e, c', n') \<Rightarrow> if addressInUse e then parseRetry L k c' n' else (Inl e, c', n')
      | r \<Rightarrow> r)"

fun startNew :: "lib \<Rightarrow> gostService list \<Rightarrow> gostNode \<Rightarrow> outcome \<times> gostNode" where
  "startNew L [] n = (Done, n)"
| "startNew L (c # cs) n =
     (let name = trimSpace (gsName c)
      in case parseRetry L 2 (c\<lparr>gsName := name\<rparr>) n of
           (Inl e, c', n') \<Rightarrow> (Failed (''create service '' @ name @ '' failed: '' @ e), n')
         | (Inr i, c', n') \<Rightarrow>
             (case registerService name i n' of
                None \<Rightarrow> (Failed (serviceExists name), closeInst i n')
              | Some n'' \<Rightarrow> startNew L cs n''))"

definition replaceConfig :: "gostService \<Rightarrow> gostService list \<Rightarrow> gostService list" where
  "replaceConfig c = updateFirst (\<lambda>e. gsName e = gsName c) (\<lambda>_. sharedDefaults c)"

definition updateServices :: "lib \<Rightarrow> gostService list \<Rightarrow> gostNode \<Rightarrow> outcome \<times> gostNode" where
  "updateServices L reqs n =
     (if reqs = [] then (Failed msgEmptyServices, n)
      else (case findServices (map gsName reqs) n of
          Inl e \<Rightarrow> (Failed e, n)
        | Inr _ \<Rightarrow>
            (case stopOld reqs n of
               (Done, n1) \<Rightarrow>
                 (case startNew L reqs n1 of
                    (Done, n2) \<Rightarrow> (Done, n2\<lparr>cfServices := fold replaceConfig reqs (cfServices n2)\<rparr>)
                  | r \<Rightarrow> r)
             | r \<Rightarrow> r)))"

section \<open>Deleting\<close>

definition removeService :: "string \<times> svcInst \<Rightarrow> gostNode \<Rightarrow> gostNode" where
  "removeService s n = closeInst (snd s) (unregisterService (fst s) n)"

definition deleteServices :: "string list \<Rightarrow> gostNode \<Rightarrow> outcome \<times> gostNode" where
  "deleteServices names n =
     (if names = [] then (Failed msgEmptyServices, n)
      else (case findServices names n of
          Inl e \<Rightarrow> (Failed e, n)
        | Inr found \<Rightarrow>
            (let n1 = fold removeService found n
             in (Done, n1\<lparr>cfServices := filter (\<lambda>c. gsName c \<notin> set (map fst found)) (cfServices n1)\<rparr>))))"

section \<open>Pausing\<close>

definition putKey :: "string \<Rightarrow> string \<Rightarrow> (string \<times> string) list \<Rightarrow> (string \<times> string) list" where
  "putKey k v xs = (if k \<in> set (map fst xs) then map (\<lambda>p. if fst p = k then (k, v) else p) xs else xs @ [(k, v)])"

definition markPaused :: "gostService \<Rightarrow> gostService" where
  "markPaused c = c\<lparr>gsMetadata := Some (putKey ''paused'' ''true''
     (case gsMetadata c of None \<Rightarrow> [] | Some md \<Rightarrow> md))\<rparr>"

definition clearPaused :: "gostService \<Rightarrow> gostService" where
  "clearPaused c = (case gsMetadata c of None \<Rightarrow> c
     | Some md \<Rightarrow> (let md' = filter (\<lambda>p. fst p \<noteq> ''paused'') md
                   in c\<lparr>gsMetadata := (if md' = [] then None else Some md')\<rparr>))"

definition isPaused :: "gostService \<Rightarrow> bool" where
  "isPaused c = (case gsMetadata c of None \<Rightarrow> False | Some md \<Rightarrow> map_of md ''paused'' = Some ''true'')"

definition onConfig :: "(gostService \<Rightarrow> gostService) \<Rightarrow> string \<Rightarrow> gostNode \<Rightarrow> gostNode" where
  "onConfig f name n = n\<lparr>cfServices := updateFirst (\<lambda>c. gsName c = name) f (cfServices n)\<rparr>"

definition firstConfig :: "string \<Rightarrow> gostNode \<Rightarrow> gostService option" where
  "firstConfig name n = find (\<lambda>c. gsName c = name) (cfServices n)"

text \<open>The Go map from names to configurations keeps the last one of a name.\<close>

definition lastConfig :: "string \<Rightarrow> gostNode \<Rightarrow> gostService option" where
  "lastConfig name n = find (\<lambda>c. gsName c = name) (rev (cfServices n))"

definition onLastConfig :: "(gostService \<Rightarrow> gostService) \<Rightarrow> string \<Rightarrow> gostNode \<Rightarrow> gostNode" where
  "onLastConfig f name n = n\<lparr>cfServices := rev (updateFirst (\<lambda>c. gsName c = name) f (rev (cfServices n)))\<rparr>"

definition rollbackPaused :: "lib \<Rightarrow> string \<Rightarrow> gostNode \<Rightarrow> gostNode" where
  "rollbackPaused L name n = (case lastConfig name n of
      None \<Rightarrow> n
    | Some c \<Rightarrow>
        (case parseService L c n of
           (Inl e, c', n') \<Rightarrow> onLastConfig (\<lambda>_. c') name n'
         | (Inr i, c', n') \<Rightarrow>
             (let n1 = onLastConfig (\<lambda>_. c') name n'
              in case registerService name i n1 of
                   None \<Rightarrow> closeInst i n1
                 | Some n2 \<Rightarrow> onConfig clearPaused name n2)))"

fun pauseEach :: "lib \<Rightarrow> (string \<times> svcInst) list \<Rightarrow> string list \<Rightarrow> gostNode \<Rightarrow> outcome \<times> gostNode" where
  "pauseEach L [] paused n = (Done, n)"
| "pauseEach L ((name, i) # ss) paused n =
     (case lastConfig name n of
        None \<Rightarrow> (Failed (configMissing name), fold (rollbackPaused L) paused n)
      | Some c \<Rightarrow> pauseEach L ss (paused @ [name]) (closeInst i n))"

definition pauseServices :: "lib \<Rightarrow> string list \<Rightarrow> gostNode \<Rightarrow> outcome \<times> gostNode" where
  "pauseServices L names n =
     (if names = [] then (Failed msgEmptyServices, n)
      else (case findServices names n of
          Inl e \<Rightarrow> (Failed e, n)
        | Inr found \<Rightarrow>
            (case pauseEach L found [] n of
               (Done, n1) \<Rightarrow> (Done, fold (onConfig markPaused) (map fst found) n1)
             | r \<Rightarrow> r)))"

section \<open>Resuming\<close>

text \<open>Services that are not paused are skipped.\<close>

fun findPaused :: "string list \<Rightarrow> gostNode \<Rightarrow> string + (string \<times> svcInst) list" where
  "findPaused [] n = Inr []"
| "findPaused (s # ss) n =
     (let name = trimSpace s
      in if name = [] then Inl msgServiceName
         else (case getService name n of
             None \<Rightarrow> Inl (serviceMissing name)
           | Some i \<Rightarrow>
               (case firstConfig name n of
                  None \<Rightarrow> Inl (configMissing name)
                | Some c \<Rightarrow>
                    (case findPaused ss n of
                       Inl e \<Rightarrow> Inl e
                     | Inr found \<Rightarrow> Inr (if isPaused c then (name, i) # found else found)))))"

definition rollbackResumed :: "string \<Rightarrow> gostNode \<Rightarrow> gostNode" where
  "rollbackResumed name n = onConfig markPaused name
     (case getService name n of None \<Rightarrow> n | Some i \<Rightarrow> closeInst i n)"

fun resumeEach :: "lib \<Rightarrow> (string \<times> svcInst) list \<Rightarrow> string list \<Rightarrow> gostNode \<Rightarrow> outcome \<times> gostNode" where
  "resumeEach L [] resumed n = (Done, n)"
| "resumeEach L ((name, i) # ss) resumed n =
     (let n0 = unregisterService name (closeInst i n)
      in case firstConfig name n0 of
           None \<Rightarrow> (Crashed, n0)
         | Some c \<Rightarrow>
             (case parseService L c n0 of
                (Inl e, c', n') \<Rightarrow>
                  (Failed (''resume service '' @ name @ '' failed: '' @ e),
                   fold rollbackResumed resumed (onConfig (\<lambda>_. c') name n'))
              | (Inr j, c', n') \<Rightarrow>
                  (let n1 = onConfig (\<lambda>_. c') name n'
                   in case registerService name j n1 of
                        None \<Rightarrow> (Failed (serviceExists name), fold rollbackResumed resumed (closeInst j n1))
                      | Some n2 \<Rightarrow> resumeEach L ss (resumed @ [name]) n2)))"

definition resumeServices :: "lib \<Rightarrow> string list \<Rightarrow> gostNode \<Rightarrow> outcome \<times> gostNode" where
  "resumeServices L names n =
     (if names = [] then (Failed msgEmptyServices, n)
      else (case findPaused names n of
          Inl e \<Rightarrow> (Failed e, n)
        | Inr found \<Rightarrow>
            (case resumeEach L found [] n of
               (Done, n1) \<Rightarrow> (Done, fold (onConfig clearPaused) (map fst found) n1)
             | r \<Rightarrow> r)))"

section \<open>Changing targets\<close>

definition setHop :: "hop option \<Rightarrow> string \<Rightarrow> gostNode \<Rightarrow> gostNode" where
  "setHop h name n = n\<lparr>nsServices := map (\<lambda>(k, i). (k, if k = name then i\<lparr>siHop := h\<rparr> else i)) (nsServices n)\<rparr>"

fun redirect :: "lib \<Rightarrow> (string \<times> gostForwarder option) list \<Rightarrow> gostNode \<Rightarrow> outcome \<times> gostNode" where
  "redirect L [] n = (Done, n)"
| "redirect L ((s, cfg) # rs) n =
     (let name = trimSpace s
      in if name = [] then (Failed msgServiceName, n)
         else (case getService name n of
             None \<Rightarrow> (Failed (serviceMissing name), n)
           | Some i \<Rightarrow>
               if \<not> siForwards i
               then (Failed (''service '' @ name @ '' handler does not support Forward()''), n)
               else if cfg = None
               then (Failed (''service '' @ name @ '': forwarder config is required''), n)
               else (case parseForwarder L cfg of
                   Inl e \<Rightarrow> (Failed (''service '' @ name @ '': parse forwarder failed: '' @ e), n)
                 | Inr h \<Rightarrow> redirect L rs (setHop h name n))))"

definition updateForwarder :: "lib \<Rightarrow> (string \<times> gostForwarder option) list \<Rightarrow> gostNode \<Rightarrow> outcome \<times> gostNode" where
  "updateForwarder L reqs n =
     (if reqs = [] then (Failed msgEmptyServices, n)
      else (case redirect L reqs n of
          (Done, n1) \<Rightarrow> (Done, fold (\<lambda>(s, cfg). onConfig (\<lambda>c. c\<lparr>gsForwarder := cfg\<rparr>) s) reqs n1)
        | r \<Rightarrow> r))"

end
