(* ===== verification/NodeObjects.thy ===== *)
theory NodeObjects
  imports NodeServices
begin

text \<open>
  Chains and limiters of a node (\<open>go-node/x/socket/chain.go\<close>, \<open>limiter.go\<close>), the configuration
  file and the start of the process (\<open>config.go\<close> of the same package,
  \<open>go-node/x/config/loader/loader.go\<close>), and the contract that the three kinds of named objects
  share, the locale \<open>object_store\<close>.
\<close>

section \<open>Chains\<close>

definition objectExists :: "string \<Rightarrow> string \<Rightarrow> string" where
  "objectExists kind name = kind @ '' '' @ name @ '' already exists''"

definition objectMissing :: "string \<Rightarrow> string \<Rightarrow> string" where
  "objectMissing kind name = kind @ '' '' @ name @ '' not found''"

definition createChain :: "lib \<Rightarrow> chainConfig \<Rightarrow> gostNode \<Rightarrow> outcome \<times> gostNode" where
  "createChain L data n =
     (let name = trimSpace (chName data); data = data\<lparr>chName := name\<rparr>
      in if name = [] then (Failed ''chain name is required'', n)
         else if isRegistered name (nsChains n) then (Failed (objectExists ''chain'' name), n)
         else (case libChainErr L data of
             Some e \<Rightarrow> (Failed (''create chain '' @ name @ '' failed: '' @ e), n)
           | None \<Rightarrow>
               (case register name data (nsChains n) of
                  None \<Rightarrow> (Failed (objectExists ''chain'' name), n)
                | Some r \<Rightarrow> (Done, n\<lparr>nsChains := r, cfChains := cfChains n @ [data]\<rparr>))))"

definition updateChain :: "lib \<Rightarrow> string \<Rightarrow> chainConfig \<Rightarrow> gostNode \<Rightarrow> outcome \<times> gostNode" where
  "updateChain L chain data n =
     (let name = trimSpace chain
      in if \<not> isRegistered name (nsChains n) then (Failed (objectMissing ''chain'' name), n)
         else (let data = data\<lparr>chName := name\<rparr>
               in case libChainErr L data of
                    Some e \<Rightarrow> (Failed (''create chain '' @ name @ '' failed: '' @ e), n)
                  | None \<Rightarrow>
                      (let r0 = unregister name (nsChains n)
                       in case register name data r0 of
                            None \<Rightarrow> (Failed (objectExists ''chain'' name), n\<lparr>nsChains := r0\<rparr>)
                          | Some r \<Rightarrow> (Done, n\<lparr>nsChains := r,
                              cfChains := updateFirst (\<lambda>c. chName c = name) (\<lambda>_. data) (cfChains n)\<rparr>))))"

definition deleteChain :: "string \<Rightarrow> gostNode \<Rightarrow> outcome \<times> gostNode" where
  "deleteChain chain n =
     (let name = trimSpace chain
      in if \<not> isRegistered name (nsChains n) then (Failed (objectMissing ''chain'' name), n)
         else (Done, n\<lparr>nsChains := unregister name (nsChains n),
                       cfChains := filter (\<lambda>c. chName c \<noteq> name) (cfChains n)\<rparr>))"

section \<open>Limiters\<close>

text \<open>\<open>ParseTrafficLimiter\<close> returns no error.\<close>

definition createLimiter :: "limiterConfig \<Rightarrow> gostNode \<Rightarrow> outcome \<times> gostNode" where
  "createLimiter data n =
     (let name = trimSpace (limName data); data = data\<lparr>limName := name\<rparr>
      in if name = [] then (Failed ''limiter name is required'', n)
         else if isRegistered name (nsLimiters n) then (Failed (objectExists ''limiter'' name), n)
         else (case register name data (nsLimiters n) of
             None \<Rightarrow> (Failed (objectExists ''limiter'' name), n)
           | Some r \<Rightarrow> (Done, n\<lparr>nsLimiters := r, cfLimiters := cfLimiters n @ [data]\<rparr>)))"

definition updateLimiter :: "string \<Rightarrow> limiterConfig \<Rightarrow> gostNode \<Rightarrow> outcome \<times> gostNode" where
  "updateLimiter limiter data n =
     (let name = trimSpace limiter
      in if \<not> isRegistered name (nsLimiters n) then (Failed (objectMissing ''limiter'' name), n)
         else (let data = data\<lparr>limName := name\<rparr>; r0 = unregister name (nsLimiters n)
               in case register name data r0 of
                    None \<Rightarrow> (Failed (objectExists ''limiter'' name), n\<lparr>nsLimiters := r0\<rparr>)
                  | Some r \<Rightarrow> (Done, n\<lparr>nsLimiters := r,
                      cfLimiters := updateFirst (\<lambda>c. limName c = name) (\<lambda>_. data) (cfLimiters n)\<rparr>)))"

definition deleteLimiter :: "string \<Rightarrow> gostNode \<Rightarrow> outcome \<times> gostNode" where
  "deleteLimiter limiter n =
     (let name = trimSpace limiter
      in if \<not> isRegistered name (nsLimiters n) then (Failed (objectMissing ''limiter'' name), n)
         else (Done, n\<lparr>nsLimiters := unregister name (nsLimiters n),
                       cfLimiters := filter (\<lambda>c. limName c \<noteq> name) (cfLimiters n)\<rparr>))"

section \<open>The configuration file and the start\<close>

definition saveConfig :: "gostNode \<Rightarrow> gostNode" where
  "saveConfig n = n\<lparr>nsDisk := Some \<lparr>fileServices = cfServices n, fileChains = cfChains n,
     fileLimiters = cfLimiters n\<rparr>\<rparr>"

definition errDup :: string where "errDup = ''registry: duplicate object''"

fun loadLimiters :: "limiterConfig list \<Rightarrow> gostNode \<Rightarrow> string + gostNode" where
  "loadLimiters [] n = Inr n"
| "loadLimiters (c # cs) n = (case register (limName c) c (nsLimiters n) of
      None \<Rightarrow> Inl errDup
    | Some r \<Rightarrow> loadLimiters cs (n\<lparr>nsLimiters := r\<rparr>))"

fun loadChains :: "lib \<Rightarrow> chainConfig list \<Rightarrow> gostNode \<Rightarrow> string + gostNode" where
  "loadChains L [] n = Inr n"
| "loadChains L (c # cs) n = (case libChainErr L c of
      Some e \<Rightarrow> Inl e
    | None \<Rightarrow> (case register (chName c) c (nsChains n) of
          None \<Rightarrow> Inl errDup
        | Some r \<Rightarrow> loadChains L cs (n\<lparr>nsChains := r\<rparr>)))"

text \<open>The parser writes its defaults into the configuration that was loaded.\<close>

fun loadServices :: "lib \<Rightarrow> gostService list \<Rightarrow> gostNode \<Rightarrow> string + gostNode" where
  "loadServices L [] n = Inr n"
| "loadServices L (c # cs) n = (case parseService L c n of
      (Inl e, c', n') \<Rightarrow> Inl e
    | (Inr i, c', n') \<Rightarrow> (case registerService (gsName c) i n' of
          None \<Rightarrow> Inl errDup
        | Some n'' \<Rightarrow> loadServices L cs (n''\<lparr>cfServices := cfServices n'' @ [c']\<rparr>)))"

definition freshNode :: "nat \<Rightarrow> gostFile option \<Rightarrow> gostNode" where
  "freshNode tick disk = \<lparr>nsServices = [], nsChains = [], nsLimiters = [], cfServices = [],
     cfChains = [], cfLimiters = [], nsSockets = [], nsNext = 0, nsTick = tick, nsDisk = disk,
     nsBlocked = (0, 0, 0)\<rparr>"

text \<open>A start of the process; \<open>Inl\<close> is an error of \<open>Start\<close>, with which the process exits.\<close>

definition startNode :: "lib \<Rightarrow> gostNode \<Rightarrow> string + gostNode" where
  "startNode L n = (case nsDisk n of
      None \<Rightarrow> Inl ''Config File runtime Not Found''
    | Some f \<Rightarrow>
        (let n0 = (freshNode (nsTick n) (nsDisk n))\<lparr>cfChains := fileChains f, cfLimiters := fileLimiters f\<rparr>
         in case loadLimiters (fileLimiters f) n0 of
              Inl e \<Rightarrow> Inl e
            | Inr n1 \<Rightarrow> (case loadChains L (fileChains f) n1 of
                Inl e \<Rightarrow> Inl e
              | Inr n2 \<Rightarrow> loadServices L (fileServices f) n2)))"

section \<open>The contract of a store of named objects\<close>

text \<open>Creation and deletion of several objects at a time, each all or nothing.\<close>

locale object_store =
  fixes has :: "string \<Rightarrow> 's \<Rightarrow> bool"
    and created :: "'c \<Rightarrow> string set"
    and create :: "'c \<Rightarrow> 's \<Rightarrow> outcome \<times> 's"
    and deleted :: "'d \<Rightarrow> string set"
    and delete :: "'d \<Rightarrow> 's \<Rightarrow> outcome \<times> 's"
  assumes create_done: "fst (create c s) = Done \<Longrightarrow> has x (snd (create c s)) \<longleftrightarrow> x \<in> created c \<or> has x s"
    and create_failed: "fst (create c s) \<noteq> Done \<Longrightarrow> has x (snd (create c s)) = has x s"
    and create_new: "fst (create c s) = Done \<Longrightarrow> x \<in> created c \<Longrightarrow> \<not> has x s"
    and delete_done: "fst (delete d s) = Done \<Longrightarrow> has x (snd (delete d s)) \<longleftrightarrow> x \<notin> deleted d \<and> has x s"
    and delete_failed: "fst (delete d s) \<noteq> Done \<Longrightarrow> snd (delete d s) = s"
    and delete_known: "fst (delete d s) = Done \<Longrightarrow> x \<in> deleted d \<Longrightarrow> has x s"
begin

lemma create_delete:
  assumes "fst (create c s) = Done" "fst (delete d (snd (create c s))) = Done" "deleted d = created c"
  shows "has x (snd (delete d (snd (create c s)))) = has x s"
  using create_done [OF assms(1)] delete_done [OF assms(2)] create_new [OF assms(1)] assms(3) by blast

lemma create_twice:
  assumes "fst (create c s) = Done" "created c \<inter> created c' \<noteq> {}"
  shows "fst (create c' (snd (create c s))) \<noteq> Done"
  using create_done [OF assms(1)] create_new [of c' "snd (create c s)"] assms(2) by blast

lemma delete_twice:
  assumes "fst (delete d s) = Done" "deleted d \<inter> deleted d' \<noteq> {}"
  shows "fst (delete d' (snd (delete d s))) \<noteq> Done"
  using delete_done [OF assms(1)] delete_known [of d' "snd (delete d s)"] assms(2) by blast

text \<open>One missing name saves all the others.\<close>

lemma delete_missing:
  assumes "x \<in> deleted d" "\<not> has x s"
  shows "snd (delete d s) = s"
  using assms delete_known delete_failed by blast

end

lemma chain_store: "object_store (\<lambda>x n. isRegistered x (nsChains n)) (\<lambda>c. {trimSpace (chName c)}) (createChain L)
    (\<lambda>c. {trimSpace c}) deleteChain"
  by unfold_locales (auto simp: createChain_def deleteChain_def Let_def register_def isRegistered_iff map_of_eq_None_iff keys_unregister
      split: option.splits if_splits)

lemma limiter_store: "object_store (\<lambda>x n. isRegistered x (nsLimiters n)) (\<lambda>c. {trimSpace (limName c)}) createLimiter
    (\<lambda>c. {trimSpace c}) deleteLimiter"
  by unfold_locales (auto simp: createLimiter_def deleteLimiter_def Let_def register_def isRegistered_iff map_of_eq_None_iff keys_unregister
      split: option.splits if_splits)

interpretation limiters: object_store "\<lambda>x n. isRegistered x (nsLimiters n)" "\<lambda>c. {trimSpace (limName c)}" createLimiter
    "\<lambda>c. {trimSpace c}" deleteLimiter
  by (rule limiter_store)

interpretation chains: object_store "\<lambda>x n. isRegistered x (nsChains n)" "\<lambda>c. {trimSpace (chName c)}" "createChain L"
    "\<lambda>c. {trimSpace c}" deleteChain for L
  by (rule chain_store)

end
