(* ===== verification/NodeCommands.thy ===== *)
theory NodeCommands
  imports NodeObjects
begin

text \<open>
  The command loop of a node, \<open>routeCommand\<close> and the handlers of
  \<open>go-node/x/socket/websocket_reporter.go\<close>: the body of a command is decoded, the operation is
  carried out, the configuration is written to disk, and the answer is sent back. Bodies are the
  ones the panel builds; a body of another shape is refused by the JSON decoder, whose message is
  the parameter \<open>libParseError\<close>. The Xray commands, the update of the binary and the answer to an
  unknown type do not touch the gost side and are the parameter \<open>libOther\<close>.
\<close>

section \<open>Decoding\<close>

text \<open>\<open>preprocessDurationFields\<close> turns the text of \<open>failTimeout\<close> into nanoseconds; a text that is
  no duration stays, and does not decode.\<close>

definition decodeForwarder :: "lib \<Rightarrow> forwarder \<Rightarrow> gostForwarder option" where
  "decodeForwarder L f = map_option (\<lambda>d. \<lparr>gfName = [], gfHop = [], gfNodes = forNodes f,
     gfStrategy = forStrategy f, gfMaxFails = forMaxFails f, gfFailTimeout = d\<rparr>) (libDuration L (forFailTimeout f))"

definition jsonString :: "string \<Rightarrow> string" where
  "jsonString s = CHR 0x22 # s @ [CHR 0x22]"

definition decodeService :: "lib \<Rightarrow> svcConfig \<Rightarrow> gostService option" where
  "decodeService L c =
     (let build = (\<lambda>f. \<lparr>gsName = svcName c, gsAddr = svcAddr c,
            gsLimiter = (case svcLimiter c of None \<Rightarrow> [] | Some l \<Rightarrow> l),
            gsListener = Some \<lparr>glType = svcListenerType c,
              glMetadata = (if svcListenerKeepAlive c then Some [(''keepAlive'', ''true'')] else None),
              glOther = []\<rparr>,
            gsHandler = Some \<lparr>ghType = svcHandlerType c,
              ghChain = (case svcHandlerChain c of None \<Rightarrow> [] | Some ch \<Rightarrow> ch),
              ghMetadata = None, ghOther = []\<rparr>,
            gsForwarder = f,
            gsMetadata = map_option (\<lambda>i. [(''interface'', jsonString i)]) (svcInterface c),
            gsOther = []\<rparr>)
      in case svcForwarder c of
           None \<Rightarrow> Some (build None)
         | Some f \<Rightarrow> map_option (\<lambda>d. build (Some d)) (decodeForwarder L f))"

fun allSome :: "'a option list \<Rightarrow> 'a list option" where
  "allSome [] = Some []"
| "allSome (x # xs) = (case x of None \<Rightarrow> None | Some y \<Rightarrow> map_option ((#) y) (allSome xs))"

section \<open>Diagnosis\<close>

definition isValidHostname :: "string \<Rightarrow> bool" where
  "isValidHostname h = (h \<noteq> [] \<and> length h \<le> 253 \<and>
     list_all (\<lambda>c. let v = of_char c :: nat in (97 \<le> v \<and> v \<le> 122) \<or> (65 \<le> v \<and> v \<le> 90) \<or>
       (48 \<le> v \<and> v \<le> 57) \<or> c = CHR ''-'' \<or> c = CHR ''.'') h)"

definition msgBadHost :: string where
  "msgBadHost = map char_of [0xE6, 0x97, 0xA0, 0xE6, 0x95, 0x88, 0xE7, 0x9A, 0x84 :: nat] @ ''IP'' @
     map char_of [0xE5, 0x9C, 0xB0, 0xE5, 0x9D, 0x80, 0xE6, 0x88, 0x96, 0xE4, 0xB8, 0xBB, 0xE6, 0x9C,
       0xBA, 0xE5, 0x90, 0x8D :: nat]"

definition msgBadPort :: string where
  "msgBadPort = map char_of [0xE6, 0x97, 0xA0, 0xE6, 0x95, 0x88, 0xE7, 0x9A, 0x84, 0xE7, 0xAB, 0xAF,
     0xE5, 0x8F, 0xA3, 0xE5, 0x8F, 0xB7, 0xEF, 0xBC, 0x8C, 0xE8, 0x8C, 0x83, 0xE5, 0x9B, 0xB4, 0xE5,
     0xBA, 0x94, 0xE4, 0xB8, 0xBA :: nat] @ ''1-65535''"

text \<open>\<open>libPing\<close> is \<open>tcpPingHost\<close>: the average time and the loss, or an error. The times are
  rationals here and \<open>float64\<close> in the code.\<close>

definition handleTcpPing :: "lib \<Rightarrow> string \<Rightarrow> int \<Rightarrow> int \<Rightarrow> int \<Rightarrow> respData" where
  "handleTcpPing L ip port count timeout =
     (if \<not> libIsIP L ip \<and> \<not> isValidHostname ip then RTcpPing False (Some 0) (Some 0) (Some msgBadHost)
      else if port \<le> 0 \<or> 65535 < port then RTcpPing False (Some 0) (Some 0) (Some msgBadPort)
      else (case libPing L ip port (if count \<le> 0 then 4 else count) (if timeout \<le> 0 then 5000 else timeout) of
          Inl e \<Rightarrow> RTcpPing False (Some 0) (Some 0) (Some e)
        | Inr (avg, loss) \<Rightarrow> RTcpPing True (Some avg) (Some loss) None))"

section \<open>Protocol switches\<close>

definition msgBadSwitch :: "string \<Rightarrow> string" where
  "msgBadSwitch key = key @ '' '' @ map char_of [0xE5, 0x8F, 0x96, 0xE5, 0x80, 0xBC, 0xE5, 0xBF, 0x85,
     0xE9, 0xA1, 0xBB, 0xE4, 0xB8, 0xBA :: nat] @ ''0'' @ map char_of [0xE6, 0x88, 0x96 :: nat] @ ''1''"

definition handleSetProtocol :: "int \<Rightarrow> int \<Rightarrow> int \<Rightarrow> gostNode \<Rightarrow> outcome \<times> gostNode" where
  "handleSetProtocol http tls socks n =
     (if http \<noteq> 0 \<and> http \<noteq> 1 then (Failed (msgBadSwitch ''http''), n)
      else if tls \<noteq> 0 \<and> tls \<noteq> 1 then (Failed (msgBadSwitch ''tls''), n)
      else if socks \<noteq> 0 \<and> socks \<noteq> 1 then (Failed (msgBadSwitch ''socks''), n)
      else (Done, n\<lparr>nsBlocked := (http, tls, socks)\<rparr>))"

section \<open>Routing\<close>

datatype nodeCmd =
    NAddService "gostService list"
  | NUpdateService "gostService list"
  | NDeleteService "string list"
  | NPauseService "string list"
  | NResumeService "string list"
  | NUpdateForwarder "(string \<times> gostForwarder option) list"
  | NAddChains chainConfig
  | NUpdateChains string chainConfig
  | NDeleteChains string
  | NAddLimiters limiterConfig
  | NUpdateLimiters string limiterConfig
  | NDeleteLimiters string
  | NSetProtocol int int int
  | NTcpPing string int int int
  | NGetServiceNames
  | NOther

definition gostCommands :: "string list" where
  "gostCommands = [''AddService'', ''UpdateService'', ''DeleteService'', ''PauseService'',
     ''ResumeService'', ''UpdateForwarder'', ''AddChains'', ''UpdateChains'', ''DeleteChains'',
     ''AddLimiters'', ''UpdateLimiters'', ''DeleteLimiters'', ''SetProtocol'', ''TcpPing'']"

text \<open>The ping requests of the panel ask for two attempts of three seconds.\<close>

definition decodeCmd :: "lib \<Rightarrow> cmd \<Rightarrow> nodeCmd option" where
  "decodeCmd L c =
     (let t = cmdType c
      in if t = ''GetServiceNames'' then Some NGetServiceNames
         else if t \<notin> set gostCommands then Some NOther
         else (case cmdData c of
             DServices svcs \<Rightarrow>
               (if t = ''AddService'' then map_option NAddService (allSome (map (decodeService L) svcs))
                else if t = ''UpdateService'' then map_option NUpdateService (allSome (map (decodeService L) svcs))
                else None)
           | DNames names \<Rightarrow>
               (if t = ''DeleteService'' then Some (NDeleteService names)
                else if t = ''PauseService'' then Some (NPauseService names)
                else if t = ''ResumeService'' then Some (NResumeService names) else None)
           | DForwarders fs \<Rightarrow>
               (if t = ''UpdateForwarder''
                then map_option NUpdateForwarder (allSome (map (\<lambda>(s, f). map_option (\<lambda>d. (s, Some d)) (decodeForwarder L f)) fs))
                else None)
           | DChain ch \<Rightarrow> (if t = ''AddChains'' then Some (NAddChains ch) else None)
           | DChainUpdate s ch \<Rightarrow> (if t = ''UpdateChains'' then Some (NUpdateChains s ch) else None)
           | DChainName s \<Rightarrow> (if t = ''DeleteChains'' then Some (NDeleteChains s) else None)
           | DLimiter lm \<Rightarrow> (if t = ''AddLimiters'' then Some (NAddLimiters lm) else None)
           | DLimiterUpdate s lm \<Rightarrow> (if t = ''UpdateLimiters'' then Some (NUpdateLimiters s lm) else None)
           | DLimiterName s \<Rightarrow> (if t = ''DeleteLimiters'' then Some (NDeleteLimiters s) else None)
           | DProtocol h ts so \<Rightarrow> (if t = ''SetProtocol'' then Some (NSetProtocol h ts so) else None)
           | DTcpPing ip port \<Rightarrow> (if t = ''TcpPing'' then Some (NTcpPing ip port 2 3000) else None)
           | _ \<Rightarrow> None))"

definition carryOut :: "lib \<Rightarrow> nodeCmd \<Rightarrow> gostNode \<Rightarrow> outcome \<times> gostNode" where
  "carryOut L c n = (case c of
      NAddService cs \<Rightarrow> createServices L cs n
    | NUpdateService cs \<Rightarrow> updateServices L cs n
    | NDeleteService ss \<Rightarrow> deleteServices ss n
    | NPauseService ss \<Rightarrow> pauseServices L ss n
    | NResumeService ss \<Rightarrow> resumeServices L ss n
    | NUpdateForwarder fs \<Rightarrow> updateForwarder L fs n
    | NAddChains ch \<Rightarrow> createChain L ch n
    | NUpdateChains s ch \<Rightarrow> updateChain L s ch n
    | NDeleteChains s \<Rightarrow> deleteChain s n
    | NAddLimiters lm \<Rightarrow> createLimiter lm n
    | NUpdateLimiters s lm \<Rightarrow> updateLimiter s lm n
    | NDeleteLimiters s \<Rightarrow> deleteLimiter s n
    | NSetProtocol h ts so \<Rightarrow> handleSetProtocol h ts so n
    | NTcpPing ip port count timeout \<Rightarrow> (Done, n)
    | NGetServiceNames \<Rightarrow> (Done, n)
    | NOther \<Rightarrow> (Done, n))"

definition answerData :: "lib \<Rightarrow> nodeCmd \<Rightarrow> gostNode \<Rightarrow> respData option" where
  "answerData L c n = (case c of
      NTcpPing ip port count timeout \<Rightarrow> Some (handleTcpPing L ip port count timeout)
    | NGetServiceNames \<Rightarrow> Some (RServices (getAll (nsServices n)))
    | _ \<Rightarrow> None)"

text \<open>The two characters that every error of a decoder begins with; the rest is a parameter.\<close>

definition msgParse :: string where
  "msgParse = map char_of [0xE8, 0xA7, 0xA3, 0xE6, 0x9E, 0x90 :: nat]"

text \<open>The answer to a command and the state after it. \<open>None\<close> is a panic: the process ends
  before it has written the configuration or answered.\<close>

definition routeCommand :: "lib \<Rightarrow> cmd \<Rightarrow> gostNode \<Rightarrow> gostResponse option \<times> gostNode" where
  "routeCommand L c n =
     (case decodeCmd L c of
        None \<Rightarrow> (Some \<lparr>respMsg = msgParse @ libParseError L c, respData = None\<rparr>, saveConfig n)
      | Some x \<Rightarrow>
          (if x = NOther then (Some (libOther L c), saveConfig n)
           else (case carryOut L x n of
             (Done, n') \<Rightarrow> (Some \<lparr>respMsg = ''OK'', respData = answerData L x n\<rparr>, saveConfig n')
           | (Failed e, n') \<Rightarrow> (Some \<lparr>respMsg = e, respData = None\<rparr>, saveConfig n')
           | (Crashed, n') \<Rightarrow> (None, n'))))"

section \<open>Answers\<close>

text \<open>No error reads \<open>OK\<close>, so the panel takes no failure for a success.\<close>

lemma findServices_error: "findServices ss n = Inl e \<Longrightarrow> hd e = CHR ''s''"
  by (induction ss) (auto simp: Let_def msgServiceName_def serviceMissing_def split: if_splits option.splits sum.splits)

lemma findPaused_error: "findPaused ss n = Inl e \<Longrightarrow> hd e = CHR ''s''"
  by (induction ss) (auto simp: Let_def msgServiceName_def serviceMissing_def configMissing_def
      split: if_splits option.splits sum.splits)

lemma checkNew_error: "checkNew L cs n = (Inl e, n') \<Longrightarrow> hd e = CHR ''s'' \<or> hd e = CHR ''c''"
  by (induction cs arbitrary: n) (auto simp: Let_def msgServiceName_def serviceExists_def
      split: if_splits sum.splits prod.splits)

lemma registerNew_error: "registerNew ps rs n = (Failed e, n') \<Longrightarrow> hd e = CHR ''s''"
  by (induction ps rs n rule: registerNew.induct) (auto simp: serviceExists_def split: option.splits)

lemma stopOld_error: "stopOld cs n = (Failed e, n') \<Longrightarrow> False"
  by (induction cs n rule: stopOld.induct) (auto simp: Let_def split: option.splits)

lemma startNew_error: "startNew L cs n = (Failed e, n') \<Longrightarrow> hd e = CHR ''s'' \<or> hd e = CHR ''c''"
  by (induction cs arbitrary: n) (auto simp: Let_def serviceExists_def split: sum.splits prod.splits option.splits)

lemma pauseEach_error: "pauseEach L ss ps n = (Failed e, n') \<Longrightarrow> hd e = CHR ''s''"
  by (induction ss arbitrary: ps n) (auto simp: configMissing_def split: option.splits)

lemma resumeEach_error: "resumeEach L ss ps n = (Failed e, n') \<Longrightarrow> hd e = CHR ''s'' \<or> hd e = CHR ''r''"
  by (induction ss arbitrary: ps n) (auto simp: Let_def serviceExists_def split: sum.splits prod.splits option.splits)

lemma redirect_error: "redirect L fs n = (Failed e, n') \<Longrightarrow> hd e = CHR ''s''"
  by (induction L fs n rule: redirect.induct) (auto simp: Let_def msgServiceName_def serviceMissing_def
      split: if_splits option.splits sum.splits)

lemma service_errors:
  "createServices L cs n = (Failed e, n') \<Longrightarrow> e \<noteq> ''OK''"
  "updateServices L cs n = (Failed e, n') \<Longrightarrow> e \<noteq> ''OK''"
  "deleteServices ss n = (Failed e, n') \<Longrightarrow> e \<noteq> ''OK''"
  "pauseServices L ss n = (Failed e, n') \<Longrightarrow> e \<noteq> ''OK''"
  "resumeServices L ss n = (Failed e, n') \<Longrightarrow> e \<noteq> ''OK''"
  "updateForwarder L fs n = (Failed e, n') \<Longrightarrow> e \<noteq> ''OK''"
  by (auto simp: createServices_def updateServices_def deleteServices_def pauseServices_def resumeServices_def
      updateForwarder_def msgEmptyServices_def Let_def split: if_splits sum.splits prod.splits outcome.splits
      dest!: checkNew_error registerNew_error findServices_error stopOld_error startNew_error pauseEach_error
        resumeEach_error redirect_error findPaused_error)

lemma object_errors:
  "createChain L ch n = (Failed e, n') \<Longrightarrow> e \<noteq> ''OK''" "updateChain L s ch n = (Failed e, n') \<Longrightarrow> e \<noteq> ''OK''"
  "deleteChain s n = (Failed e, n') \<Longrightarrow> e \<noteq> ''OK''" "createLimiter lm n = (Failed e, n') \<Longrightarrow> e \<noteq> ''OK''"
  "updateLimiter s lm n = (Failed e, n') \<Longrightarrow> e \<noteq> ''OK''" "deleteLimiter s n = (Failed e, n') \<Longrightarrow> e \<noteq> ''OK''"
  "handleSetProtocol h t b n = (Failed e, n') \<Longrightarrow> e \<noteq> ''OK''"
  by (auto simp: createChain_def updateChain_def deleteChain_def createLimiter_def updateLimiter_def deleteLimiter_def
      handleSetProtocol_def objectExists_def objectMissing_def msgBadSwitch_def Let_def split: if_splits option.splits)

lemma carryOut_error: "carryOut L x n = (Failed e, n') \<Longrightarrow> e \<noteq> ''OK''"
  by (cases x) (simp_all add: carryOut_def service_errors object_errors)

lemma msgParse_OK [simp]: "msgParse @ s \<noteq> ''OK''"
  by (simp add: msgParse_def)

text \<open>What an answer says of the operation.\<close>

lemma route_cases:
  assumes "routeCommand L c n = (Some r, n')" "decodeCmd L c = Some x" "x \<noteq> NOther"
  obtains n1 where "carryOut L x n = (Done, n1)" "n' = saveConfig n1" "respMsg r = ''OK''" "respData r = answerData L x n"
  | e n1 where "carryOut L x n = (Failed e, n1)" "n' = saveConfig n1" "respMsg r = e" "e \<noteq> ''OK''" "respData r = None"
  using assms carryOut_error [of L x n] by (auto simp: routeCommand_def split: prod.splits outcome.splits)

end
