(* ===== verification/NodeInv.thy ===== *)
theory NodeInv
  imports NodeCommands Addresses
begin

text \<open>
  Invariants of a node. The locale \<open>node_invariant\<close> has as its laws that the primitive steps (parsing,
  closing, registering, unregistering, editing the configuration) keep a predicate, and shows once
  that then every service command keeps it. It is interpreted for the shape of the registry and for
  a socket that no service owns.
\<close>

section \<open>What parsing does\<close>

lemma parseService_frame:
  assumes "parseService L c n = (r, c', n')"
  shows "nsServices n' = nsServices n" "nsChains n' = nsChains n" "nsLimiters n' = nsLimiters n"
    "cfServices n' = cfServices n" "cfChains n' = cfChains n" "cfLimiters n' = cfLimiters n"
    "nsDisk n' = nsDisk n" "nsBlocked n' = nsBlocked n"
    "gsName c' = gsName c" "gsAddr c' = gsAddr c" "gsMetadata c' = gsMetadata c" "gsForwarder c' = gsForwarder c"
  using assms
  by (auto simp: parseService_def parseHandler_def Let_def withDefaults_def listenerMetadata_def handlerMetadata_def
      split: option.splits if_splits sum.splits)

lemma parseService_sockets:
  assumes "parseService L c n = (r, c', n')"
  shows "nsSockets n' = nsSockets n \<and> nsNext n' = nsNext n \<and> (\<exists>e. r = Inl e)
    \<or> nsSockets n' = nsSockets n @ [(nsNext n, glType (listenerOf c), gsAddr c)] \<and> nsNext n' = nsNext n + 1"
  using assms
  by (auto simp: parseService_def parseHandler_def Let_def split: option.splits if_splits sum.splits)

lemma parseService_inst:
  assumes "parseService L c n = (Inr i, c', n')"
  shows "siName i = gsName c" "siSocket i = nsNext n"
    "nsSockets n' = nsSockets n @ [(nsNext n, glType (listenerOf c), gsAddr c)]" "nsNext n' = nsNext n + 1"
  using assms
  by (auto simp: parseService_def parseHandler_def Let_def withDefaults_def listenerMetadata_def
      split: option.splits if_splits sum.splits)

lemmas node_steps = closeInst_def unregisterService_def registerService_def getService_def

lemma registerService_Some: "name \<noteq> [] \<Longrightarrow> registerService name i n = Some n' \<longleftrightarrow>
    \<not> isRegistered name (nsServices n) \<and> n' = n\<lparr>nsServices := nsServices n @ [(name, i)]\<rparr>"
  by (auto simp: registerService_def register_Some)

lemma parseService_next: "parseService L c n = (r, c', n') \<Longrightarrow> nsNext n \<le> nsNext n'"
  using parseService_sockets [of L c n r c' n'] by auto

lemma next_simps [simp]:
  "nsNext (closeInst i n) = nsNext n" "nsNext (unregisterService x n) = nsNext n" "nsNext (onConfig f x n) = nsNext n"
  "nsNext (onLastConfig f x n) = nsNext n" "nsNext (setHop h x n) = nsNext n"
  by (simp_all add: closeInst_def unregisterService_def onConfig_def onLastConfig_def setHop_def split: option.split)

lemma registerService_next: "registerService x i n = Some n' \<Longrightarrow> nsNext n' = nsNext n"
  by (auto simp: registerService_def)

section \<open>The contract of an invariant\<close>

text \<open>\<open>good k i\<close> is what is known of an instance in a process that has opened \<open>k\<close> sockets.\<close>

locale node_invariant =
  fixes L :: lib and I :: "gostNode \<Rightarrow> bool" and good :: "nat \<Rightarrow> svcInst \<Rightarrow> bool"
  assumes parse: "I n \<Longrightarrow> parseService L c n = (r, c', n') \<Longrightarrow> I n' \<and> (\<forall>i. r = Inr i \<longrightarrow> good (nsNext n') i)"
    and good_mono: "good k i \<Longrightarrow> k \<le> k' \<Longrightarrow> good k' i"
    and close: "I n \<Longrightarrow> good (nsNext n) i \<Longrightarrow> I (closeInst i n)"
    and unreg: "I n \<Longrightarrow> I (unregisterService name n)"
    and reg: "I n \<Longrightarrow> good (nsNext n) i \<Longrightarrow> siName i = name \<Longrightarrow> name \<noteq> [] \<Longrightarrow> trimSpace name = name
      \<Longrightarrow> registerService name i n = Some n' \<Longrightarrow> I n'"
    and registered: "I n \<Longrightarrow> getService name n = Some i \<Longrightarrow> good (nsNext n) i"
    and config: "I n \<Longrightarrow> I (n\<lparr>cfServices := cs\<rparr>)"
    and hop: "I n \<Longrightarrow> I (setHop h name n)"
begin

lemma parseD: "parseService L c n = (r, c', n') \<Longrightarrow> I n \<Longrightarrow> I n'"
  using parse by blast

lemma parse_good: "parseService L c n = (Inr i, c', n') \<Longrightarrow> I n \<Longrightarrow> good (nsNext n') i"
  using parse by blast

lemma found_good: "findServices ss n = Inr found \<Longrightarrow> I n
    \<Longrightarrow> \<forall>(name, i) \<in> set found. good (nsNext n) i \<and> name \<noteq> [] \<and> trimSpace name = name"
  by (induction ss arbitrary: found) (auto simp: Let_def dest: registered split: if_splits option.splits sum.splits)

lemma paused_good: "findPaused ss n = Inr found \<Longrightarrow> I n
    \<Longrightarrow> \<forall>(name, i) \<in> set found. good (nsNext n) i \<and> name \<noteq> [] \<and> trimSpace name = name"
  by (induction ss arbitrary: found) (auto simp: Let_def dest: registered split: if_splits option.splits sum.splits)

lemma close_registered: "I n \<Longrightarrow> getService name n = Some i \<Longrightarrow> I (closeInst i n)"
  using close registered by blast

lemma foldI: "(\<And>x n. x \<in> set xs \<Longrightarrow> I n \<Longrightarrow> I (f x n)) \<Longrightarrow> I n \<Longrightarrow> I (fold f xs n)"
  by (induction xs arbitrary: n) auto

lemma onConfigI: "I n \<Longrightarrow> I (onConfig f name n)"
  by (simp add: onConfig_def config)

lemma onLastConfigI: "I n \<Longrightarrow> I (onLastConfig f name n)"
  by (simp add: onLastConfig_def config)

lemma checkNew_keeps: "checkNew L cs n = (r, n') \<Longrightarrow> I n \<Longrightarrow> I n' \<and> nsNext n \<le> nsNext n' \<and>
    (\<forall>ps. r = Inr ps \<longrightarrow> (\<forall>(c, i) \<in> set ps. good (nsNext n') i \<and> siName i = gsName c \<and> gsName c \<noteq> [] \<and> trimSpace (gsName c) = gsName c))"
proof (induction cs arbitrary: n r n')
  case (Cons c cs)
  let ?name = "trimSpace (gsName c)"
  show ?case
  proof (cases "?name = [] \<or> isRegistered ?name (nsServices n)")
    case True
    with Cons.prems show ?thesis by (auto simp: Let_def split: if_splits)
  next
    case False
    obtain q c' n1 where p: "parseService L (c\<lparr>gsName := ?name\<rparr>) n = (q, c', n1)" by (metis prod_cases3)
    note keep = parseD [OF p Cons.prems(2)] and names = parseService_frame(9) [OF p] and more = parseService_next [OF p]
    show ?thesis
    proof (cases q)
      case (Inl e)
      with more p False keep Cons.prems show ?thesis by (auto simp: Let_def)
    next
      case (Inr i)
      obtain q2 n2 where rest: "checkNew L cs n1 = (q2, n2)" by fastforce
      note ih = Cons.IH [OF rest keep]
      have "good (nsNext n1) i" "siName i = ?name"
        using p Inr Cons.prems(2) by (auto dest: parse_good parseService_inst(1))
      then have "good (nsNext n2) i" using ih good_mono by blast
      show ?thesis
        using p False names more rest Inr Cons.prems ih \<open>good (nsNext n2) i\<close> \<open>siName i = ?name\<close>
        by (cases q2) (auto simp: Let_def)
    qed
  qed
qed simp

lemma dropRegistered_keeps: "I n \<Longrightarrow> I (dropRegistered name n)"
  by (auto simp: dropRegistered_def registered intro!: close unreg split: option.splits)

lemma registerNew_keeps:
  "I n \<Longrightarrow> \<forall>(c, i) \<in> set ps. good (nsNext n) i \<and> siName i = gsName c \<and> gsName c \<noteq> [] \<and> trimSpace (gsName c) = gsName c
    \<Longrightarrow> I (snd (registerNew ps rs n))"
proof (induction ps rs n rule: registerNew.induct)
  case (2 c i ps rs n)
  show ?case
  proof (cases "registerService (gsName c) i n")
    case None
    then show ?thesis using 2(2) by (auto intro!: foldI dropRegistered_keeps)
  next
    case (Some n')
    have "I n'" using reg [OF 2(2) _ _ _ _ Some] 2(3) by auto
    moreover have "nsNext n' = nsNext n" using Some by (rule registerService_next)
    ultimately show ?thesis using 2(1) [OF Some] 2(3) Some by simp
  qed
qed simp

lemma create_keeps: "I n \<Longrightarrow> I (snd (createServices L cs n))"
proof -
  assume n: "I n"
  obtain r n1 where c: "checkNew L cs n = (r, n1)" by fastforce
  note k = checkNew_keeps [OF c n]
  show ?thesis
  proof (cases r)
    case (Inl e)
    with c k n show ?thesis by (simp add: createServices_def)
  next
    case (Inr ps)
    obtain oc n2 where o2: "registerNew ps [] n1 = (oc, n2)" by fastforce
    then have "I n2" using registerNew_keeps [of n1 ps "[]"] k Inr by simp
    with c Inr o2 n show ?thesis by (cases oc) (auto simp: createServices_def intro: config)
  qed
qed

lemma stopOld_keeps: "I n \<Longrightarrow> I (snd (stopOld cs n))"
  by (induction cs n rule: stopOld.induct) (auto simp: Let_def intro: unreg close_registered split: option.splits)

lemma parseRetry_keeps: "parseRetry L k c n = (r, c', n') \<Longrightarrow> I n
    \<Longrightarrow> I n' \<and> gsName c' = gsName c \<and> (\<forall>i. r = Inr i \<longrightarrow> good (nsNext n') i \<and> siName i = gsName c)"
proof (induction k arbitrary: c n)
  case 0
  then show ?case by (auto dest: parseD parse_good parseService_inst(1) parseService_frame(9))
next
  case (Suc k)
  obtain q c1 n1 where p: "parseService L c n = (q, c1, n1)" by (metis prod_cases3)
  note keep = parseD [OF p Suc.prems(2)] and name = parseService_frame(9) [OF p]
  show ?case
  proof (cases q)
    case (Inl e)
    then show ?thesis using Suc.IH [of c1 n1] Suc.prems p keep name by (auto split: if_splits)
  next
    case (Inr i)
    then show ?thesis using Suc.prems p keep name parse_good [of c n i c1 n1] parseService_inst(1) [of L c n i c1 n1]
      by auto
  qed
qed

lemma startNew_keeps: "I n \<Longrightarrow> \<forall>c \<in> set cs. trimSpace (gsName c) \<noteq> [] \<Longrightarrow> I (snd (startNew L cs n))"
proof (induction cs arbitrary: n)
  case (Cons c cs)
  let ?name = "trimSpace (gsName c)"
  obtain q c' n1 where p: "parseRetry L 2 (c\<lparr>gsName := ?name\<rparr>) n = (q, c', n1)" by (metis prod_cases3)
  note k = parseRetry_keeps [OF p Cons.prems(1)]
  show ?case
  proof (cases q)
    case (Inr i)
    have "I n2" if "registerService ?name i n1 = Some n2" for n2
      using reg [of n1 i ?name n2] that k Inr Cons.prems(2) by auto
    with p k Inr Cons show ?thesis by (auto simp: Let_def close split: option.splits)
  qed (use p k in \<open>auto simp: Let_def\<close>)
qed simp

lemma findServices_names: "findServices ss n = Inr found \<Longrightarrow> \<forall>s \<in> set ss. trimSpace s \<noteq> []"
  by (induction ss arbitrary: found) (auto simp: Let_def split: if_splits option.splits sum.splits)

lemma update_keeps: "I n \<Longrightarrow> I (snd (updateServices L cs n))"
proof -
  assume n: "I n"
  show ?thesis
  proof (cases "findServices (map gsName cs) n")
    case (Inr found)
    obtain oc n1 where s: "stopOld cs n = (oc, n1)" by fastforce
    have n1: "I n1" using stopOld_keeps [OF n, of cs] s by simp
    obtain oc2 n2 where t: "startNew L cs n1 = (oc2, n2)" by fastforce
    have n2: "I n2" using startNew_keeps [OF n1, of cs] findServices_names [OF Inr] t by auto
    show ?thesis using Inr s t n n1 n2 by (auto simp: updateServices_def config split: outcome.splits)
  qed (use n in \<open>auto simp: updateServices_def\<close>)
qed

lemma removeAll_keeps: "I n \<Longrightarrow> \<forall>(x, i) \<in> set found. good (nsNext n) i \<Longrightarrow> I (fold removeService found n)"
  by (induction found arbitrary: n) (auto simp: removeService_def close unreg)

lemma delete_keeps: "I n \<Longrightarrow> I (snd (deleteServices ss n))"
proof -
  assume n: "I n"
  show ?thesis
  proof (cases "findServices ss n")
    case (Inr found)
    have "I (fold removeService found n)"
      using found_good [OF Inr n] by (intro removeAll_keeps n) auto
    with Inr n show ?thesis by (auto simp: deleteServices_def Let_def intro: config)
  qed (use n in \<open>auto simp: deleteServices_def\<close>)
qed

lemma find_name: "find (\<lambda>c. gsName c = name) cs = Some c \<Longrightarrow> gsName c = name"
  by (auto simp: find_Some_iff)

lemma rollbackPaused_keeps: "I n \<Longrightarrow> name \<noteq> [] \<Longrightarrow> trimSpace name = name \<Longrightarrow> I (rollbackPaused L name n)"
proof -
  assume n: "I n" "name \<noteq> []" "trimSpace name = name"
  show ?thesis
  proof (cases "lastConfig name n")
    case (Some c)
    then have name: "gsName c = name" unfolding lastConfig_def by (rule find_name)
    obtain q c' n1 where p: "parseService L c n = (q, c', n1)" by (metis prod_cases3)
    note n1 = parseD [OF p n(1)]
    show ?thesis
    proof (cases q)
      case (Inr i)
      have i: "good (nsNext n1) i" "siName i = name" using p Inr n(1) name parse_good parseService_inst(1) by blast+
      let ?n1 = "onLastConfig (\<lambda>_. c') name n1"
      have l: "I ?n1" using n1 by (rule onLastConfigI)
      have "I n2" if "registerService name i ?n1 = Some n2" for n2
        using reg [OF l _ i(2) n(2,3) that] i(1) by simp
      with l show ?thesis using Some p Inr i(1)
        by (simp add: rollbackPaused_def Let_def onConfigI close split: option.split)
    qed (use Some p n1 in \<open>auto simp: rollbackPaused_def intro: onLastConfigI\<close>)
  qed (use n in \<open>simp add: rollbackPaused_def\<close>)
qed

lemma pauseEach_keeps: "I n \<Longrightarrow> \<forall>(name, i) \<in> set ss. good (nsNext n) i \<and> name \<noteq> [] \<and> trimSpace name = name
    \<Longrightarrow> \<forall>name \<in> set ps. name \<noteq> [] \<and> trimSpace name = name \<Longrightarrow> I (snd (pauseEach L ss ps n))"
proof (induction ss arbitrary: ps n)
  case (Cons s ss)
  obtain name i where s: "s = (name, i)" by fastforce
  have "I (fold (rollbackPaused L) ps n)" using Cons.prems by (intro foldI rollbackPaused_keeps) auto
  moreover have "I (snd (pauseEach L ss (ps @ [name]) (closeInst i n)))"
    using Cons.prems s by (intro Cons.IH close) auto
  ultimately show ?case using s by (simp split: option.split)
qed simp

lemma pause_keeps: "I n \<Longrightarrow> I (snd (pauseServices L ss n))"
proof -
  assume n: "I n"
  show ?thesis
  proof (cases "findServices ss n")
    case (Inr found)
    have "I (snd (pauseEach L found [] n))" using found_good [OF Inr n] n by (intro pauseEach_keeps) auto
    with Inr n show ?thesis
      by (cases "pauseEach L found [] n") (auto simp: pauseServices_def intro!: foldI onConfigI split: outcome.splits)
  qed (use n in \<open>auto simp: pauseServices_def\<close>)
qed

lemma rollbackResumed_keeps: "I n \<Longrightarrow> I (rollbackResumed name n)"
  by (auto simp: rollbackResumed_def intro!: onConfigI intro: close_registered split: option.splits)

lemma resumeEach_keeps: "I n \<Longrightarrow> \<forall>(name, i) \<in> set ss. good (nsNext n) i \<and> name \<noteq> [] \<and> trimSpace name = name
    \<Longrightarrow> I (snd (resumeEach L ss ps n))"
proof (induction ss arbitrary: ps n)
  case (Cons s ss)
  obtain name i where s: "s = (name, i)" by fastforce
  let ?n0 = "unregisterService name (closeInst i n)"
  have n0: "I ?n0" using Cons.prems s by (auto intro: unreg close)
  show ?case
  proof (cases "firstConfig name ?n0")
    case (Some c)
    then have name: "gsName c = name" unfolding firstConfig_def by (rule find_name)
    obtain q c' n1 where p: "parseService L c ?n0 = (q, c', n1)" by (metis prod_cases3)
    note n1 = parseD [OF p n0]
    show ?thesis
    proof (cases q)
      case (Inr j)
      have j: "good (nsNext n1) j" "siName j = name" using p Inr n0 name parse_good parseService_inst(1) by blast+
      have "I n2" if "registerService name j (onConfig (\<lambda>_. c') name n1) = Some n2" for n2
        using reg [OF onConfigI [OF n1] _ j(2) _ _ that] j(1) Cons.prems(2) s by auto
      moreover have "nsNext n2 = nsNext n1" if "registerService name j (onConfig (\<lambda>_. c') name n1) = Some n2" for n2
        using registerService_next [OF that] by simp
      moreover have "\<forall>(x, k) \<in> set ss. good (nsNext n1) k \<and> x \<noteq> [] \<and> trimSpace x = x"
        using Cons.prems(2) parseService_next [OF p] good_mono by fastforce
      ultimately show ?thesis using s Some p Inr n1 j Cons.IH
        by (auto simp: Let_def intro!: foldI rollbackResumed_keeps close onConfigI split: option.splits)
    qed (use s Some p n1 in \<open>auto simp: Let_def intro!: foldI rollbackResumed_keeps onConfigI\<close>)
  qed (use s n0 in \<open>simp add: Let_def\<close>)
qed simp

lemma resume_keeps: "I n \<Longrightarrow> I (snd (resumeServices L ss n))"
proof -
  assume n: "I n"
  show ?thesis
  proof (cases "findPaused ss n")
    case (Inr found)
    have "I (snd (resumeEach L found [] n))" using paused_good [OF Inr n] n by (intro resumeEach_keeps) auto
    with Inr n show ?thesis
      by (cases "resumeEach L found [] n") (auto simp: resumeServices_def intro!: foldI onConfigI split: outcome.splits)
  qed (use n in \<open>auto simp: resumeServices_def\<close>)
qed

lemma redirect_keeps: "I n \<Longrightarrow> I (snd (redirect L fs n))"
  by (induction L fs n rule: redirect.induct) (auto simp: Let_def hop split: option.splits sum.splits)

lemma forwarder_keeps: "I n \<Longrightarrow> I (snd (updateForwarder L fs n))"
  using redirect_keeps [of n fs]
  by (cases "redirect L fs n") (auto simp: updateForwarder_def intro!: foldI onConfigI split: outcome.splits)

end

text \<open>An invariant that does not look at chains, limiters and switches holds under every command.\<close>

locale full_invariant = node_invariant +
  assumes others: "I n \<Longrightarrow> I (n\<lparr>nsChains := rc, cfChains := cc, nsLimiters := rl, cfLimiters := cl, nsBlocked := b\<rparr>)"
begin

lemma chains_only: "I n \<Longrightarrow> I (n\<lparr>nsChains := rc, cfChains := cc\<rparr>)" "I n \<Longrightarrow> I (n\<lparr>nsChains := rc\<rparr>)"
    "I n \<Longrightarrow> I (n\<lparr>nsLimiters := rl, cfLimiters := cl\<rparr>)" "I n \<Longrightarrow> I (n\<lparr>nsLimiters := rl\<rparr>)" "I n \<Longrightarrow> I (n\<lparr>nsBlocked := b\<rparr>)"
  using others [where n = n and rc = rc and cc = cc and rl = "nsLimiters n" and cl = "cfLimiters n" and b = "nsBlocked n"]
    others [where n = n and rc = rc and cc = "cfChains n" and rl = "nsLimiters n" and cl = "cfLimiters n" and b = "nsBlocked n"]
    others [where n = n and rc = "nsChains n" and cc = "cfChains n" and rl = rl and cl = cl and b = "nsBlocked n"]
    others [where n = n and rc = "nsChains n" and cc = "cfChains n" and rl = rl and cl = "cfLimiters n" and b = "nsBlocked n"]
    others [where n = n and rc = "nsChains n" and cc = "cfChains n" and rl = "nsLimiters n" and cl = "cfLimiters n" and b = b]
  by simp_all

lemma object_keeps:
  "I n \<Longrightarrow> I (snd (createChain L ch n))" "I n \<Longrightarrow> I (snd (updateChain L s ch n))" "I n \<Longrightarrow> I (snd (deleteChain s n))"
  "I n \<Longrightarrow> I (snd (createLimiter lm n))" "I n \<Longrightarrow> I (snd (updateLimiter s lm n))" "I n \<Longrightarrow> I (snd (deleteLimiter s n))"
  "I n \<Longrightarrow> I (snd (handleSetProtocol h t b n))"
  by (auto simp: createChain_def updateChain_def deleteChain_def createLimiter_def updateLimiter_def
      deleteLimiter_def handleSetProtocol_def Let_def chains_only split: option.splits)

text \<open>Every command keeps the invariant.\<close>

lemma carryOut_keeps: "I n \<Longrightarrow> I (snd (carryOut L c n))"
  by (cases c) (simp_all add: carryOut_def create_keeps update_keeps delete_keeps pause_keeps resume_keeps
      forwarder_keeps object_keeps)

end

end
