(* ===== verification/NodeNames.thy ===== *)
theory NodeNames
  imports NodeInv
begin

text \<open>
  Which names the registry and the configuration of a node have after each service command, and
  the shape of a node that every command and every start keeps.
\<close>

abbreviation regNames :: "gostNode \<Rightarrow> string list" where "regNames n \<equiv> map fst (nsServices n)"
abbreviation cfNames :: "gostNode \<Rightarrow> string list" where "cfNames n \<equiv> map gsName (cfServices n)"
abbreviation trimmedNames :: "gostService list \<Rightarrow> string list" where "trimmedNames cs \<equiv> map (\<lambda>c. trimSpace (gsName c)) cs"

lemma isRegistered_names: "isRegistered x r \<longleftrightarrow> x \<in> set (map fst r)"
  by (simp add: isRegistered_iff)

lemma regNames_unregister: "regNames (unregisterService x n) = filter (\<lambda>m. m \<noteq> x) (regNames n)"
proof (cases "map_of (nsServices n) x")
  case None
  then have "x \<notin> set (regNames n)" by (simp add: map_of_eq_None_iff)
  then have "filter (\<lambda>m. m \<noteq> x) (regNames n) = regNames n" by (intro filter_True) auto
  with None show ?thesis by (simp add: unregisterService_def)
qed (simp add: unregisterService_def closeInst_def names_unregister)

lemma regKeys_unregister [simp]: "fst ` set (nsServices (unregisterService x n)) = fst ` set (nsServices n) - {x}"
  using arg_cong [OF regNames_unregister [of x n], of set] by auto

lemma regNames_simps [simp]:
  "nsServices (closeInst i n) = nsServices n" "cfServices (closeInst i n) = cfServices n"
  "cfServices (unregisterService x n) = cfServices n"
  "regNames (setHop h x n) = regNames n" "cfServices (setHop h x n) = cfServices n"
  "nsServices (onConfig f x n) = nsServices n" "nsServices (onLastConfig f x n) = nsServices n"
  by (simp_all add: closeInst_def unregisterService_def setHop_def onConfig_def onLastConfig_def
      comp_def case_prod_unfold split: option.split)

lemma getService_iff: "getService x n \<noteq> None \<longleftrightarrow> x \<noteq> [] \<and> x \<in> set (regNames n)"
  by (simp add: getService_def getObject_def map_of_eq_None_iff del: not_None_eq)

lemma findServices_Inr: "findServices ss n = Inr found \<Longrightarrow> map fst found = map trimSpace ss
    \<and> (\<forall>(x, i) \<in> set found. x \<noteq> [] \<and> getService x n = Some i)"
  by (induction ss arbitrary: found) (auto simp: Let_def split: if_splits option.splits sum.splits)

lemma findServices_ok: "(\<exists>found. findServices ss n = Inr found) \<longleftrightarrow>
    (\<forall>s \<in> set ss. trimSpace s \<noteq> [] \<and> trimSpace s \<in> set (regNames n))"
proof (induction ss)
  case (Cons s ss)
  show ?case
  proof (cases "trimSpace s \<noteq> [] \<and> getService (trimSpace s) n \<noteq> None")
    case True
    then have "trimSpace s \<noteq> [] \<and> trimSpace s \<in> set (regNames n)" using getService_iff by blast
    with True Cons show ?thesis by (auto simp: Let_def split: sum.splits)
  next
    case False
    then show ?thesis using getService_iff [of "trimSpace s" n] by (auto simp: Let_def)
  qed
qed simp

section \<open>Creating\<close>

lemma checkNew_frame: "checkNew L cs n = (r, n') \<Longrightarrow> nsServices n' = nsServices n \<and> cfServices n' = cfServices n"
proof (induction cs arbitrary: n r n')
  case (Cons c cs)
  obtain q c' n1 where p: "parseService L (c\<lparr>gsName := trimSpace (gsName c)\<rparr>) n = (q, c', n1)" by (metis prod_cases3)
  obtain q2 n2 where rest: "checkNew L cs n1 = (q2, n2)" by fastforce
  show ?case using Cons.prems p rest Cons.IH [OF rest] parseService_frame(1,4) [OF p]
    by (auto simp: Let_def split: if_splits sum.splits)
qed simp

lemma checkNew_names: "checkNew L cs n = (Inr ps, n') \<Longrightarrow> map (gsName \<circ> fst) ps = trimmedNames cs
    \<and> (\<forall>x \<in> set (trimmedNames cs). x \<noteq> [] \<and> x \<notin> set (regNames n))"
proof (induction cs arbitrary: n ps n')
  case (Cons c cs)
  obtain q c' n1 where p: "parseService L (c\<lparr>gsName := trimSpace (gsName c)\<rparr>) n = (q, c', n1)" by (metis prod_cases3)
  obtain q2 n2 where rest: "checkNew L cs n1 = (q2, n2)" by fastforce
  note f = parseService_frame(1,9) [OF p]
  show ?case using Cons.prems p rest Cons.IH [of n1 _ n2] f
    by (auto simp: Let_def isRegistered_names split: if_splits sum.splits)
qed simp

lemma registerNew_Done: "registerNew ps rs n = (Done, n') \<Longrightarrow> \<forall>x \<in> set (map (gsName \<circ> fst) ps). x \<noteq> []
    \<Longrightarrow> nsServices n' = nsServices n @ map (\<lambda>(c, i). (gsName c, i)) ps \<and> cfServices n' = cfServices n"
  by (induction ps rs n rule: registerNew.induct) (auto simp: registerService_Some split: option.splits)

lemma dropRegistered_names: "x \<noteq> [] \<Longrightarrow> nsServices (dropRegistered x n) = filter (\<lambda>p. fst p \<noteq> x) (nsServices n)"
  by (auto simp: dropRegistered_def node_steps getObject_def unregister_def map_of_eq_None_iff filter_id_conv split: option.splits)
    (metis (mono_tags, lifting) filter_True fst_conv image_eqI)

lemma dropRegistered_frame: "cfServices (dropRegistered x n) = cfServices n"
  by (simp add: dropRegistered_def split: option.splits)

lemma drop_fold: "\<forall>x \<in> set xs. x \<noteq> [] \<Longrightarrow>
    nsServices (fold dropRegistered xs n) = filter (\<lambda>p. fst p \<notin> set xs) (nsServices n)
    \<and> cfServices (fold dropRegistered xs n) = cfServices n"
  by (induction xs arbitrary: n) (auto simp: dropRegistered_names dropRegistered_frame intro!: filter_cong)

lemma registerNew_failed: "registerNew ps rs n = (oc, n') \<Longrightarrow> oc \<noteq> Done \<Longrightarrow> nsServices n = r0 @ r1 \<Longrightarrow> map fst r1 = rs
    \<Longrightarrow> set (map fst r0) \<inter> set rs = {} \<Longrightarrow> \<forall>x \<in> set (map (gsName \<circ> fst) ps). x \<noteq> [] \<and> x \<notin> set (map fst r0)
    \<Longrightarrow> \<forall>x \<in> set rs. x \<noteq> [] \<Longrightarrow> nsServices n' = r0 \<and> cfServices n' = cfServices n \<and> (\<exists>e. oc = Failed e)"
proof (induction ps rs n arbitrary: r1 rule: registerNew.induct)
  case (2 c i ps rs n)
  show ?case
  proof (cases "registerService (gsName c) i n")
    case None
    have "fst p \<in> set rs" if "p \<in> set r1" for p using that "2.prems"(4) by auto
    then have "filter (\<lambda>p. fst p \<notin> set rs) r1 = []" by (simp add: filter_empty_conv)
    moreover have "filter (\<lambda>p. fst p \<notin> set rs) r0 = r0" using "2.prems"(5) by (auto simp: filter_id_conv)
    ultimately have "filter (\<lambda>p. fst p \<notin> set rs) (nsServices n) = r0" using "2.prems"(3) by simp
    with None show ?thesis using "2.prems"(1,2,7) drop_fold [of rs n] by auto
  next
    case (Some n1)
    then have n1: "n1 = n\<lparr>nsServices := nsServices n @ [(gsName c, i)]\<rparr>" using "2.prems"(6) by (simp add: registerService_Some)
    show ?thesis
      using "2.IH" [OF Some, of "r1 @ [(gsName c, i)]"] Some n1 "2.prems" by auto
  qed
qed simp

lemma create_names:
  assumes "createServices L cs n = (oc, n')"
  shows "oc = Done \<Longrightarrow> regNames n' = regNames n @ trimmedNames cs \<and> cfNames n' = cfNames n @ trimmedNames cs
      \<and> (\<forall>x \<in> set (trimmedNames cs). x \<noteq> [] \<and> x \<notin> set (regNames n))"
    and "oc \<noteq> Done \<Longrightarrow> nsServices n' = nsServices n \<and> cfServices n' = cfServices n \<and> (\<exists>e. oc = Failed e)"
proof -
  obtain r n1 where c: "checkNew L cs n = (r, n1)" by fastforce
  note f = checkNew_frame [OF c]
  have all: "(oc = Done \<longrightarrow> regNames n' = regNames n @ trimmedNames cs \<and> cfNames n' = cfNames n @ trimmedNames cs
      \<and> (\<forall>x \<in> set (trimmedNames cs). x \<noteq> [] \<and> x \<notin> set (regNames n)))
    \<and> (oc \<noteq> Done \<longrightarrow> nsServices n' = nsServices n \<and> cfServices n' = cfServices n \<and> (\<exists>e. oc = Failed e))"
  proof (cases r)
    case (Inl e)
    with assms c f show ?thesis by (auto simp: createServices_def split: if_splits)
  next
    case (Inr ps)
    note names = checkNew_names [OF c [unfolded Inr]]
    have ne: "\<forall>x \<in> set (map (gsName \<circ> fst) ps). x \<noteq> [] \<and> x \<notin> set (map fst (nsServices n1))" using names f by simp
    obtain q n2 where q: "registerNew ps [] n1 = (q, n2)" by fastforce
    show ?thesis
    proof (cases "q = Done")
      case True
      have names': "map fst (map (\<lambda>(c, i). (gsName c, i)) ps) = trimmedNames cs" "map gsName (map fst ps) = trimmedNames cs"
        using names by (simp_all add: comp_def case_prod_unfold)
      have n2: "regNames n2 = regNames n @ trimmedNames cs" "cfServices n2 = cfServices n"
        using registerNew_Done [of ps "[]" n1 n2] ne q True f names'(1) by simp_all
      have "oc = Done \<and> n' = n2\<lparr>cfServices := cfServices n2 @ map fst ps\<rparr> \<or> oc \<noteq> Done \<and> n' = n \<and> oc = Failed msgEmptyServices"
        using assms c Inr q True by (simp add: createServices_def split: if_splits)
      then show ?thesis using n2 names'(2) conjunct2 [OF names] by (elim disjE conjE) simp_all
    next
      case False
      have "nsServices n2 = nsServices n1 \<and> cfServices n2 = cfServices n1 \<and> (\<exists>e. q = Failed e)"
        using registerNew_failed [OF q False, of "nsServices n1" "[]"] ne by simp
      moreover have "n' = n \<and> oc = Failed msgEmptyServices \<or> n' = n2 \<and> oc = q"
        using assms c Inr q False by (cases q) (simp_all add: createServices_def split: if_splits)
      ultimately show ?thesis using False f by (elim disjE conjE) simp_all
    qed
  qed
  show "oc = Done \<Longrightarrow> regNames n' = regNames n @ trimmedNames cs \<and> cfNames n' = cfNames n @ trimmedNames cs
      \<and> (\<forall>x \<in> set (trimmedNames cs). x \<noteq> [] \<and> x \<notin> set (regNames n))" using all by blast
  show "oc \<noteq> Done \<Longrightarrow> nsServices n' = nsServices n \<and> cfServices n' = cfServices n \<and> (\<exists>e. oc = Failed e)" using all by blast
qed

section \<open>Deleting\<close>

lemma removeService_fold: "regNames (fold removeService found n) = filter (\<lambda>x. x \<notin> set (map fst found)) (regNames n)
    \<and> cfServices (fold removeService found n) = cfServices n"
  by (induction found arbitrary: n) (auto simp: removeService_def regNames_unregister intro!: filter_cong)

lemma delete_names:
  assumes "deleteServices ss n = (oc, n')"
  shows "oc = Done \<Longrightarrow> regNames n' = filter (\<lambda>x. x \<notin> trimSpace ` set ss) (regNames n)
      \<and> cfServices n' = filter (\<lambda>c. gsName c \<notin> trimSpace ` set ss) (cfServices n)
      \<and> (\<forall>s \<in> set ss. trimSpace s \<noteq> [] \<and> trimSpace s \<in> set (regNames n))"
    and "oc \<noteq> Done \<Longrightarrow> n' = n \<and> (\<exists>e. oc = Failed e)"
proof -
  have all: "(oc = Done \<longrightarrow> regNames n' = filter (\<lambda>x. x \<notin> trimSpace ` set ss) (regNames n)
      \<and> cfServices n' = filter (\<lambda>c. gsName c \<notin> trimSpace ` set ss) (cfServices n)
      \<and> (\<forall>s \<in> set ss. trimSpace s \<noteq> [] \<and> trimSpace s \<in> set (regNames n)))
    \<and> (oc \<noteq> Done \<longrightarrow> n' = n \<and> (\<exists>e. oc = Failed e))"
  proof (cases "findServices ss n")
    case (Inl e)
    with assms show ?thesis by (auto simp: deleteServices_def split: if_splits)
  next
    case (Inr found)
    note names = conjunct1 [OF findServices_Inr [OF Inr]]
    have ok: "\<forall>s \<in> set ss. trimSpace s \<noteq> [] \<and> trimSpace s \<in> set (regNames n)" using Inr findServices_ok by blast
    have "set (map fst found) = trimSpace ` set ss" using names by simp
    with Inr assms removeService_fold [of found n] ok show ?thesis
      by (auto simp: deleteServices_def Let_def split: if_splits)
  qed
  show "oc = Done \<Longrightarrow> regNames n' = filter (\<lambda>x. x \<notin> trimSpace ` set ss) (regNames n)
      \<and> cfServices n' = filter (\<lambda>c. gsName c \<notin> trimSpace ` set ss) (cfServices n)
      \<and> (\<forall>s \<in> set ss. trimSpace s \<noteq> [] \<and> trimSpace s \<in> set (regNames n))" using all by blast
  show "oc \<noteq> Done \<Longrightarrow> n' = n \<and> (\<exists>e. oc = Failed e)" using all by blast
qed

lemma service_store: "object_store (\<lambda>x n. isRegistered x (nsServices n)) (\<lambda>cs. set (trimmedNames cs)) (createServices L)
    (\<lambda>ss. trimSpace ` set ss) deleteServices"
proof
  fix c s x
  note c = create_names [OF prod.collapse [symmetric], of L c s]
  show "fst (createServices L c s) = Done \<Longrightarrow>
      isRegistered x (nsServices (snd (createServices L c s))) \<longleftrightarrow> x \<in> set (trimmedNames c) \<or> isRegistered x (nsServices s)"
    using c(1) by (auto simp: isRegistered_names simp del: set_map)
  show "fst (createServices L c s) \<noteq> Done \<Longrightarrow>
      isRegistered x (nsServices (snd (createServices L c s))) = isRegistered x (nsServices s)"
    using c(2) by (simp add: isRegistered_names)
  show "fst (createServices L c s) = Done \<Longrightarrow> x \<in> set (trimmedNames c) \<Longrightarrow> \<not> isRegistered x (nsServices s)"
    using c(1) by (simp add: isRegistered_names del: set_map)
next
  fix d s x
  note d = delete_names [OF prod.collapse [symmetric], of d s]
  show "fst (deleteServices d s) = Done \<Longrightarrow>
      isRegistered x (nsServices (snd (deleteServices d s))) \<longleftrightarrow> x \<notin> trimSpace ` set d \<and> isRegistered x (nsServices s)"
    using d(1) by (simp only: isRegistered_names) auto
  show "fst (deleteServices d s) \<noteq> Done \<Longrightarrow> snd (deleteServices d s) = s"
    using d(2) by simp
  show "fst (deleteServices d s) = Done \<Longrightarrow> x \<in> trimSpace ` set d \<Longrightarrow> isRegistered x (nsServices s)"
    using d(1) by (simp only: isRegistered_names) auto
qed

interpretation services: object_store "\<lambda>x n. isRegistered x (nsServices n)" "\<lambda>cs. set (trimmedNames cs)" "createServices L"
    "\<lambda>ss. trimSpace ` set ss" deleteServices for L
  by (rule service_store)

end
