(* ===== verification/NodeShape.thy ===== *)
theory NodeShape
  imports NodeNames
begin

text \<open>
  The shape of a node: names are trimmed and unique, and everything that runs is in the
  configuration. Every command and every start from the file that was written keeps it.
\<close>

section \<open>Names after an update, a pause and a resumption\<close>

lemma stopOld_names: "stopOld cs n = (oc, n') \<Longrightarrow> cfServices n' = cfServices n \<and> oc \<noteq> Failed e
    \<and> set (regNames n') \<subseteq> set (regNames n) \<and> (oc = Done \<longrightarrow> regNames n' = filter (\<lambda>x. x \<notin> set (trimmedNames cs)) (regNames n))"
proof (induction cs arbitrary: n)
  case (Cons c cs)
  let ?name = "trimSpace (gsName c)"
  show ?case
  proof (cases "getService ?name n")
    case (Some i)
    with Cons.prems have "stopOld cs (unregisterService ?name (closeInst i n)) = (oc, n')" by (simp add: Let_def)
    from Cons.IH [OF this] show ?thesis by (auto simp: regNames_unregister intro!: filter_cong)
  qed (use Cons.prems in \<open>auto simp: Let_def\<close>)
qed auto

lemma parseRetry_frame: "parseRetry L k c n = (r, c', n') \<Longrightarrow> nsServices n' = nsServices n \<and> cfServices n' = cfServices n
    \<and> nsDisk n' = nsDisk n \<and> nsChains n' = nsChains n \<and> nsLimiters n' = nsLimiters n
    \<and> cfChains n' = cfChains n \<and> cfLimiters n' = cfLimiters n"
proof (induction k arbitrary: c n)
  case 0
  then show ?case using parseService_frame by simp
next
  case (Suc k)
  obtain q c1 n1 where p: "parseService L c n = (q, c1, n1)" by (metis prod_cases3)
  note f = parseService_frame [OF p]
  show ?case using Suc.prems p f Suc.IH [of c1 n1] by (auto split: sum.splits if_splits)
qed

lemma startNew_names: "startNew L cs n = (oc, n') \<Longrightarrow> \<forall>x \<in> set (trimmedNames cs). x \<noteq> []
    \<Longrightarrow> cfServices n' = cfServices n \<and> set (regNames n') \<subseteq> set (regNames n) \<union> set (trimmedNames cs)
      \<and> oc \<noteq> Crashed \<and> (oc = Done \<longrightarrow> regNames n' = regNames n @ trimmedNames cs)"
proof (induction cs arbitrary: n)
  case (Cons c cs)
  let ?name = "trimSpace (gsName c)"
  obtain q c' n1 where p: "parseRetry L 2 (c\<lparr>gsName := ?name\<rparr>) n = (q, c', n1)" by (metis prod_cases3)
  note f = parseRetry_frame [OF p]
  show ?case
  proof (cases q)
    case (Inl e)
    with Cons.prems p f show ?thesis by (auto simp: Let_def)
  next
    case (Inr i)
    show ?thesis
    proof (cases "registerService ?name i n1")
      case None
      with Inr Cons.prems p f show ?thesis by (auto simp: Let_def)
    next
      case (Some n2)
      then have n2: "regNames n2 = regNames n @ [?name]" "cfServices n2 = cfServices n"
        using Cons.prems(2) f by (simp_all add: registerService_Some)
      have "startNew L cs n2 = (oc, n')" using Some Inr Cons.prems p by (simp add: Let_def)
      from Cons.IH [OF this] Cons.prems(2) n2 show ?thesis by auto
    qed
  qed
qed simp

lemma replaceConfig_names: "map gsName (replaceConfig c xs) = map gsName xs"
  unfolding replaceConfig_def by (intro map_updateFirst) (simp add: sharedDefaults_def)

lemma replace_fold: "map gsName (fold replaceConfig cs xs) = map gsName xs"
  by (induction cs arbitrary: xs) (simp_all add: replaceConfig_names)

lemma update_names:
  assumes "updateServices L cs n = (oc, n')"
  shows "cfNames n' = cfNames n" "set (regNames n') \<subseteq> set (regNames n)"
    "oc = Done \<Longrightarrow> set (regNames n') = set (regNames n)"
    "oc \<noteq> Done \<Longrightarrow> cfServices n' = cfServices n"
proof -
  have all: "cfNames n' = cfNames n \<and> set (regNames n') \<subseteq> set (regNames n)
    \<and> (oc = Done \<longrightarrow> set (regNames n') = set (regNames n)) \<and> (oc \<noteq> Done \<longrightarrow> cfServices n' = cfServices n)"
  proof (cases "cs = [] \<or> (\<exists>e. findServices (map gsName cs) n = Inl e)")
    case True
    with assms show ?thesis by (auto simp: updateServices_def split: if_splits)
  next
    case False
    then obtain found where Inr: "findServices (map gsName cs) n = Inr found" by (meson sum.exhaust_sel sum.exhaust)
    then have old: "\<forall>x \<in> set (trimmedNames cs). x \<noteq> [] \<and> x \<in> set (regNames n)"
      using findServices_ok [of "map gsName cs" n] by auto
    obtain q n1 where s: "stopOld cs n = (q, n1)" by fastforce
    note s' = stopOld_names [OF s]
    obtain q2 n2 where t: "startNew L cs n1 = (q2, n2)" by fastforce
    note t' = startNew_names [OF t]
    consider "q = Crashed" "n' = n1" "oc = Crashed"
      | "q = Done" "q2 = Done" "oc = Done" "n' = n2\<lparr>cfServices := fold replaceConfig cs (cfServices n2)\<rparr>"
      | "q = Done" "q2 \<noteq> Done" "oc = q2" "n' = n2"
      using assms Inr s t s' False by (cases q; cases q2) (simp_all add: updateServices_def)
    then show ?thesis
    proof cases
      case 2
      then have "regNames n' = filter (\<lambda>x. x \<notin> set (trimmedNames cs)) (regNames n) @ trimmedNames cs"
        using s' t' old by simp
      then have "set (regNames n') = set (regNames n)" using old by (simp only: set_append set_filter) blast
      then show ?thesis using 2 s' t' old by (simp add: replace_fold)
    next
      case 3
      then show ?thesis using s' t' old by auto
    qed (use s' in auto)
  qed
  then show "cfNames n' = cfNames n" "set (regNames n') \<subseteq> set (regNames n)"
    "oc = Done \<Longrightarrow> set (regNames n') = set (regNames n)" "oc \<noteq> Done \<Longrightarrow> cfServices n' = cfServices n" by blast+
qed

lemma onConfig_names: "(\<And>c. gsName (f c) = gsName c) \<Longrightarrow> cfNames (onConfig f x n) = cfNames n"
  unfolding onConfig_def by (simp add: map_updateFirst)

lemma onConfig_parsed: "gsName c' = x \<Longrightarrow> cfNames (onConfig (\<lambda>_. c') x n) = cfNames n"
  unfolding onConfig_def by (simp add: map_updateFirst)

lemma paused_name [simp]: "gsName (markPaused c) = gsName c" "gsName (clearPaused c) = gsName c"
  by (simp_all add: markPaused_def clearPaused_def Let_def split: option.split)

lemma mark_fold: "(\<And>c. gsName (f c) = gsName c) \<Longrightarrow>
    cfNames (fold (onConfig f) xs n) = cfNames n \<and> nsServices (fold (onConfig f) xs n) = nsServices n"
  by (induction xs arbitrary: n) (auto simp: onConfig_names)

definition covered :: "gostNode \<Rightarrow> bool" where
  "covered n = (set (regNames n) \<subseteq> set (cfNames n))"

lemma lastConfig_covered: "x \<in> set (cfNames n) \<Longrightarrow> lastConfig x n \<noteq> None"
  by (auto simp: lastConfig_def find_None_iff)

lemma firstConfig_covered: "x \<in> set (cfNames n) \<Longrightarrow> firstConfig x n \<noteq> None"
  by (auto simp: firstConfig_def find_None_iff)

lemma pauseEach_covered: "\<forall>(x, i) \<in> set found. x \<in> set (cfNames n) \<Longrightarrow>
    pauseEach L found ps n = (Done, fold (\<lambda>(x, i). closeInst i) found n)"
proof (induction found arbitrary: ps n)
  case (Cons p found)
  obtain x i where p: "p = (x, i)" by fastforce
  obtain c where "lastConfig x n = Some c" using lastConfig_covered [of x n] Cons.prems p by auto
  moreover have "pauseEach L found (ps @ [x]) (closeInst i n) = (Done, fold (\<lambda>(x, i). closeInst i) found (closeInst i n))"
    using Cons.prems by (intro Cons.IH) auto
  ultimately show ?case using p by simp
qed simp

lemma close_fold: "nsServices (fold (\<lambda>(x, i). closeInst i) found n) = nsServices n \<and>
    cfServices (fold (\<lambda>(x, i). closeInst i) found n) = cfServices n"
  by (induction found arbitrary: n) auto

lemma found_registered: "findServices ss n = Inr found \<Longrightarrow> (x, i) \<in> set found \<Longrightarrow> x \<noteq> [] \<and> x \<in> set (regNames n)"
  using findServices_Inr [of ss n found] getService_iff [of x n] by (metis (mono_tags, lifting) case_prodD option.distinct(1))

lemma pause_names:
  assumes "pauseServices L ss n = (oc, n')" "covered n"
  shows "nsServices n' = nsServices n" "cfNames n' = cfNames n" "oc \<noteq> Crashed"
proof -
  have "nsServices n' = nsServices n \<and> cfNames n' = cfNames n \<and> oc \<noteq> Crashed"
  proof (cases "findServices ss n")
    case (Inl e)
    with assms show ?thesis by (auto simp: pauseServices_def split: if_splits)
  next
    case (Inr found)
    have "\<forall>(x, i) \<in> set found. x \<in> set (cfNames n)"
      using found_registered [OF Inr] assms(2) unfolding covered_def by blast
    note p = pauseEach_covered [OF this, of L "[]"]
    have "oc = Failed msgEmptyServices \<and> n' = n \<or> oc = Done \<and> n' = fold (onConfig markPaused) (map fst found) (fold (\<lambda>(x, i). closeInst i) found n)"
      using assms(1) Inr p by (simp add: pauseServices_def split: if_splits)
    then show ?thesis using mark_fold [OF paused_name(1), of "map fst found"] close_fold [of found n]
      by (elim disjE conjE) simp_all
  qed
  then show "nsServices n' = nsServices n" "cfNames n' = cfNames n" "oc \<noteq> Crashed" by blast+
qed

lemma rollback_fold: "cfNames (fold rollbackResumed xs n) = cfNames n \<and> nsServices (fold rollbackResumed xs n) = nsServices n"
  by (induction xs arbitrary: n) (auto simp: rollbackResumed_def onConfig_names split: option.splits)

lemma resumeEach_names: "resumeEach L found rs n = (oc, n') \<Longrightarrow> \<forall>x \<in> set (map fst found). x \<noteq> []
   \<Longrightarrow> cfNames n' = cfNames n \<and> set (regNames n') \<subseteq> set (regNames n) \<union> set (map fst found)
      \<and> (oc = Done \<longrightarrow> set (regNames n') = set (regNames n) \<union> set (map fst found))"
proof (induction found arbitrary: rs n)
  case (Cons p found)
  obtain x i where p: "p = (x, i)" by fastforce
  let ?n0 = "unregisterService x (closeInst i n)"
  show ?case
  proof (cases "firstConfig x ?n0")
    case None
    with Cons.prems p have "oc = Crashed" "n' = ?n0" by (simp_all add: Let_def)
    then show ?thesis using regNames_unregister [of x "closeInst i n"] by auto
  next
    case (Some c)
    then have name: "gsName c = x" unfolding firstConfig_def by (auto simp: find_Some_iff)
    obtain q c' n1 where q: "parseService L c ?n0 = (q, c', n1)" by (metis prod_cases3)
    note f = parseService_frame(1,4,9) [OF q]
    let ?n1 = "onConfig (\<lambda>_. c') x n1"
    have n1: "cfNames ?n1 = cfNames n" "regNames ?n1 = filter (\<lambda>m. m \<noteq> x) (regNames n)"
      using f name onConfig_parsed [of c' x n1] by (simp_all add: regNames_unregister)
    show ?thesis
    proof (cases q)
      case (Inl e)
      with Some q p Cons.prems have "oc \<noteq> Done" "n' = fold rollbackResumed rs ?n1" by (auto simp: Let_def)
      then show ?thesis using rollback_fold [of rs ?n1] n1 by auto
    next
      case (Inr j)
      show ?thesis
      proof (cases "registerService x j ?n1")
        case None
        with Inr Some q p Cons.prems have "oc \<noteq> Done" "n' = fold rollbackResumed rs (closeInst j ?n1)"
          by (auto simp: Let_def)
        then show ?thesis using rollback_fold [of rs "closeInst j ?n1"] n1 by auto
      next
        case (Some n2)
        then have n2: "regNames n2 = filter (\<lambda>m. m \<noteq> x) (regNames n) @ [x]" "cfNames n2 = cfNames n"
          using Cons.prems(2) p n1 by (simp_all add: registerService_Some)
        have "resumeEach L found (rs @ [x]) n2 = (oc, n')"
          using Some Inr \<open>firstConfig x ?n0 = Some c\<close> q p Cons.prems(1) by (simp add: Let_def)
        from Cons.IH [OF this] Cons.prems(2) n2 p show ?thesis by auto
      qed
    qed
  qed
qed simp

lemma findPaused_names: "findPaused ss n = Inr found \<Longrightarrow> \<forall>(x, i) \<in> set found. x \<noteq> [] \<and> getService x n = Some i"
  by (induction ss arbitrary: found) (auto simp: Let_def split: if_splits option.splits sum.splits)

lemma paused_registered: "findPaused ss n = Inr found \<Longrightarrow> (x, i) \<in> set found \<Longrightarrow> x \<noteq> [] \<and> x \<in> set (regNames n)"
  using findPaused_names [of ss n found] getService_iff [of x n] by (metis (mono_tags, lifting) case_prodD option.distinct(1))

lemma resume_names:
  assumes "resumeServices L ss n = (oc, n')"
  shows "cfNames n' = cfNames n" "set (regNames n') \<subseteq> set (regNames n)" "oc = Done \<Longrightarrow> set (regNames n') = set (regNames n)"
proof -
  have "cfNames n' = cfNames n \<and> set (regNames n') \<subseteq> set (regNames n) \<and> (oc = Done \<longrightarrow> set (regNames n') = set (regNames n))"
  proof (cases "findPaused ss n")
    case (Inl e)
    with assms show ?thesis by (auto simp: resumeServices_def split: if_splits)
  next
    case (Inr found)
    have old: "\<forall>x \<in> set (map fst found). x \<noteq> [] \<and> x \<in> set (regNames n)"
      using paused_registered [OF Inr] by auto
    obtain q n1 where q: "resumeEach L found [] n = (q, n1)" by fastforce
    note r = resumeEach_names [OF q]
    consider "n' = n" "oc \<noteq> Done" | "q = Done" "oc = Done" "n' = fold (onConfig clearPaused) (map fst found) n1"
      | "q \<noteq> Done" "oc = q" "n' = n1"
      using assms Inr q by (cases "ss = []"; cases q) (auto simp: resumeServices_def)
    then show ?thesis
    proof cases
      case 2
      have "set (regNames n1) = set (regNames n)" using r old 2(1) Un_absorb2 [of "set (map fst found)" "set (regNames n)"] by blast
      then show ?thesis using 2 r old mark_fold [OF paused_name(2), of "map fst found" n1] by simp
    next
      case 3
      then show ?thesis using r old by blast
    qed simp
  qed
  then show "cfNames n' = cfNames n" "set (regNames n') \<subseteq> set (regNames n)" "oc = Done \<Longrightarrow> set (regNames n') = set (regNames n)" by blast+
qed

lemma redirect_names: "redirect L fs n = (oc, n') \<Longrightarrow> regNames n' = regNames n \<and> cfServices n' = cfServices n \<and> oc \<noteq> Crashed"
proof (induction fs arbitrary: n)
  case (Cons f fs)
  obtain s cfg where f: "f = (s, cfg)" by fastforce
  show ?case using Cons.prems f Cons.IH [of "setHop _ (trimSpace s) n"]
    by (auto simp: Let_def split: if_splits option.splits sum.splits)
qed simp

lemma forwarder_names:
  assumes "updateForwarder L fs n = (oc, n')"
  shows "regNames n' = regNames n" "cfNames n' = cfNames n"
proof -
  obtain q n1 where q: "redirect L fs n = (q, n1)" by fastforce
  note r = redirect_names [OF q]
  have "cfNames (fold (\<lambda>(s, cfg). onConfig (\<lambda>c. c\<lparr>gsForwarder := cfg\<rparr>) s) fs m) = cfNames m
     \<and> nsServices (fold (\<lambda>(s, cfg). onConfig (\<lambda>c. c\<lparr>gsForwarder := cfg\<rparr>) s) fs m) = nsServices m" for m
    by (induction fs arbitrary: m) (auto simp: onConfig_names)
  with assms q r show "regNames n' = regNames n" "cfNames n' = cfNames n"
    by (auto simp: updateForwarder_def split: if_splits outcome.splits)
qed

end
