(* ===== verification/NodeReach.thy ===== *)
theory NodeReach
  imports NodeShape
begin

text \<open>
  The states a node can be in: after a start from an empty configuration file, any commands and
  any restarts from the file. All of them are well-formed.
\<close>

section \<open>Well-formed nodes\<close>

definition regOk :: "gostNode \<Rightarrow> bool" where
  "regOk n = (distinct (regNames n) \<and> (\<forall>(x, i) \<in> set (nsServices n). x \<noteq> [] \<and> trimSpace x = x \<and> siName i = x \<and> siSocket i < nsNext n))"

definition nameOk :: "string \<Rightarrow> bool" where
  "nameOk x = (x \<noteq> [] \<and> trimSpace x = x)"

definition fileOk :: "gostService list \<Rightarrow> chainConfig list \<Rightarrow> limiterConfig list \<Rightarrow> bool" where
  "fileOk cs chs ls = ((\<forall>c \<in> set cs. nameOk (gsName c)) \<and>
     distinct (map chName chs) \<and> (\<forall>c \<in> set chs. nameOk (chName c)) \<and>
     distinct (map limName ls) \<and> (\<forall>c \<in> set ls. nameOk (limName c)))"

definition tables :: "gostNode \<Rightarrow> bool" where
  "tables n = (distinct (map fst (nsChains n)) \<and> set (map fst (nsChains n)) = set (map chName (cfChains n)) \<and>
     distinct (map fst (nsLimiters n)) \<and> set (map fst (nsLimiters n)) = set (map limName (cfLimiters n)) \<and>
     fileOk (cfServices n) (cfChains n) (cfLimiters n))"

definition diskOk :: "gostNode \<Rightarrow> bool" where
  "diskOk n = (\<forall>f. nsDisk n = Some f \<longrightarrow> fileOk (fileServices f) (fileChains f) (fileLimiters f))"

text \<open>Registered names are unique and trimmed, and every service, chain and limiter that is
  registered is in the configuration that the panel is shown.\<close>

definition nodeOk :: "gostNode \<Rightarrow> bool" where
  "nodeOk n = (regOk n \<and> covered n \<and> tables n \<and> diskOk n)"

lemma regOk_invariant: "full_invariant L regOk (\<lambda>k i. siSocket i < k)"
proof
  fix n r c c' n'
  assume "regOk n" "parseService L c n = (r, c', n')"
  then show "regOk n' \<and> (\<forall>i. r = Inr i \<longrightarrow> siSocket i < nsNext n')"
    using parseService_frame(1) [of L c n r c' n'] parseService_next [of L c n r c' n'] parseService_inst(2,4) [of L c n _ c' n']
    by (fastforce simp: regOk_def)
next
  fix n name
  assume "regOk n"
  then show "regOk (unregisterService name n)"
    by (auto simp: regOk_def unregisterService_def closeInst_def names_unregister set_unregister split: option.split)
next
  fix n :: gostNode and i name n'
  assume "regOk n" "siSocket i < nsNext n" "siName i = name" "name \<noteq> []" "trimSpace name = name" "registerService name i n = Some n'"
  then show "regOk n'" by (auto simp: regOk_def registerService_Some isRegistered_names)
next
  fix n h name
  assume "regOk n"
  then show "regOk (setHop h name n)" by (auto simp: regOk_def setHop_def comp_def case_prod_unfold)
qed (auto simp: regOk_def closeInst_def node_steps getObject_def dest!: map_of_SomeD split: if_splits)

interpretation shape: full_invariant L regOk "\<lambda>k i. siSocket i < k" for L
  by (rule regOk_invariant)

text \<open>What no service command touches.\<close>

definition elsewhere where
  "elsewhere n = (nsChains n, cfChains n, nsLimiters n, cfLimiters n, nsDisk n, nsBlocked n)"

lemma elsewhere_invariant: "node_invariant L (\<lambda>n. elsewhere n = e) (\<lambda>_ _. True)"
proof
  fix n r c c' n'
  assume "elsewhere n = e" "parseService L c n = (r, c', n')"
  then show "elsewhere n' = e \<and> (\<forall>i. r = Inr i \<longrightarrow> True)"
    using parseService_frame [of L c n r c' n'] by (simp add: elsewhere_def)
qed (auto simp: elsewhere_def closeInst_def unregisterService_def registerService_def setHop_def split: option.split)

interpretation frame: node_invariant L "\<lambda>n. elsewhere n = e" "\<lambda>_ _. True" for L e
  by (rule elsewhere_invariant)

lemmas service_frames = frame.create_keeps [OF refl] frame.update_keeps [OF refl] frame.delete_keeps [OF refl]
  frame.pause_keeps [OF refl] frame.resume_keeps [OF refl] frame.forwarder_keeps [OF refl]

section \<open>Chains and limiters\<close>

lemma updateFirst_names: "map g (updateFirst p (\<lambda>_. y) xs) = map g xs" if "\<And>x. p x \<Longrightarrow> g x = g y"
  using that by (intro map_updateFirst) auto

lemma set_updateFirst: "x \<in> set (updateFirst p f xs) \<Longrightarrow> x \<in> set xs \<or> x \<in> f ` {y \<in> set xs. p y}"
  by (induction xs) (auto split: if_splits)

lemma image_others: "g ` {x \<in> A. g x \<noteq> y} = g ` A - {y}"
  by auto

lemma tables_objects:
  assumes "tables n"
  shows "tables (snd (createChain L ch n))" "tables (snd (updateChain L s ch n))" "tables (snd (deleteChain s n))"
    "tables (snd (createLimiter lm n))" "tables (snd (updateLimiter s lm n))" "tables (snd (deleteLimiter s n))"
    "tables (snd (handleSetProtocol h t b n))"
proof -
  note defs = tables_def fileOk_def nameOk_def Let_def
  show "tables (snd (createChain L ch n))"
    using assms by (auto simp: createChain_def defs register_def map_of_eq_None_iff split: option.splits)
  show "tables (snd (createLimiter lm n))"
    using assms by (auto simp: createLimiter_def defs register_def map_of_eq_None_iff split: option.splits)
  show "tables (snd (deleteChain s n))"
    using assms by (auto simp: deleteChain_def defs keys_unregister image_others distinct_map_filter)
  show "tables (snd (deleteLimiter s n))"
    using assms by (auto simp: deleteLimiter_def defs keys_unregister image_others distinct_map_filter)
  show "tables (snd (handleSetProtocol h t b n))"
    using assms by (simp add: handleSetProtocol_def tables_def)
  show "tables (snd (updateChain L s ch n))"
  proof (cases "isRegistered (trimSpace s) (nsChains n) \<and> libChainErr L (ch\<lparr>chName := trimSpace s\<rparr>) = None")
    case True
    let ?x = "trimSpace s"
    have x: "?x \<in> set (map chName (cfChains n))" using True assms by (auto simp: isRegistered_names tables_def)
    then have ne: "nameOk ?x" using assms by (auto simp: tables_def fileOk_def)
    have "map chName (updateFirst (\<lambda>c. chName c = ?x) (\<lambda>_. ch\<lparr>chName := ?x\<rparr>) (cfChains n)) = map chName (cfChains n)"
      by (rule updateFirst_names) simp
    note names = this arg_cong [OF this, of set]
    have "\<forall>c \<in> set (updateFirst (\<lambda>c. chName c = ?x) (\<lambda>_. ch\<lparr>chName := ?x\<rparr>) (cfChains n)). nameOk (chName c)"
      using assms ne by (auto simp: tables_def fileOk_def dest!: set_updateFirst)
    moreover have "register ?x (ch\<lparr>chName := ?x\<rparr>) (unregister ?x (nsChains n)) = Some (unregister ?x (nsChains n) @ [(?x, ch\<lparr>chName := ?x\<rparr>)])"
      using ne by (simp add: register_def nameOk_def map_of_unregister)
    ultimately show ?thesis
      using True assms x names by (auto simp: updateChain_def Let_def tables_def fileOk_def keys_unregister)
  qed (use assms in \<open>auto simp: updateChain_def Let_def split: option.split\<close>)
  show "tables (snd (updateLimiter s lm n))"
  proof (cases "isRegistered (trimSpace s) (nsLimiters n)")
    case True
    let ?x = "trimSpace s"
    have x: "?x \<in> set (map limName (cfLimiters n))" using True assms by (auto simp: isRegistered_names tables_def)
    then have ne: "nameOk ?x" using assms by (auto simp: tables_def fileOk_def)
    have "map limName (updateFirst (\<lambda>c. limName c = ?x) (\<lambda>_. lm\<lparr>limName := ?x\<rparr>) (cfLimiters n)) = map limName (cfLimiters n)"
      by (rule updateFirst_names) simp
    note names = this arg_cong [OF this, of set]
    have "\<forall>c \<in> set (updateFirst (\<lambda>c. limName c = ?x) (\<lambda>_. lm\<lparr>limName := ?x\<rparr>) (cfLimiters n)). nameOk (limName c)"
      using assms ne by (auto simp: tables_def fileOk_def dest!: set_updateFirst)
    moreover have "register ?x (lm\<lparr>limName := ?x\<rparr>) (unregister ?x (nsLimiters n)) = Some (unregister ?x (nsLimiters n) @ [(?x, lm\<lparr>limName := ?x\<rparr>)])"
      using ne by (simp add: register_def nameOk_def map_of_unregister)
    ultimately show ?thesis
      using True assms x names by (auto simp: updateLimiter_def Let_def tables_def fileOk_def keys_unregister)
  qed (use assms in \<open>simp add: updateLimiter_def Let_def\<close>)
qed

section \<open>Every command\<close>

lemma tables_frame: "elsewhere n' = elsewhere n \<Longrightarrow> tables n \<Longrightarrow> \<forall>c \<in> set (cfServices n'). nameOk (gsName c) \<Longrightarrow> tables n'"
  by (simp add: tables_def fileOk_def elsewhere_def)

lemma names_subset: "set (cfNames n') \<subseteq> set (cfNames n) \<Longrightarrow> tables n \<Longrightarrow> \<forall>c \<in> set (cfServices n'). nameOk (gsName c)"
  by (auto simp: tables_def fileOk_def)

lemma covered_mono: "set (regNames n') \<subseteq> set (regNames n) \<Longrightarrow> cfNames n' = cfNames n \<Longrightarrow> covered n \<Longrightarrow> covered n'"
  unfolding covered_def by simp

lemma create_covered:
  assumes "covered n" "tables n"
  shows "covered (snd (createServices L cs n)) \<and> tables (snd (createServices L cs n))"
proof -
  obtain oc n' where c: "createServices L cs n = (oc, n')" by fastforce
  note names = create_names [OF c]
  have frame: "elsewhere n' = elsewhere n" using service_frames(1) [of L cs n] c by simp
  show ?thesis
  proof (cases "oc = Done")
    case True
    have "\<forall>c \<in> set (cfServices n'). nameOk (gsName c)"
    proof
      fix d assume "d \<in> set (cfServices n')"
      then have "gsName d \<in> set (cfNames n) \<union> set (trimmedNames cs)" using names(1) [OF True] by (metis imageI set_append set_map)
      then show "nameOk (gsName d)" using assms(2) names(1) [OF True] by (auto simp: tables_def fileOk_def nameOk_def)
    qed
    with frame assms names(1) [OF True] c show ?thesis by (auto simp: covered_def intro: tables_frame)
  next
    case False
    with frame assms names(2) [OF False] c show ?thesis
      by (auto simp: covered_def tables_def fileOk_def elsewhere_def)
  qed
qed

lemma delete_covered:
  assumes "covered n" "tables n"
  shows "covered (snd (deleteServices ss n)) \<and> tables (snd (deleteServices ss n))"
proof -
  obtain oc n' where c: "deleteServices ss n = (oc, n')" by fastforce
  note names = delete_names [OF c]
  have frame: "elsewhere n' = elsewhere n" using service_frames(3) [of ss n] c by simp
  show ?thesis
  proof (cases "oc = Done")
    case True
    have "covered n'" using names(1) [OF True] assms(1) by (auto simp: covered_def)
    moreover have "\<forall>c \<in> set (cfServices n'). nameOk (gsName c)" using names(1) [OF True] assms(2) by (auto simp: tables_def fileOk_def)
    ultimately show ?thesis using c frame assms(2) tables_frame by simp
  qed (use names(2) c assms in auto)
qed

lemma rest_covered:
  assumes "covered n" "tables n"
  shows "covered (snd (updateServices L cs n)) \<and> tables (snd (updateServices L cs n))"
    "covered (snd (pauseServices L ss n)) \<and> tables (snd (pauseServices L ss n))"
    "covered (snd (resumeServices L ss n)) \<and> tables (snd (resumeServices L ss n))"
    "covered (snd (updateForwarder L fs n)) \<and> tables (snd (updateForwarder L fs n))"
proof -
  have *: "covered n' \<and> tables n'" if "set (regNames n') \<subseteq> set (regNames n)" "cfNames n' = cfNames n" "elsewhere n' = elsewhere n" for n'
    using covered_mono [OF that(1,2) assms(1)] names_subset [of n' n] tables_frame [OF that(3) assms(2)] assms(2) that(2) by auto
  show "covered (snd (updateServices L cs n)) \<and> tables (snd (updateServices L cs n))"
    using update_names [OF prod.collapse [symmetric], of L cs n] service_frames(2) [of L cs n] by (intro *) auto
  show "covered (snd (pauseServices L ss n)) \<and> tables (snd (pauseServices L ss n))"
    using pause_names [OF prod.collapse [symmetric] assms(1), of L ss] service_frames(4) [of L ss n] by (intro *) auto
  show "covered (snd (resumeServices L ss n)) \<and> tables (snd (resumeServices L ss n))"
    using resume_names [OF prod.collapse [symmetric], of L ss n] service_frames(5) [of L ss n] by (intro *) auto
  show "covered (snd (updateForwarder L fs n)) \<and> tables (snd (updateForwarder L fs n))"
    using forwarder_names [OF prod.collapse [symmetric], of L fs n] service_frames(6) [of L fs n] by (intro *) auto
qed

lemma objects_covered:
  assumes "covered n"
  shows "covered (snd (createChain L ch n))" "covered (snd (updateChain L s ch n))" "covered (snd (deleteChain s n))"
    "covered (snd (createLimiter lm n))" "covered (snd (updateLimiter s lm n))" "covered (snd (deleteLimiter s n))"
    "covered (snd (handleSetProtocol h t b n))"
  using assms
  by (simp_all add: covered_def createChain_def updateChain_def deleteChain_def createLimiter_def updateLimiter_def
      deleteLimiter_def handleSetProtocol_def Let_def split: option.split)

lemma carryOut_shape:
  assumes "regOk n" "covered n" "tables n"
  shows "regOk (snd (carryOut L c n)) \<and> covered (snd (carryOut L c n)) \<and> tables (snd (carryOut L c n))"
proof (intro conjI)
  show "regOk (snd (carryOut L c n))" using assms(1) by (rule shape.carryOut_keeps)
  show "covered (snd (carryOut L c n))" "tables (snd (carryOut L c n))"
    by (cases c; simp add: carryOut_def assms create_covered delete_covered rest_covered objects_covered tables_objects)+
qed

lemma saveConfig_ok: "regOk n \<Longrightarrow> covered n \<Longrightarrow> tables n \<Longrightarrow> nodeOk (saveConfig n)"
  by (simp add: nodeOk_def saveConfig_def regOk_def covered_def tables_def diskOk_def)

lemma routeCommand_ok: "nodeOk n \<Longrightarrow> routeCommand L c n = (Some r, n') \<Longrightarrow> nodeOk n'"
proof -
  assume ok: "nodeOk n" and c: "routeCommand L c n = (Some r, n')"
  then have n: "regOk n" "covered n" "tables n" by (simp_all add: nodeOk_def)
  show ?thesis
  proof (cases "decodeCmd L c")
    case None
    with c have "n' = saveConfig n" by (simp add: routeCommand_def)
    with saveConfig_ok [OF n] show ?thesis by simp
  next
    case (Some x)
    obtain oc n1 where o: "carryOut L x n = (oc, n1)" by fastforce
    have n1: "regOk n1 \<and> covered n1 \<and> tables n1" using carryOut_shape [OF n, of L x] o by simp
    have "n' = saveConfig n \<or> n' = saveConfig n1"
      using c Some o by (cases x; cases oc) (auto simp: routeCommand_def)
    with n1 n show ?thesis by (elim disjE) (simp_all add: saveConfig_ok)
  qed
qed

section \<open>The start\<close>

lemma loadLimiters_names: "loadLimiters cs n = Inr n' \<Longrightarrow> \<forall>c \<in> set cs. limName c \<noteq> [] \<Longrightarrow>
    map fst (nsLimiters n') = map fst (nsLimiters n) @ map limName cs \<and> (\<exists>r. n' = n\<lparr>nsLimiters := r\<rparr>)"
proof (induction cs arbitrary: n)
  case (Cons c cs)
  then obtain r where "register (limName c) c (nsLimiters n) = Some r" by (auto split: option.splits)
  with Cons.prems Cons.IH [of "n\<lparr>nsLimiters := r\<rparr>"] show ?case
    by (auto simp: register_Some isRegistered_names)
qed (auto intro: exI [of _ "nsLimiters n'"])

lemma loadChains_names: "loadChains L cs n = Inr n' \<Longrightarrow> \<forall>c \<in> set cs. chName c \<noteq> [] \<Longrightarrow>
    map fst (nsChains n') = map fst (nsChains n) @ map chName cs \<and> (\<exists>r. n' = n\<lparr>nsChains := r\<rparr>)"
proof (induction cs arbitrary: n)
  case (Cons c cs)
  then obtain r where "libChainErr L c = None" "register (chName c) c (nsChains n) = Some r" by (auto split: option.splits)
  with Cons.prems Cons.IH [of "n\<lparr>nsChains := r\<rparr>"] show ?case
    by (auto simp: register_Some isRegistered_names)
qed (auto intro: exI [of _ "nsChains n'"])

lemma loadServices_names: "loadServices L cs n = Inr n' \<Longrightarrow> \<forall>c \<in> set cs. nameOk (gsName c) \<Longrightarrow> regOk n \<Longrightarrow>
    regOk n' \<and> regNames n' = regNames n @ map gsName cs \<and> cfNames n' = cfNames n @ map gsName cs \<and> elsewhere n' = elsewhere n"
proof (induction cs arbitrary: n)
  case (Cons c cs)
  obtain q c' n1 where p: "parseService L c n = (q, c', n1)" by (metis prod_cases3)
  note f = parseService_frame [OF p]
  obtain i n2 where i: "q = Inr i" "registerService (gsName c) i n1 = Some n2"
    using Cons.prems(1) p by (auto split: sum.splits option.splits)
  have n1: "regOk n1" using shape.parseD [OF p Cons.prems(3)] .
  have name: "nameOk (gsName c)" using Cons.prems(2) by simp
  have "siName i = gsName c" "siSocket i < nsNext n1" using p i parseService_inst by fastforce+
  then have n2: "regOk n2" "regNames n2 = regNames n @ [gsName c]" "cfServices n2 = cfServices n" "elsewhere n2 = elsewhere n"
    using shape.reg [OF n1 _ _ _ _ i(2)] i(2) name f by (auto simp: nameOk_def registerService_Some elsewhere_def)
  have "loadServices L cs (n2\<lparr>cfServices := cfServices n2 @ [c']\<rparr>) = Inr n'" using Cons.prems(1) p i by simp
  moreover have "regOk (n2\<lparr>cfServices := cfServices n2 @ [c']\<rparr>)" using n2(1) by (simp add: regOk_def)
  ultimately show ?case using Cons.IH Cons.prems(2) n2 f by (simp add: elsewhere_def)
qed simp

lemma startNode_ok: "diskOk n \<Longrightarrow> startNode L n = Inr n' \<Longrightarrow> nodeOk n'"
proof -
  assume disk: "diskOk n" and start: "startNode L n = Inr n'"
  obtain f where f: "nsDisk n = Some f" using start by (auto simp: startNode_def split: option.splits)
  define n0 where "n0 = (freshNode (nsTick n) (nsDisk n))\<lparr>cfChains := fileChains f, cfLimiters := fileLimiters f\<rparr>"
  obtain n1 where n1: "loadLimiters (fileLimiters f) n0 = Inr n1" using start f by (auto simp: startNode_def n0_def split: sum.splits)
  obtain n2 where n2: "loadChains L (fileChains f) n1 = Inr n2" using start f n1 by (auto simp: startNode_def n0_def split: sum.splits)
  have n3: "loadServices L (fileServices f) n2 = Inr n'" using start f n1 n2 by (simp add: startNode_def n0_def)
  have ok: "fileOk (fileServices f) (fileChains f) (fileLimiters f)" using disk f by (simp add: diskOk_def)
  note l = loadLimiters_names [OF n1]
  note c = loadChains_names [OF n2]
  have fresh: "nsServices n0 = []" "nsChains n0 = []" "nsLimiters n0 = []" "cfServices n0 = []"
    "cfChains n0 = fileChains f" "cfLimiters n0 = fileLimiters f" "nsDisk n0 = Some f"
    by (simp_all add: n0_def freshNode_def f)
  have n2': "map fst (nsLimiters n2) = map limName (fileLimiters f)" "map fst (nsChains n2) = map chName (fileChains f)"
    "nsServices n2 = []" "cfServices n2 = []" "cfChains n2 = fileChains f" "cfLimiters n2 = fileLimiters f" "nsDisk n2 = Some f"
    using l c ok fresh by (auto simp: fileOk_def nameOk_def)
  have reg: "regOk n2" by (simp add: regOk_def n2')
  note s = loadServices_names [OF n3 _ reg]
  have names: "cfNames n' = map gsName (fileServices f)" using s ok n2' by (simp add: fileOk_def)
  have "\<exists>c \<in> set (fileServices f). gsName d = gsName c" if "d \<in> set (cfServices n')" for d
  proof -
    have "gsName d \<in> set (map gsName (fileServices f))" unfolding names [symmetric] using that by simp
    then show ?thesis by auto
  qed
  then have "\<forall>d \<in> set (cfServices n'). nameOk (gsName d)" using ok by (metis fileOk_def)
  then show ?thesis using s ok n2' names by (simp add: nodeOk_def covered_def tables_def diskOk_def elsewhere_def fileOk_def)
qed

section \<open>Reachable nodes\<close>

definition emptyFile :: gostFile where
  "emptyFile = \<lparr>fileServices = [], fileChains = [], fileLimiters = []\<rparr>"

inductive nodeReach :: "lib \<Rightarrow> gostNode \<Rightarrow> bool" for L where
  first: "startNode L (freshNode t (Some emptyFile)) = Inr n \<Longrightarrow> nodeReach L n"
| command: "nodeReach L n \<Longrightarrow> routeCommand L c n = (Some r, n') \<Longrightarrow> nodeReach L n'"
| restart: "nodeReach L n \<Longrightarrow> startNode L n = Inr n' \<Longrightarrow> nodeReach L n'"

lemma nodeReach_ok: "nodeReach L n \<Longrightarrow> nodeOk n"
proof (induction rule: nodeReach.induct)
  case (first t n)
  have "diskOk (freshNode t (Some emptyFile))" by (simp add: diskOk_def freshNode_def emptyFile_def fileOk_def)
  then show ?case using first by (rule startNode_ok)
next
  case (command n c r n')
  then show ?case by (blast intro: routeCommand_ok)
next
  case (restart n n')
  then have "diskOk n" by (simp add: nodeOk_def)
  then show ?case using restart(2) by (rule startNode_ok)
qed

end
