(* ===== verification/NodeFaults.thy ===== *)
theory NodeFaults
  imports NodeReach GostServices
begin

text \<open>
  Properties of a node by itself: its states are well-formed, a creation that fails half-way keeps
  a port until the process ends, and a failed update followed by the creation the panel falls back
  to leaves a configuration the process cannot start from.
\<close>

section \<open>A node to run\<close>

definition exLib :: lib where
  "exLib = \<lparr>libSetup = \<lambda>_. None, libListener = \<lambda>_. True,
     libListen = \<lambda>t open' c. if (glType (listenerOf c), gsAddr c) \<in> set open'
       then Some ''bind: address already in use'' else None,
     libHandlerSetup = \<lambda>_. None, libHandler = \<lambda>h. h \<noteq> ''bad'', libForwards = \<lambda>_. True,
     libHops = \<lambda>_. False, libHopErr = \<lambda>_. None, libHandlerInit = \<lambda>_. None, libChainErr = \<lambda>_. None,
     libDuration = \<lambda>s. if s = ''600s'' then Some 600000000000 else None,
     libParseError = \<lambda>_. ''parse error'', libPing = \<lambda>_ _ _ _. Inr (1, 0), libIsIP = \<lambda>s. True,
     libOther = \<lambda>_. \<lparr>respMsg = ''OK'', respData = None\<rparr>\<rparr>"

definition exSvc :: "string \<Rightarrow> string \<Rightarrow> string \<Rightarrow> svcConfig" where
  "exSvc name addr handler = \<lparr>svcName = name, svcAddr = addr, svcInterface = None, svcLimiter = None,
     svcHandlerType = handler, svcHandlerChain = None, svcListenerType = ''tcp'', svcListenerKeepAlive = False,
     svcForwarder = None\<rparr>"

text \<open>A process that has just started from an empty file, and its states after commands.\<close>

definition exStarted :: gostNode where
  "exStarted = freshNode 0 (Some emptyFile)"

definition afterCommands :: "lib \<Rightarrow> cmd list \<Rightarrow> gostNode \<Rightarrow> gostNode" where
  "afterCommands L cs n = fold (\<lambda>c n. snd (routeCommand L c n)) cs n"

lemma exStarted_reach: "nodeReach exLib exStarted"
  by (rule nodeReach.first [of _ 0]) (simp add: startNode_def freshNode_def emptyFile_def exStarted_def)

section \<open>Well-formed\<close>


lemma routeCommand_answers: "routeCommand L c n = (Some r, n') \<Longrightarrow> nodeReach L n \<Longrightarrow> nodeReach L n'"
  by (blast intro: nodeReach.command)


section \<open>Sockets without an owner\<close>

definition ownerless :: "nat \<times> string \<times> string \<Rightarrow> gostNode \<Rightarrow> bool" where
  "ownerless s n = (s \<in> set (nsSockets n) \<and> fst s < nsNext n \<and> (\<forall>(x, i) \<in> set (nsServices n). siSocket i \<noteq> fst s))"

lemma ownerless_invariant: "full_invariant L (ownerless s) (\<lambda>k i. siSocket i \<noteq> fst s \<and> fst s < k)"
proof
  fix n r c c' n'
  assume n: "ownerless s n" and p: "parseService L c n = (r, c', n')"
  note f = parseService_frame(1) [OF p] parseService_sockets [OF p] parseService_next [OF p]
  have "siSocket i = nsNext n" if "r = Inr i" for i using parseService_inst(2) p that by blast
  then show "ownerless s n' \<and> (\<forall>i. r = Inr i \<longrightarrow> siSocket i \<noteq> fst s \<and> fst s < nsNext n')"
    using n f unfolding ownerless_def by auto
next
  fix n name
  assume "ownerless s n"
  then show "ownerless s (unregisterService name n)"
    by (auto simp: ownerless_def unregisterService_def closeInst_def set_unregister split: option.split dest!: map_of_SomeD)
next
  fix n :: gostNode and i name n'
  assume "ownerless s n" "siSocket i \<noteq> fst s \<and> fst s < nsNext n" "registerService name i n = Some n'" "name \<noteq> []"
  then show "ownerless s n'" by (auto simp: ownerless_def registerService_Some)
next
  fix n name i
  assume "ownerless s n" "getService name n = Some i"
  then show "siSocket i \<noteq> fst s \<and> fst s < nsNext n"
    by (auto simp: ownerless_def node_steps getObject_def dest!: map_of_SomeD split: if_splits)
next
  fix n h name
  assume "ownerless s n"
  then show "ownerless s (setHop h name n)" by (auto simp: ownerless_def setHop_def split: if_splits)
qed (auto simp: ownerless_def closeInst_def)

interpretation orphan: full_invariant L "ownerless s" "\<lambda>k i. siSocket i \<noteq> fst s \<and> fst s < k" for L s
  by (rule ownerless_invariant)

inductive nodeRun :: "lib \<Rightarrow> gostNode \<Rightarrow> gostNode \<Rightarrow> bool" for L where
  idle: "nodeRun L n n"
| answer: "nodeRun L n n' \<Longrightarrow> routeCommand L c n' = (Some r, n'') \<Longrightarrow> nodeRun L n n''"

lemma saveConfig_ownerless [simp]: "ownerless s (saveConfig n) = ownerless s n"
  by (simp add: ownerless_def saveConfig_def)

lemma route_ownerless: "routeCommand L c n = (Some r, n') \<Longrightarrow> ownerless s n \<Longrightarrow> ownerless s n'"
proof -
  assume c: "routeCommand L c n = (Some r, n')" and n: "ownerless s n"
  show ?thesis
  proof (cases "decodeCmd L c")
    case (Some x)
    obtain oc n1 where o: "carryOut L x n = (oc, n1)" by fastforce
    have "ownerless s n1" using orphan.carryOut_keeps [OF n, of L x] o by simp
    moreover have "n' = saveConfig n \<or> n' = saveConfig n1"
      using c Some o by (cases x; cases oc) (auto simp: routeCommand_def)
    ultimately show ?thesis using n by auto
  qed (use c n in \<open>auto simp: routeCommand_def\<close>)
qed

lemma run_ownerless: "nodeRun L n n' \<Longrightarrow> ownerless s n \<Longrightarrow> ownerless s n'"
  by (induction rule: nodeRun.induct) (auto intro: route_ownerless)

text \<open>An address with an open socket cannot be listened on again.\<close>

definition addressesExclusive :: "lib \<Rightarrow> bool" where
  "addressesExclusive L = (\<forall>t socks c. (glType (listenerOf c), gsAddr c) \<in> set socks \<longrightarrow> libListen L t socks c \<noteq> None)"

lemma listenerOf_defaults [simp]: "glType (listenerOf (listenerMetadata (withDefaults c))) = glType (listenerOf c)"
proof -
  have "trimSpace ''tcp'' = ''tcp''" by code_simp
  then show ?thesis
    by (simp add: listenerOf_def listenerMetadata_def withDefaults_def split: option.split)
qed

lemma create_occupied:
  assumes "addressesExclusive L" "(h, glType (listenerOf d), gsAddr d) \<in> set (nsSockets n)"
  shows "fst (createServices L [d] n) \<noteq> Done"
proof -
  let ?d = "d\<lparr>gsName := trimSpace (gsName d)\<rparr>"
  have d: "listenerOf ?d = listenerOf d" "gsAddr (listenerMetadata (withDefaults ?d)) = gsAddr d"
    by (simp_all add: listenerOf_def listenerMetadata_def withDefaults_def)
  have "(glType (listenerOf d), gsAddr d) \<in> set (map snd (nsSockets n))" using assms(2) by force
  then obtain e where "libListen L (nsTick n + 1) (map snd (nsSockets n)) (listenerMetadata (withDefaults ?d)) = Some e"
    using assms(1) d unfolding addressesExclusive_def by (metis listenerOf_defaults not_None_eq)
  then have "\<exists>e. fst (parseService L ?d n) = Inl e"
    by (auto simp: parseService_def Let_def split: option.split)
  then show ?thesis
    by (auto simp: createServices_def Let_def split: prod.splits sum.splits if_splits)
qed


definition exGost :: "string \<Rightarrow> string \<Rightarrow> string \<Rightarrow> gostService" where
  "exGost name addr handler = \<lparr>gsName = name, gsAddr = addr, gsLimiter = [],
     gsListener = Some \<lparr>glType = ''tcp'', glMetadata = None, glOther = []\<rparr>,
     gsHandler = Some \<lparr>ghType = handler, ghChain = [], ghMetadata = None, ghOther = []\<rparr>,
     gsForwarder = None, gsMetadata = None, gsOther = []\<rparr>"

lemma exLib_exclusive: "addressesExclusive exLib"
  by (simp add: addressesExclusive_def exLib_def)


section \<open>A configuration that cannot be loaded\<close>

lemma loadServices_distinct:
  "loadServices L cs n = Inr n' \<Longrightarrow> \<forall>c \<in> set cs. nameOk (gsName c) \<Longrightarrow> regOk n \<Longrightarrow> distinct (map gsName cs)"
  using loadServices_names [of L cs n n'] by (auto simp: regOk_def)

lemma startNode_distinct:
  assumes "diskOk n" "nsDisk n = Some f" "startNode L n = Inr n'"
  shows "distinct (map gsName (fileServices f))"
proof -
  have ok: "nodeOk n'" using startNode_ok [OF assms(1,3)] .
  have f: "fileOk (fileServices f) (fileChains f) (fileLimiters f)" using assms(1,2) by (simp add: diskOk_def)
  obtain m where m: "loadServices L (fileServices f) m = Inr n'" "nsServices m = []"
  proof -
    obtain n1 where 1: "loadLimiters (fileLimiters f)
        ((freshNode (nsTick n) (nsDisk n))\<lparr>cfChains := fileChains f, cfLimiters := fileLimiters f\<rparr>) = Inr n1"
      using assms(2,3) by (auto simp: startNode_def split: sum.splits)
    obtain n2 where 2: "loadChains L (fileChains f) n1 = Inr n2" using assms(2,3) 1 by (auto simp: startNode_def split: sum.splits)
    have "loadServices L (fileServices f) n2 = Inr n'" using assms(2,3) 1 2 by (simp add: startNode_def)
    moreover have "nsServices n2 = []"
      using loadLimiters_names [OF 1] loadChains_names [OF 2] f by (auto simp: fileOk_def nameOk_def freshNode_def)
    ultimately show thesis using that by blast
  qed
  moreover have "regOk m" using m(2) by (simp add: regOk_def)
  ultimately show ?thesis using loadServices_distinct f by (simp add: fileOk_def)
qed

text \<open>C12: An update that closes a service and fails to open it again takes the name out of the
  registry but not out of the configuration. The node answers the next update with \<open>not found\<close>,
  the panel falls back to the creation, and when that succeeds the configuration on disk lists the
  name twice: the process can never start from it again.\<close>

theorem failed_update_blocks_start:
  assumes "nodeReach L n"
    and "routeCommand L (Cmd k ''UpdateService'' (DServices [svc])) n = (Some r1, n1)"
    and "isRegistered (trimSpace (svcName svc)) (nsServices n)" "\<not> isRegistered (trimSpace (svcName svc)) (nsServices n1)"
    and "routeCommand L (Cmd k ''AddService'' (DServices [svc])) n1 = (Some r2, n2)" "isGostSuccess r2"
  shows "gostNotFound (the (fst (routeCommand L (Cmd k ''UpdateService'' (DServices [svc])) n1))) \<and>
    (\<forall>L'. isl (startNode L' n2))"
proof -
  let ?x = "trimSpace (svcName svc)"
  let ?add = "Cmd k ''AddService'' (DServices [svc])" and ?upd = "Cmd k ''UpdateService'' (DServices [svc])"
  have known: "''AddService'' \<in> set gostCommands" "''UpdateService'' \<in> set gostCommands" by (simp_all add: gostCommands_def)
  have reach: "nodeReach L n1" "nodeReach L n2" using assms(1,2,5) by (blast intro: nodeReach.command)+
  have "decodeService L svc \<noteq> None"
  proof
    assume "decodeService L svc = None"
    then have "decodeCmd L ?add = None" using known by (simp add: decodeCmd_def Let_def)
    then show False using assms(5,6) by (auto simp: routeCommand_def isGostSuccess_def gostSuccessMsg_def)
  qed
  then obtain c where c: "decodeService L svc = Some c" by blast
  then have name: "gsName c = svcName svc" by (auto simp: decodeService_def Let_def split: option.splits)
  have add: "decodeCmd L ?add = Some (NAddService [c])" and upd: "decodeCmd L ?upd = Some (NUpdateService [c])"
    using c known by (simp_all add: decodeCmd_def Let_def)
  obtain m where m: "createServices L [c] n1 = (Done, m)" "n2 = saveConfig m"
    by (rule route_cases [OF assms(5) add]) (use assms(6) in \<open>auto simp: carryOut_def isGostSuccess_def gostSuccessMsg_def intro: that\<close>)
  obtain oc n0 where u: "updateServices L [c] n = (oc, n0)" "n1 = saveConfig n0"
    by (rule route_cases [OF assms(2) upd]) (auto simp: carryOut_def intro: that)
  have "nodeOk n" using assms(1) by (rule nodeReach_ok)
  then have x: "?x \<in> set (cfNames n)" "?x \<notin> set (regNames n1)"
    using assms(3,4) by (auto simp: nodeOk_def covered_def isRegistered_names)
  have "cfNames n1 = cfNames n" using u(2) update_names(1) [OF u(1)] by (simp add: saveConfig_def)
  then have dup: "\<not> distinct (cfNames m)"
    using create_names(1) [OF m(1)] x(1) name by simp
  have disk: "nsDisk n2 = Some \<lparr>fileServices = cfServices m, fileChains = cfChains m, fileLimiters = cfLimiters m\<rparr>"
    by (simp add: m(2) saveConfig_def)
  have "nodeOk n2" using reach(2) by (rule nodeReach_ok)
  then have "diskOk n2" by (simp add: nodeOk_def)
  have none: "isl (startNode L' n2)" for L'
  proof (rule ccontr)
    assume "\<not> isl (startNode L' n2)"
    then obtain b where "startNode L' n2 = Inr b" by (cases "startNode L' n2") auto
    from startNode_distinct [OF \<open>diskOk n2\<close> disk this] dup show False by simp
  qed
  have "getService ?x n1 = None" using x(2) getService_iff by blast
  moreover have "?x \<noteq> []" using create_names(1) [OF m(1)] name by simp
  ultimately have "updateServices L [c] n1 = (Failed (serviceMissing ?x), n1)"
    by (simp add: updateServices_def Let_def name)
  then have "routeCommand L ?upd n1 = (Some \<lparr>respMsg = serviceMissing ?x, respData = None\<rparr>, saveConfig n1)"
    using upd by (simp add: routeCommand_def carryOut_def)
  moreover have "strContains (serviceMissing ?x) ''not found''"
    unfolding serviceMissing_def strContains_iff by (metis append.assoc append_Cons append_Nil append_Nil2 list.inject)
  ultimately show ?thesis using none by (simp add: gostNotFound_def gostNotFoundMsg_def)
qed

text \<open>The port is taken for a moment while the service is updated.\<close>

definition exBusy :: lib where
  "exBusy = exLib\<lparr>libListen := \<lambda>t open' c. if t \<in> {2, 3, 4} then Some ''bind: address already in use'' else None\<rparr>"

lemma exBusy_reach: "nodeReach exBusy exStarted"
  by (rule nodeReach.first [of _ 0]) (simp add: startNode_def freshNode_def emptyFile_def exStarted_def)

theorem failed_update_blocks_start_witness:
  "isl (startNode exLib (afterCommands exBusy
     [Cmd 1 ''AddService'' (DServices [exSvc ''a'' '':1'' ''tcp'']),
      Cmd 1 ''UpdateService'' (DServices [exSvc ''a'' '':1'' ''tcp'']),
      Cmd 1 ''AddService'' (DServices [exSvc ''a'' '':1'' ''tcp''])] exStarted))"
proof -
  let ?svc = "exSvc ''a'' '':1'' ''tcp''"
  let ?add = "Cmd 1 ''AddService'' (DServices [?svc])" and ?upd = "Cmd 1 ''UpdateService'' (DServices [?svc])"
  define m where "m = snd (routeCommand exBusy ?add exStarted)"
  define n1 where "n1 = snd (routeCommand exBusy ?upd m)"
  define n2 where "n2 = snd (routeCommand exBusy ?add n1)"
  have "fst (routeCommand exBusy ?add exStarted) \<noteq> None" by code_simp
  then obtain r where r: "routeCommand exBusy ?add exStarted = (Some r, m)" unfolding m_def by (metis not_None_eq prod.collapse)
  have reach: "nodeReach exBusy m" using exBusy_reach r by (rule nodeReach.command)
  have "fst (routeCommand exBusy ?upd m) \<noteq> None" unfolding m_def by code_simp
  then obtain r1 where r1: "routeCommand exBusy ?upd m = (Some r1, n1)" unfolding n1_def by (metis not_None_eq prod.collapse)
  have reg: "isRegistered (trimSpace (svcName ?svc)) (nsServices m)" "\<not> isRegistered (trimSpace (svcName ?svc)) (nsServices n1)"
    unfolding n1_def m_def by code_simp+
  have "map_option respMsg (fst (routeCommand exBusy ?add n1)) = Some ''OK''" unfolding n1_def m_def by code_simp
  then obtain r2 where r2: "routeCommand exBusy ?add n1 = (Some r2, n2)" "isGostSuccess r2"
    unfolding n2_def isGostSuccess_def gostSuccessMsg_def by (cases "routeCommand exBusy ?add n1") auto
  have "n2 = afterCommands exBusy [?add, ?upd, ?add] exStarted" by (simp add: afterCommands_def n2_def n1_def m_def)
  with failed_update_blocks_start [OF reach r1 reg r2] show ?thesis by simp
qed

end
