(* ===== verification/NodePanel.thy ===== *)
theory NodePanel
  imports NodeFaults ForwardCleanup Tunnels
begin

text \<open>
  The panel and its nodes together. The answers of the nodes, a parameter of the panel, are here
  those of the modelled node: the state of a node is what the commands sent to it have made of it,
  and a node whose process has ended answers no more. On this the abstract view of \<open>NodeView\<close>
  is justified for commands that succeeded, and its limits become theorems.
\<close>

section \<open>Composition\<close>

definition serve :: "lib \<Rightarrow> cmd \<Rightarrow> gostNode option \<Rightarrow> gostNode option" where
  "serve L c n = (case n of None \<Rightarrow> None
     | Some n0 \<Rightarrow> (case routeCommand L c n0 of (Some r, n1) \<Rightarrow> Some n1 | (None, _) \<Rightarrow> None))"

definition nodeAt :: "(int \<Rightarrow> lib) \<Rightarrow> (int \<Rightarrow> gostNode) \<Rightarrow> cmd list \<Rightarrow> int \<Rightarrow> gostNode option" where
  "nodeAt L N sent k = fold (\<lambda>c n. if cmdNode c = k then serve (L k) c n else n) sent (Some (N k))"

text \<open>The message of \<open>SendMsgWithTimeout\<close> when no answer comes.\<close>

definition msgTimeout :: string where
  "msgTimeout = map char_of [0xE7, 0xAD, 0x89, 0xE5, 0xBE, 0x85, 0xE5, 0x93, 0x8D, 0xE5, 0xBA, 0x94,
     0xE8, 0xB6, 0x85, 0xE6, 0x97, 0xB6 :: nat]"

definition nodeAnswer :: "(int \<Rightarrow> lib) \<Rightarrow> (int \<Rightarrow> gostNode) \<Rightarrow> cmd list \<Rightarrow> cmd \<Rightarrow> gostResponse" where
  "nodeAnswer L N sent c = (case nodeAt L N sent (cmdNode c) of
      None \<Rightarrow> \<lparr>respMsg = msgTimeout, respData = None\<rparr>
    | Some n \<Rightarrow> (case fst (routeCommand (L (cmdNode c)) c n) of
        None \<Rightarrow> \<lparr>respMsg = msgTimeout, respData = None\<rparr> | Some r \<Rightarrow> r))"

definition withNodes :: "(int \<Rightarrow> lib) \<Rightarrow> (int \<Rightarrow> gostNode) \<Rightarrow> env \<Rightarrow> env" where
  "withNodes L N E = E\<lparr>nodeReply := nodeAnswer L N\<rparr>"

lemma withNodes_simps [simp]:
  "nodeReply (withNodes L N E) = nodeAnswer L N" "nodeOnline (withNodes L N E) = nodeOnline E"
  "staysOnline (withNodes L N E) k = staysOnline E k"
  by (simp_all add: withNodes_def staysOnline_def)

lemma nodeAt_Nil [simp]: "nodeAt L N [] k = Some (N k)"
  by (simp add: nodeAt_def)

lemma nodeAt_snoc [simp]: "nodeAt L N (sent @ [c]) k =
    (if cmdNode c = k then serve (L k) c (nodeAt L N sent k) else nodeAt L N sent k)"
  by (simp add: nodeAt_def)

lemma nodeAt_reach: "nodeReach (L k) (N k) \<Longrightarrow> nodeAt L N sent k = Some n \<Longrightarrow> nodeReach (L k) n"
proof (induction sent arbitrary: n rule: rev_induct)
  case (snoc c sent)
  then show ?case
    by (auto simp: serve_def split: if_splits option.splits prod.splits intro: nodeReach.command)
qed simp

section \<open>The abstract view\<close>

text \<open>The commands as the panel builds them: names without surrounding space, and a chain that is
  updated under its own name.\<close>

definition tidyCmd :: "cmd \<Rightarrow> bool" where
  "tidyCmd c = (case cmdData c of
      DServices svcs \<Rightarrow> list_all (\<lambda>s. trimSpace (svcName s) = svcName s) svcs
    | DNames names \<Rightarrow> list_all (\<lambda>s. trimSpace s = s) names
    | DChain ch \<Rightarrow> trimSpace (chName ch) = chName ch
    | DChainUpdate s ch \<Rightarrow> s = chName ch \<and> trimSpace s = s
    | DChainName s \<Rightarrow> trimSpace s = s
    | _ \<Rightarrow> True)"

text \<open>Every command to the node so far was answered with \<open>OK\<close>.\<close>

fun obeyed :: "(int \<Rightarrow> lib) \<Rightarrow> (int \<Rightarrow> gostNode) \<Rightarrow> int \<Rightarrow> cmd list \<Rightarrow> cmd list \<Rightarrow> bool" where
  "obeyed L N k sent [] = True"
| "obeyed L N k sent (c # cs) =
     ((cmdNode c = k \<longrightarrow> respMsg (nodeAnswer L N sent c) = ''OK'') \<and> obeyed L N k (sent @ [c]) cs)"

lemma obeyed_append: "obeyed L N k sent (cs @ cs') \<longleftrightarrow> obeyed L N k sent cs \<and> obeyed L N k (sent @ cs) cs'"
  by (induction cs arbitrary: sent) auto

lemma decode_names: "allSome (map (decodeService L) svcs) = Some cs \<Longrightarrow> map gsName cs = map svcName svcs"
  by (induction svcs arbitrary: cs) (auto simp: decodeService_def Let_def split: option.splits)

definition registeredAfter :: "nodeCmd \<Rightarrow> gostNode \<Rightarrow> string set" where
  "registeredAfter x n = (case x of
      NAddService cs \<Rightarrow> set (regNames n) \<union> set (trimmedNames cs)
    | NUpdateService cs \<Rightarrow> set (regNames n) \<union> set (trimmedNames cs)
    | NDeleteService ss \<Rightarrow> set (regNames n) - trimSpace ` set ss
    | _ \<Rightarrow> set (regNames n))"

lemma update_known: "updateServices L cs n = (Done, n') \<Longrightarrow> set (trimmedNames cs) \<subseteq> set (regNames n)"
  using findServices_ok [of "map gsName cs" n]
  by (cases "findServices (map gsName cs) n") (auto simp: updateServices_def split: if_splits)

lemma objects_services [simp]:
  "nsServices (snd (createChain L ch n)) = nsServices n" "nsServices (snd (updateChain L s ch n)) = nsServices n"
  "nsServices (snd (deleteChain s n)) = nsServices n" "nsServices (snd (createLimiter lm n)) = nsServices n"
  "nsServices (snd (updateLimiter s lm n)) = nsServices n" "nsServices (snd (deleteLimiter s n)) = nsServices n"
  "nsServices (snd (handleSetProtocol h t b n)) = nsServices n"
  by (simp_all add: createChain_def updateChain_def deleteChain_def createLimiter_def updateLimiter_def
      deleteLimiter_def handleSetProtocol_def Let_def split: option.split)

lemma carryOut_registered:
  assumes "carryOut L x n = (Done, n')" "covered n"
  shows "set (regNames n') = registeredAfter x n"
proof (cases x)
  case (NAddService cs)
  with assms(1) create_names(1) [of L cs n Done n'] show ?thesis by (auto simp: carryOut_def registeredAfter_def)
next
  case (NUpdateService cs)
  with assms(1) update_names(3) [of L cs n Done n'] update_known [of L cs n n'] show ?thesis
    by (simp add: carryOut_def registeredAfter_def) blast
next
  case (NDeleteService ss)
  with assms(1) delete_names(1) [of ss n Done n'] show ?thesis by (auto simp: carryOut_def registeredAfter_def)
next
  case (NPauseService ss)
  with assms pause_names(1) [of L ss n Done n'] show ?thesis by (simp add: carryOut_def registeredAfter_def)
next
  case (NResumeService ss)
  with assms(1) resume_names(3) [of L ss n Done n'] show ?thesis by (simp add: carryOut_def registeredAfter_def)
next
  case (NUpdateForwarder fs)
  with assms(1) forwarder_names(1) [of L fs n Done n'] show ?thesis by (simp add: carryOut_def registeredAfter_def)
next
  case (NAddChains ch)
  with assms(1) objects_services(1) [of L ch n] show ?thesis by (simp add: carryOut_def registeredAfter_def)
next
  case (NUpdateChains s ch)
  with assms(1) objects_services(2) [of L s ch n] show ?thesis by (simp add: carryOut_def registeredAfter_def)
next
  case (NDeleteChains s)
  with assms(1) objects_services(3) [of s n] show ?thesis by (simp add: carryOut_def registeredAfter_def)
next
  case (NAddLimiters lm)
  with assms(1) objects_services(4) [of lm n] show ?thesis by (simp add: carryOut_def registeredAfter_def)
next
  case (NUpdateLimiters s lm)
  with assms(1) objects_services(5) [of s lm n] show ?thesis by (simp add: carryOut_def registeredAfter_def)
next
  case (NDeleteLimiters s)
  with assms(1) objects_services(6) [of s n] show ?thesis by (simp add: carryOut_def registeredAfter_def)
next
  case (NSetProtocol h t b)
  with assms(1) objects_services(7) [of h t b n] show ?thesis by (simp add: carryOut_def registeredAfter_def)
qed (use assms(1) in \<open>simp_all add: carryOut_def registeredAfter_def\<close>)

lemma trimmedNames_decoded: "allSome (map (decodeService L) svcs) = Some cs \<Longrightarrow>
    list_all (\<lambda>s. trimSpace (svcName s) = svcName s) svcs \<Longrightarrow> trimmedNames cs = map svcName svcs"
proof -
  assume d: "allSome (map (decodeService L) svcs) = Some cs" and t: "list_all (\<lambda>s. trimSpace (svcName s) = svcName s) svcs"
  have "trimmedNames cs = map trimSpace (map gsName cs)" by simp
  also have "\<dots> = map svcName svcs" using t unfolding decode_names [OF d] by (simp add: list_all_iff)
  finally show ?thesis .
qed

lemma registeredAfter_svcStep:
  assumes "decodeCmd L c = Some x" "tidyCmd c" "cmdNode c = k"
  shows "y \<in> registeredAfter x n \<longleftrightarrow> svcStep k y (y \<in> set (regNames n)) c"
proof (cases "cmdData c")
  case (DServices svcs)
  with assms show ?thesis
    using trimmedNames_decoded [of L svcs]
    by (auto simp: decodeCmd_def Let_def svcStep_def tidyCmd_def registeredAfter_def gostCommands_def simp del: set_map
        split: if_splits)
next
  case (DNames names)
  with assms have "trimSpace ` set names = set names" by (simp add: tidyCmd_def list_all_iff)
  with DNames assms show ?thesis
    by (auto simp: decodeCmd_def Let_def svcStep_def registeredAfter_def gostCommands_def simp del: set_map
        split: if_splits)
qed (use assms in \<open>auto simp: decodeCmd_def Let_def svcStep_def registeredAfter_def simp del: set_map split: if_splits\<close>)

lemma holds_step: "routeCommand L c n = (Some r, n') \<Longrightarrow> respMsg r = ''OK'' \<Longrightarrow> tidyCmd c \<Longrightarrow> cmdNode c = k \<Longrightarrow> covered n
    \<Longrightarrow> set (regNames n') = {y. svcStep k y (y \<in> set (regNames n)) c}"
proof -
  assume r: "routeCommand L c n = (Some r, n')" "respMsg r = ''OK''" and c: "tidyCmd c" "cmdNode c = k" and n: "covered n"
  show ?thesis
  proof (cases "decodeCmd L c")
    case None
    with r show ?thesis by (auto simp: routeCommand_def)
  next
    case (Some x)
    note view = registeredAfter_svcStep [OF Some c]
    show ?thesis
    proof (cases "x = NOther")
      case True
      then have "regNames n' = regNames n" using r Some by (auto simp: routeCommand_def saveConfig_def)
      moreover have "registeredAfter x n = set (regNames n)" using True by (simp add: registeredAfter_def)
      ultimately show ?thesis using view by auto
    next
      case False
      obtain n1 where "carryOut L x n = (Done, n1)" "n' = saveConfig n1"
        by (rule route_cases [OF r(1) Some False]) (use r(2) in auto)
      then have "set (regNames n') = registeredAfter x n" using carryOut_registered n by (simp add: saveConfig_def)
      then show ?thesis using view by auto
    qed
  qed
qed



section \<open>What a node does with a diagnosis\<close>

lemma ping_answer: "nodeAt L N sent k = Some n \<Longrightarrow> nodeAnswer L N sent (Cmd k ''TcpPing'' (DTcpPing ip port)) =
    \<lparr>respMsg = ''OK'', respData = Some (handleTcpPing (L k) ip port 2 3000)\<rparr>"
  by (simp add: nodeAnswer_def routeCommand_def decodeCmd_def gostCommands_def carryOut_def answerData_def Let_def)



end
