(* ===== verification/NodeHalf.thy ===== *)
theory NodeHalf
  imports NodePanel
begin

text \<open>
  A pair of listeners of which one is missing. The node deletes several services only together,
  and the panel takes \<open>not found\<close> for a deletion that succeeded.
\<close>

lemma name_trimmed: "\<forall>c \<in> set suf. \<not> isSpace c \<Longrightarrow> trimSpace (serviceNameOf s f t @ suf) = serviceNameOf s f t @ suf"
proof (rule trimSpace_id)
  have "\<not> isSpace CHR ''_''" by (simp add: isSpace_def)
  then show "\<forall>c \<in> set suf. \<not> isSpace c \<Longrightarrow> \<forall>c \<in> set (serviceNameOf s f t @ suf). \<not> isSpace c"
    by (auto simp: serviceNameOf_def buildServiceName_def dest: itoa_no_space)
qed

lemma missing_not_found [simp]: "strContains (serviceMissing x) ''not found''"
  unfolding serviceMissing_def strContains_iff by (metis append.assoc append_Cons append_Nil append_Nil2)

lemma missing_not_OK [simp]: "serviceMissing x \<noteq> ''OK''"
  by (simp add: serviceMissing_def)

lemma delete_pair_missing:
  assumes "isRegistered a (nsServices n)" "a \<noteq> []" "trimSpace a = a" "\<not> isRegistered b (nsServices n)" "b \<noteq> []" "trimSpace b = b"
  shows "routeCommand L (Cmd k ''DeleteService'' (DNames [a, b])) n =
    (Some \<lparr>respMsg = serviceMissing b, respData = None\<rparr>, saveConfig n)"
proof -
  obtain i where "getService a n = Some i" using assms(1,2) getService_iff [of a n] by (auto simp: isRegistered_names)
  moreover have "getService b n = None" using assms(4) getService_iff [of b n] by (auto simp: isRegistered_names)
  ultimately have "findServices [a, b] n = Inl (serviceMissing b)" using assms by (simp add: Let_def)
  then show ?thesis
    by (simp add: routeCommand_def decodeCmd_def gostCommands_def Let_def carryOut_def deleteServices_def)
qed

lemma running_saveConfig [simp]: "running (saveConfig n) x = running n x"
  by (simp add: running_def saveConfig_def split: option.split)

lemma running_registered: "running n x \<Longrightarrow> isRegistered x (nsServices n)"
  by (auto simp: running_def isRegistered_def split: option.splits)


text \<open>The forward is created; then its target changes while its second port is taken.\<close>

definition exFlaky :: lib where
  "exFlaky = exLib\<lparr>libListen := \<lambda>t open' c. if t \<in> {4, 5, 6} then Some ''bind: address already in use'' else None\<rparr>"

definition exPair :: "svcConfig list" where
  "exPair = buildServices ''1_7_3'' 1000 None ''198.51.100.1:80'' 1 exTunnel1 ''fifo'' []"

definition exHalf :: panel where
  "exHalf = exPanel\<lparr>dbSent := [Cmd 1 ''AddService'' (DServices exPair), Cmd 1 ''UpdateService'' (DServices exPair)]\<rparr>"


end
