(* ===== verification/NodePause.thy ===== *)
theory NodePause
  imports NodeFaults
begin

text \<open>Pausing and resuming: no paused service listens, and after the resumption all do again, under
  the same configuration.\<close>

section \<open>Editing the configuration of several services\<close>

lemma onConfig_map: "distinct (cfNames n) \<Longrightarrow> cfServices (onConfig f x n) = map (\<lambda>c. if gsName c = x then f c else c) (cfServices n)"
proof -
  have "distinct (map gsName cs) \<Longrightarrow> updateFirst (\<lambda>c. gsName c = x) f cs = map (\<lambda>c. if gsName c = x then f c else c) cs" for cs
  proof (induction cs)
    case (Cons c cs)
    show ?case
    proof (cases "gsName c = x")
      case True
      with Cons.prems have "map (\<lambda>c. if gsName c = x then f c else c) cs = cs" by (intro map_idI) (metis Cons.prems distinct.simps(2) image_eqI list.simps(9) set_map)
      with True show ?thesis by simp
    qed (use Cons in auto)
  qed simp
  then show "distinct (cfNames n) \<Longrightarrow> ?thesis" by (simp add: onConfig_def)
qed

lemma fold_onConfig_map:
  assumes "\<And>c. gsName (f c) = gsName c" "\<And>c. f (f c) = f c"
  shows "distinct (cfNames n) \<Longrightarrow>
    cfServices (fold (onConfig f) xs n) = map (\<lambda>c. if gsName c \<in> set xs then f c else c) (cfServices n)"
proof (induction xs arbitrary: n)
  case (Cons x xs)
  have "distinct (cfNames (onConfig f x n))" using Cons.prems assms(1) by (simp add: onConfig_names)
  from Cons.IH [OF this] show ?case using onConfig_map [OF Cons.prems, of f x] assms by auto
qed simp

lemma putKey_idem [simp]: "putKey k v (putKey k v xs) = putKey k v xs"
proof (cases "k \<in> set (map fst xs)")
  case True
  let ?xs = "map (\<lambda>p. if fst p = k then (k, v) else p) xs"
  have "k \<in> set (map fst ?xs)" using True by force
  moreover have "map (\<lambda>p. if fst p = k then (k, v) else p) ?xs = ?xs" by simp
  ultimately show ?thesis using True by (simp only: putKey_def if_True)
next
  case False
  have "map (\<lambda>p. if fst p = k then (k, v) else p) xs = xs" using False by (intro map_idI) force
  with False show ?thesis by (simp add: putKey_def)
qed

lemma mark_idem [simp]: "markPaused (markPaused c) = markPaused c"
  by (simp add: markPaused_def)

lemma clear_idem [simp]: "clearPaused (clearPaused c) = clearPaused c"
  by (simp add: clearPaused_def Let_def filter_empty_conv split: option.split)

text \<open>A configuration that the parser leaves as it is, and that is not marked.\<close>

definition settled :: "gostService \<Rightarrow> bool" where
  "settled c = (handlerMetadata (listenerMetadata (withDefaults c)) = c \<and> gsMetadata c \<noteq> Some [] \<and>
     (\<forall>md. gsMetadata c = Some md \<longrightarrow> ''paused'' \<notin> set (map fst md)))"

lemma clear_mark: "settled c \<Longrightarrow> clearPaused (markPaused c) = c"
proof -
  assume c: "settled c"
  show ?thesis
  proof (cases "gsMetadata c")
    case None
    then show ?thesis by (cases c) (simp add: markPaused_def clearPaused_def putKey_def)
  next
    case (Some md)
    with c have md: "''paused'' \<notin> set (map fst md)" "md \<noteq> []" by (auto simp: settled_def)
    then have "filter (\<lambda>p. fst p \<noteq> ''paused'') md = md" by (intro filter_True) force
    with Some md show ?thesis by (cases c) (simp add: markPaused_def clearPaused_def putKey_def)
  qed
qed

lemma isPaused_mark [simp]: "isPaused (markPaused c)"
proof -
  have "map_of (map (\<lambda>p. if fst p = k then (k, v) else p) xs) k = Some v" if "k \<in> set (map fst xs)" for k v :: string and xs
    using that by (induction xs) auto
  moreover have "map_of (xs @ [(k, v)]) k = Some v" if "k \<notin> set (map fst xs)" for k v :: string and xs
    using that by (induction xs) auto
  ultimately show ?thesis by (simp add: isPaused_def markPaused_def putKey_def del: map_of_append)
qed

lemma parse_settled: "settled c \<Longrightarrow> parseService L (markPaused c) n = (Inr i, c', n') \<Longrightarrow> c' = markPaused c"
proof -
  assume c: "settled c" and p: "parseService L (markPaused c) n = (Inr i, c', n')"
  have "c' = handlerMetadata (listenerMetadata (withDefaults (markPaused c)))"
    using p by (auto simp: parseService_def parseHandler_def Let_def split: option.splits if_splits sum.splits)
  also have "\<dots> = markPaused (handlerMetadata (listenerMetadata (withDefaults c)))"
    by (simp add: handlerMetadata_def listenerMetadata_def withDefaults_def markPaused_def listenerOf_def handlerOf_def)
  finally show ?thesis using c by (simp add: settled_def)
qed

section \<open>The sockets\<close>

lemma map_of_regOk: "regOk n \<Longrightarrow> map_of (nsServices n) x = Some i \<Longrightarrow> x \<noteq> [] \<and> siSocket i < nsNext n"
  by (auto simp: regOk_def dest!: map_of_SomeD)

lemma close_sockets: "h \<in> fst ` set (nsSockets (fold (\<lambda>(x, i). closeInst i) found n)) \<longleftrightarrow>
    h \<in> fst ` set (nsSockets n) \<and> (\<forall>(x, i) \<in> set found. siSocket i \<noteq> h)"
  by (induction found arbitrary: n) (auto simp: closeInst_def)

lemma find_distinct: "distinct (map g xs) \<Longrightarrow> y \<in> set xs \<Longrightarrow> find (\<lambda>x. g x = g y) xs = Some y"
proof (induction xs)
  case (Cons a xs)
  show ?case
  proof (cases "g a = g y")
    case True
    then have "y \<notin> set xs" using Cons.prems(1) by (auto simp: image_iff)
    with True Cons.prems(2) show ?thesis by simp
  qed (use Cons in auto)
qed simp

text \<open>The loop that starts the services again, from states in which every listed name has an
  instance and a marked, settled configuration.\<close>

lemma resumeEach_runs:
  assumes "resumeEach L found rs n = (Done, n')" "regOk n" "distinct (cfNames n)"
    and "\<forall>(x, i) \<in> set found. x \<noteq> [] \<and> trimSpace x = x \<and> siSocket i < K \<and> map_of (nsServices n) x = Some i \<and> (\<exists>c \<in> set (cfServices n). gsName c = x \<and> (\<exists>d. settled d \<and> c = markPaused d))"
    and "K \<le> nsNext n" "distinct (map fst found)"
  shows "cfServices n' = cfServices n \<and> regOk n' \<and>
    (\<forall>x. (x \<in> set (map fst found) \<or> (\<exists>i. map_of (nsServices n) x = Some i \<and> K \<le> siSocket i \<and> siSocket i \<in> fst ` set (nsSockets n))) \<longrightarrow>
      (\<exists>i. map_of (nsServices n') x = Some i \<and> K \<le> siSocket i \<and> siSocket i \<in> fst ` set (nsSockets n')))"
  using assms
proof (induction found arbitrary: rs n)
  case (Cons p found)
  obtain x i where p: "p = (x, i)" by fastforce
  let ?n0 = "unregisterService x (closeInst i n)"
  obtain d where d: "markPaused d \<in> set (cfServices n)" "gsName (markPaused d) = x" "settled d"
    and x: "x \<noteq> []" "trimSpace x = x" "siSocket i < K" "map_of (nsServices n) x = Some i" using Cons.prems(4) p by auto
  have n0: "regOk ?n0"
    using Cons.prems(2) x(3) Cons.prems(5) by (intro shape.unreg shape.close) auto
  have conf: "firstConfig x ?n0 = Some (markPaused d)"
    using find_distinct [OF Cons.prems(3) d(1)] d(2) by (simp add: firstConfig_def)
  obtain q c' n1 where q: "parseService L (markPaused d) ?n0 = (q, c', n1)" by (metis prod_cases3)
  obtain j where j: "q = Inr j" using Cons.prems(1) p conf q by (cases q) (auto simp: Let_def)
  note f = parseService_frame(1,4) [OF q] and inst = parseService_inst [OF q [unfolded j]]
  have c': "c' = markPaused d" using parse_settled [OF d(3) q [unfolded j]] .
  have same: "cfServices (onConfig (\<lambda>_. c') x n1) = cfServices n"
  proof -
    have "cfServices (onConfig (\<lambda>_. c') x n1) = map (\<lambda>c. if gsName c = x then markPaused d else c) (cfServices n)"
      using onConfig_map [of n1 "\<lambda>_. c'" x] f(2) Cons.prems(3) c' by simp
    also have "\<dots> = cfServices n"
      using d(1,2) Cons.prems(3) by (intro map_idI) (auto simp: distinct_map inj_on_def)
    finally show ?thesis .
  qed
  let ?n1 = "onConfig (\<lambda>_. c') x n1"
  obtain n2 where n2: "registerService x j ?n1 = Some n2" "resumeEach L found (rs @ [x]) n2 = (Done, n')"
    using Cons.prems(1) p conf q j by (auto simp: Let_def split: option.splits)
  have n2': "n2 = ?n1\<lparr>nsServices := nsServices ?n1 @ [(x, j)]\<rparr>" "\<not> isRegistered x (nsServices ?n1)"
    using n2(1) x(1) by (simp_all add: registerService_Some)
  have n1: "regOk n1" "nsNext n \<le> nsNext n1" using shape.parseD [OF q n0] parseService_next [OF q] by simp_all
  have "regOk n2" using shape.reg [OF shape.onConfigI [OF n1(1)] _ _ x(1,2) n2(1)] inst d(2) by simp
  moreover have "cfServices n2 = cfServices n" using n2'(1) same by simp
  moreover have more: "nsNext n \<le> nsNext n2" using n2'(1) n1(2) by simp
  moreover have "map_of (nsServices n2) y = Some k" if "(y, k) \<in> set found" for y k
  proof -
    have "y \<noteq> x" "map_of (nsServices n) y = Some k" using that Cons.prems(4,6) p by force+
    moreover have "nsServices n2 = unregister x (nsServices n) @ [(x, j)]"
      using n2'(1) f(1) x(4) by (simp add: unregisterService_def)
    ultimately show ?thesis by (simp add: map_of_unregister map_add_def)
  qed
  ultimately have ih: "cfServices n' = cfServices n \<and> regOk n' \<and>
    (\<forall>y. (y \<in> set (map fst found) \<or> (\<exists>i. map_of (nsServices n2) y = Some i \<and> K \<le> siSocket i \<and> siSocket i \<in> fst ` set (nsSockets n2))) \<longrightarrow>
      (\<exists>i. map_of (nsServices n') y = Some i \<and> K \<le> siSocket i \<and> siSocket i \<in> fst ` set (nsSockets n')))"
    using Cons.IH [OF n2(2)] Cons.prems(3-6) by (fastforce simp: p)
  have now: "\<exists>i. map_of (nsServices n2) y = Some i \<and> K \<le> siSocket i \<and> siSocket i \<in> fst ` set (nsSockets n2)"
    if "y = x \<or> (\<exists>i. map_of (nsServices n) y = Some i \<and> K \<le> siSocket i \<and> siSocket i \<in> fst ` set (nsSockets n))" for y
  proof (cases "y = x")
    case True
    have "map_of (nsServices n2) x = Some j" using n2' by (simp add: isRegistered_def map_add_def)
    moreover have "siSocket j \<in> fst ` set (nsSockets n2)" using n2'(1) inst by (simp add: onConfig_def)
    moreover have "K \<le> siSocket j" using inst Cons.prems(5) by simp
    ultimately show ?thesis using True by blast
  next
    case False
    have "\<exists>i. map_of (nsServices n) y = Some i \<and> K \<le> siSocket i \<and> siSocket i \<in> fst ` set (nsSockets n)" using that False by blast
    then obtain k where k: "map_of (nsServices n) y = Some k" "K \<le> siSocket k" "siSocket k \<in> fst ` set (nsSockets n)" by blast
    have "nsServices n2 = unregister x (nsServices n) @ [(x, j)]"
      using n2'(1) f(1) x(4) by (simp add: unregisterService_def)
    then have "map_of (nsServices n2) y = Some k" using k(1) False by (simp add: map_of_unregister map_add_def)
    moreover have "siSocket k \<in> fst ` set (nsSockets n2)"
    proof -
      have "siSocket k \<noteq> siSocket i" using k(2) x(3) by simp
      then have "siSocket k \<in> fst ` set (nsSockets ?n0)" using k(3) x(4) by (auto simp: unregisterService_def closeInst_def)
      then show ?thesis using n2'(1) inst(3) by (simp add: onConfig_def)
    qed
    ultimately show ?thesis using k(2) by blast
  qed
  show ?case using ih now by (simp add: p)
qed simp

lemma findServices_cong: "nsServices n' = nsServices n \<Longrightarrow> findServices ss n' = findServices ss n"
  by (induction ss) (auto simp: getService_def Let_def split: option.split)

lemma findPaused_all: "findServices ss n = Inr found \<Longrightarrow>
    \<forall>s \<in> set ss. \<exists>c. firstConfig (trimSpace s) n = Some c \<and> isPaused c \<Longrightarrow> findPaused ss n = Inr found"
  by (induction ss arbitrary: found) (auto simp: Let_def split: if_splits option.splits sum.splits)

lemma close_frames: "nsNext (fold (\<lambda>(x, i). closeInst i) found n) = nsNext n"
  by (induction found arbitrary: n) auto

lemma mark_frames: "nsSockets (fold (onConfig f) xs n) = nsSockets n \<and> nsNext (fold (onConfig f) xs n) = nsNext n"
  by (induction xs arbitrary: n) (auto simp: onConfig_def)

text \<open>What pausing has done: which services were found, and that only their listeners and their
  entries in the configuration have changed.\<close>

abbreviation onNames :: "string list \<Rightarrow> (gostService \<Rightarrow> gostService) \<Rightarrow> gostService \<Rightarrow> gostService" where
  "onNames xs f c \<equiv> (if gsName c \<in> set xs then f c else c)"

lemma pause_shape:
  assumes "covered n" "distinct (cfNames n)" "pauseServices L ss n = (Done, n1)"
  obtains found where "findServices ss n = Inr found" "map fst found = map trimSpace ss"
    "n1 = fold (onConfig markPaused) (map fst found) (fold (\<lambda>(x, i). closeInst i) found n)"
    "nsServices n1 = nsServices n" "cfServices n1 = map (onNames (map fst found) markPaused) (cfServices n)"
    "\<And>x i. (x, i) \<in> set found \<Longrightarrow> map_of (nsServices n) x = Some i \<and> x \<noteq> [] \<and> trimSpace x = x \<and> x \<in> set (cfNames n)"
proof -
  obtain found where found: "findServices ss n = Inr found"
    using assms(3) by (cases "findServices ss n") (auto simp: pauseServices_def split: if_splits)
  note fnd = findServices_Inr [OF found]
  have names: "map fst found = map trimSpace ss" using fnd by simp
  have inst: "map_of (nsServices n) x = Some i \<and> x \<noteq> [] \<and> x \<in> set (cfNames n)" if "(x, i) \<in> set found" for x i
    using fnd found_registered [OF found that] assms(1) that by (auto simp: getService_def getObject_def covered_def)
  then have "\<forall>(x, i) \<in> set found. x \<in> set (cfNames n)" by blast
  from pauseEach_covered [OF this, of L "[]"]
  have n1: "n1 = fold (onConfig markPaused) (map fst found) (fold (\<lambda>(x, i). closeInst i) found n)"
    using assms(3) found by (simp add: pauseServices_def split: if_splits)
  have "cfServices n1 = map (onNames (map fst found) markPaused) (cfServices n)"
    using fold_onConfig_map [of markPaused "fold (\<lambda>(x, i). closeInst i) found n" "map fst found"] assms(2) close_fold [of found n] n1 by simp
  moreover have "trimSpace x = x" if "(x, i) \<in> set found" for x i
  proof -
    have "x \<in> trimSpace ` set ss" using that names by (metis fst_conv image_eqI set_map)
    then show ?thesis by auto
  qed
  ultimately show ?thesis
    using that [OF found names n1 pause_names(1) [OF assms(3,1)]] inst by blast
qed

lemma marked_entry:
  assumes "cfServices n1 = map (onNames xs markPaused) (cfServices n)" "x \<in> set xs" "x \<in> set (cfNames n)"
    and "\<forall>c \<in> set (cfServices n). gsName c \<in> set xs \<longrightarrow> settled c"
  shows "\<exists>c. markPaused c \<in> set (cfServices n1) \<and> gsName c = x \<and> settled c"
proof -
  have "x \<in> gsName ` set (cfServices n)" using assms(3) by simp
  then obtain c where c: "c \<in> set (cfServices n)" "gsName c = x" by auto
  have "onNames xs markPaused c = markPaused c" using c(2) assms(2) by (simp only: if_True)
  moreover have "onNames xs markPaused c \<in> set (cfServices n1)" unfolding assms(1) set_map by (rule imageI [OF c(1)])
  ultimately have "markPaused c \<in> set (cfServices n1)" by (simp only:)
  then show ?thesis using c assms(2,4) by blast
qed

text \<open>Resuming finds the same services, all of them marked.\<close>

lemma resume_shape:
  assumes "resumeServices L ss n1 = (Done, n2)" "findServices ss n1 = Inr found" "distinct (cfNames n1)"
    and "map fst found = map trimSpace ss"
    and "\<And>x i. (x, i) \<in> set found \<Longrightarrow> \<exists>c. markPaused c \<in> set (cfServices n1) \<and> gsName c = x \<and> settled c"
  obtains m where "resumeEach L found [] n1 = (Done, m)" "n2 = fold (onConfig clearPaused) (map fst found) m"
proof -
  have "\<exists>c. firstConfig (trimSpace s) n1 = Some c \<and> isPaused c" if "s \<in> set ss" for s
  proof -
    have "trimSpace s \<in> set (map fst found)" using that assms(4) by simp
    then obtain i where "(trimSpace s, i) \<in> set found" by auto
    then obtain c where c: "markPaused c \<in> set (cfServices n1)" "gsName c = trimSpace s" using assms(5) by blast
    have "firstConfig (trimSpace s) n1 = Some (markPaused c)"
      using find_distinct [OF assms(3) c(1)] c(2) by (simp add: firstConfig_def)
    then show ?thesis by simp
  qed
  with findPaused_all [OF assms(2)] have "findPaused ss n1 = Inr found" by blast
  then show ?thesis
    using assms(1) that by (cases "resumeEach L found [] n1") (auto simp: resumeServices_def split: if_splits outcome.splits)
qed

lemma runningI: "map_of (nsServices n) x = Some i \<Longrightarrow> siSocket i \<in> fst ` set (nsSockets n) \<Longrightarrow> running n x"
  by (simp add: running_def)

lemma paused_stopped:
  assumes "n1 = fold (onConfig markPaused) (map fst found) (fold (\<lambda>(x, i). closeInst i) found n)"
    and "(x, i) \<in> set found" "map_of (nsServices n1) x = Some i"
  shows "\<not> running n1 x"
proof -
  have "siSocket i \<notin> fst ` set (nsSockets n1)"
    using close_sockets [of "siSocket i" found n] assms(2) mark_frames [of markPaused "map fst found"] assms(1) by auto
  then show ?thesis using assms(3) by (simp add: running_def)
qed

text \<open>C9: Pausing running services and resuming them is a round trip. In between none of them
  listens; afterwards all of them do, and the registry and the configuration are what they were.\<close>

theorem pause_resume_round_trip:
  assumes "nodeReach L n" "distinct (map gsName (cfServices n))" "distinct (map trimSpace ss)"
    and "pauseServices L ss n = (Done, n1)" "resumeServices L ss n1 = (Done, n2)"
    and "\<forall>c \<in> set (cfServices n). gsName c \<in> trimSpace ` set ss \<longrightarrow> settled c"
  shows "(\<forall>s \<in> set ss. \<not> running n1 (trimSpace s) \<and> running n2 (trimSpace s)) \<and> cfServices n2 = cfServices n \<and>
    set (map fst (nsServices n2)) = set (map fst (nsServices n))"
proof -
  have ok: "regOk n" "covered n" using nodeReach_ok [OF assms(1)] by (simp_all add: nodeOk_def)
  obtain found where found: "findServices ss n = Inr found" and names: "map fst found = map trimSpace ss"
    and n1: "n1 = fold (onConfig markPaused) (map fst found) (fold (\<lambda>(x, i). closeInst i) found n)"
    and svcs: "nsServices n1 = nsServices n"
    and cfg: "cfServices n1 = map (onNames (map fst found) markPaused) (cfServices n)"
    and inst: "\<And>x i. (x, i) \<in> set found \<Longrightarrow> map_of (nsServices n) x = Some i \<and> x \<noteq> [] \<and> trimSpace x = x \<and> x \<in> set (cfNames n)"
    using pause_shape [OF ok(2) assms(2,4)] by blast
  have settled: "\<forall>c \<in> set (cfServices n). gsName c \<in> set (map fst found) \<longrightarrow> settled c" using assms(6) names by auto
  have dist: "distinct (cfNames n1)" using pause_names(2) [OF assms(4) ok(2)] assms(2) by simp
  have marked: "\<exists>c. markPaused c \<in> set (cfServices n1) \<and> gsName c = x \<and> settled c" if "(x, i) \<in> set found" for x i
    using marked_entry [OF cfg _ _ settled] inst [OF that] that by (metis fst_conv image_eqI set_map)
  have found1: "findServices ss n1 = Inr found" using findServices_cong [OF svcs] found by simp
  obtain m where m: "resumeEach L found [] n1 = (Done, m)" "n2 = fold (onConfig clearPaused) (map fst found) m"
    by (rule resume_shape [OF assms(5) found1 dist names]) (auto intro: marked)
  have reg1: "regOk n1" using shape.pause_keeps [OF ok(1), of L ss] assms(4) by simp
  have "\<forall>(x, i) \<in> set found. x \<noteq> [] \<and> trimSpace x = x \<and> siSocket i < nsNext n1 \<and> map_of (nsServices n1) x = Some i \<and>
      (\<exists>c \<in> set (cfServices n1). gsName c = x \<and> (\<exists>d. settled d \<and> c = markPaused d))"
  proof (intro ballI, clarify)
    fix x i assume xi: "(x, i) \<in> set found"
    obtain c where c: "markPaused c \<in> set (cfServices n1)" "gsName c = x" "settled c" using marked [OF xi] by blast
    have "\<exists>c \<in> set (cfServices n1). gsName c = x \<and> (\<exists>d. settled d \<and> c = markPaused d)"
      using c by (intro bexI [OF _ c(1)]) auto
    moreover have "map_of (nsServices n1) x = Some i" using inst [OF xi] svcs by simp
    ultimately show "x \<noteq> [] \<and> trimSpace x = x \<and> siSocket i < nsNext n1 \<and> map_of (nsServices n1) x = Some i \<and>
      (\<exists>c \<in> set (cfServices n1). gsName c = x \<and> (\<exists>d. settled d \<and> c = markPaused d))"
      using map_of_regOk [OF reg1, of x i] inst [OF xi] by blast
  qed
  moreover have "distinct (map fst found)" using names assms(3) by simp
  ultimately have "cfServices m = cfServices n1 \<and> (\<forall>x \<in> set (map fst found).
      \<exists>i. map_of (nsServices m) x = Some i \<and> siSocket i \<in> fst ` set (nsSockets m))"
    using resumeEach_runs [OF m(1) reg1 dist _ le_refl] by blast
  then have runs: "cfServices m = cfServices n1" "\<forall>x \<in> set (map fst found). running m x"
    by (blast, blast intro: runningI)
  have "cfServices n2 = map (onNames (map fst found) clearPaused) (cfServices n1)"
    using fold_onConfig_map [of clearPaused m "map fst found"] dist runs m(2) by simp
  also have "\<dots> = cfServices n" unfolding cfg map_map using settled by (intro map_idI) (simp add: clear_mark)
  finally have same: "cfServices n2 = cfServices n" .
  have "\<not> running n1 (trimSpace s) \<and> running n2 (trimSpace s)" if "s \<in> set ss" for s
  proof -
    have s: "trimSpace s \<in> set (map fst found)" using names that by simp
    then obtain i where i: "(trimSpace s, i) \<in> set found" by auto
    then have "\<not> running n1 (trimSpace s)" using paused_stopped [OF n1 i] inst [OF i] svcs by simp
    moreover have "nsSockets n2 = nsSockets m" "nsServices n2 = nsServices m"
      using mark_frames [of clearPaused "map fst found" m] mark_fold [OF paused_name(2), of "map fst found" m] m(2) by simp_all
    then have "running n2 (trimSpace s) = running m (trimSpace s)" by (simp only: running_def)
    ultimately show ?thesis using runs(2) s by blast
  qed
  then show ?thesis using same resume_names(3) [OF assms(5)] svcs by simp
qed

theorem pause_resume_round_trip_witness:
  "(let n = snd (routeCommand exLib (Cmd 1 ''AddService'' (DServices [exSvc ''a'' '':1'' ''tcp'', exSvc ''b'' '':2'' ''tcp''])) exStarted);
        n1 = snd (pauseServices exLib ['' a''] n); n2 = snd (resumeServices exLib ['' a''] n1)
    in \<not> running n1 ''a'' \<and> running n2 ''a'' \<and> cfServices n2 = cfServices n)"
proof -
  let ?c = "Cmd 1 ''AddService'' (DServices [exSvc ''a'' '':1'' ''tcp'', exSvc ''b'' '':2'' ''tcp''])"
  define n where "n = snd (routeCommand exLib ?c exStarted)"
  define n1 where "n1 = snd (pauseServices exLib ['' a''] n)"
  define n2 where "n2 = snd (resumeServices exLib ['' a''] n1)"
  have "fst (routeCommand exLib ?c exStarted) \<noteq> None" by code_simp
  then have reach: "nodeReach exLib n" using exStarted_reach unfolding n_def by (metis nodeReach.command not_None_eq prod.collapse)
  have names: "distinct (map gsName (cfServices n))" "distinct (map trimSpace ['' a''])" unfolding n_def by code_simp+
  have "fst (pauseServices exLib ['' a''] n) = Done" unfolding n_def by code_simp
  then have p: "pauseServices exLib ['' a''] n = (Done, n1)" unfolding n1_def by (metis prod.collapse)
  have "fst (resumeServices exLib ['' a''] n1) = Done" unfolding n1_def n_def by code_simp
  then have q: "resumeServices exLib ['' a''] n1 = (Done, n2)" unfolding n2_def by (metis prod.collapse)
  have "list_all (\<lambda>c. handlerMetadata (listenerMetadata (withDefaults c)) = c \<and> gsMetadata c = None) (cfServices n)"
    unfolding n_def by code_simp
  then have "\<forall>c \<in> set (cfServices n). gsName c \<in> trimSpace ` set ['' a''] \<longrightarrow> settled c"
    by (auto simp: list_all_iff settled_def)
  note trip = pause_resume_round_trip [OF reach names p q this]
  have "trimSpace '' a'' = ''a''" by code_simp
  then have "\<not> running n1 ''a'' \<and> running n2 ''a'' \<and> cfServices n2 = cfServices n" using trip by simp
  then show ?thesis by (simp add: Let_def n2_def n1_def n_def)
qed

end
