(* ===== verification/Diagnosis.thy ===== *)
theory Diagnosis
  imports NodePanel Addresses
begin

text \<open>
  The diagnosis of a forward, \<open>DiagnoseForward\<close> and \<open>performTcpPingDiagnosis\<close> of
  \<open>service/forward.go\<close>, on the nodes that answer it: the entry node (or the exit node of a relayed
  tunnel) pings every target, and the report says of each whether it was reached.
\<close>

section \<open>The panel's side\<close>

text \<open>The three descriptions of a result, and the two messages of a success.\<close>

datatype pingLeg = ForwardToTarget | EntryToExit | ExitToTarget

definition msgPinged :: string where
  "msgPinged = ''TCP'' @ map char_of [0xE8, 0xBF, 0x9E, 0xE6, 0x8E, 0xA5, 0xE6, 0x88, 0x90, 0xE5, 0x8A, 0x9F :: nat]"

definition msgPingedBare :: string where
  "msgPingedBare = msgPinged @ map char_of [0xEF, 0xBC, 0x8C, 0xE4, 0xBD, 0x86, 0xE6, 0x97, 0xA0, 0xE6,
     0xB3, 0x95, 0xE8, 0xA7, 0xA3, 0xE6, 0x9E, 0x90, 0xE8, 0xAF, 0xA6, 0xE7, 0xBB, 0x86, 0xE6, 0x95,
     0xB0, 0xE6, 0x8D, 0xAE :: nat]"

record diagnosisResult =
  dgNodeId :: int
  dgNodeName :: string
  dgTargetIp :: string
  dgTargetPort :: int
  dgDescription :: pingLeg
  dgSuccess :: bool
  dgMessage :: string
  dgAverageTime :: rat
  dgPacketLoss :: rat
  dgTimestamp :: int

record diagnosisReport =
  drForwardId :: int
  drForwardName :: string
  drRelayed :: bool
  drResults :: "diagnosisResult list"
  drTimestamp :: int

text \<open>What the answer of a node says. Service names and tags are JSON objects without the key
  \<open>success\<close>; \<open>ROther\<close> is data that is no object.\<close>

definition readPing :: "gostResponse \<Rightarrow> diagnosisResult \<Rightarrow> diagnosisResult" where
  "readPing g r =
     (if respMsg g = gostSuccessMsg then
        (case respData g of
           None \<Rightarrow> r\<lparr>dgSuccess := True, dgMessage := msgPinged\<rparr>
         | Some ROther \<Rightarrow> r\<lparr>dgSuccess := True, dgMessage := msgPingedBare\<rparr>
         | Some (RTcpPing True avg loss e) \<Rightarrow>
             r\<lparr>dgSuccess := True, dgMessage := msgPinged,
               dgAverageTime := (case avg of None \<Rightarrow> dgAverageTime r | Some a \<Rightarrow> a),
               dgPacketLoss := (case loss of None \<Rightarrow> dgPacketLoss r | Some l \<Rightarrow> l)\<rparr>
         | Some (RTcpPing False avg loss e) \<Rightarrow>
             r\<lparr>dgSuccess := False, dgMessage := (case e of None \<Rightarrow> dgMessage r | Some m \<Rightarrow> m),
               dgAverageTime := -1, dgPacketLoss := 100\<rparr>
         | Some _ \<Rightarrow> r\<lparr>dgSuccess := False, dgAverageTime := -1, dgPacketLoss := 100\<rparr>)
      else r\<lparr>dgSuccess := False, dgMessage := respMsg g, dgAverageTime := -1, dgPacketLoss := 100\<rparr>)"

definition performTcpPingDiagnosis :: "env \<Rightarrow> node \<Rightarrow> string \<Rightarrow> int \<Rightarrow> pingLeg \<Rightarrow> diagnosisResult prog" where
  "performTcpPingDiagnosis E n targetIp port description = do {
     g \<leftarrow> SendMsg E (nodeID n) (DTcpPing targetIp port) ''TcpPing'';
     return (readPing g \<lparr>dgNodeId = nodeID n, dgNodeName = nodeName n, dgTargetIp = targetIp,
       dgTargetPort = port, dgDescription = description, dgSuccess = False, dgMessage = [],
       dgAverageTime = 0, dgPacketLoss = 0, dgTimestamp = now E\<rparr>) }"

fun pingTargets :: "env \<Rightarrow> node \<Rightarrow> pingLeg \<Rightarrow> string list \<Rightarrow> diagnosisResult list \<Rightarrow>
    (err + diagnosisResult list) prog" where
  "pingTargets E n leg [] results = return (Inr results)"
| "pingTargets E n leg (addr # addrs) results =
     (let targetIp = extractIpFromAddress addr; targetPort = extractPortFromAddress addr
      in if targetIp = [] \<or> targetPort = -1 then return (Inl (EPrefixGost ''cannot parse target'' addr))
         else do {
           r \<leftarrow> performTcpPingDiagnosis E n targetIp targetPort leg;
           pingTargets E n leg addrs (results @ [r]) })"

definition diagnosisOf :: "env \<Rightarrow> forward \<Rightarrow> int \<Rightarrow> bool \<Rightarrow> err + diagnosisResult list \<Rightarrow> diagnosisReport R" where
  "diagnosisOf E fwd i relayed r = (case r of
      Inl e \<Rightarrow> Err e
    | Inr results \<Rightarrow> Ok \<lparr>drForwardId = i, drForwardName = fwdName fwd, drRelayed = relayed,
        drResults = results, drTimestamp = now E\<rparr>)"

definition DiagnoseForward :: "env \<Rightarrow> int \<Rightarrow> int \<Rightarrow> int \<Rightarrow> diagnosisReport R prog" where
  "DiagnoseForward E i userId roleId = do {
     s \<leftarrow> gets (\<lambda>s. s);
     (case validateForwardExists s i userId roleId of
        None \<Rightarrow> return (Err EForwardNotFound)
      | Some fwd \<Rightarrow> (case firstTunnel s (fwdTunnelId fwd) of
        None \<Rightarrow> return (Err ETunnelNotFound)
      | Some tunnel \<Rightarrow> (case GetNodeById s (tunInNodeId tunnel) of
        None \<Rightarrow> return (Err EInNodeNotFound)
      | Some inNode \<Rightarrow>
          let addrs = splitOn CHR '','' (fwdRemoteAddr fwd)
          in if tunType tunnel = tunnelTypePortForward then do {
               r \<leftarrow> pingTargets E inNode ForwardToTarget addrs [];
               return (diagnosisOf E fwd i False r) }
             else (case GetNodeById s (tunOutNodeId tunnel) of
                 None \<Rightarrow> return (Err EOutNodeNotFound)
               | Some outNode \<Rightarrow> do {
                   q \<leftarrow> performTcpPingDiagnosis E inNode (nodeServerIp outNode) (fwdOutPort fwd) EntryToExit;
                   r \<leftarrow> pingTargets E outNode ExitToTarget addrs [q];
                   return (diagnosisOf E fwd i True r) })))) }"

section \<open>What is sent\<close>

definition onlyPings :: "cmd list \<Rightarrow> bool" where
  "onlyPings cs = list_all (\<lambda>c. cmdType c = ''TcpPing'' \<and> (\<exists>ip port. cmdData c = DTcpPing ip port)) cs"

text \<open>A ping changes nothing on the node but the file, which is written anew.\<close>

lemma ping_route: "routeCommand L (Cmd k ''TcpPing'' (DTcpPing ip port)) n =
    (Some \<lparr>respMsg = ''OK'', respData = Some (handleTcpPing L ip port 2 3000)\<rparr>, saveConfig n)"
  by (simp add: routeCommand_def decodeCmd_def gostCommands_def carryOut_def answerData_def Let_def)

lemma alive_after_pings: "nodeAt L N sent k \<noteq> None \<Longrightarrow> onlyPings cs \<Longrightarrow> nodeAt L N (sent @ cs) k \<noteq> None"
proof (induction cs rule: rev_induct)
  case (snoc c cs)
  then obtain n where "nodeAt L N (sent @ cs) k = Some n" by (auto simp: onlyPings_def)
  moreover obtain j ip port where "c = Cmd j ''TcpPing'' (DTcpPing ip port)"
    using snoc.prems(2) by (cases c) (auto simp: onlyPings_def)
  moreover have "nodeAt L N (sent @ cs @ [c]) k = nodeAt L N ((sent @ cs) @ [c]) k" by simp
  ultimately show ?case by (simp del: append_assoc add: serve_def ping_route)
qed simp

corollary alive_after_ping: "nodeAt L N sent k \<noteq> None \<Longrightarrow>
    nodeAt L N (sent @ [Cmd j ''TcpPing'' (DTcpPing ip port)]) k \<noteq> None"
  by (rule alive_after_pings) (simp_all add: onlyPings_def)

text \<open>A target is reached: the node accepts the request and its connection succeeds.\<close>

definition reached :: "lib \<Rightarrow> string \<Rightarrow> int \<Rightarrow> bool" where
  "reached L ip port = ((libIsIP L ip \<or> isValidHostname ip) \<and> 0 < port \<and> port \<le> 65535 \<and>
     (case libPing L ip port 2 3000 of Inl _ \<Rightarrow> False | Inr _ \<Rightarrow> True))"

lemma readPing_reached: "dgSuccess (readPing \<lparr>respMsg = ''OK'', respData = Some (handleTcpPing L ip port 2 3000)\<rparr> r)
    = reached L ip port"
  by (auto simp: readPing_def gostSuccessMsg_def handleTcpPing_def reached_def split: sum.splits prod.splits)

text \<open>One ping on an online node that runs.\<close>

lemma perform_result:
  fixes L :: "int \<Rightarrow> lib" and ip :: string and port :: int and leg :: pingLeg
  assumes "staysOnline E (nodeID n)" "nodeAt L N (dbSent s) (nodeID n) \<noteq> None"
  defines "q \<equiv> performTcpPingDiagnosis (withNodes L N E) n ip port leg"
  shows "dgSuccess (result q s) = reached (L (nodeID n)) ip port"
    "dgNodeId (result q s) = nodeID n" "dgTargetIp (result q s) = ip" "dgTargetPort (result q s) = port"
    "exec q s = s\<lparr>dbSent := dbSent s @ [Cmd (nodeID n) ''TcpPing'' (DTcpPing ip port)]\<rparr>"
proof -
  obtain m where m: "nodeAt L N (dbSent s) (nodeID n) = Some m" using assms(2) by blast
  have "result q s = readPing \<lparr>respMsg = ''OK'', respData = Some (handleTcpPing (L (nodeID n)) ip port 2 3000)\<rparr>
      \<lparr>dgNodeId = nodeID n, dgNodeName = nodeName n, dgTargetIp = ip, dgTargetPort = port, dgDescription = leg,
       dgSuccess = False, dgMessage = [], dgAverageTime = 0, dgPacketLoss = 0, dgTimestamp = now (withNodes L N E)\<rparr>"
    using assms(1) ping_answer [OF m] by (simp add: q_def performTcpPingDiagnosis_def run result_SendMsg)
  moreover have "dgNodeId (readPing g r) = dgNodeId r \<and> dgTargetIp (readPing g r) = dgTargetIp r \<and>
      dgTargetPort (readPing g r) = dgTargetPort r" for g r
    by (auto simp: readPing_def split: option.splits respData.splits bool.splits)
  ultimately show "dgSuccess (result q s) = reached (L (nodeID n)) ip port"
    "dgNodeId (result q s) = nodeID n" "dgTargetIp (result q s) = ip" "dgTargetPort (result q s) = port"
    by (simp_all add: readPing_reached)
  show "exec q s = s\<lparr>dbSent := dbSent s @ [Cmd (nodeID n) ''TcpPing'' (DTcpPing ip port)]\<rparr>"
    using assms(1) by (simp add: q_def performTcpPingDiagnosis_def run exec_SendMsg)
qed

definition targets :: "string list \<Rightarrow> (string \<times> int) list" where
  "targets addrs = map (\<lambda>a. (extractIpFromAddress a, extractPortFromAddress a)) addrs"

abbreviation parsable :: "string \<Rightarrow> bool" where
  "parsable a \<equiv> extractIpFromAddress a \<noteq> [] \<and> extractPortFromAddress a \<noteq> -1"

abbreviation verdict :: "diagnosisResult \<Rightarrow> int \<times> (string \<times> int) \<times> bool" where
  "verdict r \<equiv> (dgNodeId r, (dgTargetIp r, dgTargetPort r), dgSuccess r)"

abbreviation verdicts :: "(int \<Rightarrow> lib) \<Rightarrow> int \<Rightarrow> (string \<times> int) list \<Rightarrow> (int \<times> (string \<times> int) \<times> bool) list" where
  "verdicts L k ts \<equiv> map (\<lambda>t. (k, t, reached (L k) (fst t) (snd t))) ts"

lemma pingTargets_result:
  assumes "staysOnline E (nodeID n)" "nodeAt L N (dbSent s) (nodeID n) \<noteq> None" "list_all parsable addrs"
  shows "\<exists>rs. result (pingTargets (withNodes L N E) n leg addrs acc) s = Inr (acc @ rs) \<and>
      map verdict rs = verdicts L (nodeID n) (targets addrs)"
  using assms(2,3)
proof (induction addrs arbitrary: acc s)
  case (Cons a as)
  let ?ip = "extractIpFromAddress a" let ?port = "extractPortFromAddress a"
  let ?q = "performTcpPingDiagnosis (withNodes L N E) n ?ip ?port leg"
  note one = perform_result [OF assms(1) Cons.prems(1), of ?ip ?port leg]
  let ?s = "s\<lparr>dbSent := dbSent s @ [Cmd (nodeID n) ''TcpPing'' (DTcpPing ?ip ?port)]\<rparr>"
  have "nodeAt L N (dbSent ?s) (nodeID n) \<noteq> None"
    using alive_after_ping [OF Cons.prems(1)] by (simp del: nodeAt_snoc)
  from Cons.IH [OF this, of "acc @ [result ?q s]"] Cons.prems(2)
  obtain rs where "result (pingTargets (withNodes L N E) n leg as (acc @ [result ?q s])) ?s = Inr (acc @ result ?q s # rs)"
    "map verdict rs = verdicts L (nodeID n) (targets as)" by auto
  then show ?case using Cons.prems(2) one
    by (intro exI [of _ "result ?q s # rs"]) (simp add: Let_def run targets_def)
qed (simp add: targets_def)

text \<open>C15: The diagnosis of a forward is truthful. When the nodes of the tunnel are online and run,
  the report of a port forward has one result for each target address, in order, asked of the
  entry node; that of a relayed forward has the exit node first, asked of the entry node, and then
  the targets, asked of the exit node. A result is a success exactly if the node it was asked of
  accepts the address and its connection succeeds.\<close>

theorem diagnosis_truthful:
  assumes "validateForwardExists s i u r = Some f" "firstTunnel s (fwdTunnelId f) = Some t"
    and "GetNodeById s (tunInNodeId t) = Some inn" "GetNodeById s (tunOutNodeId t) = Some out"
    and "\<forall>k \<in> {nodeID inn, nodeID out}. staysOnline E k \<and> nodeAt L N (dbSent s) k \<noteq> None"
    and "list_all parsable (splitOn CHR '','' (fwdRemoteAddr f))"
  defines "ts \<equiv> targets (splitOn CHR '','' (fwdRemoteAddr f))"
  shows "\<exists>d. result (DiagnoseForward (withNodes L N E) i u r) s = Ok d \<and> map verdict (drResults d) =
    (if tunType t = tunnelTypePortForward then verdicts L (nodeID inn) ts
     else verdicts L (nodeID inn) [(nodeServerIp out, fwdOutPort f)] @ verdicts L (nodeID out) ts)"
proof (cases "tunType t = tunnelTypePortForward")
  case True
  obtain rs where "result (pingTargets (withNodes L N E) inn ForwardToTarget (splitOn CHR '','' (fwdRemoteAddr f)) []) s = Inr rs"
    "map verdict rs = verdicts L (nodeID inn) ts"
    using pingTargets_result [of E inn L N s "splitOn CHR '','' (fwdRemoteAddr f)" ForwardToTarget "[]"] assms(5,6)
    by (auto simp: ts_def)
  then show ?thesis using True assms(1-3) by (simp add: DiagnoseForward_def Let_def run diagnosisOf_def)
next
  case False
  let ?q = "performTcpPingDiagnosis (withNodes L N E) inn (nodeServerIp out) (fwdOutPort f) EntryToExit"
  have on: "staysOnline E (nodeID inn)" "nodeAt L N (dbSent s) (nodeID inn) \<noteq> None" using assms(5) by simp_all
  note one = perform_result [OF on, of "nodeServerIp out" "fwdOutPort f" EntryToExit]
  have "nodeAt L N (dbSent (exec ?q s)) (nodeID out) \<noteq> None"
    unfolding one(5) using alive_after_ping [of L N "dbSent s" "nodeID out"] assms(5) by (simp del: nodeAt_snoc)
  then obtain rs where rs: "result (pingTargets (withNodes L N E) out ExitToTarget (splitOn CHR '','' (fwdRemoteAddr f)) [result ?q s])
      (exec ?q s) = Inr (result ?q s # rs)" "map verdict rs = verdicts L (nodeID out) ts"
    using pingTargets_result [of E out L N "exec ?q s" "splitOn CHR '','' (fwdRemoteAddr f)" ExitToTarget "[result ?q s]"] assms(5,6)
    by (auto simp: ts_def)
  then show ?thesis using False assms(1-4) one(1-4) by (simp add: DiagnoseForward_def Let_def run diagnosisOf_def)
qed

theorem diagnosis_truthful_witness:
  "\<exists>d. result (DiagnoseForward (withNodes (\<lambda>_. exLib) (\<lambda>_. exStarted) exEnv) 2 0 0) exPanel = Ok d \<and>
    map dgNodeId (drResults d) = [1, 2]"
proof -
  have p: "validateForwardExists exPanel 2 0 0 = Some exForward2" "firstTunnel exPanel (fwdTunnelId exForward2) = Some exTunnel2"
    "GetNodeById exPanel (tunInNodeId exTunnel2) = Some exNode1" "GetNodeById exPanel (tunOutNodeId exTunnel2) = Some exNode2"
    by code_simp+
  have alive: "\<forall>k \<in> {nodeID exNode1, nodeID exNode2}. staysOnline exEnv k \<and>
      nodeAt (\<lambda>_. exLib) (\<lambda>_. exStarted) (dbSent exPanel) k \<noteq> None"
    by (simp add: staysOnline_def exEnv_def exPanel_def emptyPanel_def)
  have "list_all parsable (splitOn CHR '','' (fwdRemoteAddr exForward2))" by code_simp
  from diagnosis_truthful [OF p alive this] obtain d where
    d: "result (DiagnoseForward (withNodes (\<lambda>_. exLib) (\<lambda>_. exStarted) exEnv) 2 0 0) exPanel = Ok d"
    "map verdict (drResults d) = (if tunType exTunnel2 = tunnelTypePortForward
        then verdicts (\<lambda>_. exLib) (nodeID exNode1) (targets (splitOn CHR '','' (fwdRemoteAddr exForward2)))
        else verdicts (\<lambda>_. exLib) (nodeID exNode1) [(nodeServerIp exNode2, fwdOutPort exForward2)] @
          verdicts (\<lambda>_. exLib) (nodeID exNode2) (targets (splitOn CHR '','' (fwdRemoteAddr exForward2))))" by blast
  have "map fst (map verdict (drResults d)) = [1, 2]" unfolding d(2) by code_simp
  with d(1) show ?thesis by (auto simp: comp_def)
qed

end
